(* ===== verification/Prelude.thy ===== *)
theory Prelude
  imports Main "HOL-Library.Product_Lexorder"
begin

text \<open>
  What every component of the development shares: results with errors as values, the
  64-bit signed arithmetic of Go, the functions of Go's \<open>strings\<close> package the sources
  call, and a small theory of relational tables, which is how the sources see the
  database behind the gorm mapper.

  The collections below are the development's simplification sets:
  \<open>go_int\<close> for arithmetic that does not leave the 64-bit range, \<open>table_simps\<close> for
  what a query returns after a statement, \<open>res_simps\<close> for composed results.
\<close>

named_theorems go_int
named_theorems table_simps
named_theorems res_simps

section \<open>Results: errors as values\<close>

text \<open>A Go function that returns \<open>(T, error)\<close> is a function into \<open>'e + 'a\<close>; the
  early return \<open>if err != nil { return err }\<close> is \<open>bind_e\<close>.\<close>

fun bind_e :: "'e + 'a \<Rightarrow> ('a \<Rightarrow> 'e + 'b) \<Rightarrow> 'e + 'b" where
  "bind_e (Inl e) k = Inl e"
| "bind_e (Inr x) k = k x"

definition ensure :: "bool \<Rightarrow> 'e \<Rightarrow> 'e + unit" where
  "ensure b e = (if b then Inr () else Inl e)"

definition of_option :: "'e \<Rightarrow> 'a option \<Rightarrow> 'e + 'a" where
  "of_option e r = (case r of None \<Rightarrow> Inl e | Some x \<Rightarrow> Inr x)"

lemma bind_e_Inr [res_simps]: "bind_e m k = Inr y \<longleftrightarrow> (\<exists>x. m = Inr x \<and> k x = Inr y)"
  by (cases m) auto

lemma bind_e_Inl [res_simps]:
  "bind_e m k = Inl e \<longleftrightarrow> m = Inl e \<or> (\<exists>x. m = Inr x \<and> k x = Inl e)"
  by (cases m) auto

lemma bind_e_assoc: "bind_e (bind_e m k) h = bind_e m (\<lambda>x. bind_e (k x) h)"
  by (cases m) auto

lemma ensure_Inr [res_simps]: "ensure b e = Inr u \<longleftrightarrow> b"
  by (simp add: ensure_def)

lemma ensure_Inl [res_simps]: "ensure b e = Inl e' \<longleftrightarrow> \<not> b \<and> e' = e"
  by (auto simp: ensure_def)

lemma ensure_True [simp]: "ensure True e = Inr ()"
  by (simp add: ensure_def)

lemma ensure_False [simp]: "ensure False e = Inl e"
  by (simp add: ensure_def)

lemma of_option_Inr [res_simps]: "of_option e r = Inr x \<longleftrightarrow> r = Some x"
  by (cases r) (auto simp: of_option_def)

lemma of_option_Inl [res_simps]: "of_option e r = Inl e' \<longleftrightarrow> r = None \<and> e' = e"
  by (cases r) (auto simp: of_option_def)

lemma of_option_simps [simp]: "of_option e None = Inl e" "of_option e (Some x) = Inr x"
  by (simp_all add: of_option_def)

lemma find_append:
  "find P (xs @ ys) = (case find P xs of None \<Rightarrow> find P ys | Some x \<Rightarrow> Some x)"
  by (induction xs) auto

section \<open>Signed 64-bit integers\<close>

text \<open>Go's \<open>int64\<close>, and \<open>int\<close> on the 64-bit platforms the program is built for. A value
  is an \<^typ>\<open>int\<close>; the arithmetic operations wrap around at 64 bits, as Go's do, and
  division truncates towards zero.\<close>

definition MaxInt64 :: int where
  "MaxInt64 = 9223372036854775807"

definition i64 :: "int \<Rightarrow> int" where
  "i64 x = (x + 9223372036854775808) mod 18446744073709551616 - 9223372036854775808"

definition in_i64 :: "int \<Rightarrow> bool" where
  "in_i64 x \<longleftrightarrow> - 9223372036854775808 \<le> x \<and> x \<le> 9223372036854775807"

definition add64 :: "int \<Rightarrow> int \<Rightarrow> int" where
  "add64 a b = i64 (a + b)"

definition sub64 :: "int \<Rightarrow> int \<Rightarrow> int" where
  "sub64 a b = i64 (a - b)"

definition mul64 :: "int \<Rightarrow> int \<Rightarrow> int" where
  "mul64 a b = i64 (a * b)"

definition quot64 :: "int \<Rightarrow> int \<Rightarrow> int" where
  "quot64 a b = i64 (sgn a * sgn b * (\<bar>a\<bar> div \<bar>b\<bar>))"

lemma in_i64_i64 [simp]: "in_i64 (i64 x)"
proof -
  have "0 \<le> (x + 9223372036854775808) mod 18446744073709551616"
    and "(x + 9223372036854775808) mod 18446744073709551616 < 18446744073709551616"
    by simp_all
  then show ?thesis unfolding in_i64_def i64_def by linarith
qed

lemma i64_id: "in_i64 x \<Longrightarrow> i64 x = x"
  unfolding in_i64_def i64_def by (subst mod_pos_pos_trivial) auto

lemma add64_eq [go_int]: "in_i64 (a + b) \<Longrightarrow> add64 a b = a + b"
  by (simp add: add64_def i64_id)

lemma sub64_eq [go_int]: "in_i64 (a - b) \<Longrightarrow> sub64 a b = a - b"
  by (simp add: sub64_def i64_id)

lemma mul64_eq [go_int]: "in_i64 (a * b) \<Longrightarrow> mul64 a b = a * b"
  by (simp add: mul64_def i64_id)

lemma quot64_eq [go_int]:
  assumes "0 \<le> a" "0 < b" "in_i64 a"
  shows "quot64 a b = a div b"
proof -
  have eq: "sgn a * sgn b * (\<bar>a\<bar> div \<bar>b\<bar>) = a div b"
    using assms by (cases "a = 0") (auto simp: sgn_if)
  have "0 \<le> a div b" and "a div b \<le> a"
    using assms zdiv_mono2 [of a 1 b] by (auto simp: pos_imp_zdiv_nonneg_iff)
  with assms(3) have "in_i64 (a div b)" by (simp add: in_i64_def)
  then show ?thesis unfolding quot64_def eq by (rule i64_id)
qed

lemma i64_add_left [simp]: "i64 (i64 a + b) = i64 (a + b)"
proof -
  have "(b + (a + 9223372036854775808) mod 18446744073709551616) mod 18446744073709551616 =
      (b + (a + 9223372036854775808)) mod (18446744073709551616 :: int)"
    by (rule mod_add_right_eq)
  then show ?thesis unfolding i64_def by (simp add: algebra_simps)
qed

lemma i64_i64 [simp]: "i64 (i64 x) = i64 x"
  by (simp add: i64_id)

lemma in_i64_between:
  "in_i64 a \<Longrightarrow> in_i64 b \<Longrightarrow> a \<le> x \<Longrightarrow> x \<le> b \<Longrightarrow> in_i64 x"
  by (simp add: in_i64_def)

lemma sub64_nonneg:
  "0 \<le> a \<Longrightarrow> 0 \<le> b \<Longrightarrow> in_i64 a \<Longrightarrow> in_i64 b \<Longrightarrow> sub64 a b = a - b"
  by (rule sub64_eq) (simp add: in_i64_def)

lemma add64_le:
  "0 \<le> a \<Longrightarrow> 0 \<le> b \<Longrightarrow> a + b \<le> c \<Longrightarrow> in_i64 c \<Longrightarrow> add64 a b = a + b"
  by (rule add64_eq) (simp add: in_i64_def)

lemma in_i64_literals [simp]: "in_i64 0" "in_i64 1" "in_i64 MaxInt64"
  by (simp_all add: in_i64_def MaxInt64_def)

section \<open>Strings\<close>

text \<open>
  A Go string is its UTF-8 bytes, a \<^typ>\<open>string\<close>. \<open>TrimSpace\<close> is Go's
  \<open>strings.TrimSpace\<close>: it cuts the runes \<open>unicode.IsSpace\<close> accepts from both ends. The
  runes are listed by their encodings: the six ASCII ones, U+0085, U+00A0, U+1680,
  U+2000 to U+200A, U+2028, U+2029, U+202F, U+205F and U+3000. At the right end the same
  encodings are read backwards, as \<open>DecodeLastRune\<close> does.
\<close>

definition space_runes :: "nat list list" where
  "space_runes = [[9], [10], [11], [12], [13], [32], [194, 133], [194, 160], [225, 154, 128],
     [226, 128, 128], [226, 128, 129], [226, 128, 130], [226, 128, 131], [226, 128, 132],
     [226, 128, 133], [226, 128, 134], [226, 128, 135], [226, 128, 136], [226, 128, 137],
     [226, 128, 138], [226, 128, 168], [226, 128, 169], [226, 128, 175], [226, 129, 159],
     [227, 128, 128]]"

definition starts_with :: "nat list \<Rightarrow> string \<Rightarrow> bool" where
  "starts_with w s \<longleftrightarrow> w \<noteq> [] \<and> take (length w) (map of_char s) = w"

function strip_runes :: "nat list list \<Rightarrow> string \<Rightarrow> string" where
  "strip_runes ws s =
     (case find (\<lambda>w. starts_with w s) ws of
        None \<Rightarrow> s
      | Some w \<Rightarrow> strip_runes ws (drop (length w) s))"
  by pat_completeness auto
termination
proof (relation "measure (\<lambda>(ws, s). length s)", goal_cases)
  case (2 ws s w)
  then have "starts_with w s" by (auto simp: find_Some_iff)
  then have "w \<noteq> []" and "s \<noteq> []" by (auto simp: starts_with_def)
  then show ?case by simp
qed simp

declare strip_runes.simps [simp del]

definition TrimSpace :: "string \<Rightarrow> string" where
  "TrimSpace s = rev (strip_runes (map rev space_runes) (rev (strip_runes space_runes s)))"

definition stripped :: "nat list list \<Rightarrow> string \<Rightarrow> bool" where
  "stripped ws s \<longleftrightarrow> (\<forall>w \<in> set ws. \<not> starts_with w s)"

lemma stripped_find: "stripped ws s \<longleftrightarrow> find (\<lambda>w. starts_with w s) ws = None"
  by (auto simp: stripped_def find_None_iff)

lemma stripped_strip_runes: "stripped ws (strip_runes ws s)"
proof (induction ws s rule: strip_runes.induct)
  case (1 ws s)
  show ?case
  proof (cases "find (\<lambda>w. starts_with w s) ws")
    case None
    then show ?thesis by (simp add: strip_runes.simps [of ws s] stripped_find)
  next
    case (Some w)
    with 1 [OF Some] show ?thesis by (simp add: strip_runes.simps [of ws s])
  qed
qed

lemma strip_runes_stripped: "stripped ws s \<Longrightarrow> strip_runes ws s = s"
  by (simp add: strip_runes.simps [of ws s] stripped_find)

lemma strip_runes_suffix: "\<exists>n. strip_runes ws s = drop n s"
proof (induction ws s rule: strip_runes.induct)
  case (1 ws s)
  show ?case
  proof (cases "find (\<lambda>w. starts_with w s) ws")
    case None
    then show ?thesis by (intro exI [of _ 0]) (simp add: strip_runes.simps [of ws s])
  next
    case (Some w)
    from 1 [OF Some] obtain n where "strip_runes ws (drop (length w) s) = drop n (drop (length w) s)"
      by blast
    with Some show ?thesis
      by (intro exI [of _ "n + length w"]) (simp add: strip_runes.simps [of ws s])
  qed
qed

lemma starts_with_take: "starts_with w (take n s) \<Longrightarrow> starts_with w s"
proof -
  assume *: "starts_with w (take n s)"
  then have eq: "take (length w) (take n (map of_char s)) = w"
    by (simp add: starts_with_def take_map)
  have "length (take (length w) (take n (map of_char s :: nat list))) \<le> n"
    by simp
  then have "length w \<le> n" unfolding eq .
  with eq * show ?thesis by (simp add: starts_with_def min_absorb1)
qed

lemma TrimSpace_idem [simp]: "TrimSpace (TrimSpace s) = TrimSpace s"
proof -
  let ?l = "strip_runes space_runes s"
  let ?r = "strip_runes (map rev space_runes) (rev ?l)"
  obtain n where n: "?r = drop n (rev ?l)" using strip_runes_suffix by blast
  have "rev ?r = take (length ?l - n) ?l" unfolding n by (simp add: rev_drop)
  then have "stripped space_runes (rev ?r)"
    using stripped_strip_runes [of space_runes s] by (auto simp: stripped_def dest: starts_with_take)
  then have "strip_runes space_runes (rev ?r) = rev ?r" by (rule strip_runes_stripped)
  moreover have "strip_runes (map rev space_runes) ?r = ?r"
    by (rule strip_runes_stripped [OF stripped_strip_runes])
  ultimately show ?thesis by (simp add: TrimSpace_def)
qed

lemma TrimSpace_Nil [simp]: "TrimSpace [] = []"
proof -
  have "strip_runes ws [] = []" for ws
    by (rule strip_runes_stripped) (auto simp: stripped_def starts_with_def)
  then show ?thesis by (simp add: TrimSpace_def)
qed

text \<open>A string whose first and last bytes are printable ASCII is already trimmed.\<close>

definition graphic :: "char \<Rightarrow> bool" where
  "graphic c \<longleftrightarrow> 32 < (of_char c :: nat) \<and> (of_char c :: nat) < 128"

lemma stripped_graphic:
  assumes "ws = space_runes \<or> ws = map rev space_runes" and "graphic c"
  shows "stripped ws (c # s)"
  using assms by (auto simp: stripped_def starts_with_def space_runes_def graphic_def)

lemma TrimSpace_graphic:
  assumes "s \<noteq> []" "graphic (hd s)" "graphic (last s)"
  shows "TrimSpace s = s"
proof -
  obtain c t where s: "s = c # t" using assms(1) by (cases s) auto
  have "strip_runes space_runes s = s"
    using assms(2) stripped_graphic [of space_runes c t] by (auto simp: s intro: strip_runes_stripped)
  moreover obtain d u where r: "rev s = d # u" using assms(1) by (cases "rev s") auto
  have "d = last s" using r by (metis last_rev list.sel(1) rev_rev_ident hd_rev)
  then have "strip_runes (map rev space_runes) (rev s) = rev s"
    using assms(3) stripped_graphic [of "map rev space_runes" d u]
    by (auto simp: r intro: strip_runes_stripped)
  ultimately show ?thesis by (simp add: TrimSpace_def)
qed

lemma TrimSpace_words [simp]:
  "TrimSpace ''value_package'' = ''value_package''"
  "TrimSpace ''subscription'' = ''subscription''"
  "TrimSpace ''day'' = ''day''" "TrimSpace ''week'' = ''week''" "TrimSpace ''month'' = ''month''"
  "TrimSpace ''daily'' = ''daily''" "TrimSpace ''weekly'' = ''weekly''"
  "TrimSpace ''monthly'' = ''monthly''" "TrimSpace ''custom'' = ''custom''"
  "TrimSpace ''never'' = ''never''"
  by (simp_all add: TrimSpace_graphic graphic_def)

end
