(* ===== verification/Tables.thy ===== *)
theory Tables
  imports Prelude
begin

text \<open>
  Relational tables, as the sources use them through gorm: rows in the order of their
  auto-increment primary key, and the last key handed out. A statement is a function on
  the table; \<open>First\<close> is \<open>first_where\<close> (\<open>None\<close> is \<open>gorm.ErrRecordNotFound\<close>), \<open>Find\<close> is
  \<open>select_where\<close>, \<open>Create\<close> is \<open>insert_row\<close>, \<open>Save\<close> is \<open>save_row\<close>, \<open>Updates\<close> with a
  \<open>Where\<close> is \<open>update_where\<close> and its \<open>RowsAffected\<close> is \<open>affected\<close>.

  The interface the components rely on is the locale \<open>keyed_rows\<close>: a primary key that can
  be read and written. Its lemmas say what a query by key returns after each statement,
  and that every statement keeps a table well formed (keys distinct, positive and already
  handed out). Each row type of the data model interprets it.
\<close>

record 'r table =
  rows :: "'r list"
  seq :: int

definition empty_table :: "'r table" where
  "empty_table = \<lparr>rows = [], seq = 0\<rparr>"

definition first_where :: "('r \<Rightarrow> bool) \<Rightarrow> 'r table \<Rightarrow> 'r option" where
  "first_where P t = find P (rows t)"

definition select_where :: "('r \<Rightarrow> bool) \<Rightarrow> 'r table \<Rightarrow> 'r list" where
  "select_where P t = filter P (rows t)"

definition affected :: "('r \<Rightarrow> bool) \<Rightarrow> 'r table \<Rightarrow> int" where
  "affected P t = int (length (filter P (rows t)))"

definition update_where :: "('r \<Rightarrow> bool) \<Rightarrow> ('r \<Rightarrow> 'r) \<Rightarrow> 'r table \<Rightarrow> 'r table" where
  "update_where P f t = t\<lparr>rows := map (\<lambda>r. if P r then f r else r) (rows t)\<rparr>"

definition delete_where :: "('r \<Rightarrow> bool) \<Rightarrow> 'r table \<Rightarrow> 'r table" where
  "delete_where P t = t\<lparr>rows := filter (\<lambda>r. \<not> P r) (rows t)\<rparr>"

definition save_row :: "('r \<Rightarrow> int) \<Rightarrow> 'r \<Rightarrow> 'r table \<Rightarrow> 'r table" where
  "save_row key r t = update_where (\<lambda>x. key x = key r) (\<lambda>_. r) t"

definition insert_row :: "(int \<Rightarrow> 'r \<Rightarrow> 'r) \<Rightarrow> 'r \<Rightarrow> 'r table \<Rightarrow> 'r table" where
  "insert_row set_key r t =
     t\<lparr>rows := rows t @ [set_key (seq t + 1) r], seq := seq t + 1\<rparr>"

definition new_row :: "(int \<Rightarrow> 'r \<Rightarrow> 'r) \<Rightarrow> 'r \<Rightarrow> 'r table \<Rightarrow> 'r" where
  "new_row set_key r t = set_key (seq t + 1) r"

definition wf_table ::"('r \<Rightarrow> int) \<Rightarrow> 'r table \<Rightarrow> bool" where
  "wf_table key t \<longleftrightarrow>
     distinct (map key (rows t)) \<and> (\<forall>r \<in> set (rows t). 0 < key r \<and> key r \<le> seq t) \<and> 0 \<le> seq t"

text \<open>\<open>INSERT ... ON CONFLICT DO UPDATE\<close>: \<open>P\<close> says which row has the values of the unique
  index, \<open>f\<close> assigns the columns of the update.\<close>

definition upsert_row ::
  "('r \<Rightarrow> bool) \<Rightarrow> ('r \<Rightarrow> 'r) \<Rightarrow> (int \<Rightarrow> 'r \<Rightarrow> 'r) \<Rightarrow> 'r \<Rightarrow> 'r table \<Rightarrow> 'r table" where
  "upsert_row P f set_key r t =
     (if list_ex P (rows t) then update_where P f t else insert_row set_key r t)"

lemmas table_defs = first_where_def select_where_def affected_def update_where_def
  delete_where_def save_row_def insert_row_def new_row_def upsert_row_def

section \<open>Facts that need no key\<close>

lemma first_where_Some: "first_where P t = Some r \<Longrightarrow> P r \<and> r \<in> set (rows t)"
  by (auto simp: first_where_def find_Some_iff)

lemma first_where_None: "first_where P t = None \<longleftrightarrow> (\<forall>r \<in> set (rows t). \<not> P r)"
  by (auto simp: first_where_def find_None_iff)

lemma rows_update_where [simp]:
  "rows (update_where P f t) = map (\<lambda>r. if P r then f r else r) (rows t)"
  "seq (update_where P f t) = seq t"
  by (simp_all add: update_where_def)

lemma rows_insert_row [simp]:
  "rows (insert_row sk r t) = rows t @ [new_row sk r t]"
  "seq (insert_row sk r t) = seq t + 1"
  by (simp_all add: insert_row_def new_row_def)

lemma rows_delete_where [simp]:
  "rows (delete_where P t) = filter (\<lambda>r. \<not> P r) (rows t)"
  "seq (delete_where P t) = seq t"
  by (simp_all add: delete_where_def)

lemma rows_save_row:
  "rows (save_row key r t) = map (\<lambda>x. if key x = key r then r else x) (rows t)"
  "seq (save_row key r t) = seq t"
  by (simp_all add: save_row_def)

lemma set_save_row:
  "x \<in> set (rows (save_row key r t)) \<Longrightarrow> x = r \<or> (x \<in> set (rows t) \<and> key x \<noteq> key r)"
  by (auto simp: rows_save_row split: if_splits)


lemma first_where_update:
  assumes "\<And>x. P (f x) = P x"
  shows "first_where P (update_where Q f t) =
    map_option (\<lambda>x. if Q x then f x else x) (first_where P t)"
proof -
  have "P (if Q x then f x else x) = P x" for x using assms by simp
  then have "find P (map (\<lambda>x. if Q x then f x else x) xs) =
      map_option (\<lambda>x. if Q x then f x else x) (find P xs)" for xs
    by (induction xs) auto
  then show ?thesis by (simp add: first_where_def)
qed

lemma first_where_insert:
  "first_where P (insert_row sk r t) = (case first_where P t of
     None \<Rightarrow> if P (new_row sk r t) then Some (new_row sk r t) else None | Some x \<Rightarrow> Some x)"
  by (simp add: first_where_def find_append split: option.split)

lemma first_where_None_ex: "first_where P t = None \<longleftrightarrow> \<not> list_ex P (rows t)"
  by (auto simp: first_where_None list_ex_iff)

lemma map_upsert_row:
  assumes "\<And>x. g (f x) = g x" and "g (new_row sk r t) = k"
  shows "map g (rows (upsert_row (\<lambda>x. g x = k) f sk r t)) =
    map g (rows t) @ (if k \<in> g ` set (rows t) then [] else [k])"
  using assms by (auto simp: upsert_row_def list_ex_iff intro: rev_image_eqI)

lemma first_where_upsert:
  assumes "\<And>x. P (f x) = P x" and "P (new_row sk r t)"
  shows "first_where P (upsert_row P f sk r t) =
    Some (case first_where P t of None \<Rightarrow> new_row sk r t | Some x \<Rightarrow> f x)"
proof (cases "first_where P t")
  case None
  then have "\<not> list_ex P (rows t)" by (simp add: first_where_None_ex)
  then show ?thesis using None assms(2) by (simp add: upsert_row_def first_where_insert)
next
  case (Some x)
  then have "list_ex P (rows t)" and "P x" by (auto dest!: first_where_Some simp: list_ex_iff)
  with Some assms(1) show ?thesis by (simp add: upsert_row_def first_where_update)
qed

section \<open>Tables with a primary key\<close>

locale keyed_rows =
  fixes key :: "'r \<Rightarrow> int"
    and set_key :: "int \<Rightarrow> 'r \<Rightarrow> 'r"
  assumes key_set_key [simp]: "key (set_key i r) = i"
begin

abbreviation by_key :: "int \<Rightarrow> 'r table \<Rightarrow> 'r option" where
  "by_key k t \<equiv> first_where (\<lambda>r. key r = k) t"

lemma key_new_row [simp]: "key (new_row set_key r t) = seq t + 1"
  by (simp add: new_row_def)

lemma wf_empty: "wf_table key empty_table"
  by (simp add: wf_table_def empty_table_def)

lemma wf_insert: "wf_table key t \<Longrightarrow> wf_table key (insert_row set_key r t)"
  by (fastforce simp: wf_table_def)

lemma wf_map_rows:
  assumes "wf_table key t" and "\<And>r. key (g r) = key r" and "rows u = map g (rows t)" and "seq u = seq t"
  shows "wf_table key u"
proof -
  have "key \<circ> g = key" using assms(2) by auto
  with assms show ?thesis by (auto simp: wf_table_def)
qed

lemma wf_update:
  assumes "wf_table key t" and "\<And>r. key (f r) = key r"
  shows "wf_table key (update_where P f t)"
  by (rule wf_map_rows [where t = t and g = "\<lambda>r. if P r then f r else r"]) (use assms in auto)

lemma wf_save:
  assumes "wf_table key t"
  shows "wf_table key (save_row key r t)"
  by (rule wf_map_rows [where t = t and g = "\<lambda>x. if key x = key r then r else x"])
    (use assms in \<open>auto simp: rows_save_row\<close>)

lemma wf_delete: "wf_table key t \<Longrightarrow> wf_table key (delete_where P t)"
  by (auto simp: wf_table_def distinct_map_filter)

lemma by_key_iff:
  assumes "wf_table key t"
  shows "by_key k t = Some r \<longleftrightarrow> r \<in> set (rows t) \<and> key r = k"
proof
  assume "by_key k t = Some r"
  then show "r \<in> set (rows t) \<and> key r = k" by (auto dest: first_where_Some)
next
  assume r: "r \<in> set (rows t) \<and> key r = k"
  then obtain r' where r': "by_key k t = Some r'"
    by (cases "by_key k t") (auto simp: first_where_None)
  with r assms have "r' = r"
    by (auto dest!: first_where_Some simp: wf_table_def distinct_map inj_on_def)
  with r' show "by_key k t = Some r" by simp
qed

lemma by_key_insert:
  assumes "wf_table key t"
  shows "by_key k (insert_row set_key r t) =
    (if k = seq t + 1 then Some (new_row set_key r t) else by_key k t)"
proof -
  have "by_key (seq t + 1) t = None"
    using assms by (auto simp: first_where_None wf_table_def)
  then show ?thesis
    by (auto simp: first_where_def find_append split: option.splits)
qed

lemma by_key_save:
  assumes "by_key (key r) t = Some r0"
  shows "by_key k (save_row key r t) = (if k = key r then Some r else by_key k t)"
proof -
  have ex: "\<exists>x \<in> set (rows t). key x = key r" using assms by (auto dest: first_where_Some)
  have other: "k \<noteq> key r \<Longrightarrow>
      find (\<lambda>x. key x = k) (map (\<lambda>x. if key x = key r then r else x) xs) = find (\<lambda>x. key x = k) xs"
    for xs by (induction xs) auto
  have same: "\<exists>x \<in> set xs. key x = key r \<Longrightarrow>
      find (\<lambda>x. key x = key r) (map (\<lambda>x. if key x = key r then r else x) xs) = Some r"
    for xs by (induction xs) auto
  show ?thesis
    using other same [OF ex] by (simp add: first_where_def rows_save_row)
qed

lemma mem_save:
  assumes "wf_table key t" and "by_key (key r) t = Some r0"
  shows "x \<in> set (rows (save_row key r t)) \<longleftrightarrow>
    x = r \<or> (x \<in> set (rows t) \<and> key x \<noteq> key r)"
  using assms by (auto simp: rows_save_row by_key_iff split: if_splits)

end

end
