(* ===== verification/Data_Model.thy ===== *)
theory Data_Model
  imports Tables Complex_Main
begin

text \<open>
  The rows of the billing database (\<open>src/model/subscription.go\<close>, \<open>src/model/user.go\<close>,
  \<open>src/model/topup.go\<close>, \<open>src/model/affiliate.go\<close>): one record per Go struct, with the
  struct's fields in their order, prefixed by the row they belong to. A nullable column
  (\<open>*bool\<close>, \<open>gorm.DeletedAt\<close>) is an option. Go's \<open>int\<close> and \<open>int64\<close> are \<^typ>\<open>int\<close>, with the
  wrap-around written where the code computes; an amount of money (\<open>float64\<close>) is the
  rational number it stands for. Of the rows of \<open>users\<close>, \<open>tokens\<close> and \<open>channels\<close> the columns
  the modelled code reads or writes are kept. The deployment modelled has no Redis: the
  caches of users and tokens are off, and every read goes to the database. The updates that
  wait in memory for the batch updater are part of the state.

  \<open>zero_*\<close> are Go's zero values, used where the code builds a struct literal that names
  some fields only. The operations themselves take an environment \<open>E\<close> (\<open>env\<close>), and the
  database (\<open>db\<close>) as their last argument; one that runs in a transaction returns the error
  alone or its result and the new database, since an error rolls the transaction back.
\<close>

section \<open>Constants\<close>

definition SubscriptionDurationYear :: string where "SubscriptionDurationYear = ''year''"
definition SubscriptionDurationMonth :: string where "SubscriptionDurationMonth = ''month''"
definition SubscriptionDurationDay :: string where "SubscriptionDurationDay = ''day''"
definition SubscriptionDurationHour :: string where "SubscriptionDurationHour = ''hour''"
definition SubscriptionDurationCustom :: string where "SubscriptionDurationCustom = ''custom''"

definition SubscriptionResetNever :: string where "SubscriptionResetNever = ''never''"
definition SubscriptionResetDaily :: string where "SubscriptionResetDaily = ''daily''"
definition SubscriptionResetWeekly :: string where "SubscriptionResetWeekly = ''weekly''"
definition SubscriptionResetMonthly :: string where "SubscriptionResetMonthly = ''monthly''"
definition SubscriptionResetCustom :: string where "SubscriptionResetCustom = ''custom''"

definition SubscriptionPlanKindSubscription :: string where
  "SubscriptionPlanKindSubscription = ''subscription''"
definition SubscriptionPlanKindValuePackage :: string where
  "SubscriptionPlanKindValuePackage = ''value_package''"

definition ValuePackageTypeDay :: string where "ValuePackageTypeDay = ''day''"
definition ValuePackageTypeWeek :: string where "ValuePackageTypeWeek = ''week''"
definition ValuePackageTypeMonth :: string where "ValuePackageTypeMonth = ''month''"

definition ValuePackageLevelDay :: int where "ValuePackageLevelDay = 1"
definition ValuePackageLevelWeek :: int where "ValuePackageLevelWeek = 2"
definition ValuePackageLevelMonth :: int where "ValuePackageLevelMonth = 3"

definition valuePackage5hWindowSeconds :: int where "valuePackage5hWindowSeconds = 5 * 3600"
definition valuePackage7dWindowSeconds :: int where "valuePackage7dWindowSeconds = 7 * 24 * 3600"

definition UserSubscriptionStatusActive :: string where "UserSubscriptionStatusActive = ''active''"
definition UserSubscriptionStatusExpired :: string where
  "UserSubscriptionStatusExpired = ''expired''"
definition UserSubscriptionStatusCancelled :: string where
  "UserSubscriptionStatusCancelled = ''cancelled''"
definition UserSubscriptionStatusCovered :: string where
  "UserSubscriptionStatusCovered = ''covered''"

definition ValuePackageQuotaResetSourceUserConsumeCount :: string where
  "ValuePackageQuotaResetSourceUserConsumeCount = ''user_consume_count''"
definition ValuePackageQuotaResetSourceAdminManualReset :: string where
  "ValuePackageQuotaResetSourceAdminManualReset = ''admin_manual_reset''"
definition ValuePackageQuotaResetSourceCycleRenewal :: string where
  "ValuePackageQuotaResetSourceCycleRenewal = ''cycle_renewal''"
definition ValuePackageQuotaResetSourcePackageRenewal :: string where
  "ValuePackageQuotaResetSourcePackageRenewal = ''package_renewal''"

definition TopUpStatusPending :: string where "TopUpStatusPending = ''pending''"
definition TopUpStatusSuccess :: string where "TopUpStatusSuccess = ''success''"
definition TopUpStatusExpired :: string where "TopUpStatusExpired = ''expired''"

lemmas const_defs =
  SubscriptionDurationYear_def SubscriptionDurationMonth_def SubscriptionDurationDay_def
  SubscriptionDurationHour_def SubscriptionDurationCustom_def
  SubscriptionResetNever_def SubscriptionResetDaily_def SubscriptionResetWeekly_def
  SubscriptionResetMonthly_def SubscriptionResetCustom_def
  SubscriptionPlanKindSubscription_def SubscriptionPlanKindValuePackage_def
  ValuePackageTypeDay_def ValuePackageTypeWeek_def ValuePackageTypeMonth_def
  UserSubscriptionStatusActive_def UserSubscriptionStatusExpired_def
  UserSubscriptionStatusCancelled_def UserSubscriptionStatusCovered_def
  ValuePackageQuotaResetSourceUserConsumeCount_def ValuePackageQuotaResetSourceAdminManualReset_def
  ValuePackageQuotaResetSourceCycleRenewal_def ValuePackageQuotaResetSourcePackageRenewal_def
  TopUpStatusPending_def TopUpStatusSuccess_def TopUpStatusExpired_def

section \<open>Rows\<close>

record SubscriptionPlan =
  plan_Id :: int
  plan_Title :: string
  plan_Subtitle :: string
  plan_PriceAmount :: rat
  plan_Currency :: string
  plan_DurationUnit :: string
  plan_DurationValue :: int
  plan_CustomSeconds :: int
  plan_Enabled :: bool
  plan_SortOrder :: int
  plan_PlanKind :: string
  plan_PackageType :: string
  plan_PackageLevel :: int
  plan_ModelGroup :: string
  plan_ConcurrencyLimit :: int
  plan_Limit5hAmount :: int
  plan_Limit7dAmount :: int
  plan_Benefits :: string
  plan_LdxpProductUrl :: string
  plan_LdxpProductName :: string
  plan_LdxpProductAmount :: rat
  plan_LdxpProductRef :: string
  plan_LdxpSessionTTLSeconds :: int
  plan_AllowBalancePay :: "bool option"
  plan_StripePriceId :: string
  plan_CreemProductId :: string
  plan_WaffoPancakeProductId :: string
  plan_MaxPurchasePerUser :: int
  plan_UpgradeGroup :: string
  plan_TotalAmount :: int
  plan_QuotaResetPeriod :: string
  plan_QuotaResetCustomSeconds :: int
  plan_GiftResetCount :: int
  plan_CreatedAt :: int
  plan_UpdatedAt :: int

record SubscriptionOrder =
  order_Id :: int
  order_UserId :: int
  order_PlanId :: int
  order_Money :: rat
  order_TradeNo :: string
  order_PaymentMethod :: string
  order_PaymentProvider :: string
  order_UserSubscriptionId :: int
  order_GiftResetCount :: int
  order_Status :: string
  order_CreateTime :: int
  order_CompleteTime :: int
  order_ProviderPayload :: string

record UserSubscription =
  sub_Id :: int
  sub_UserId :: int
  sub_PlanId :: int
  sub_AmountTotal :: int
  sub_AmountUsed :: int
  sub_QuotaEpoch :: int
  sub_StartTime :: int
  sub_EndTime :: int
  sub_Status :: string
  sub_Source :: string
  sub_LastResetTime :: int
  sub_NextResetTime :: int
  sub_CoveredBySubscriptionId :: int
  sub_CoveredTime :: int
  sub_UpgradeGroup :: string
  sub_PrevUserGroup :: string
  sub_CreatedAt :: int
  sub_UpdatedAt :: int

record UserValuePackagePreference =
  pref_Id :: int
  pref_UserId :: int
  pref_Enabled :: bool
  pref_WalletFallbackEnabled :: "bool option"
  pref_ActiveUserSubscriptionId :: int
  pref_ResetCount :: int
  pref_CreatedAt :: int
  pref_UpdatedAt :: int

record ValuePackageUsageRecord =
  usage_Id :: int
  usage_UserId :: int
  usage_UserSubscriptionId :: int
  usage_PlanId :: int
  usage_PackageType :: string
  usage_ModelGroup :: string
  usage_RequestId :: string
  usage_Quota :: int
  usage_QuotaEpoch :: int
  usage_CreatedAt :: int

record ValuePackageQuotaReset =
  reset_Id :: int
  reset_UserId :: int
  reset_UserSubscriptionId :: int
  reset_PlanId :: int
  reset_PackageType :: string
  reset_ResetAt :: int
  reset_FromEpoch :: int
  reset_ToEpoch :: int
  reset_AmountUsedBefore :: int
  reset_Source :: string
  reset_CreatedByUserId :: int
  reset_Note :: string

record ValuePackageResetCountLedger =
  ledger_Id :: int
  ledger_UserId :: int
  ledger_Delta :: int
  ledger_BeforeCount :: int
  ledger_AfterCount :: int
  ledger_Source :: string
  ledger_CreatedByUserId :: int
  ledger_CreatedAt :: int
  ledger_Note :: string

record SubscriptionPreConsumeRecord =
  pre_Id :: int
  pre_RequestId :: string
  pre_UserId :: int
  pre_UserSubscriptionId :: int
  pre_PreConsumed :: int
  pre_QuotaEpoch :: int
  pre_Status :: string
  pre_CreatedAt :: int
  pre_UpdatedAt :: int

record User =
  user_Id :: int
  user_Username :: string
  user_DisplayName :: string
  user_Role :: int
  user_Email :: string
  user_Quota :: int
  user_Group :: string
  user_AffCode :: string
  user_InviterId :: int
  user_DeletedAt :: "int option"
  user_ValidTopupCents :: int
  user_TopupWatermark :: int
  user_StripeCustomer :: string
  user_UsedQuota :: int
  user_RequestCount :: int

record Token =
  tok_Id :: int
  tok_UserId :: int
  tok_Key :: string
  tok_AccessedTime :: int
  tok_RemainQuota :: int
  tok_UsedQuota :: int
  tok_DeletedAt :: "int option"

record Channel =
  ch_Id :: int
  ch_UsedQuota :: int

record TopUp =
  topup_Id :: int
  topup_UserId :: int
  topup_Amount :: int
  topup_Money :: rat
  topup_TradeNo :: string
  topup_PaymentMethod :: string
  topup_PaymentProvider :: string
  topup_CreateTime :: int
  topup_CompleteTime :: int
  topup_Status :: string

record AffiliateCommission =
  comm_Id :: int
  comm_CommissionId :: string
  comm_InviterUserId :: int
  comm_InviteeUserId :: int
  comm_TopupId :: int
  comm_TradeNo :: string
  comm_BaseMoney :: rat
  comm_Rate :: rat
  comm_CommissionMoney :: rat
  comm_Status :: string
  comm_CreatedTime :: int
  comm_UpdatedTime :: int

record AffiliateWithdrawal =
  wd_Id :: int
  wd_WithdrawalId :: string
  wd_UserId :: int
  wd_Amount :: rat
  wd_Contact :: string
  wd_Remark :: string
  wd_Status :: string
  wd_AdminRemark :: string
  wd_CreatedTime :: int
  wd_UpdatedTime :: int
  wd_ProcessedTime :: int

record SVIPValidTopupReconcileReceipt =
  receipt_MigrationVersion :: string
  receipt_AppliedAt :: int

text \<open>The columns of a redemption code; \<open>PlanTitle\<close> and \<open>GiftResetCount\<close> live in memory only.\<close>

record Redemption =
  red_Id :: int
  red_UserId :: int
  red_Key :: string
  red_Status :: int
  red_Name :: string
  red_Quota :: int
  red_Type :: string
  red_PlanId :: int
  red_PlanTitle :: string
  red_Kind :: string
  red_Amount :: int
  red_Money :: rat
  red_CountAsTopUp :: bool
  red_BatchId :: string
  red_Source :: string
  red_ExportedTime :: int
  red_CreatedTime :: int
  red_RedeemedTime :: int
  red_UsedUserId :: int
  red_DeletedAt :: "int option"
  red_ExpiredTime :: int
  red_ResetCardCount :: int
  red_GiftResetCount :: int

record SubscriptionPlanInfo =
  info_PlanId :: int
  info_PlanTitle :: string

section \<open>Zero values\<close>

definition zero_plan :: SubscriptionPlan where
  "zero_plan = \<lparr>plan_Id = 0, plan_Title = '''', plan_Subtitle = '''', plan_PriceAmount = 0,
     plan_Currency = '''', plan_DurationUnit = '''', plan_DurationValue = 0,
     plan_CustomSeconds = 0, plan_Enabled = False, plan_SortOrder = 0, plan_PlanKind = '''',
     plan_PackageType = '''', plan_PackageLevel = 0, plan_ModelGroup = '''',
     plan_ConcurrencyLimit = 0, plan_Limit5hAmount = 0, plan_Limit7dAmount = 0,
     plan_Benefits = '''', plan_LdxpProductUrl = '''', plan_LdxpProductName = '''',
     plan_LdxpProductAmount = 0, plan_LdxpProductRef = '''', plan_LdxpSessionTTLSeconds = 0,
     plan_AllowBalancePay = None, plan_StripePriceId = '''', plan_CreemProductId = '''',
     plan_WaffoPancakeProductId = '''', plan_MaxPurchasePerUser = 0, plan_UpgradeGroup = '''',
     plan_TotalAmount = 0, plan_QuotaResetPeriod = '''', plan_QuotaResetCustomSeconds = 0,
     plan_GiftResetCount = 0, plan_CreatedAt = 0, plan_UpdatedAt = 0\<rparr>"

definition zero_order :: SubscriptionOrder where
  "zero_order = \<lparr>order_Id = 0, order_UserId = 0, order_PlanId = 0, order_Money = 0, order_TradeNo = '''',
     order_PaymentMethod = '''', order_PaymentProvider = '''', order_UserSubscriptionId = 0,
     order_GiftResetCount = 0, order_Status = '''', order_CreateTime = 0,
     order_CompleteTime = 0, order_ProviderPayload = ''''\<rparr>"

definition zero_sub :: UserSubscription where
  "zero_sub = \<lparr>sub_Id = 0, sub_UserId = 0, sub_PlanId = 0, sub_AmountTotal = 0, sub_AmountUsed = 0,
     sub_QuotaEpoch = 0, sub_StartTime = 0, sub_EndTime = 0, sub_Status = '''',
     sub_Source = '''', sub_LastResetTime = 0, sub_NextResetTime = 0,
     sub_CoveredBySubscriptionId = 0, sub_CoveredTime = 0, sub_UpgradeGroup = '''',
     sub_PrevUserGroup = '''', sub_CreatedAt = 0, sub_UpdatedAt = 0\<rparr>"

definition zero_pref :: UserValuePackagePreference where
  "zero_pref = \<lparr>pref_Id = 0, pref_UserId = 0, pref_Enabled = False, pref_WalletFallbackEnabled = None,
     pref_ActiveUserSubscriptionId = 0, pref_ResetCount = 0, pref_CreatedAt = 0,
     pref_UpdatedAt = 0\<rparr>"

definition zero_usage :: ValuePackageUsageRecord where
  "zero_usage = \<lparr>usage_Id = 0, usage_UserId = 0, usage_UserSubscriptionId = 0, usage_PlanId = 0,
     usage_PackageType = '''', usage_ModelGroup = '''', usage_RequestId = '''',
     usage_Quota = 0, usage_QuotaEpoch = 0, usage_CreatedAt = 0\<rparr>"

definition zero_reset :: ValuePackageQuotaReset where
  "zero_reset = \<lparr>reset_Id = 0, reset_UserId = 0, reset_UserSubscriptionId = 0, reset_PlanId = 0,
     reset_PackageType = '''', reset_ResetAt = 0, reset_FromEpoch = 0, reset_ToEpoch = 0,
     reset_AmountUsedBefore = 0, reset_Source = '''', reset_CreatedByUserId = 0,
     reset_Note = ''''\<rparr>"

definition zero_ledger :: ValuePackageResetCountLedger where
  "zero_ledger = \<lparr>ledger_Id = 0, ledger_UserId = 0, ledger_Delta = 0, ledger_BeforeCount = 0,
     ledger_AfterCount = 0, ledger_Source = '''', ledger_CreatedByUserId = 0,
     ledger_CreatedAt = 0, ledger_Note = ''''\<rparr>"

definition zero_pre :: SubscriptionPreConsumeRecord where
  "zero_pre = \<lparr>pre_Id = 0, pre_RequestId = '''', pre_UserId = 0, pre_UserSubscriptionId = 0,
     pre_PreConsumed = 0, pre_QuotaEpoch = 0, pre_Status = '''', pre_CreatedAt = 0,
     pre_UpdatedAt = 0\<rparr>"

definition zero_user :: User where
  "zero_user = \<lparr>user_Id = 0, user_Username = '''', user_DisplayName = '''', user_Role = 0,
     user_Email = '''', user_Quota = 0, user_Group = '''', user_AffCode = '''',
     user_InviterId = 0, user_DeletedAt = None, user_ValidTopupCents = 0,
     user_TopupWatermark = 0, user_StripeCustomer = '''', user_UsedQuota = 0, user_RequestCount = 0\<rparr>"

definition zero_topup :: TopUp where
  "zero_topup = \<lparr>topup_Id = 0, topup_UserId = 0, topup_Amount = 0, topup_Money = 0, topup_TradeNo = '''',
     topup_PaymentMethod = '''', topup_PaymentProvider = '''', topup_CreateTime = 0,
     topup_CompleteTime = 0, topup_Status = ''''\<rparr>"

definition zero_comm :: AffiliateCommission where
  "zero_comm = \<lparr>comm_Id = 0, comm_CommissionId = '''', comm_InviterUserId = 0, comm_InviteeUserId = 0,
     comm_TopupId = 0, comm_TradeNo = '''', comm_BaseMoney = 0, comm_Rate = 0,
     comm_CommissionMoney = 0, comm_Status = '''', comm_CreatedTime = 0, comm_UpdatedTime = 0\<rparr>"

definition zero_wd :: AffiliateWithdrawal where
  "zero_wd = \<lparr>wd_Id = 0, wd_WithdrawalId = '''', wd_UserId = 0, wd_Amount = 0, wd_Contact = '''',
     wd_Remark = '''', wd_Status = '''', wd_AdminRemark = '''', wd_CreatedTime = 0, wd_UpdatedTime = 0,
     wd_ProcessedTime = 0\<rparr>"

definition zero_red :: Redemption where
  "zero_red = \<lparr>red_Id = 0, red_UserId = 0, red_Key = '''', red_Status = 0, red_Name = '''',
     red_Quota = 0, red_Type = '''', red_PlanId = 0, red_PlanTitle = '''', red_Kind = '''',
     red_Amount = 0, red_Money = 0, red_CountAsTopUp = False, red_BatchId = '''', red_Source = '''',
     red_ExportedTime = 0, red_CreatedTime = 0, red_RedeemedTime = 0, red_UsedUserId = 0,
     red_DeletedAt = None, red_ExpiredTime = 0, red_ResetCardCount = 0, red_GiftResetCount = 0\<rparr>"

lemmas zero_defs = zero_plan_def zero_order_def zero_sub_def zero_pref_def
  zero_usage_def zero_reset_def zero_ledger_def zero_pre_def zero_user_def zero_topup_def zero_comm_def
  zero_wd_def

section \<open>Errors\<close>

text \<open>One constructor per error value or message of the modelled sources, grouped by the
  component that raises it; what the code formats into the message is an argument.\<close>

datatype plan_err =
    ErrInvalidPlanId | ErrInvalidPlan | ErrPlanDisabled | ErrNotValuePackage
  | ErrDurationValue | ErrCustomSeconds | ErrInvalidDurationUnit string
  | ErrTotalAmountNotPositive | ErrLimit7dExceedsTotal | ErrInvalidPlanTotal
  | ErrInvalidPurchaseDuration

datatype user_err =
    ErrInvalidUserOrPlanId | ErrInvalidUserId | ErrUserNotFound
  | ErrInvalidPreferenceArgs | ErrInvalidActivationArgs | ErrInvalidResetCardCount
  | ErrResetCountNegative | ErrAdjustNotPositive | ErrInvalidAdjustMode | ErrResetCountUnchanged
  | ErrResetCountInsufficient | ErrPackageNotEnabled | ErrPackageMismatch
  | ErrNoResettablePackage | ErrResetCountStateChanged

datatype order_err =
    ErrValuePackageViaSubscription | ErrPurchaseLimitReached | ErrLowerLevelPackage
  | ErrUnknownPurchaseAction | ErrCompletedSubscriptionMissing
  | ErrTradeNoEmpty | ErrSubscriptionOrderNotFound | ErrPaymentMethodMismatch
  | ErrValuePackageOnlyLdxp | ErrSubscriptionOrderStatusInvalid
  | ErrTopupUserMismatch | ErrExistingTopupIsRecharge
  | ErrQuotaUnitConfig | ErrPriceNegative | ErrBalancePayNotAllowed | ErrInsufficientBalance
  | ErrCompletedOrderMissingSubscription | ErrCompletedSubscriptionNotFound
  | ErrOrderPlanNotValuePackage | ErrCoverConfirmationRequired

datatype quota_err =
    ErrInvalidSubscriptionId | ErrSubscriptionNotActive | ErrQuotaEpochOverflow | ErrEndTimeOverflow
  | ErrRequestIdEmpty | ErrInvalidUserSubscriptionId | ErrTargetQuotaNegative
  | ErrNoActiveSubscription | ErrPreConsumeMismatch | ErrUsageEpochMismatch
  | ErrQuotaInsufficient int | Err5hLimitExceeded int | Err7dLimitExceeded int
  | ErrInvalidUsageRecord | ErrAmountNotPositive | ErrAlreadyRefunded
  | ErrUsedExceedsTotal int int

datatype topup_err =
    ErrTopUpNotFound | ErrTopUpStatusInvalid | ErrTopUpQuotaInvalid | ErrTopUpUserInvalid
  | ErrNoTradeNo | ErrRechargeFailed | ErrQuotaNotPositive | ErrCentsNegative | ErrQuotaNegative
  | ErrNotEnoughQuota int | ErrBackfillOverflow | ErrBackfillStateChanged int
  | ErrTopUpOrderMissing | ErrTopUpOrderStatus | ErrTopUpNotPending | ErrNoOrderNo | ErrReconcileOverflow

datatype red_err =
    ErrRedemptionNotProvided | ErrRedemptionInvalid | ErrRedemptionUsed | ErrRedemptionExpired
  | ErrRedemptionUnsupportedKind | ErrRedemptionResetCardCountInvalid | ErrRedeemFailed | ErrIdEmpty

datatype aff_err =
    ErrAffiliateInvalidAmount | ErrAffiliateContactRequired | ErrAffiliateInsufficientBalance
  | ErrAffiliateWithdrawalNotFound | ErrAffiliateWithdrawalBadStatus

datatype merr =
    ErrRecordNotFound
  | PlanE plan_err
  | UserE user_err
  | OrderE order_err
  | QuotaE quota_err
  | TopUpE topup_err
  | AffE aff_err
  | RedE red_err
  | ErrDuplicateKey

section \<open>The environment of an operation\<close>

text \<open>What an operation reads from outside the database: the clock of the process, the
  clock of the database (\<open>None\<close> when the query fails), the location's offset, the
  configured \<open>common.QuotaPerUnit\<close> and \<open>common.BatchUpdateEnabled\<close>, and the results of third-party code, which are
  functions of the environment: the decimal arithmetic of \<open>shopspring/decimal\<close>
  (\<open>NewFromFloat(a).Mul(NewFromFloat(b))\<close> rounded up or cut to an integer, an amount of money
  in cents, rounding to two places), what the database stores when a \<open>float64\<close> is added to an
  integer column, its sum of a money column, and fresh public identifiers. Both clocks are
  read once per operation.\<close>

record env =
  env_Timestamp :: int
  env_DBClock :: "int option"
  env_TZ :: int
  env_QuotaPerUnit :: rat
  env_DecimalCeilMul :: "rat \<Rightarrow> rat \<Rightarrow> int"
  env_DecimalTruncMul :: "rat \<Rightarrow> rat \<Rightarrow> int"
  env_DecimalCents :: "rat \<Rightarrow> int"
  env_DecimalRound2 :: "rat \<Rightarrow> rat"
  env_SqlAddFloat :: "int \<Rightarrow> rat \<Rightarrow> int"
  env_SqlSum :: "rat list \<Rightarrow> rat"
  env_FreshId :: string
  env_BatchUpdateEnabled :: bool

definition GetTimestamp :: "env \<Rightarrow> int" where
  "GetTimestamp E = env_Timestamp E"

definition getDBTimestampTx :: "env \<Rightarrow> int" where
  "getDBTimestampTx E =
     (case env_DBClock E of None \<Rightarrow> GetTimestamp E
      | Some ts \<Rightarrow> if ts \<le> 0 then GetTimestamp E else ts)"

section \<open>The database\<close>

record db =
  plans :: "SubscriptionPlan table"
  orders :: "SubscriptionOrder table"
  subs :: "UserSubscription table"
  prefs :: "UserValuePackagePreference table"
  usages :: "ValuePackageUsageRecord table"
  resets :: "ValuePackageQuotaReset table"
  ledgers :: "ValuePackageResetCountLedger table"
  pres :: "SubscriptionPreConsumeRecord table"
  users :: "User table"
  topups :: "TopUp table"
  commissions :: "AffiliateCommission table"
  planCache :: "int \<Rightarrow> SubscriptionPlan option"
  planInfoCache :: "int \<Rightarrow> SubscriptionPlanInfo option"
  withdrawals :: "AffiliateWithdrawal table"
  receipts :: "SVIPValidTopupReconcileReceipt list"
  tokens :: "Token table"
  channels :: "Channel table"
  batchUpdateStores :: "nat \<Rightarrow> (int \<times> int) list"
  redemptions :: "Redemption table"

definition empty_db :: db where
  "empty_db = \<lparr>plans = empty_table, orders = empty_table, subs = empty_table,
     prefs = empty_table, usages = empty_table, resets = empty_table, ledgers = empty_table,
     pres = empty_table, users = empty_table, topups = empty_table,
     commissions = empty_table, planCache = (\<lambda>_. None),
     planInfoCache = (\<lambda>_. None), withdrawals = empty_table, receipts = [],
     tokens = empty_table, channels = empty_table, batchUpdateStores = (\<lambda>_. []),
     redemptions = empty_table\<rparr>"

text \<open>Setters of the primary keys and the interpretations of the table interface.\<close>

abbreviation set_sub_Id :: "int \<Rightarrow> UserSubscription \<Rightarrow> UserSubscription" where
  "set_sub_Id i r \<equiv> r\<lparr>sub_Id := i\<rparr>"

abbreviation set_pref_Id :: "int \<Rightarrow> UserValuePackagePreference \<Rightarrow> UserValuePackagePreference" where
  "set_pref_Id i r \<equiv> r\<lparr>pref_Id := i\<rparr>"

abbreviation set_usage_Id :: "int \<Rightarrow> ValuePackageUsageRecord \<Rightarrow> ValuePackageUsageRecord" where
  "set_usage_Id i r \<equiv> r\<lparr>usage_Id := i\<rparr>"

abbreviation set_reset_Id :: "int \<Rightarrow> ValuePackageQuotaReset \<Rightarrow> ValuePackageQuotaReset" where
  "set_reset_Id i r \<equiv> r\<lparr>reset_Id := i\<rparr>"

abbreviation set_ledger_Id ::
  "int \<Rightarrow> ValuePackageResetCountLedger \<Rightarrow> ValuePackageResetCountLedger" where
  "set_ledger_Id i r \<equiv> r\<lparr>ledger_Id := i\<rparr>"

abbreviation set_pre_Id ::
  "int \<Rightarrow> SubscriptionPreConsumeRecord \<Rightarrow> SubscriptionPreConsumeRecord" where
  "set_pre_Id i r \<equiv> r\<lparr>pre_Id := i\<rparr>"

abbreviation set_order_Id :: "int \<Rightarrow> SubscriptionOrder \<Rightarrow> SubscriptionOrder" where
  "set_order_Id i r \<equiv> r\<lparr>order_Id := i\<rparr>"

abbreviation set_topup_Id :: "int \<Rightarrow> TopUp \<Rightarrow> TopUp" where
  "set_topup_Id i r \<equiv> r\<lparr>topup_Id := i\<rparr>"

abbreviation set_comm_Id :: "int \<Rightarrow> AffiliateCommission \<Rightarrow> AffiliateCommission" where
  "set_comm_Id i r \<equiv> r\<lparr>comm_Id := i\<rparr>"

abbreviation set_wd_Id :: "int \<Rightarrow> AffiliateWithdrawal \<Rightarrow> AffiliateWithdrawal" where
  "set_wd_Id i r \<equiv> r\<lparr>wd_Id := i\<rparr>"

abbreviation set_red_Id :: "int \<Rightarrow> Redemption \<Rightarrow> Redemption" where
  "set_red_Id i r \<equiv> r\<lparr>red_Id := i\<rparr>"

interpretation sub_rows: keyed_rows sub_Id set_sub_Id by unfold_locales simp
interpretation pref_rows: keyed_rows pref_Id set_pref_Id by unfold_locales simp
interpretation usage_rows: keyed_rows usage_Id set_usage_Id by unfold_locales simp
interpretation reset_rows: keyed_rows reset_Id set_reset_Id by unfold_locales simp
interpretation ledger_rows: keyed_rows ledger_Id set_ledger_Id by unfold_locales simp
interpretation pre_rows: keyed_rows pre_Id set_pre_Id by unfold_locales simp
interpretation order_rows: keyed_rows order_Id set_order_Id by unfold_locales simp
interpretation topup_rows: keyed_rows topup_Id set_topup_Id by unfold_locales simp
interpretation comm_rows: keyed_rows comm_Id set_comm_Id by unfold_locales simp
interpretation wd_rows: keyed_rows wd_Id set_wd_Id by unfold_locales simp
interpretation red_rows: keyed_rows red_Id set_red_Id by unfold_locales simp

end
