(* ===== verification/Go_Time.thy ===== *)
theory Go_Time
  imports Data_Model
begin

text \<open>
  The part of Go's \<open>time\<close> package the sources call: \<open>Add\<close>, \<open>AddDate\<close>, \<open>Date\<close>, \<open>Weekday\<close>
  and the calendar fields of a time in the process's location. A \<open>time.Time\<close> at whole
  seconds is its Unix time; the location is its offset from UTC in seconds, constant as in
  the zones the service runs in (\<open>TZ=Asia/Shanghai\<close> in the compose files).

  Dates are proleptic Gregorian. Years are counted from March, so that the leap day is
  the last day of a year; \<open>days_from_civil\<close> and \<open>civil_from_days\<close> convert between a date
  and its day number from 1970-01-01. The lemmas show that the conversion is a round trip,
  that \<open>AddDate\<close> by days adds whole days, and where the first of the next month lies.
\<close>

section \<open>Calendar dates\<close>

definition days_from_civil :: "int \<Rightarrow> int \<Rightarrow> int \<Rightarrow> int" where
  "days_from_civil y m d =
     (let y' = (if m \<le> 2 then y - 1 else y);
          mp = (if m > 2 then m - 3 else m + 9)
      in 365 * y' + y' div 4 - y' div 100 + y' div 400 + (153 * mp + 2) div 5 + d - 1 - 719468)"

definition march_year :: "int \<Rightarrow> int \<times> int" where
  "march_year z =
     (let era = z div 146097; doe = z mod 146097;
          c = min 3 (doe div 36524); r = doe - 36524 * c;
          q = r div 1461; s = r - 1461 * q;
          a = min 3 (s div 365)
      in (400 * era + 100 * c + 4 * q + a, s - 365 * a))"

definition civil_from_days :: "int \<Rightarrow> int \<times> int \<times> int" where
  "civil_from_days z =
     (case march_year (z + 719468) of (y', doy) \<Rightarrow>
        let mp = (5 * doy + 2) div 153;
            d = doy - (153 * mp + 2) div 5 + 1;
            m = (if mp < 10 then mp + 3 else mp - 9)
        in ((if m \<le> 2 then y' + 1 else y'), m, d))"

definition year_start :: "int \<Rightarrow> int" where
  "year_start y = 365 * y + y div 4 - y div 100 + y div 400"

lemma div_decompose:
  fixes e c q a :: int
  assumes "0 \<le> c" "c \<le> 3" "0 \<le> q" "q \<le> 24" "0 \<le> a" "a \<le> 3"
  shows "(400 * e + 100 * c + 4 * q + a) div 4 = 100 * e + 25 * c + q"
    and "(400 * e + 100 * c + 4 * q + a) div 100 = 4 * e + c"
    and "(400 * e + 100 * c + 4 * q + a) div 400 = e"
proof -
  show "(400 * e + 100 * c + 4 * q + a) div 4 = 100 * e + 25 * c + q"
    by (rule int_div_pos_eq [where r = a]) (use assms in auto)
  show "(400 * e + 100 * c + 4 * q + a) div 100 = 4 * e + c"
    by (rule int_div_pos_eq [where r = "4 * q + a"]) (use assms in auto)
  show "(400 * e + 100 * c + 4 * q + a) div 400 = e"
    by (rule int_div_pos_eq [where r = "100 * c + 4 * q + a"]) (use assms in auto)
qed

lemma march_year_parts:
  obtains e c q a doy where "march_year z = (400 * e + 100 * c + 4 * q + a, doy)"
    and "0 \<le> c" "c \<le> 3" "0 \<le> q" "q \<le> 24" "0 \<le> a" "a \<le> 3" "0 \<le> doy" "doy \<le> 365"
    and "z = 146097 * e + 36524 * c + 1461 * q + 365 * a + doy"
    and "doy = 365 \<Longrightarrow> a = 3 \<and> (q = 24 \<longrightarrow> c = 3)"
proof -
  define e where "e = z div 146097"
  define doe where "doe = z mod 146097"
  define c where "c = min 3 (doe div 36524)"
  define r where "r = doe - 36524 * c"
  define q where "q = r div 1461"
  define s where "s = r - 1461 * q"
  define a where "a = min 3 (s div 365)"
  have doe: "0 \<le> doe" "doe < 146097" "z = 146097 * e + doe"
    by (simp_all add: doe_def e_def)
  have "c = 3 \<and> 3 \<le> doe div 36524 \<or> c = doe div 36524 \<and> doe div 36524 \<le> 3"
    by (auto simp: c_def min_def)
  moreover have "36524 * (doe div 36524) \<le> doe" "doe < 36524 * (doe div 36524) + 36524"
    by presburger+
  ultimately have c: "0 \<le> c" "c \<le> 3" "0 \<le> r" "r \<le> 36524" "r = 36524 \<longrightarrow> c = 3"
    using doe by (auto simp: r_def pos_imp_zdiv_nonneg_iff)
  have "1461 * q \<le> r" "r < 1461 * q + 1461" unfolding q_def by presburger+
  then have q: "0 \<le> q" "q \<le> 24" "0 \<le> s" "s < 1461" "r = 1461 * q + s"
    using c by (auto simp: s_def)
  have "a = 3 \<and> 3 \<le> s div 365 \<or> a = s div 365 \<and> s div 365 \<le> 3"
    by (auto simp: a_def min_def)
  moreover have "365 * (s div 365) \<le> s" "s < 365 * (s div 365) + 365"
    by presburger+
  ultimately have a: "0 \<le> a" "a \<le> 3" "0 \<le> s - 365 * a" "s - 365 * a \<le> 365"
      "s - 365 * a = 365 \<longrightarrow> a = 3"
    using q by (auto simp: pos_imp_zdiv_nonneg_iff)
  have "march_year z = (400 * e + 100 * c + 4 * q + a, s - 365 * a)"
    by (simp only: march_year_def Let_def e_def doe_def c_def r_def q_def s_def a_def)
  moreover have "z = 146097 * e + 36524 * c + 1461 * q + 365 * a + (s - 365 * a)"
    using doe q by (simp add: r_def)
  moreover have "s - 365 * a = 365 \<Longrightarrow> a = 3 \<and> (q = 24 \<longrightarrow> c = 3)"
    using a q c by auto
  ultimately show thesis using a q c that by blast
qed

lemma div_succ:
  fixes y n :: int
  assumes "0 < n"
  shows "(y + 1) div n = y div n + (if n dvd y + 1 then 1 else 0)"
proof (cases "n dvd y + 1")
  case True
  then obtain k where k: "y + 1 = n * k" by (auto elim: dvdE)
  have "y = n * (k - 1) + (n - 1)" using k by (simp add: algebra_simps)
  then have "y div n = k - 1" by (rule int_div_pos_eq) (use assms in auto)
  with True k assms show ?thesis by simp
next
  case False
  have "y + 1 = n * (y div n) + (y mod n + 1)" by simp
  moreover have "y mod n + 1 \<noteq> n"
  proof
    assume "y mod n + 1 = n"
    then have "y + 1 = n * (y div n) + n" using mult_div_mod_eq [of n y] by linarith
    then have "y + 1 = n * (y div n + 1)" by (simp add: algebra_simps)
    with False show False by simp
  qed
  ultimately have "(y + 1) div n = y div n"
    using assms pos_mod_sign [of n y] pos_mod_bound [of n y]
    by (intro int_div_pos_eq [where r = "y mod n + 1"]) linarith+
  with False show ?thesis by simp
qed

lemma year_length:
  "365 \<le> year_start (y + 1) - year_start y" "year_start (y + 1) - year_start y \<le> 366"
proof -
  have "100 dvd y + 1 \<Longrightarrow> 4 dvd y + 1" by (rule dvd_trans [of _ 100]) auto
  moreover have "400 dvd y + 1 \<Longrightarrow> 100 dvd y + 1" by (rule dvd_trans [of _ 400]) auto
  ultimately show "365 \<le> year_start (y + 1) - year_start y"
    "year_start (y + 1) - year_start y \<le> 366"
    by (auto simp: year_start_def div_succ)
qed

lemma march_year_start:
  assumes "march_year z = (y, doy)"
  shows "z = year_start y + doy" and "0 \<le> doy" and "doy < year_start (y + 1) - year_start y"
proof -
  obtain e c q a where eq: "y = 400 * e + 100 * c + 4 * q + a"
    and b: "0 \<le> c" "c \<le> 3" "0 \<le> q" "q \<le> 24" "0 \<le> a" "a \<le> 3" "0 \<le> doy" "doy \<le> 365"
    and z: "z = 146097 * e + 36524 * c + 1461 * q + 365 * a + doy"
    and leap: "doy = 365 \<Longrightarrow> a = 3 \<and> (q = 24 \<longrightarrow> c = 3)"
    by (rule march_year_parts [of z]) (use assms in auto)
  show "z = year_start y + doy" and "0 \<le> doy"
    using b z by (simp_all add: eq year_start_def div_decompose)
  have "365 \<le> year_start (y + 1) - year_start y" by (rule year_length)
  moreover have "366 = year_start (y + 1) - year_start y" if "doy = 365"
  proof (cases "q = 24")
    case True
    with leap [OF that] have "y = 400 * e + 100 * 3 + 4 * 24 + 3" and "y + 1 = 400 * (e + 1)"
      using eq by auto
    then show ?thesis using div_decompose [of 3 24 3 e] by (simp add: year_start_def)
  next
    case False
    with b have q1: "0 \<le> q + 1" "q + 1 \<le> 24" by auto
    from leap [OF that] have y: "y = 400 * e + 100 * c + 4 * q + 3"
      and y1: "y + 1 = 400 * e + 100 * c + 4 * (q + 1) + 0"
      using eq by auto
    have "year_start (y + 1) = 365 * (y + 1) + (100 * e + 25 * c + (q + 1)) - (4 * e + c) + e"
      unfolding year_start_def y1 using b q1 by (subst div_decompose; simp)+
    moreover have "year_start y = 365 * y + (100 * e + 25 * c + q) - (4 * e + c) + e"
      unfolding year_start_def y using b by (subst div_decompose; simp)+
    ultimately show ?thesis by simp
  qed
  ultimately show "doy < year_start (y + 1) - year_start y"
    using b by linarith
qed

lemma civil_from_days_fields:
  assumes "civil_from_days z = (y, m, d)"
  obtains y' doy mp where "march_year (z + 719468) = (y', doy)" "mp = (5 * doy + 2) div 153"
    "0 \<le> mp" "mp \<le> 11" "d = doy - (153 * mp + 2) div 5 + 1"
    "m = (if mp < 10 then mp + 3 else mp - 9)" "y = (if mp < 10 then y' else y' + 1)"
proof -
  obtain y' doy where my: "march_year (z + 719468) = (y', doy)" by fastforce
  have len: "year_start (y' + 1) - year_start y' \<le> 366" by (rule year_length)
  have doy: "0 \<le> doy" "doy \<le> 365" using march_year_start [OF my] len by auto
  define mp where "mp = (5 * doy + 2) div 153"
  have "153 * mp \<le> 5 * doy + 2" "5 * doy + 2 < 153 * mp + 153" unfolding mp_def by presburger+
  with doy have mp: "0 \<le> mp" "mp \<le> 11" by auto
  show thesis
    using assms my mp by (intro that [OF my]) (auto simp: civil_from_days_def Let_def mp_def split: if_splits)
qed

theorem days_from_civil_from_days:
  assumes "civil_from_days z = (y, m, d)"
  shows "days_from_civil y m d = z" and "1 \<le> m" and "m \<le> 12" and "1 \<le> d" and "d \<le> 31"
proof -
  obtain y' doy mp where f: "march_year (z + 719468) = (y', doy)" "mp = (5 * doy + 2) div 153"
    "0 \<le> mp" "mp \<le> 11" "d = doy - (153 * mp + 2) div 5 + 1"
    "m = (if mp < 10 then mp + 3 else mp - 9)" "y = (if mp < 10 then y' else y' + 1)"
    using civil_from_days_fields [OF assms] by blast
  show "1 \<le> m" and "m \<le> 12" using f(3,4,6) by (auto split: if_splits)
  show "days_from_civil y m d = z"
  proof -
    have "days_from_civil y m d = year_start y' + (153 * mp + 2) div 5 + d - 1 - 719468"
      using f(3,4) unfolding f(6,7)
      by (cases "mp < 10") (simp_all add: days_from_civil_def year_start_def)
    then show ?thesis using march_year_start(1) [OF f(1)] f(5) by linarith
  qed
  have "153 * mp \<le> 5 * doy + 2" "5 * doy + 2 < 153 * mp + 153" unfolding f(2) by presburger+
  moreover have "153 * mp + 2 < 5 * ((153 * mp + 2) div 5) + 5" "5 * ((153 * mp + 2) div 5) \<le> 153 * mp + 2"
    by presburger+
  ultimately show "1 \<le> d" and "d \<le> 31" using f(5) by linarith+
qed

section \<open>Times\<close>

definition local_day :: "int \<Rightarrow> int \<Rightarrow> int" where
  "local_day tz t = (t + tz) div 86400"

definition clock_of :: "int \<Rightarrow> int \<Rightarrow> int" where
  "clock_of tz t = (t + tz) mod 86400"

text \<open>\<open>time.Date\<close> with a clock time given in seconds: months outside 1 to 12 carry into the
  year, days outside the month into the next ones.\<close>

definition go_Date :: "int \<Rightarrow> int \<Rightarrow> int \<Rightarrow> int \<Rightarrow> int \<Rightarrow> int" where
  "go_Date tz y m d clk =
     86400 * (days_from_civil (y + (m - 1) div 12) ((m - 1) mod 12 + 1) 1 + (d - 1)) + clk - tz"

definition AddDate :: "int \<Rightarrow> int \<Rightarrow> int \<Rightarrow> int \<Rightarrow> int \<Rightarrow> int" where
  "AddDate tz t years months days =
     (case civil_from_days (local_day tz t) of
        (y, m, d) \<Rightarrow> go_Date tz (y + years) (m + months) (d + days) (clock_of tz t))"

definition midnight :: "int \<Rightarrow> int \<Rightarrow> int" where
  "midnight tz t =
     (case civil_from_days (local_day tz t) of (y, m, d) \<Rightarrow> go_Date tz y m d 0)"

definition first_of_month :: "int \<Rightarrow> int \<Rightarrow> int" where
  "first_of_month tz t =
     (case civil_from_days (local_day tz t) of (y, m, d) \<Rightarrow> go_Date tz y m 1 0)"

text \<open>Sunday is 0; day 0 (1970-01-01) was a Thursday.\<close>

definition Weekday :: "int \<Rightarrow> int \<Rightarrow> int" where
  "Weekday tz t = (local_day tz t + 4) mod 7"

text \<open>\<open>time.Duration\<close> counts nanoseconds in an \<open>int64\<close>; \<open>Add\<close> on a whole second.\<close>

definition nanos_per_second :: int where "nanos_per_second = 1000000000"
definition nanos_per_hour :: int where "nanos_per_hour = 3600000000000"

definition time_Add :: "int \<Rightarrow> int \<Rightarrow> int" where
  "time_Add t d = add64 t (d div nanos_per_second)"

lemma days_from_civil_day: "days_from_civil y m d = days_from_civil y m 1 + (d - 1)"
  by (simp add: days_from_civil_def Let_def)

lemma go_Date_valid:
  "1 \<le> m \<Longrightarrow> m \<le> 12 \<Longrightarrow> go_Date tz y m d clk = 86400 * days_from_civil y m d + clk - tz"
  unfolding go_Date_def days_from_civil_day [of y m d] by simp

lemma local_day_clock: "86400 * local_day tz t + clock_of tz t = t + tz"
  by (simp add: local_day_def clock_of_def)

lemma clock_of_range: "0 \<le> clock_of tz t" "clock_of tz t < 86400"
  by (simp_all add: clock_of_def)

lemma midnight_eq: "midnight tz t = t - clock_of tz t"
proof -
  obtain y m d where c: "civil_from_days (local_day tz t) = (y, m, d)" by (metis prod.exhaust)
  show ?thesis
    using days_from_civil_from_days [OF c] local_day_clock [of tz t]
    by (simp add: midnight_def c go_Date_valid)
qed

lemma AddDate_days: "AddDate tz t 0 0 n = t + 86400 * n"
proof -
  obtain y m d where c: "civil_from_days (local_day tz t) = (y, m, d)" by (metis prod.exhaust)
  have "days_from_civil y m (d + n) = local_day tz t + n"
    using days_from_civil_from_days(1) [OF c] days_from_civil_day [of y m d]
      days_from_civil_day [of y m "d + n"] by linarith
  then show ?thesis
    using days_from_civil_from_days(2,3) [OF c] local_day_clock [of tz t]
    by (simp add: AddDate_def c go_Date_valid)
qed

lemma midnight_clock [simp]: "clock_of tz (midnight tz t) = 0" "local_day tz (midnight tz t) = local_day tz t"
proof -
  have "midnight tz t + tz = 86400 * local_day tz t"
    using midnight_eq [of tz t] local_day_clock [of tz t] by linarith
  then show "clock_of tz (midnight tz t) = 0" "local_day tz (midnight tz t) = local_day tz t"
    by (simp_all add: clock_of_def local_day_def)
qed

section \<open>The first of the next month\<close>

lemma year_start_mono: "year_start y + 365 * int k \<le> year_start (y + int k)"
proof (induction k)
  case (Suc k)
  have "year_start (y + int k) + 365 \<le> year_start (y + int k + 1)"
    using year_length(1) [of "y + int k"] by linarith
  then show ?case using Suc by (simp add: algebra_simps)
qed simp

lemma march_year_unique:
  assumes "z = year_start y + doy" "0 \<le> doy" "doy < year_start (y + 1) - year_start y"
  shows "march_year z = (y, doy)"
proof -
  obtain y' doy' where m: "march_year z = (y', doy')" by fastforce
  note m' = march_year_start [OF m]
  have lt: "year_start (a + 1) \<le> year_start b" if "a < b" for a b
    using year_start_mono [of "a + 1" "nat (b - a - 1)"] that by simp
  have "y' = y"
    using lt [of y y'] lt [of y' y] assms m' by (cases y y' rule: linorder_cases) linarith+
  with m m' assms show ?thesis by simp
qed

definition month_start :: "int \<Rightarrow> int" where
  "month_start mp = (153 * mp + 2) div 5"

lemma month_start_vals:
  "month_start 0 = 0" "month_start 1 = 31" "month_start 2 = 61" "month_start 3 = 92"
  "month_start 4 = 122" "month_start 5 = 153" "month_start 6 = 184" "month_start 7 = 214"
  "month_start 8 = 245" "month_start 9 = 275" "month_start 10 = 306" "month_start 11 = 337"
  "month_start 12 = 367"
  by (simp_all add: month_start_def)

lemma mp_cases:
  fixes mp :: int
  assumes "0 \<le> mp" "mp \<le> 11"
  shows "mp \<in> {0, 1, 2, 3, 4, 5, 6, 7, 8, 9, 10, 11}"
  using assms unfolding insert_iff empty_iff by presburger

lemma civil_from_month_start:
  assumes "1 \<le> m" "m \<le> 12"
  shows "civil_from_days (days_from_civil y m 1) = (y, m, 1)"
proof -
  define y' where "y' = (if m \<le> 2 then y - 1 else y)"
  define mp where "mp = (if m > 2 then m - 3 else m + 9)"
  have mp: "0 \<le> mp" "mp \<le> 11" using assms by (auto simp: mp_def)
  have ms: "0 \<le> month_start mp \<and> month_start mp \<le> 337 \<and> (5 * month_start mp + 2) div 153 = mp"
    using mp_cases [OF mp] by (auto simp: month_start_vals)
  have "days_from_civil y m 1 + 719468 = year_start y' + month_start mp"
    by (simp add: days_from_civil_def year_start_def month_start_def Let_def y'_def mp_def)
  moreover have "march_year (year_start y' + month_start mp) = (y', month_start mp)"
    by (rule march_year_unique) (use ms year_length(1) [of y'] in auto)
  moreover have "(if mp < 10 then mp + 3 else mp - 9) = m"
    using assms by (auto simp: mp_def)
  moreover have "(if m \<le> 2 then y' + 1 else y') = y" by (simp add: y'_def)
  moreover have "month_start mp - (153 * mp + 2) div 5 + 1 = 1" by (simp add: month_start_def)
  ultimately show ?thesis using ms by (simp add: civil_from_days_def)
qed

definition next_month_start :: "int \<Rightarrow> int \<Rightarrow> int" where
  "next_month_start tz t = AddDate tz (first_of_month tz t) 0 1 0"

lemma days_from_civil_march:
  "2 < m \<Longrightarrow> days_from_civil y m 1 = year_start y + month_start (m - 3) - 719468"
  "m \<le> 2 \<Longrightarrow> days_from_civil y m 1 = year_start (y - 1) + month_start (m + 9) - 719468"
  by (simp_all add: days_from_civil_def year_start_def month_start_def Let_def)

lemma month_start_bounds: "5 * month_start x \<le> 153 * x + 2" "153 * x < 5 * month_start x + 3"
proof -
  have "5 * (a div 5) \<le> a" "a < 5 * (a div 5) + 5" for a :: int by presburger+
  from this [of "153 * x + 2"]
  show "5 * month_start x \<le> 153 * x + 2" "153 * x < 5 * month_start x + 3"
    unfolding month_start_def by linarith+
qed

lemma next_month_start_days:
  assumes c: "civil_from_days (local_day tz t) = (y, m, d)"
  shows "next_month_start tz t = 86400 * days_from_civil (y + m div 12) (m mod 12 + 1) 1 - tz"
proof -
  note r = days_from_civil_from_days [OF c]
  have f: "first_of_month tz t = 86400 * days_from_civil y m 1 - tz"
    using r by (simp add: first_of_month_def c go_Date_valid)
  then have "local_day tz (first_of_month tz t) = days_from_civil y m 1"
    and "clock_of tz (first_of_month tz t) = 0"
    by (simp_all add: local_day_def clock_of_def)
  then show ?thesis
    using r by (simp add: next_month_start_def AddDate_def civil_from_month_start go_Date_def)
qed

text \<open>The first of the next month is after every time of this month, and at most 31 days
  after it.\<close>

lemma next_month_start_bounds: "t < next_month_start tz t" "next_month_start tz t \<le> t + 86400 * 31"
proof -
  obtain y m d where c: "civil_from_days (local_day tz t) = (y, m, d)" by (metis prod.exhaust)
  obtain y' doy mp where f: "march_year (local_day tz t + 719468) = (y', doy)"
    "mp = (5 * doy + 2) div 153" "0 \<le> mp" "mp \<le> 11" "d = doy - (153 * mp + 2) div 5 + 1"
    "m = (if mp < 10 then mp + 3 else mp - 9)" "y = (if mp < 10 then y' else y' + 1)"
    using civil_from_days_fields [OF c] by blast
  note my = march_year_start [OF f(1)]
  have doy: "153 * mp \<le> 5 * doy + 2" "5 * doy + 2 < 153 * mp + 153" unfolding f(2) by presburger+
  let ?F = "days_from_civil (y + m div 12) (m mod 12 + 1) 1"
  have F: "?F = (if mp < 11 then year_start y' + month_start (mp + 1) else year_start (y' + 1)) - 719468"
  proof (cases "mp < 9")
    case True
    with f(3,6,7) have "m div 12 = 0" "m mod 12 = m" "m = mp + 3" "y = y'" by auto
    with True f(3) show ?thesis by (simp add: days_from_civil_march add.commute)
  next
    case False
    then have "mp = 9 \<or> mp = 10 \<or> mp = 11" using f(4) by linarith
    then show ?thesis
      unfolding f(6,7) by (elim disjE) (simp_all add: days_from_civil_march month_start_vals)
  qed
  have gap: "5 * a < 5 * b + 158 \<Longrightarrow> a \<le> b + 31" for a b :: int by presburger
  have step: "month_start (mp + 1) \<le> month_start mp + 31"
    by (rule gap)
      (use month_start_bounds(2) [of mp] month_start_bounds(1) [of "mp + 1"] in \<open>simp add: algebra_simps\<close>)
  have gap': "5 * a \<le> 5 * b + 4 \<Longrightarrow> a \<le> b" for a b :: int by presburger
  have lo: "month_start mp \<le> doy"
    by (rule gap') (use month_start_bounds(1) [of mp] doy(1) in simp)
  have hi: "doy < month_start (mp + 1)"
    using month_start_bounds(2) [of "mp + 1"] doy(2) by (simp add: algebra_simps)
  have "local_day tz t < ?F \<and> ?F \<le> local_day tz t + 31"
  proof (cases "mp < 11")
    case True
    then have "?F = year_start y' + month_start (mp + 1) - 719468" using F by simp
    then show ?thesis using my(1) step lo hi by (intro conjI; linarith)
  next
    case False
    then have "?F = year_start (y' + 1) - 719468" "month_start mp = 337"
      using F f(4) by (simp_all add: month_start_vals)
    then show ?thesis using my(1,3) lo year_length(2) [of y'] by (intro conjI; linarith)
  qed
  moreover have "next_month_start tz t = 86400 * ?F - tz" by (rule next_month_start_days [OF c])
  ultimately show "t < next_month_start tz t" "next_month_start tz t \<le> t + 86400 * 31"
    using local_day_clock [of tz t] clock_of_range [of tz t] by linarith+
qed

end
