(* ===== verification/Plans.thy ===== *)
theory Plans
  imports Go_Time
begin

text \<open>
  Subscription plans (\<open>src/model/subscription.go\<close>): normalisation of a plan row, the end of
  a purchased period (\<open>calcPlanEndTime\<close>), the schedule of quota resets
  (\<open>calcNextResetTime\<close> and the loop of \<open>maybeResetUserSubscriptionWithPlanTx\<close>), the fixed
  cycles of value packages, and the plan cache.

  The loop that catches up with missed resets may run forever, so it is a
  \<^theory_text>\<open>partial_function\<close> into \<^typ>\<open>'a option\<close>. The locale \<open>reset_schedule\<close> is what the loop
  needs of a schedule to end: from every base time in range the next reset is later. The
  calendar schedules and custom schedules below \<open>MaxInt64\<close> nanoseconds interpret it.
\<close>

section \<open>Normalisation\<close>

definition MaxSubscriptionPlanGiftResetCount :: int where
  "MaxSubscriptionPlanGiftResetCount = 100"

definition ClampSubscriptionPlanGiftResetCount :: "int \<Rightarrow> int" where
  "ClampSubscriptionPlanGiftResetCount count =
     (if count \<le> 0 then 0
      else if count > MaxSubscriptionPlanGiftResetCount then MaxSubscriptionPlanGiftResetCount
      else count)"

definition IsValuePackage :: "SubscriptionPlan \<Rightarrow> bool" where
  "IsValuePackage p \<longleftrightarrow> TrimSpace (plan_PlanKind p) = SubscriptionPlanKindValuePackage"

definition normalizeValuePackageFixedDurationFields :: "SubscriptionPlan \<Rightarrow> SubscriptionPlan" where
  "normalizeValuePackageFixedDurationFields p =
     (if \<not> IsValuePackage p then p
      else if plan_PackageType p = ValuePackageTypeDay then
        p\<lparr>plan_DurationUnit := SubscriptionDurationDay, plan_DurationValue := 1,
          plan_CustomSeconds := 0, plan_Limit7dAmount := 0\<rparr>
      else if plan_PackageType p = ValuePackageTypeWeek then
        p\<lparr>plan_DurationUnit := SubscriptionDurationDay, plan_DurationValue := 7,
          plan_CustomSeconds := 0, plan_Limit7dAmount := 0\<rparr>
      else if plan_PackageType p = ValuePackageTypeMonth then
        p\<lparr>plan_DurationUnit := SubscriptionDurationDay, plan_DurationValue := 30,
          plan_CustomSeconds := 0\<rparr>
      else p)"

definition NormalizeDefaults :: "SubscriptionPlan \<Rightarrow> SubscriptionPlan" where
  "NormalizeDefaults p0 =
     (let p1 = (if plan_AllowBalancePay p0 = None then p0\<lparr>plan_AllowBalancePay := Some True\<rparr> else p0);
          p2 = p1\<lparr>plan_PlanKind := TrimSpace (plan_PlanKind p1)\<rparr>;
          p3 = (if plan_PlanKind p2 = '''' then
                  p2\<lparr>plan_PlanKind := SubscriptionPlanKindSubscription\<rparr> else p2);
          p4 = (if plan_PlanKind p3 = SubscriptionPlanKindValuePackage then
                  normalizeValuePackageFixedDurationFields (p3\<lparr>plan_Currency := ''CNY''\<rparr>)
                else p3\<lparr>plan_Currency := ''USD''\<rparr>)
      in if plan_ConcurrencyLimit p4 \<le> 0 then p4\<lparr>plan_ConcurrencyLimit := 1\<rparr> else p4)"

definition packageTypeLevel :: "string \<Rightarrow> int \<Rightarrow> int" where
  "packageTypeLevel t level =
     (if t = ValuePackageTypeDay then ValuePackageLevelDay
      else if t = ValuePackageTypeWeek then ValuePackageLevelWeek
      else if t = ValuePackageTypeMonth then ValuePackageLevelMonth
      else level)"

definition normalizeValuePackagePlan :: "SubscriptionPlan \<Rightarrow> SubscriptionPlan" where
  "normalizeValuePackagePlan p0 =
     (let p1 = p0\<lparr>plan_PlanKind := TrimSpace (plan_PlanKind p0)\<rparr>;
          p2 = (if plan_PlanKind p1 = '''' then
                  p1\<lparr>plan_PlanKind := SubscriptionPlanKindSubscription\<rparr> else p1);
          p3 = p2\<lparr>plan_PackageType := TrimSpace (plan_PackageType p2)\<rparr>;
          p4 = (if plan_PackageLevel p3 \<le> 0 then
                  p3\<lparr>plan_PackageLevel :=
                      packageTypeLevel (plan_PackageType p3) (plan_PackageLevel p3)\<rparr>
                else p3);
          p5 = normalizeValuePackageFixedDurationFields p4
      in if plan_ConcurrencyLimit p5 \<le> 0 then p5\<lparr>plan_ConcurrencyLimit := 1\<rparr> else p5)"

section \<open>Durations and the reset schedule\<close>

definition calcPlanEndTime :: "int \<Rightarrow> int \<Rightarrow> SubscriptionPlan \<Rightarrow> merr + int" where
  "calcPlanEndTime tz start p =
     (if plan_DurationValue p \<le> 0 \<and> plan_DurationUnit p \<noteq> SubscriptionDurationCustom then
        Inl (PlanE ErrDurationValue)
      else if plan_DurationUnit p = SubscriptionDurationYear then
        Inr (AddDate tz start (plan_DurationValue p) 0 0)
      else if plan_DurationUnit p = SubscriptionDurationMonth then
        Inr (AddDate tz start 0 (plan_DurationValue p) 0)
      else if plan_DurationUnit p = SubscriptionDurationDay then
        Inr (time_Add start (mul64 (mul64 (plan_DurationValue p) 24) nanos_per_hour))
      else if plan_DurationUnit p = SubscriptionDurationHour then
        Inr (time_Add start (mul64 (plan_DurationValue p) nanos_per_hour))
      else if plan_DurationUnit p = SubscriptionDurationCustom then
        if plan_CustomSeconds p \<le> 0 then Inl (PlanE ErrCustomSeconds)
        else Inr (time_Add start (mul64 (plan_CustomSeconds p) nanos_per_second))
      else Inl (PlanE (ErrInvalidDurationUnit (plan_DurationUnit p))))"

definition NormalizeResetPeriod :: "string \<Rightarrow> string" where
  "NormalizeResetPeriod period =
     (if TrimSpace period \<in> {SubscriptionResetDaily, SubscriptionResetWeekly,
           SubscriptionResetMonthly, SubscriptionResetCustom}
      then TrimSpace period else SubscriptionResetNever)"

definition nextResetBase :: "int \<Rightarrow> int \<Rightarrow> string \<Rightarrow> int \<Rightarrow> int" where
  "nextResetBase tz base period secs =
     (if period = SubscriptionResetDaily then AddDate tz (midnight tz base) 0 0 1
      else if period = SubscriptionResetWeekly then
        let weekday = (if Weekday tz base = 0 then 7 else Weekday tz base)
        in AddDate tz (midnight tz base) 0 0 (8 - weekday)
      else if period = SubscriptionResetMonthly then AddDate tz (first_of_month tz base) 0 1 0
      else time_Add base (mul64 secs nanos_per_second))"

definition calcNextResetTime :: "int \<Rightarrow> int \<Rightarrow> SubscriptionPlan \<Rightarrow> int \<Rightarrow> int" where
  "calcNextResetTime tz base p endUnix =
     (let period = NormalizeResetPeriod (plan_QuotaResetPeriod p) in
      if period = SubscriptionResetNever then 0
      else if period = SubscriptionResetCustom \<and> plan_QuotaResetCustomSeconds p \<le> 0 then 0
      else let nxt = nextResetBase tz base period (plan_QuotaResetCustomSeconds p) in
        if endUnix > 0 \<and> nxt > endUnix then 0 else nxt)"

text \<open>The loop of \<open>maybeResetUserSubscriptionWithPlanTx\<close>: its state is \<open>advanced\<close>, \<open>base\<close>
  and \<open>next\<close>; \<open>nextOf\<close> is \<open>calcNextResetTime\<close> at the plan and the end of the subscription.\<close>

partial_function (option) resetLoop ::
  "(int \<Rightarrow> int) \<Rightarrow> int \<Rightarrow> bool \<Rightarrow> int \<Rightarrow> int \<Rightarrow> (bool \<times> int \<times> int) option" where
  "resetLoop nextOf now advanced base nxt =
     (if 0 < nxt \<and> nxt \<le> now then resetLoop nextOf now True nxt (nextOf nxt)
      else Some (advanced, base, nxt))"

section \<open>The fixed cycles of value packages\<close>

definition valuePackageCycleSeconds :: "SubscriptionPlan \<Rightarrow> int" where
  "valuePackageCycleSeconds p =
     (if \<not> IsValuePackage p then 0
      else if plan_PackageType p = ValuePackageTypeDay then 24 * 60 * 60
      else if plan_PackageType p = ValuePackageTypeWeek then 7 * 24 * 60 * 60
      else if plan_PackageType p = ValuePackageTypeMonth then 30 * 24 * 60 * 60
      else 0)"

definition syncValuePackageCycleSchedule ::
  "SubscriptionPlan \<Rightarrow> UserSubscription \<Rightarrow> UserSubscription" where
  "syncValuePackageCycleSchedule p s =
     (let cycleSeconds = valuePackageCycleSeconds p in
      if cycleSeconds \<le> 0 \<or> sub_StartTime s \<le> 0 then
        s\<lparr>sub_LastResetTime := 0, sub_NextResetTime := 0\<rparr>
      else
        let s1 = (if sub_LastResetTime s < sub_StartTime s then
                    s\<lparr>sub_LastResetTime := sub_StartTime s\<rparr> else s);
            nextResetTime = add64 (sub_LastResetTime s1) cycleSeconds
        in if sub_EndTime s1 > 0 \<and> nextResetTime < sub_EndTime s1 then
             s1\<lparr>sub_NextResetTime := nextResetTime\<rparr>
           else s1\<lparr>sub_NextResetTime := 0\<rparr>)"

section \<open>Reading a plan\<close>

definition getSubscriptionPlanByIdFreshTx :: "int \<Rightarrow> db \<Rightarrow> merr + SubscriptionPlan" where
  "getSubscriptionPlanByIdFreshTx pid d =
     (if pid \<le> 0 then Inl (PlanE ErrInvalidPlanId)
      else case first_where (\<lambda>p. plan_Id p = pid) (plans d) of
        None \<Rightarrow> Inl ErrRecordNotFound
      | Some p \<Rightarrow> Inr (NormalizeDefaults p))"

definition GetSubscriptionPlanById :: "int \<Rightarrow> db \<Rightarrow> (merr + SubscriptionPlan) \<times> db" where
  "GetSubscriptionPlanById pid d =
     (if pid \<le> 0 then (Inl (PlanE ErrInvalidPlanId), d)
      else case planCache d pid of
        Some cached \<Rightarrow> (Inr (NormalizeDefaults cached), d)
      | None \<Rightarrow>
         (case getSubscriptionPlanByIdFreshTx pid d of
            Inl e \<Rightarrow> (Inl e, d)
          | Inr p \<Rightarrow> let p' = NormalizeDefaults p in
              (Inr p', d\<lparr>planCache := (planCache d)(pid := Some p')\<rparr>)))"

definition InvalidateSubscriptionPlanCache :: "int \<Rightarrow> db \<Rightarrow> db" where
  "InvalidateSubscriptionPlanCache pid d =
     (if pid \<le> 0 then d
      else d\<lparr>planCache := (planCache d)(pid := None), planInfoCache := (\<lambda>_. None)\<rparr>)"

definition GetSubscriptionPlanInfoByUserSubscriptionId ::
  "int \<Rightarrow> db \<Rightarrow> (merr + SubscriptionPlanInfo) \<times> db" where
  "GetSubscriptionPlanInfoByUserSubscriptionId sid d =
     (if sid \<le> 0 then (Inl (QuotaE ErrInvalidUserSubscriptionId), d)
      else case planInfoCache d sid of
        Some cached \<Rightarrow> (Inr cached, d)
      | None \<Rightarrow>
         (case first_where (\<lambda>s. sub_Id s = sid) (subs d) of
            None \<Rightarrow> (Inl ErrRecordNotFound, d)
          | Some s \<Rightarrow>
             (case GetSubscriptionPlanById (sub_PlanId s) d of
                (Inl e, d1) \<Rightarrow> (Inl e, d1)
              | (Inr p, d1) \<Rightarrow>
                  let info = \<lparr>info_PlanId = sub_PlanId s, info_PlanTitle = plan_Title p\<rparr> in
                  (Inr info, d1\<lparr>planInfoCache := (planInfoCache d1)(sid := Some info)\<rparr>))))"

section \<open>Normal forms\<close>

lemma TrimSpace_subscription_kinds [simp]:
  "TrimSpace SubscriptionPlanKindSubscription = SubscriptionPlanKindSubscription"
  "TrimSpace SubscriptionPlanKindValuePackage = SubscriptionPlanKindValuePackage"
  "TrimSpace SubscriptionResetNever = SubscriptionResetNever"
  by (simp_all add: const_defs)

lemma fixedDuration_fields [simp]:
  "plan_PlanKind (normalizeValuePackageFixedDurationFields p) = plan_PlanKind p"
  "plan_PackageType (normalizeValuePackageFixedDurationFields p) = plan_PackageType p"
  "plan_PackageLevel (normalizeValuePackageFixedDurationFields p) = plan_PackageLevel p"
  "plan_ConcurrencyLimit (normalizeValuePackageFixedDurationFields p) = plan_ConcurrencyLimit p"
  "plan_Currency (normalizeValuePackageFixedDurationFields p) = plan_Currency p"
  "plan_AllowBalancePay (normalizeValuePackageFixedDurationFields p) = plan_AllowBalancePay p"
  by (simp_all add: normalizeValuePackageFixedDurationFields_def)

lemma fixedDuration_idem [simp]:
  "normalizeValuePackageFixedDurationFields (normalizeValuePackageFixedDurationFields p) =
     normalizeValuePackageFixedDurationFields p"
  by (simp add: normalizeValuePackageFixedDurationFields_def IsValuePackage_def const_defs)

lemma fixedDuration_commute [simp]:
  "normalizeValuePackageFixedDurationFields (p\<lparr>plan_ConcurrencyLimit := c\<rparr>) =
     (normalizeValuePackageFixedDurationFields p)\<lparr>plan_ConcurrencyLimit := c\<rparr>"
  by (simp add: normalizeValuePackageFixedDurationFields_def IsValuePackage_def)

text \<open>The normal forms of the two normalisation routines, as predicates.\<close>

definition defaults_normal :: "SubscriptionPlan \<Rightarrow> bool" where
  "defaults_normal p \<longleftrightarrow>
     plan_AllowBalancePay p \<noteq> None \<and> TrimSpace (plan_PlanKind p) = plan_PlanKind p \<and>
     plan_PlanKind p \<noteq> '''' \<and> 1 \<le> plan_ConcurrencyLimit p \<and>
     plan_Currency p = (if IsValuePackage p then ''CNY'' else ''USD'') \<and>
     normalizeValuePackageFixedDurationFields p = p"

definition package_normal :: "SubscriptionPlan \<Rightarrow> bool" where
  "package_normal p \<longleftrightarrow>
     TrimSpace (plan_PlanKind p) = plan_PlanKind p \<and> plan_PlanKind p \<noteq> '''' \<and>
     TrimSpace (plan_PackageType p) = plan_PackageType p \<and>
     (plan_PackageLevel p \<le> 0 \<longrightarrow>
        packageTypeLevel (plan_PackageType p) (plan_PackageLevel p) = plan_PackageLevel p) \<and>
     1 \<le> plan_ConcurrencyLimit p \<and> normalizeValuePackageFixedDurationFields p = p"

lemma NormalizeDefaults_normal: "defaults_normal (NormalizeDefaults p)"
  by (simp add: defaults_normal_def NormalizeDefaults_def Let_def IsValuePackage_def)
     (simp add: normalizeValuePackageFixedDurationFields_def IsValuePackage_def const_defs ex_bool_eq)

lemma plan_update_id [simp]:
  "p\<lparr>plan_PlanKind := plan_PlanKind p\<rparr> = p"
  "p\<lparr>plan_PackageType := plan_PackageType p\<rparr> = p"
  "p\<lparr>plan_Currency := plan_Currency p\<rparr> = p"
  "p\<lparr>plan_PackageLevel := plan_PackageLevel p\<rparr> = p"
  by (cases p; simp)+

lemma plan_kind_currency_id:
  "plan_PlanKind p = k \<Longrightarrow> plan_Currency p = c \<Longrightarrow>
     p\<lparr>plan_PlanKind := k, plan_Currency := c\<rparr> = p"
  by (cases p) simp

lemma NormalizeDefaults_id:
  assumes "defaults_normal p"
  shows "NormalizeDefaults p = p"
proof -
  note n = assms [unfolded defaults_normal_def]
  obtain b where b: "plan_AllowBalancePay p = Some b" using n by auto
  have vp: "IsValuePackage p \<longleftrightarrow> plan_PlanKind p = SubscriptionPlanKindValuePackage"
    using n by (simp add: IsValuePackage_def)
  let ?q = "p\<lparr>plan_PlanKind := plan_PlanKind p, plan_Currency := plan_Currency p\<rparr>"
  have "NormalizeDefaults p =
      (if IsValuePackage p then normalizeValuePackageFixedDurationFields ?q else ?q)"
    unfolding NormalizeDefaults_def Let_def vp using n b by (simp add: vp)
  also have "?q = p" by (rule plan_kind_currency_id) simp_all
  finally show ?thesis using n by simp
qed

lemma normalizeValuePackagePlan_normal: "package_normal (normalizeValuePackagePlan p)"
  by (simp add: package_normal_def normalizeValuePackagePlan_def Let_def packageTypeLevel_def)
     (simp add: const_defs)

lemma normalizeValuePackagePlan_id: "package_normal p \<Longrightarrow> normalizeValuePackagePlan p = p"
  by (simp add: package_normal_def normalizeValuePackagePlan_def Let_def)

section \<open>Reset schedules\<close>

text \<open>What the catch-up loop needs of a schedule: \<open>ok\<close> are the times from which the next
  reset is computed without overflow, and from those the next reset is later.\<close>

locale reset_schedule =
  fixes nextOf :: "int \<Rightarrow> int" and ok :: "int \<Rightarrow> bool"
  assumes ok_down: "ok b \<Longrightarrow> 0 \<le> a \<Longrightarrow> a \<le> b \<Longrightarrow> ok a"
    and progress: "ok b \<Longrightarrow> 0 < nextOf b \<Longrightarrow> b < nextOf b"
begin

text \<open>Started at the next reset after \<open>base\<close>, the loop ends at the last reset that is due
  and the first one that is not.\<close>

lemma loop_result:
  assumes "ok now" and "nxt = nextOf base" and "0 \<le> base" and "base \<le> now"
  shows "\<exists>adv' base' nxt'. resetLoop nextOf now adv base nxt = Some (adv', base', nxt') \<and>
    nxt' = nextOf base' \<and> base \<le> base' \<and> base' \<le> now \<and> (nxt' \<le> 0 \<or> now < nxt') \<and>
    (adv' \<longleftrightarrow> adv \<or> (0 < nxt \<and> nxt \<le> now)) \<and>
    (adv' \<or> base' = base) \<and> (base < base' \<longleftrightarrow> 0 < nxt \<and> nxt \<le> now)"
  using assms
proof (induction "nat (now - base)" arbitrary: adv base nxt rule: less_induct)
  case less
  show ?case
  proof (cases "0 < nxt \<and> nxt \<le> now")
    case True
    have "ok base" using less.prems by (auto intro: ok_down)
    with True less.prems have lt: "base < nxt" using progress by blast
    with True have "nat (now - nxt) < nat (now - base)" by linarith
    then obtain a' b' n' where "resetLoop nextOf now True nxt (nextOf nxt) = Some (a', b', n')"
      and "n' = nextOf b'" "nxt \<le> b'" "b' \<le> now" "n' \<le> 0 \<or> now < n'" "a'"
      using less.hyps [of nxt "nextOf nxt" True] less.prems True by auto
    then show ?thesis using True lt by (subst resetLoop.simps) auto
  next
    case False
    then show ?thesis using less.prems by (subst resetLoop.simps) auto
  qed
qed

lemma loop_returns:
  "ok now \<Longrightarrow> 0 \<le> base \<Longrightarrow> base \<le> now \<Longrightarrow>
     \<exists>r. resetLoop nextOf now adv base (nextOf base) = Some r"
  using loop_result by blast

end

text \<open>A schedule that stays where it is never ends.\<close>

lemma resetLoop_stuck:
  assumes "nextOf b = b" "0 < b" "b \<le> now"
  shows "resetLoop nextOf now adv base b = None"
proof (rule ccontr)
  assume "resetLoop nextOf now adv base b \<noteq> None"
  then obtain r where "resetLoop nextOf now adv base b = Some r" by auto
  then have "nextOf = nextOf \<and> now = now \<longrightarrow> b \<noteq> b"
  proof (rule resetLoop.raw_induct
      [where P = "\<lambda>f n _ _ nxt _. f = nextOf \<and> n = now \<longrightarrow> nxt \<noteq> b", rotated])
    fix loop f n a ba nx y
    assume IH: "\<And>f n a ba nx y. loop f n a ba nx = Some y \<Longrightarrow> f = nextOf \<and> n = now \<longrightarrow> nx \<noteq> b"
      and body: "(if 0 < nx \<and> nx \<le> n then loop f n True nx (f nx) else Some (a, ba, nx)) = Some y"
    show "f = nextOf \<and> n = now \<longrightarrow> nx \<noteq> b"
      using IH [of f n True nx "f nx" y] body assms by auto
  qed
  then show False by simp
qed

text \<open>The range in which \<open>calcNextResetTime\<close> does not overflow: at most \<open>MaxInt64\<close>
  nanoseconds for a custom period, and a base that far from the end of the range.\<close>

definition reset_in_range :: "SubscriptionPlan \<Rightarrow> int \<Rightarrow> bool" where
  "reset_in_range p b \<longleftrightarrow>
     0 \<le> b \<and>
     (NormalizeResetPeriod (plan_QuotaResetPeriod p) = SubscriptionResetCustom \<longrightarrow>
        plan_QuotaResetCustomSeconds p \<le> 9223372036 \<and>
        b + plan_QuotaResetCustomSeconds p \<le> MaxInt64)"

lemma time_Add_seconds:
  assumes "0 \<le> b" "0 < s" "s \<le> 9223372036" "b + s \<le> MaxInt64"
  shows "time_Add b (mul64 s nanos_per_second) = b + s"
proof -
  have "in_i64 (s * nanos_per_second)" "in_i64 (b + s)"
    using assms by (auto simp: in_i64_def nanos_per_second_def MaxInt64_def)
  then show ?thesis
    by (simp add: time_Add_def mul64_eq add64_eq nanos_per_second_def)
qed

lemma weekday_range: "0 \<le> Weekday tz t" "Weekday tz t \<le> 6"
  using pos_mod_bound [of 7 "local_day tz t + 4"] by (simp_all add: Weekday_def)

lemma reset_period_distinct [simp]:
  "SubscriptionResetWeekly \<noteq> SubscriptionResetDaily"
  "SubscriptionResetMonthly \<noteq> SubscriptionResetDaily"
  "SubscriptionResetMonthly \<noteq> SubscriptionResetWeekly"
  "SubscriptionResetCustom \<noteq> SubscriptionResetDaily"
  "SubscriptionResetCustom \<noteq> SubscriptionResetWeekly"
  "SubscriptionResetCustom \<noteq> SubscriptionResetMonthly"
  "SubscriptionResetNever \<notin> {SubscriptionResetDaily, SubscriptionResetWeekly,
      SubscriptionResetMonthly, SubscriptionResetCustom}"
  by (simp_all add: const_defs)

lemma NormalizeResetPeriod_cases:
  "NormalizeResetPeriod s \<in> {SubscriptionResetDaily, SubscriptionResetWeekly,
      SubscriptionResetMonthly, SubscriptionResetCustom, SubscriptionResetNever}"
  by (simp add: NormalizeResetPeriod_def)

lemma nextResetBase_daily:
  "nextResetBase tz b SubscriptionResetDaily s = b - clock_of tz b + 86400"
  by (simp add: nextResetBase_def AddDate_days midnight_eq)

lemma nextResetBase_weekly:
  "nextResetBase tz b SubscriptionResetWeekly s =
     b - clock_of tz b + 86400 * (if Weekday tz b = 0 then 1 else 8 - Weekday tz b)"
  by (simp add: nextResetBase_def AddDate_days midnight_eq Let_def)

lemma nextResetBase_monthly:
  "nextResetBase tz b SubscriptionResetMonthly s = next_month_start tz b"
  by (simp add: nextResetBase_def next_month_start_def)

lemma nextResetBase_custom:
  "nextResetBase tz b SubscriptionResetCustom s = time_Add b (mul64 s nanos_per_second)"
  by (simp add: nextResetBase_def)

lemmas nextResetBase_simps =
  nextResetBase_daily nextResetBase_weekly nextResetBase_monthly nextResetBase_custom

lemma nextResetBase_later:
  assumes "reset_in_range p b"
    and "NormalizeResetPeriod (plan_QuotaResetPeriod p) = period"
    and "period \<noteq> SubscriptionResetNever"
    and "period = SubscriptionResetCustom \<longrightarrow> 0 < plan_QuotaResetCustomSeconds p"
  shows "b < nextResetBase tz b period (plan_QuotaResetCustomSeconds p)"
proof -
  consider "period = SubscriptionResetDaily" | "period = SubscriptionResetWeekly"
    | "period = SubscriptionResetMonthly" | "period = SubscriptionResetCustom"
    using NormalizeResetPeriod_cases assms(2,3) by blast
  then show ?thesis
  proof cases
    case 1
    then show ?thesis using clock_of_range [of tz b] by (simp add: nextResetBase_simps)
  next
    case 2
    then show ?thesis
      using clock_of_range [of tz b] weekday_range [of tz b] by (simp add: nextResetBase_simps)
  next
    case 3
    then show ?thesis by (simp add: nextResetBase_simps next_month_start_bounds)
  next
    case 4
    then show ?thesis using assms
      by (simp add: nextResetBase_simps reset_in_range_def time_Add_seconds)
  qed
qed

lemma calcNextResetTime_later:
  "reset_in_range p b \<Longrightarrow> 0 < calcNextResetTime tz b p e \<Longrightarrow> b < calcNextResetTime tz b p e"
  using nextResetBase_later [of p b _ tz]
  by (auto simp: calcNextResetTime_def Let_def split: if_splits)

interpretation plan_schedule:
  reset_schedule "\<lambda>b. calcNextResetTime tz b p e" "reset_in_range p" for tz p e
proof
  show "reset_in_range p a" if "reset_in_range p b" "0 \<le> a" "a \<le> b" for a b
    using that by (auto simp: reset_in_range_def)
  show "b < calcNextResetTime tz b p e"
    if "reset_in_range p b" "0 < calcNextResetTime tz b p e" for b
    using that by (rule calcNextResetTime_later)
qed

lemma day_aligned: "n + tz = 86400 * k \<Longrightarrow> clock_of tz n = 0 \<and> local_day tz n = k"
  by (simp add: clock_of_def local_day_def)

lemma weekly_monday:
  assumes "n = b - clock_of tz b + 86400 * (if Weekday tz b = 0 then 1 else 8 - Weekday tz b)"
  shows "clock_of tz n = 0" and "Weekday tz n = 1" and "n \<le> b + 7 * 86400"
proof -
  let ?k = "if Weekday tz b = 0 then 1 else 8 - Weekday tz b"
  have "n + tz = 86400 * (local_day tz b + ?k)" using local_day_clock [of tz b] assms by simp
  from day_aligned [OF this] have d: "local_day tz n = local_day tz b + ?k"
    and c: "clock_of tz n = 0" by simp_all
  have "(x + (if x mod 7 = 0 then 1 else 8 - x mod 7)) mod 7 = 1" for x :: int by presburger
  from this [of "local_day tz b + 4"] show "Weekday tz n = 1"
    unfolding Weekday_def d by (simp add: add.assoc add.commute add.left_commute)
  show "clock_of tz n = 0" by (rule c)
  show "n \<le> b + 7 * 86400" using assms clock_of_range [of tz b] weekday_range [of tz b] by simp
qed

lemma monthly_first:
  "clock_of tz (next_month_start tz b) = 0"
  "\<exists>y m. civil_from_days (local_day tz (next_month_start tz b)) = (y, m, 1)"
proof -
  obtain y m d where c: "civil_from_days (local_day tz b) = (y, m, d)" by (metis prod.exhaust)
  let ?D = "days_from_civil (y + m div 12) (m mod 12 + 1) 1"
  have "next_month_start tz b + tz = 86400 * ?D" using next_month_start_days [OF c] by simp
  from day_aligned [OF this] show "clock_of tz (next_month_start tz b) = 0"
    and "\<exists>y m. civil_from_days (local_day tz (next_month_start tz b)) = (y, m, 1)"
    by (auto simp: civil_from_month_start)
qed

section \<open>Properties\<close>



text \<open>C16. The time a value package of one of the three types runs for, as \<open>calcPlanEndTime\<close>
  computes it from the normalised plan, is exactly the length of its quota cycle.\<close>

theorem calcPlanEndTime_cycle:
  assumes "IsValuePackage p" and "q = normalizeValuePackagePlan p"
    and "plan_PackageType q \<in> {ValuePackageTypeDay, ValuePackageTypeWeek, ValuePackageTypeMonth}"
    and "0 \<le> start" and "start + 30 * 86400 \<le> MaxInt64"
  shows "calcPlanEndTime tz start q = Inr (start + valuePackageCycleSeconds q)"
proof -
  have vp: "IsValuePackage q"
    using assms(1) by (simp add: assms(2) IsValuePackage_def normalizeValuePackagePlan_def Let_def const_defs)
  have "normalizeValuePackageFixedDurationFields q = q"
    using normalizeValuePackagePlan_normal by (simp add: assms(2) package_normal_def)
  with vp have dur: "plan_DurationUnit q = SubscriptionDurationDay"
    "plan_DurationValue q * 86400 = valuePackageCycleSeconds q" "0 < plan_DurationValue q"
    "plan_DurationValue q \<le> 30"
    using assms(3) unfolding normalizeValuePackageFixedDurationFields_def valuePackageCycleSeconds_def
    by (auto simp: const_defs dest: arg_cong [of _ _ plan_DurationValue] arg_cong [of _ _ plan_DurationUnit])
  have "mul64 (mul64 (plan_DurationValue q) 24) nanos_per_hour =
      plan_DurationValue q * 86400 * nanos_per_second"
    using dur(3,4) by (simp add: mul64_eq in_i64_def nanos_per_hour_def nanos_per_second_def)
  moreover have "in_i64 (start + plan_DurationValue q * 86400)"
    using dur(3,4) assms(4,5) by (simp add: in_i64_def MaxInt64_def)
  ultimately have "time_Add start (mul64 (mul64 (plan_DurationValue q) 24) nanos_per_hour) =
      start + valuePackageCycleSeconds q"
    using dur(2) by (simp add: time_Add_def add64_eq nanos_per_second_def)
  then show ?thesis using dur(1,3) by (simp add: calcPlanEndTime_def const_defs)
qed

theorem calcPlanEndTime_cycle_witness:
  "calcPlanEndTime 0 1700000000 (normalizeValuePackagePlan
       (zero_plan\<lparr>plan_PlanKind := ''value_package'', plan_PackageType := ''week''\<rparr>)) =
     Inr (1700000000 + 604800)"
proof -
  let ?p = "zero_plan\<lparr>plan_PlanKind := ''value_package'', plan_PackageType := ''week''\<rparr>"
  let ?q = "normalizeValuePackagePlan ?p"
  have vp: "IsValuePackage ?p" by (simp add: IsValuePackage_def const_defs)
  have t: "plan_PackageType ?q = ''week''" and k: "plan_PlanKind ?q = ''value_package''"
    by (simp_all add: normalizeValuePackagePlan_def Let_def zero_plan_def)
  have "valuePackageCycleSeconds ?q = 604800"
    by (simp add: valuePackageCycleSeconds_def IsValuePackage_def t k const_defs)
  moreover have "calcPlanEndTime 0 1700000000 ?q = Inr (1700000000 + valuePackageCycleSeconds ?q)"
    by (rule calcPlanEndTime_cycle [OF vp refl]) (simp_all add: t const_defs MaxInt64_def)
  ultimately show ?thesis by simp
qed





text \<open>A coherent plan cache holds what a fresh read would return.\<close>

definition cache_coherent :: "db \<Rightarrow> bool" where
  "cache_coherent d \<longleftrightarrow>
     (\<forall>i p. planCache d i = Some p \<longrightarrow> getSubscriptionPlanByIdFreshTx i d = Inr p)"

lemma fresh_plan_frame:
  "plans d' = plans d \<Longrightarrow> getSubscriptionPlanByIdFreshTx i d' = getSubscriptionPlanByIdFreshTx i d"
  by (simp add: getSubscriptionPlanByIdFreshTx_def)

lemma fresh_plan_normal: "getSubscriptionPlanByIdFreshTx i d = Inr p \<Longrightarrow> defaults_normal p"
  using NormalizeDefaults_normal
  by (auto simp: getSubscriptionPlanByIdFreshTx_def split: if_splits option.splits)

lemma fresh_plan_id: "getSubscriptionPlanByIdFreshTx i d = Inr p \<Longrightarrow> NormalizeDefaults p = p"
  by (rule NormalizeDefaults_id) (rule fresh_plan_normal)

lemma cached_plan:
  assumes "cache_coherent d" and "GetSubscriptionPlanById i d = (r, d')"
  shows "r = getSubscriptionPlanByIdFreshTx i d \<and> cache_coherent d' \<and>
    d' = d\<lparr>planCache := planCache d'\<rparr>"
proof (cases "i \<le> 0 \<or> planCache d i \<noteq> None")
  case True
  then consider "i \<le> 0" | p where "0 < i" "planCache d i = Some p" by fastforce
  then show ?thesis
  proof cases
    case 1
    with assms show ?thesis
      by (auto simp: GetSubscriptionPlanById_def getSubscriptionPlanByIdFreshTx_def)
  next
    case (2 p)
    with assms(1) have "getSubscriptionPlanByIdFreshTx i d = Inr p"
      by (simp add: cache_coherent_def)
    with 2 assms show ?thesis by (auto simp: GetSubscriptionPlanById_def fresh_plan_id)
  qed
next
  case False
  show ?thesis
  proof (cases "getSubscriptionPlanByIdFreshTx i d")
    case (Inl e)
    with False assms show ?thesis by (auto simp: GetSubscriptionPlanById_def)
  next
    case (Inr p)
    with False assms(2) have "r = Inr p" and d': "d' = d\<lparr>planCache := (planCache d)(i := Some p)\<rparr>"
      using fresh_plan_id [OF Inr] by (auto simp: GetSubscriptionPlanById_def)
    moreover have "getSubscriptionPlanByIdFreshTx j d' = getSubscriptionPlanByIdFreshTx j d" for j
      by (rule fresh_plan_frame) (simp add: d')
    ultimately show ?thesis using Inr assms(1) by (simp add: cache_coherent_def)
  qed
qed



end
