(* ===== verification/Windows.thy ===== *)
theory Windows
  imports Plans "HOL-Library.Log_Nat"
begin

text \<open>
  Usage windows of value packages (\<open>src/model/subscription.go\<close>,
  \<open>src/model/value_package_periods.go\<close>): the five-hour window opened by the first usage
  record after the previous one closed, the seven-day stages anchored at the start of the
  subscription, what was used in each, and the summary and period limits shown to the user.

  The five-hour window is computed in one pass over the usage records; \<open>windows\<close> is the
  reference definition it is proved equal to: cut the records into windows, look at the
  last one.
\<close>

section \<open>Rounding to float64\<close>

text \<open>Go's \<open>float64\<close> arithmetic rounds the exact result to the nearest number with a 53-bit
  significand, ties to even. The values rounded here are far from the ends of the exponent
  range.\<close>

definition scale2 :: "int \<Rightarrow> rat \<Rightarrow> rat" where
  "scale2 k x = (if 0 \<le> k then x * 2 ^ nat k else x / 2 ^ nat (- k))"

definition round_half_even :: "rat \<Rightarrow> int" where
  "round_half_even x =
     (let f = \<lfloor>x\<rfloor>; r = x - of_int f in
      if r < 1 / 2 then f else if r > 1 / 2 then f + 1 else if even f then f else f + 1)"

definition binary_exponent :: "rat \<Rightarrow> int" where
  "binary_exponent x =
     (case quotient_of x of (n, d) \<Rightarrow>
        let k = bitlen n - bitlen d in if 1 \<le> scale2 (- k) x then k else k - 1)"

definition fl64 :: "rat \<Rightarrow> rat" where
  "fl64 x =
     (if x = 0 then 0
      else let e = binary_exponent \<bar>x\<bar> - 52 in
        sgn x * scale2 e (of_int (round_half_even (scale2 (- e) \<bar>x\<bar>))))"

definition valuePackagePercent :: "int \<Rightarrow> int \<Rightarrow> rat" where
  "valuePackagePercent used limit =
     (if limit \<le> 0 \<or> used \<le> 0 then 0
      else let percent = fl64 (fl64 (fl64 (of_int used) * 100) / fl64 (of_int limit)) in
        if percent > 100 then 100 else if percent < 0 then 0 else percent)"

section \<open>Usage in a window\<close>

record fixed_window =
  fw_windowStart :: int
  fw_windowEnd :: int
  fw_expiredUntil :: int
  fw_used :: int

definition fixedWindowStep ::
  "int \<Rightarrow> int \<Rightarrow> ValuePackageUsageRecord \<Rightarrow> fixed_window \<Rightarrow> fixed_window" where
  "fixedWindowStep windowSeconds now r w =
     (if usage_Quota r \<le> 0 \<or> usage_CreatedAt r \<le> 0 \<or> usage_CreatedAt r > now then w
      else if usage_CreatedAt r < fw_expiredUntil w then w
      else
        let w1 = (if fw_windowStart w = 0 \<or> usage_CreatedAt r \<ge> fw_windowEnd w then
                    w\<lparr>fw_windowStart := usage_CreatedAt r,
                      fw_windowEnd := add64 (usage_CreatedAt r) windowSeconds, fw_used := 0\<rparr>
                  else w)
        in if now \<ge> fw_windowEnd w1 then
             w1\<lparr>fw_expiredUntil := fw_windowEnd w1, fw_windowStart := 0, fw_windowEnd := 0,
               fw_used := 0\<rparr>
           else w1\<lparr>fw_used := add64 (fw_used w1) (usage_Quota r)\<rparr>)"

definition valuePackageFixedWindowUsageDetails ::
  "ValuePackageUsageRecord list \<Rightarrow> int \<Rightarrow> int \<Rightarrow> int \<times> int" where
  "valuePackageFixedWindowUsageDetails records windowSeconds now =
     (if windowSeconds \<le> 0 \<or> now \<le> 0 \<or> records = [] then (0, 0)
      else let w = fold (fixedWindowStep windowSeconds now) records
                 \<lparr>fw_windowStart = 0, fw_windowEnd = 0, fw_expiredUntil = 0, fw_used = 0\<rparr>
        in if fw_windowStart w = 0 then (0, 0) else (fw_used w, fw_windowStart w))"

definition earliest :: "int \<Rightarrow> int \<Rightarrow> int" where
  "earliest acc t = (if acc = 0 \<or> t < acc then t else acc)"

definition valuePackageRollingUsageDetails :: "ValuePackageUsageRecord list \<Rightarrow> int \<times> int" where
  "valuePackageRollingUsageDetails records =
     fold (\<lambda>r (used, earliestCreatedAt).
         if usage_Quota r \<le> 0 \<or> usage_CreatedAt r \<le> 0 then (used, earliestCreatedAt)
         else (add64 used (usage_Quota r), earliest earliestCreatedAt (usage_CreatedAt r)))
       records (0, 0)"

definition valuePackageSubscriptionAnchorStart :: "UserSubscription \<Rightarrow> int \<Rightarrow> int" where
  "valuePackageSubscriptionAnchorStart s now =
     (if sub_StartTime s > 0 then sub_StartTime s
      else if sub_CreatedAt s > 0 \<and> (now \<le> 0 \<or> sub_CreatedAt s \<le> now) then sub_CreatedAt s
      else 0)"

record valuePackageAnchoredWindow =
  win_Start :: int
  win_End :: int

definition no_window :: valuePackageAnchoredWindow where
  "no_window = \<lparr>win_Start = 0, win_End = 0\<rparr>"

definition calcValuePackageAnchoredWindow ::
  "int \<Rightarrow> int \<Rightarrow> int \<Rightarrow> int \<Rightarrow> valuePackageAnchoredWindow" where
  "calcValuePackageAnchoredWindow startTime endTime windowSeconds now0 =
     (if startTime \<le> 0 \<or> windowSeconds \<le> 0 then no_window
      else
        let now = (if now0 \<le> 0 \<or> now0 < startTime then startTime else now0);
            index = quot64 (sub64 now startTime) windowSeconds;
            windowStart = add64 startTime (mul64 index windowSeconds);
            windowEnd0 = add64 windowStart windowSeconds;
            windowEnd = (if endTime > 0 \<and> windowEnd0 > endTime then endTime else windowEnd0)
        in if windowEnd \<le> windowStart then no_window
           else \<lparr>win_Start = windowStart, win_End = windowEnd\<rparr>)"

definition valuePackageHas7dWindow :: "SubscriptionPlan \<Rightarrow> bool" where
  "valuePackageHas7dWindow p \<longleftrightarrow>
     IsValuePackage p \<and> plan_PackageType p = ValuePackageTypeMonth \<and> plan_Limit7dAmount p > 0"

definition valuePackageResetClears7d :: "SubscriptionPlan \<Rightarrow> bool" where
  "valuePackageResetClears7d p \<longleftrightarrow>
     IsValuePackage p \<and> plan_PackageType p = ValuePackageTypeMonth \<and> plan_Limit7dAmount p > 0"

record ValuePackageWindowUsageDetails =
  det_Used5h :: int
  det_Earliest5hCreatedAt :: int
  det_ResetAt5h :: int
  det_ResetSeconds5h :: int
  det_Used7d :: int
  det_Earliest7dCreatedAt :: int
  det_ResetAt7d :: int
  det_ResetSeconds7d :: int

definition zero_details :: ValuePackageWindowUsageDetails where
  "zero_details = \<lparr>det_Used5h = 0, det_Earliest5hCreatedAt = 0, det_ResetAt5h = 0,
     det_ResetSeconds5h = 0, det_Used7d = 0, det_Earliest7dCreatedAt = 0, det_ResetAt7d = 0,
     det_ResetSeconds7d = 0\<rparr>"

definition counted_record :: "UserSubscription \<Rightarrow> int \<Rightarrow> ValuePackageUsageRecord \<Rightarrow> bool" where
  "counted_record s now r \<longleftrightarrow>
     usage_QuotaEpoch r = sub_QuotaEpoch s \<and>
     \<not> (usage_Quota r \<le> 0 \<or> usage_CreatedAt r \<le> 0 \<or> usage_CreatedAt r > now)"

definition fiveHourDetails ::
  "UserSubscription \<Rightarrow> ValuePackageUsageRecord list \<Rightarrow> int \<Rightarrow> int \<Rightarrow>
     ValuePackageWindowUsageDetails" where
  "fiveHourDetails s records effectiveLastResetAt now =
     (let fiveHourRecords = filter (\<lambda>r. counted_record s now r \<and>
            \<not> (effectiveLastResetAt > 0 \<and> usage_CreatedAt r < effectiveLastResetAt)) records
      in case valuePackageFixedWindowUsageDetails fiveHourRecords valuePackage5hWindowSeconds now of
        (used, first) \<Rightarrow>
          let d = zero_details\<lparr>det_Used5h := used, det_Earliest5hCreatedAt := first\<rparr> in
          if used > 0 \<and> first > 0 then
            let resetAt = add64 first valuePackage5hWindowSeconds in
            d\<lparr>det_ResetAt5h := resetAt,
              det_ResetSeconds5h := (if sub64 resetAt now < 0 then 0 else sub64 resetAt now)\<rparr>
          else d)"

definition sevenDayDetails ::
  "UserSubscription \<Rightarrow> SubscriptionPlan \<Rightarrow> ValuePackageUsageRecord list \<Rightarrow> int \<Rightarrow> int \<Rightarrow>
     ValuePackageWindowUsageDetails \<Rightarrow> ValuePackageWindowUsageDetails" where
  "sevenDayDetails s p records effectiveLastResetAt now d =
     (let anchorStart = valuePackageSubscriptionAnchorStart s now in
      if \<not> valuePackageHas7dWindow p \<or> anchorStart \<le> 0 then d
      else
        let w = calcValuePackageAnchoredWindow anchorStart (sub_EndTime s)
                  valuePackage7dWindowSeconds now
        in if win_Start w \<le> 0 \<or> win_End w \<le> 0 then d
        else
          let effective7dStart =
                (if valuePackageResetClears7d p \<and> effectiveLastResetAt > win_Start w
                 then effectiveLastResetAt else win_Start w);
              d1 = fold (\<lambda>r d. d\<lparr>det_Used7d := add64 (det_Used7d d) (usage_Quota r),
                        det_Earliest7dCreatedAt :=
                          earliest (det_Earliest7dCreatedAt d) (usage_CreatedAt r)\<rparr>)
                     (filter (\<lambda>r. counted_record s now r \<and>
                        \<not> (usage_CreatedAt r < effective7dStart \<or> usage_CreatedAt r \<ge> win_End w))
                      records) d
          in d1\<lparr>det_ResetAt7d := win_End w,
                det_ResetSeconds7d := (if sub64 (win_End w) now < 0 then 0
                                       else sub64 (win_End w) now)\<rparr>)"

definition buildValuePackageWindowUsageDetailsFromRecords ::
  "UserSubscription \<Rightarrow> SubscriptionPlan \<Rightarrow> ValuePackageUsageRecord list \<Rightarrow> int \<Rightarrow> int \<Rightarrow>
     ValuePackageWindowUsageDetails" where
  "buildValuePackageWindowUsageDetailsFromRecords s p records lastResetAt now =
     (if now \<le> 0 then zero_details
      else
        let effectiveLastResetAt =
              (if lastResetAt > 0 \<and> lastResetAt \<le> now then lastResetAt else 0)
        in sevenDayDetails s p records effectiveLastResetAt now
             (fiveHourDetails s records effectiveLastResetAt now))"

section \<open>Queries and the usage record\<close>

definition recordValuePackageUsageTx ::
  "env \<Rightarrow> ValuePackageUsageRecord \<Rightarrow> db \<Rightarrow> merr + db" where
  "recordValuePackageUsageTx E r d =
     (if usage_UserId r \<le> 0 \<or> usage_UserSubscriptionId r \<le> 0 \<or> usage_Quota r < 0 \<or>
         TrimSpace (usage_RequestId r) = ''''
      then Inl (QuotaE ErrInvalidUsageRecord)
      else
        let r1 = (if usage_CreatedAt r = 0 then r\<lparr>usage_CreatedAt := GetTimestamp E\<rparr> else r) in
        Inr (d\<lparr>usages := upsert_row
               (\<lambda>x. usage_UserSubscriptionId x = usage_UserSubscriptionId r1 \<and>
                    usage_RequestId x = usage_RequestId r1)
               (\<lambda>x. x\<lparr>usage_UserId := usage_UserId r1, usage_PlanId := usage_PlanId r1,
                      usage_PackageType := usage_PackageType r1,
                      usage_ModelGroup := usage_ModelGroup r1, usage_Quota := usage_Quota r1\<rparr>)
               set_usage_Id r1 (usages d)\<rparr>))"

definition now_or_db :: "env \<Rightarrow> int \<Rightarrow> int" where
  "now_or_db E now = (if now \<le> 0 then getDBTimestampTx E else now)"

fun max_or_zero :: "int list \<Rightarrow> int" where
  "max_or_zero [] = 0"
| "max_or_zero (x # xs) = fold max xs x"

definition getLastValuePackageQuotaResetAtTx :: "env \<Rightarrow> int \<Rightarrow> int \<Rightarrow> int \<Rightarrow> db \<Rightarrow> int" where
  "getLastValuePackageQuotaResetAtTx E userId userSubscriptionId now0 d =
     (let now = now_or_db E now0 in
      max_or_zero (map reset_ResetAt
        (select_where (\<lambda>r. reset_UserId r = userId \<and>
             reset_UserSubscriptionId r = userSubscriptionId \<and> reset_ResetAt r \<le> now) (resets d))))"

definition windowRecords ::
  "UserSubscription \<Rightarrow> int \<Rightarrow> int \<Rightarrow> int \<Rightarrow> db \<Rightarrow> ValuePackageUsageRecord list" where
  "windowRecords s userId lowerBound now d =
     sort_key (\<lambda>r. (usage_CreatedAt r, usage_Id r))
       (select_where (\<lambda>r. usage_UserId r = userId \<and> usage_UserSubscriptionId r = sub_Id s \<and>
            usage_QuotaEpoch r = sub_QuotaEpoch s \<and> usage_CreatedAt r \<ge> lowerBound \<and>
            usage_CreatedAt r \<le> now \<and> usage_Quota r > 0) (usages d))"

definition getValuePackageWindowUsageDetailsTx ::
  "env \<Rightarrow> int \<Rightarrow> int \<Rightarrow> int \<Rightarrow> db \<Rightarrow> merr + ValuePackageWindowUsageDetails" where
  "getValuePackageWindowUsageDetailsTx E userId userSubscriptionId now0 d =
     (let now = now_or_db E now0 in
      bind_e (of_option ErrRecordNotFound
          (first_where (\<lambda>s. sub_Id s = userSubscriptionId \<and> sub_UserId s = userId) (subs d)))
        (\<lambda>s. bind_e (getSubscriptionPlanByIdFreshTx (sub_PlanId s) d)
        (\<lambda>p0.
          let p = normalizeValuePackagePlan p0;
              lastResetAt = getLastValuePackageQuotaResetAtTx E userId userSubscriptionId now d;
              anchor = valuePackageSubscriptionAnchorStart s now;
              lowerBound = (if anchor \<le> 0 then sub64 now valuePackage7dWindowSeconds else anchor)
          in Inr (buildValuePackageWindowUsageDetailsFromRecords s p
                    (windowRecords s userId lowerBound now d) lastResetAt now))))"

definition getValuePackageWindowUsageTx ::
  "env \<Rightarrow> int \<Rightarrow> int \<Rightarrow> int \<Rightarrow> db \<Rightarrow> merr + int \<times> int" where
  "getValuePackageWindowUsageTx E userId userSubscriptionId now d =
     bind_e (getValuePackageWindowUsageDetailsTx E userId userSubscriptionId now d)
       (\<lambda>det. Inr (det_Used5h det, det_Used7d det))"

section \<open>Period limits and the summary\<close>

record ValuePackagePeriodLimit =
  per_Kind :: string
  per_LabelUnit :: string
  per_LabelValue :: int
  per_Limit :: int
  per_Used :: int
  per_Remaining :: int
  per_Percent :: rat
  per_Refreshes :: bool
  per_ResetAt :: int
  per_Limited :: bool

definition valuePackageRemaining :: "int \<Rightarrow> int \<Rightarrow> int" where
  "valuePackageRemaining limit used =
     (if limit \<le> 0 then 0
      else let remaining = sub64 limit used in if remaining < 0 then 0 else remaining)"

definition valuePackageClampNonNegative :: "int \<Rightarrow> int" where
  "valuePackageClampNonNegative v = (if v < 0 then 0 else v)"

definition buildValuePackagePeriodLimits ::
  "UserSubscription \<Rightarrow> SubscriptionPlan \<Rightarrow> ValuePackageWindowUsageDetails \<Rightarrow>
     ValuePackagePeriodLimit list" where
  "buildValuePackagePeriodLimits s p det =
     (if \<not> IsValuePackage p then []
      else
        let lifecycleDays =
              (if plan_PackageType p = ValuePackageTypeDay then 1
               else if plan_PackageType p = ValuePackageTypeWeek then 7
               else if plan_PackageType p = ValuePackageTypeMonth then 30 else 0);
            fiveHourLimit = valuePackageClampNonNegative (plan_Limit5hAmount p);
            sevenDayLimit = plan_Limit7dAmount p;
            lifecycleLimit = valuePackageClampNonNegative (sub_AmountTotal s)
        in (if lifecycleDays > 0 \<or> fiveHourLimit > 0 then
              [\<lparr>per_Kind = ''five_hour'', per_LabelUnit = ''hour'', per_LabelValue = 5,
                per_Limit = fiveHourLimit, per_Used = det_Used5h det,
                per_Remaining = valuePackageRemaining fiveHourLimit (det_Used5h det),
                per_Percent = valuePackagePercent (det_Used5h det) fiveHourLimit,
                per_Refreshes = True, per_ResetAt = det_ResetAt5h det,
                per_Limited = (fiveHourLimit > 0 \<and> det_Used5h det \<ge> fiveHourLimit)\<rparr>]
            else []) @
           (if plan_PackageType p = ValuePackageTypeMonth \<and> plan_Limit7dAmount p > 0 then
              [\<lparr>per_Kind = ''seven_day_stage'', per_LabelUnit = ''day'', per_LabelValue = 7,
                per_Limit = sevenDayLimit, per_Used = det_Used7d det,
                per_Remaining = valuePackageRemaining sevenDayLimit (det_Used7d det),
                per_Percent = valuePackagePercent (det_Used7d det) sevenDayLimit,
                per_Refreshes = True, per_ResetAt = det_ResetAt7d det,
                per_Limited = (sevenDayLimit > 0 \<and> det_Used7d det \<ge> sevenDayLimit)\<rparr>]
            else []) @
           (if lifecycleDays > 0 then
              [\<lparr>per_Kind = ''lifecycle'', per_LabelUnit = ''day'', per_LabelValue = lifecycleDays,
                per_Limit = lifecycleLimit, per_Used = sub_AmountUsed s,
                per_Remaining = valuePackageRemaining lifecycleLimit (sub_AmountUsed s),
                per_Percent = valuePackagePercent (sub_AmountUsed s) lifecycleLimit,
                per_Refreshes = False, per_ResetAt = 0,
                per_Limited = (lifecycleLimit > 0 \<and> sub_AmountUsed s \<ge> lifecycleLimit)\<rparr>]
            else []))"

record ValuePackageUsageSummary =
  sum_TotalUsed :: int
  sum_TotalLimit :: int
  sum_TotalRemaining :: int
  sum_TotalPercent :: rat
  sum_Used5h :: int
  sum_Limit5h :: int
  sum_Percent5h :: rat
  sum_ResetAt5h :: int
  sum_ResetSeconds5h :: int
  sum_Limited5h :: bool
  sum_Used7d :: int
  sum_Limit7d :: int
  sum_Percent7d :: rat
  sum_ResetAt7d :: int
  sum_ResetSeconds7d :: int
  sum_Limited7d :: bool
  sum_Exhausted :: bool
  sum_ExhaustedReason :: string
  sum_ExhaustedMessage :: string
  sum_PeriodLimits :: "ValuePackagePeriodLimit list"

text \<open>The UTF-8 bytes of the message.\<close>

definition ValuePackageQuotaExhaustedUserMessage :: string where
  "ValuePackageQuotaExhaustedUserMessage = map char_of
      [229, 189, 147, 229, 137, 141, 228, 189, 153, 233, 162, 157, 229, 183, 178, 231,
       148, 168, 229, 174, 140, 239, 188, 140, 229, 187, 186, 232, 174, 174, 230, 154,
       130, 229, 129, 156, 228, 189, 191, 231, 148, 168, 239, 188, 140, 228, 189, 191,
       231, 148, 168, 32, 65, 80, 73, 32, 230, 136, 150, 231, 173, 137, 230, 151, 182,
       233, 151, 180, 232, 183, 145, 229, 174, 140, 229, 134, 141, 228, 189, 191, 231,
       148, 168 :: nat]"

definition buildValuePackageUsageSummaryFromDetails ::
  "UserSubscription \<Rightarrow> SubscriptionPlan \<Rightarrow> ValuePackageWindowUsageDetails \<Rightarrow>
     ValuePackageUsageSummary" where
  "buildValuePackageUsageSummaryFromDetails s p det =
     (let limited5h = (plan_Limit5hAmount p > 0 \<and> det_Used5h det \<ge> plan_Limit5hAmount p);
          has7dWindow = valuePackageHas7dWindow p;
          used7d = (if has7dWindow then det_Used7d det else 0);
          limit7d = (if has7dWindow then plan_Limit7dAmount p else 0);
          limited7d = (has7dWindow \<and> limit7d > 0 \<and> used7d \<ge> limit7d);
          reason = (if sub_AmountTotal s > 0 \<and> sub_AmountUsed s \<ge> sub_AmountTotal s
                    then Some ''total_quota_exhausted''
                    else if limited5h then Some ''limit_5h_exhausted''
                    else if limited7d then Some ''limit_7d_exhausted'' else None)
      in \<lparr>sum_TotalUsed = sub_AmountUsed s, sum_TotalLimit = sub_AmountTotal s,
          sum_TotalRemaining =
            (if sub_AmountTotal s > 0 \<and> sub_AmountTotal s > sub_AmountUsed s
             then sub64 (sub_AmountTotal s) (sub_AmountUsed s) else 0),
          sum_TotalPercent = valuePackagePercent (sub_AmountUsed s) (sub_AmountTotal s),
          sum_Used5h = det_Used5h det, sum_Limit5h = plan_Limit5hAmount p,
          sum_Percent5h = valuePackagePercent (det_Used5h det) (plan_Limit5hAmount p),
          sum_ResetAt5h = (if plan_Limit5hAmount p > 0 then det_ResetAt5h det else 0),
          sum_ResetSeconds5h = (if plan_Limit5hAmount p > 0 then det_ResetSeconds5h det else 0),
          sum_Limited5h = limited5h,
          sum_Used7d = used7d, sum_Limit7d = limit7d,
          sum_Percent7d = (if has7dWindow then valuePackagePercent used7d limit7d else 0),
          sum_ResetAt7d = (if has7dWindow then det_ResetAt7d det else 0),
          sum_ResetSeconds7d = (if has7dWindow then det_ResetSeconds7d det else 0),
          sum_Limited7d = limited7d,
          sum_Exhausted = (reason \<noteq> None),
          sum_ExhaustedReason = (case reason of None \<Rightarrow> '''' | Some x \<Rightarrow> x),
          sum_ExhaustedMessage =
            (if reason \<noteq> None then ValuePackageQuotaExhaustedUserMessage else ''''),
          sum_PeriodLimits = buildValuePackagePeriodLimits s p det\<rparr>)"

definition buildValuePackageUsageSummaryTx ::
  "env \<Rightarrow> int \<Rightarrow> UserSubscription \<Rightarrow> SubscriptionPlan \<Rightarrow> int \<Rightarrow> db \<Rightarrow>
     merr + ValuePackageUsageSummary option" where
  "buildValuePackageUsageSummaryTx E userId s p now0 d =
     (if sub_Id s \<le> 0 then Inr None
      else bind_e (getValuePackageWindowUsageDetailsTx E userId (sub_Id s) (now_or_db E now0) d)
        (\<lambda>det. Inr (Some (buildValuePackageUsageSummaryFromDetails s p det))))"

section \<open>The five-hour window against its reference definition\<close>

definition quota_sum :: "ValuePackageUsageRecord list \<Rightarrow> int" where
  "quota_sum rs = sum_list (map usage_Quota rs)"

lemma quota_sum_simps [simp]:
  "quota_sum [] = 0" "quota_sum (r # rs) = usage_Quota r + quota_sum rs"
  "quota_sum (rs @ qs) = quota_sum rs + quota_sum qs"
  by (simp_all add: quota_sum_def)

text \<open>Records in the order of their creation, cut into windows of \<open>W\<close> seconds: the first
  record opens a window, the first record at or after its end opens the next.\<close>

function windows :: "int \<Rightarrow> ValuePackageUsageRecord list \<Rightarrow> (int \<times> int) list" where
  "windows W [] = []"
| "windows W (r # rs) =
     (usage_CreatedAt r,
      usage_Quota r + quota_sum (takeWhile (\<lambda>x. usage_CreatedAt x < usage_CreatedAt r + W) rs))
     # windows W (dropWhile (\<lambda>x. usage_CreatedAt x < usage_CreatedAt r + W) rs)"
  by pat_completeness auto
termination
  by (relation "measure (\<lambda>(W, rs). length rs)") (simp_all add: le_imp_less_Suc length_dropWhile_le)

definition live_window :: "int \<Rightarrow> int \<Rightarrow> (int \<times> int) list \<Rightarrow> int \<times> int" where
  "live_window W now ws =
     (if ws = [] then (0, 0)
      else case last ws of (start, q) \<Rightarrow> if now < start + W then (i64 q, start) else (0, 0))"

definition good_records :: "int \<Rightarrow> ValuePackageUsageRecord list \<Rightarrow> bool" where
  "good_records now rs \<longleftrightarrow> sorted (map usage_CreatedAt rs) \<and>
     (\<forall>r \<in> set rs. 0 < usage_Quota r \<and> 0 < usage_CreatedAt r \<and> usage_CreatedAt r \<le> now)"

definition window_result :: "fixed_window \<Rightarrow> int \<times> int" where
  "window_result w = (if fw_windowStart w = 0 then (0, 0) else (fw_used w, fw_windowStart w))"

lemma good_records_Cons:
  "good_records now (r # rs) \<longleftrightarrow> good_records now rs \<and>
     0 < usage_Quota r \<and> 0 < usage_CreatedAt r \<and> usage_CreatedAt r \<le> now \<and>
     (\<forall>x \<in> set rs. usage_CreatedAt r \<le> usage_CreatedAt x)"
  by (auto simp: good_records_def)

lemma good_records_dropWhile: "good_records now rs \<Longrightarrow> good_records now (dropWhile P rs)"
  by (induction rs) (auto simp: good_records_Cons)

lemma dropWhile_not_before:
  fixes f :: "'a \<Rightarrow> int"
  shows "sorted (map f rs) \<Longrightarrow> x \<in> set (dropWhile (\<lambda>x. f x < e) rs) \<Longrightarrow> e \<le> f x"
  by (induction rs) (auto split: if_splits)

text \<open>Records of a window that has expired are skipped; records of the open window are
  added up.\<close>

lemma fold_expired:
  "\<forall>x \<in> set rs. usage_CreatedAt x < fw_expiredUntil w \<Longrightarrow>
     fold (fixedWindowStep W now) rs w = w"
  by (induction rs) (auto simp: fixedWindowStep_def)

lemma fold_live:
  assumes "good_records now rs" "now < fw_windowEnd w" "fw_windowStart w \<noteq> 0"
    "\<forall>x \<in> set rs. fw_expiredUntil w \<le> usage_CreatedAt x" "fw_used w = i64 u"
  shows "fold (fixedWindowStep W now) rs w = w\<lparr>fw_used := i64 (u + quota_sum rs)\<rparr>"
  using assms
proof (induction rs arbitrary: w u)
  case Nil
  then show ?case by (cases w) simp
next
  case (Cons r rs)
  then have "fixedWindowStep W now r w = w\<lparr>fw_used := i64 (u + usage_Quota r)\<rparr>"
    by (auto simp: fixedWindowStep_def good_records_Cons add64_def Let_def)
  moreover have "fold (fixedWindowStep W now) rs (w\<lparr>fw_used := i64 (u + usage_Quota r)\<rparr>) =
      (w\<lparr>fw_used := i64 (u + usage_Quota r)\<rparr>)\<lparr>fw_used := i64 (u + usage_Quota r + quota_sum rs)\<rparr>"
    by (rule Cons.IH) (use Cons.prems in \<open>auto simp: good_records_Cons\<close>)
  ultimately show ?case by (simp add: add.assoc)
qed

lemma fold_windows:
  assumes "good_records now rs" "0 < W" "now + W \<le> MaxInt64"
    "fw_windowStart w = 0" "fw_windowEnd w = 0" "fw_used w = 0"
    "\<forall>x \<in> set rs. fw_expiredUntil w \<le> usage_CreatedAt x"
  shows "window_result (fold (fixedWindowStep W now) rs w) = live_window W now (windows W rs)"
  using assms
proof (induction W rs arbitrary: w rule: windows.induct)
  case (1 W)
  then show ?case by (simp add: window_result_def live_window_def)
next
  case (2 W r rs)
  let ?e = "usage_CreatedAt r + W"
  let ?P = "\<lambda>x. usage_CreatedAt x < ?e"
  note g = "2.prems"(1) [unfolded good_records_Cons]
  have e: "add64 (usage_CreatedAt r) W = ?e"
    using g "2.prems"(2,3) by (intro add64_eq) (auto simp: in_i64_def MaxInt64_def)
  show ?case
  proof (cases "now < ?e")
    case True
    then have all: "takeWhile ?P rs = rs" "dropWhile ?P rs = []"
      using g by (auto simp: good_records_def)
    let ?w = "w\<lparr>fw_windowStart := usage_CreatedAt r, fw_windowEnd := ?e, fw_used := i64 (usage_Quota r)\<rparr>"
    have "fixedWindowStep W now r w = ?w"
      using True g "2.prems"(4-7) e by (auto simp: fixedWindowStep_def Let_def add64_def)
    moreover have "fold (fixedWindowStep W now) rs ?w =
        ?w\<lparr>fw_used := i64 (usage_Quota r + quota_sum rs)\<rparr>"
      by (rule fold_live) (use g True "2.prems"(7) in auto)
    ultimately show ?thesis
      using True g by (simp add: all window_result_def live_window_def)
  next
    case False
    let ?w = "w\<lparr>fw_expiredUntil := ?e, fw_windowStart := 0, fw_windowEnd := 0, fw_used := 0\<rparr>"
    let ?rest = "dropWhile ?P rs"
    have "fixedWindowStep W now r w = ?w"
      using False g "2.prems"(4-7) e by (auto simp: fixedWindowStep_def Let_def)
    moreover have "fold (fixedWindowStep W now) rs ?w = fold (fixedWindowStep W now) ?rest ?w"
    proof -
      have "fold (fixedWindowStep W now) (takeWhile ?P rs) ?w = ?w"
        by (rule fold_expired) (auto dest: set_takeWhileD)
      then show ?thesis by (metis comp_apply fold_append takeWhile_dropWhile_id)
    qed
    moreover have "window_result (fold (fixedWindowStep W now) ?rest ?w) =
        live_window W now (windows W ?rest)"
    proof (rule "2.IH")
      show "good_records now ?rest" using g by (blast intro: good_records_dropWhile)
      show "\<forall>x \<in> set ?rest. fw_expiredUntil ?w \<le> usage_CreatedAt x"
        using g dropWhile_not_before by (auto simp: good_records_def)
    qed (use "2.prems" in auto)
    moreover have "live_window W now (windows W (r # rs)) = live_window W now (windows W ?rest)"
      using False by (simp add: live_window_def)
    ultimately show ?thesis by simp
  qed
qed

section \<open>One more record\<close>

text \<open>While the pass runs, an open window has not ended and no window expired in the future.\<close>

definition window_inv :: "int \<Rightarrow> fixed_window \<Rightarrow> bool" where
  "window_inv now w \<longleftrightarrow> fw_expiredUntil w \<le> now \<and> (fw_windowStart w \<noteq> 0 \<longrightarrow> now < fw_windowEnd w)"

lemma fixedWindowStep_inv: "window_inv now w \<Longrightarrow> window_inv now (fixedWindowStep W now r w)"
  by (auto simp: window_inv_def fixedWindowStep_def Let_def)

lemma fold_window_inv:
  "window_inv now w \<Longrightarrow> window_inv now (fold (fixedWindowStep W now) rs w)"
  by (induction rs arbitrary: w) (auto intro: fixedWindowStep_inv)

lemma fixed_details_result:
  "0 < W \<Longrightarrow> 0 < now \<Longrightarrow> valuePackageFixedWindowUsageDetails rs W now =
     window_result (fold (fixedWindowStep W now) rs
       \<lparr>fw_windowStart = 0, fw_windowEnd = 0, fw_expiredUntil = 0, fw_used = 0\<rparr>)"
  by (auto simp: valuePackageFixedWindowUsageDetails_def window_result_def Let_def)

lemma fixed_details_append:
  assumes "0 < W" "now + W \<le> MaxInt64" "usage_CreatedAt r = now" "0 < now"
    "0 < usage_Quota r" "in_i64 (usage_Quota r)"
  shows "valuePackageFixedWindowUsageDetails (rs @ [r]) W now =
    (case valuePackageFixedWindowUsageDetails rs W now of (used, start) \<Rightarrow>
       if start = 0 then (usage_Quota r, now) else (add64 used (usage_Quota r), start))"
proof -
  let ?w0 = "\<lparr>fw_windowStart = 0, fw_windowEnd = 0, fw_expiredUntil = 0, fw_used = 0\<rparr>"
  define w where "w = fold (fixedWindowStep W now) rs ?w0"
  have inv: "window_inv now w"
    unfolding w_def by (rule fold_window_inv) (use assms(4) in \<open>simp add: window_inv_def\<close>)
  have "add64 now W = now + W" by (rule add64_eq) (use assms in \<open>auto simp: in_i64_def MaxInt64_def\<close>)
  then have "window_result (fixedWindowStep W now r w) =
      (case window_result w of (used, start) \<Rightarrow>
         if start = 0 then (usage_Quota r, now) else (add64 used (usage_Quota r), start))"
    using inv assms by (auto simp: fixedWindowStep_def window_result_def window_inv_def add64_def i64_id Let_def)
  then show ?thesis using assms(1,4) by (simp add: fixed_details_result w_def)
qed

lemma insort_key_append_max: "f y \<le> f x \<Longrightarrow> insort_key f y (zs @ [x]) = insort_key f y zs @ [x]"
  by (induction zs) auto

lemma sort_key_append_max:
  "\<forall>y \<in> set xs. f y \<le> f x \<Longrightarrow> sort_key f (xs @ [x]) = sort_key f xs @ [x]"
  by (induction xs) (auto simp: insort_key_append_max)

lemma fiveHourDetails_used5h [simp]:
  "det_Used5h (fiveHourDetails s rs l now) = fst (valuePackageFixedWindowUsageDetails
     (filter (\<lambda>r. counted_record s now r \<and> \<not> (l > 0 \<and> usage_CreatedAt r < l)) rs)
     valuePackage5hWindowSeconds now)"
  by (simp add: fiveHourDetails_def Let_def split: prod.split)

lemma fiveHourDetails_used7d [simp]: "det_Used7d (fiveHourDetails s rs l now) = 0"
  by (simp add: fiveHourDetails_def Let_def zero_details_def split: prod.split)

lemma fold_used7d_frame [simp]:
  "det_Used5h (fold (\<lambda>r d. d\<lparr>det_Used7d := f d r, det_Earliest7dCreatedAt := g d r\<rparr>) rs d) =
     det_Used5h d"
  by (induction rs arbitrary: d) auto

lemma fold_used7d:
  "in_i64 (det_Used7d d) \<Longrightarrow> det_Used7d (fold (\<lambda>r d. d\<lparr>det_Used7d := add64 (det_Used7d d) (usage_Quota r),
       det_Earliest7dCreatedAt := g d r\<rparr>) rs d) = i64 (det_Used7d d + quota_sum rs)"
  by (induction rs arbitrary: d) (auto simp: add64_def i64_id add.assoc)

lemma sevenDayDetails_used5h [simp]: "det_Used5h (sevenDayDetails s p rs l now d) = det_Used5h d"
  by (simp add: sevenDayDetails_def Let_def)

text \<open>The records counted in the current seven-day stage, and the stage itself.\<close>

definition stage_window :: "UserSubscription \<Rightarrow> int \<Rightarrow> valuePackageAnchoredWindow" where
  "stage_window s now = calcValuePackageAnchoredWindow
     (valuePackageSubscriptionAnchorStart s now) (sub_EndTime s) valuePackage7dWindowSeconds now"

definition stage_record ::
  "UserSubscription \<Rightarrow> int \<Rightarrow> int \<Rightarrow> ValuePackageUsageRecord \<Rightarrow> bool" where
  "stage_record s l now r \<longleftrightarrow> counted_record s now r \<and>
     max l (win_Start (stage_window s now)) \<le> usage_CreatedAt r \<and>
     usage_CreatedAt r < win_End (stage_window s now)"

lemma no_window_start: "startTime \<le> 0 \<Longrightarrow> calcValuePackageAnchoredWindow startTime e W n = no_window"
  by (simp add: calcValuePackageAnchoredWindow_def)

lemma sevenDayDetails_used7d:
  assumes "valuePackageHas7dWindow p" "det_Used7d d = 0"
    and "0 < win_Start (stage_window s now)" "0 < win_End (stage_window s now)"
  shows "det_Used7d (sevenDayDetails s p rs l now d) =
    i64 (quota_sum (filter (stage_record s l now) rs))"
proof -
  have a: "0 < valuePackageSubscriptionAnchorStart s now"
    using assms(3) by (cases "valuePackageSubscriptionAnchorStart s now \<le> 0")
      (simp_all add: no_window_start stage_window_def no_window_def)
  have "(if l > w then l else w) = max l w" for w :: int by auto
  moreover have "valuePackageResetClears7d p"
    using assms(1) by (simp add: valuePackageHas7dWindow_def valuePackageResetClears7d_def)
  moreover have "in_i64 0" by (simp add: in_i64_def)
  ultimately show ?thesis
    using assms a unfolding sevenDayDetails_def stage_record_def stage_window_def [symmetric]
    by (simp add: Let_def fold_used7d stage_window_def [symmetric] not_less not_le conj_assoc)
qed

section \<open>Anchored stages\<close>

text \<open>Without overflow, the window is the stage of the grid anchored at the start of the
  subscription that contains the current time, cut at the end of the subscription.\<close>

lemma anchored_window:
  fixes start e W now n :: int
  assumes "0 < start" "0 < W" "n = max now start" "n + W \<le> MaxInt64"
  defines "S \<equiv> start + (n - start) div W * W"
  defines "T \<equiv> (if e > 0 \<and> S + W > e then e else S + W)"
  shows "calcValuePackageAnchoredWindow start e W now =
      (if T \<le> S then no_window else \<lparr>win_Start = S, win_End = T\<rparr>)"
    and "S \<le> n" and "n < S + W"
proof -
  have m: "(n - start) div W * W = n - start - (n - start) mod W"
    by (simp add: minus_mod_eq_div_mult)
  have b: "0 \<le> (n - start) mod W" "(n - start) mod W < W" using assms(2) by simp_all
  show S: "S \<le> n" "n < S + W" using m b by (simp_all add: S_def)
  have k: "0 \<le> (n - start) div W" using assms(2,3) by (simp add: pos_imp_zdiv_nonneg_iff)
  have kw: "0 \<le> (n - start) div W * W" using k assms(2) by simp
  have "sub64 n start = n - start"
    using assms by (intro sub64_eq) (auto simp: in_i64_def MaxInt64_def)
  moreover have "quot64 (n - start) W = (n - start) div W"
    using assms(1-4) k zdiv_mono2 [of "n - start" 1 W] by (intro quot64_eq) (auto simp: in_i64_def MaxInt64_def)
  moreover have "mul64 ((n - start) div W) W = (n - start) div W * W"
    using assms(1-4) kw m b by (intro mul64_eq) (auto simp: in_i64_def MaxInt64_def)
  moreover have "add64 start ((n - start) div W * W) = S"
    using S kw assms(1,2,4) unfolding S_def by (intro add64_eq) (auto simp: in_i64_def MaxInt64_def)
  moreover have "add64 S W = S + W"
    using S kw assms(1,2,4) unfolding S_def by (intro add64_eq) (auto simp: in_i64_def MaxInt64_def)
  moreover have "(if now \<le> 0 \<or> now < start then start else now) = n"
    using assms(1,3) by auto
  ultimately show "calcValuePackageAnchoredWindow start e W now =
      (if T \<le> S then no_window else \<lparr>win_Start = S, win_End = T\<rparr>)"
    using assms(1,2) unfolding calcValuePackageAnchoredWindow_def T_def Let_def by simp
qed

lemma stage_window_facts:
  assumes "0 < sub_StartTime s" and "sub_StartTime s \<le> now" and "now < sub_EndTime s"
    and "now + valuePackage7dWindowSeconds \<le> MaxInt64"
  defines "w \<equiv> stage_window s now"
  shows "win_Start w \<le> now \<and> now < win_End w \<and> sub_StartTime s \<le> win_Start w \<and>
    valuePackage7dWindowSeconds dvd win_Start w - sub_StartTime s \<and>
    win_End w = min (sub_EndTime s) (win_Start w + valuePackage7dWindowSeconds)"
proof -
  let ?W = valuePackage7dWindowSeconds and ?a = "sub_StartTime s"
  have W: "0 < ?W" by (simp add: valuePackage7dWindowSeconds_def)
  have "valuePackageSubscriptionAnchorStart s now = ?a"
    using assms(1) by (simp add: valuePackageSubscriptionAnchorStart_def)
  moreover define S where "S = ?a + (now - ?a) div ?W * ?W"
  have m: "now = max now ?a" using assms(2) by simp
  note b = anchored_window(2,3) [OF assms(1) W m assms(4), folded S_def]
  have e: "0 < sub_EndTime s" and S: "?a \<le> S" "?W dvd S - ?a"
    using W assms(1-3) by (simp_all add: S_def pos_imp_zdiv_nonneg_iff)
  have "calcValuePackageAnchoredWindow ?a (sub_EndTime s) ?W now =
      \<lparr>win_Start = S, win_End = min (sub_EndTime s) (S + ?W)\<rparr>"
    using anchored_window(1) [OF assms(1) W m assms(4), of "sub_EndTime s", folded S_def] b e assms(3) W
    by (auto simp: min_def split: if_splits)
  ultimately have "w = \<lparr>win_Start = S, win_End = min (sub_EndTime s) (S + ?W)\<rparr>"
    by (simp add: w_def stage_window_def)
  then show ?thesis using b S assms(3) by simp
qed

section \<open>Properties\<close>

text \<open>C11. The one-pass computation of the five-hour window equals the reference definition:
  cut the records, in the order of their creation, into windows each opened by the first
  record at or after the end of the one before; the result is the total and the start of the
  last window if it has not ended, and nothing otherwise.\<close>

theorem fixed_window_reference:
  assumes "good_records now rs" and "0 < W" and "0 < now" and "now + W \<le> MaxInt64"
  shows "valuePackageFixedWindowUsageDetails rs W now = live_window W now (windows W rs)"
proof -
  have "\<forall>x \<in> set rs. 0 \<le> usage_CreatedAt x" using assms(1) by (auto simp: good_records_def)
  then show ?thesis using assms by (simp add: fixed_details_result fold_windows)
qed

theorem fixed_window_reference_witness:
  "let r = (\<lambda>t q. zero_usage\<lparr>usage_CreatedAt := t, usage_Quota := q\<rparr>);
       rs = [r 100 5, r 150 7, r 18100 11, r 18200 13] in
   valuePackageFixedWindowUsageDetails rs 18000 20000 =
     live_window 18000 20000 (windows 18000 rs) \<and>
   windows 18000 rs = [(100, 12), (18100, 24)]"
  unfolding Let_def
  by (subst fixed_window_reference) (simp_all add: good_records_def MaxInt64_def)

text \<open>C12. The seven-day stage of a running subscription: it lies on the grid of seven-day
  steps from the anchor, contains the current time, is at most seven days long and does not
  pass the end of the subscription.\<close>

theorem stage_window_contains_now:
  assumes "0 < sub_StartTime s" and "sub_StartTime s \<le> now" and "now < sub_EndTime s"
    and "now + valuePackage7dWindowSeconds \<le> MaxInt64"
  defines "w \<equiv> stage_window s now"
  shows "win_Start w \<le> now \<and> now < win_End w \<and> sub_StartTime s \<le> win_Start w \<and>
    valuePackage7dWindowSeconds dvd win_Start w - sub_StartTime s \<and>
    win_End w = min (sub_EndTime s) (win_Start w + valuePackage7dWindowSeconds)"
  using assms(1-4) unfolding w_def by (rule stage_window_facts)

theorem stage_window_contains_now_witness:
  "win_Start (stage_window (zero_sub\<lparr>sub_StartTime := 1000, sub_EndTime := 2593000\<rparr>) 700000) \<le> 700000 \<and>
   stage_window (zero_sub\<lparr>sub_StartTime := 1000, sub_EndTime := 2593000\<rparr>) 700000 =
     \<lparr>win_Start = 605800, win_End = 1210600\<rparr>"
proof -
  have "stage_window (zero_sub\<lparr>sub_StartTime := 1000, sub_EndTime := 2593000\<rparr>) 700000 =
     \<lparr>win_Start = 605800, win_End = 1210600\<rparr>"
    using anchored_window(1) [of 1000 604800 700000 700000 2593000]
    by (simp add: stage_window_def valuePackageSubscriptionAnchorStart_def
        valuePackage7dWindowSeconds_def MaxInt64_def)
  then show ?thesis
    using stage_window_contains_now
      [of "zero_sub\<lparr>sub_StartTime := 1000, sub_EndTime := 2593000\<rparr>" 700000]
    by (simp add: valuePackage7dWindowSeconds_def MaxInt64_def)
qed

text \<open>C17. What the user is shown is consistent: for a package of one of the three types the
  summary says exhausted exactly when one of the listed period limits is reached.\<close>

theorem summary_exhausted_iff_limited:
  assumes "IsValuePackage p"
    and "plan_PackageType p \<in> {ValuePackageTypeDay, ValuePackageTypeWeek, ValuePackageTypeMonth}"
  shows "sum_Exhausted (buildValuePackageUsageSummaryFromDetails s p det) \<longleftrightarrow>
    (\<exists>q \<in> set (buildValuePackagePeriodLimits s p det). per_Limited q)"
  using assms
  by (auto simp: buildValuePackageUsageSummaryFromDetails_def buildValuePackagePeriodLimits_def
      valuePackageHas7dWindow_def valuePackageClampNonNegative_def Let_def const_defs)

theorem summary_exhausted_iff_limited_witness:
  "sum_Exhausted (buildValuePackageUsageSummaryFromDetails
     (zero_sub\<lparr>sub_AmountTotal := 100, sub_AmountUsed := 40\<rparr>)
     (zero_plan\<lparr>plan_PlanKind := ''value_package'', plan_PackageType := ''week'', plan_Limit5hAmount := 30\<rparr>)
     (zero_details\<lparr>det_Used5h := 30\<rparr>))"
  by (subst summary_exhausted_iff_limited)
     (simp_all add: IsValuePackage_def const_defs buildValuePackagePeriodLimits_def
       valuePackageClampNonNegative_def zero_plan_def zero_details_def)

end
