(* ===== verification/Packages.thy ===== *)
theory Packages
  imports Windows
begin

text \<open>
  Subscription rows of a user (\<open>src/model/subscription.go\<close>): saving and creating a row with
  its time stamps, the active value packages and the highest one, the regular subscriptions,
  the statistics per plan, and the renewal of a package's quota at the end of a cycle
  (\<open>maybeAdvanceValuePackageCycleTx\<close>).

  The quota account of a subscription is its \<open>AmountUsed\<close> in its current quota epoch; a
  renewal closes the account (it logs what was used) and opens an empty one in the next
  epoch.
\<close>

section \<open>Writing a row\<close>

text \<open>\<open>tx.Save\<close> and \<open>tx.Create\<close> with the \<open>BeforeUpdate\<close> and \<open>BeforeCreate\<close> hooks.\<close>

definition stampSub :: "env \<Rightarrow> UserSubscription \<Rightarrow> UserSubscription" where
  "stampSub E s = s\<lparr>sub_UpdatedAt := GetTimestamp E\<rparr>"

definition saveSub :: "env \<Rightarrow> UserSubscription \<Rightarrow> db \<Rightarrow> db" where
  "saveSub E s d = d\<lparr>subs := save_row sub_Id (stampSub E s) (subs d)\<rparr>"

definition newSub :: "env \<Rightarrow> UserSubscription \<Rightarrow> db \<Rightarrow> UserSubscription" where
  "newSub E s d =
     new_row set_sub_Id (s\<lparr>sub_CreatedAt := GetTimestamp E, sub_UpdatedAt := GetTimestamp E\<rparr>) (subs d)"

definition createSub :: "env \<Rightarrow> UserSubscription \<Rightarrow> db \<Rightarrow> db" where
  "createSub E s d = d\<lparr>subs := insert_row set_sub_Id
     (s\<lparr>sub_CreatedAt := GetTimestamp E, sub_UpdatedAt := GetTimestamp E\<rparr>) (subs d)\<rparr>"

definition createReset :: "env \<Rightarrow> ValuePackageQuotaReset \<Rightarrow> db \<Rightarrow> db" where
  "createReset E r d = d\<lparr>resets := insert_row set_reset_Id
     (if reset_ResetAt r = 0 then r\<lparr>reset_ResetAt := GetTimestamp E\<rparr> else r) (resets d)\<rparr>"

section \<open>Lookups\<close>

fun filterSubscriptions ::
  "(SubscriptionPlan \<Rightarrow> bool) \<Rightarrow> db \<Rightarrow> UserSubscription list \<Rightarrow> merr + UserSubscription list" where
  "filterSubscriptions keep d [] = Inr []"
| "filterSubscriptions keep d (s # ss) =
     bind_e (getSubscriptionPlanByIdFreshTx (sub_PlanId s) d)
       (\<lambda>p. bind_e (filterSubscriptions keep d ss)
         (\<lambda>out. Inr (if keep (normalizeValuePackagePlan p) then s # out else out)))"

definition activeSub :: "int \<Rightarrow> int \<Rightarrow> UserSubscription \<Rightarrow> bool" where
  "activeSub userId now s \<longleftrightarrow> sub_UserId s = userId \<and>
     sub_Status s = UserSubscriptionStatusActive \<and> sub_EndTime s > now"

definition getActiveValuePackageSubscriptionsTx ::
  "int \<Rightarrow> int \<Rightarrow> db \<Rightarrow> merr + UserSubscription list" where
  "getActiveValuePackageSubscriptionsTx userId now d =
     filterSubscriptions IsValuePackage d
       (sort_key (\<lambda>s. (- sub_EndTime s, - sub_Id s)) (select_where (activeSub userId now) (subs d)))"

definition betterPackage ::
  "UserSubscription \<Rightarrow> SubscriptionPlan \<Rightarrow> (UserSubscription \<times> SubscriptionPlan) option \<Rightarrow>
     (UserSubscription \<times> SubscriptionPlan) option" where
  "betterPackage s p best =
     (case best of None \<Rightarrow> Some (s, p)
      | Some (bestSub, bestPlan) \<Rightarrow>
          if plan_PackageLevel p > plan_PackageLevel bestPlan \<or>
             plan_PackageLevel p = plan_PackageLevel bestPlan \<and> sub_EndTime s > sub_EndTime bestSub
          then Some (s, p) else best)"

fun highestOf ::
  "db \<Rightarrow> UserSubscription list \<Rightarrow> (UserSubscription \<times> SubscriptionPlan) option \<Rightarrow>
     merr + (UserSubscription \<times> SubscriptionPlan) option" where
  "highestOf d [] best = Inr best"
| "highestOf d (s # ss) best =
     bind_e (getSubscriptionPlanByIdFreshTx (sub_PlanId s) d)
       (\<lambda>p. highestOf d ss (betterPackage s (normalizeValuePackagePlan p) best))"

definition getHighestActiveValuePackageTx ::
  "int \<Rightarrow> int \<Rightarrow> db \<Rightarrow> merr + (UserSubscription \<times> SubscriptionPlan) option" where
  "getHighestActiveValuePackageTx userId now d =
     bind_e (getActiveValuePackageSubscriptionsTx userId now d) (\<lambda>ss. highestOf d ss None)"

text \<open>Outside a transaction the plans come through the cache.\<close>

fun filterRegularUserSubscriptionsTx ::
  "UserSubscription list \<Rightarrow> db \<Rightarrow> (merr + UserSubscription list) \<times> db" where
  "filterRegularUserSubscriptionsTx [] d = (Inr [], d)"
| "filterRegularUserSubscriptionsTx (s # ss) d =
     (case GetSubscriptionPlanById (sub_PlanId s) d of
        (Inl e, d1) \<Rightarrow> (Inl e, d1)
      | (Inr p, d1) \<Rightarrow>
         (case filterRegularUserSubscriptionsTx ss d1 of
            (Inl e, d2) \<Rightarrow> (Inl e, d2)
          | (Inr out, d2) \<Rightarrow>
              (Inr (if IsValuePackage (normalizeValuePackagePlan p) then out else s # out), d2)))"

definition GetAllActiveUserSubscriptions ::
  "env \<Rightarrow> int \<Rightarrow> db \<Rightarrow> (merr + UserSubscription list) \<times> db" where
  "GetAllActiveUserSubscriptions E userId d =
     (if userId \<le> 0 then (Inl (UserE ErrInvalidUserId), d)
      else filterRegularUserSubscriptionsTx
        (sort_key (\<lambda>s. (- sub_EndTime s, - sub_Id s))
          (select_where (activeSub userId (GetTimestamp E)) (subs d))) d)"

definition GetAllUserSubscriptions :: "int \<Rightarrow> db \<Rightarrow> (merr + UserSubscription list) \<times> db" where
  "GetAllUserSubscriptions userId d =
     (if userId \<le> 0 then (Inl (UserE ErrInvalidUserId), d)
      else filterRegularUserSubscriptionsTx
        (sort_key (\<lambda>s. (- sub_EndTime s, - sub_Id s))
          (select_where (\<lambda>s. sub_UserId s = userId) (subs d))) d)"

definition HasActiveUserSubscription :: "env \<Rightarrow> int \<Rightarrow> db \<Rightarrow> merr + bool" where
  "HasActiveUserSubscription E userId d =
     (if userId \<le> 0 then Inl (UserE ErrInvalidUserId)
      else Inr (list_ex (\<lambda>s. activeSub userId (GetTimestamp E) s \<and>
             list_ex (\<lambda>p. plan_Id p = sub_PlanId s \<and>
               plan_PlanKind p \<in> {SubscriptionPlanKindSubscription, ''''}) (rows (plans d)))
             (rows (subs d))))"

definition CountUserSubscriptionsByPlan :: "int \<Rightarrow> int \<Rightarrow> db \<Rightarrow> merr + int" where
  "CountUserSubscriptionsByPlan userId planId d =
     (if userId \<le> 0 \<or> planId \<le> 0 then Inl (UserE ErrInvalidUserOrPlanId)
      else Inr (affected (\<lambda>s. sub_UserId s = userId \<and> sub_PlanId s = planId) (subs d)))"

section \<open>Statistics per plan\<close>

record SubscriptionPlanStats =
  stat_ActiveUserCount :: int
  stat_ActiveSubscriptionCount :: int
  stat_RemainingAmount :: int
  stat_UnlimitedCount :: int

definition zero_stats :: SubscriptionPlanStats where
  "zero_stats = \<lparr>stat_ActiveUserCount = 0, stat_ActiveSubscriptionCount = 0,
     stat_RemainingAmount = 0, stat_UnlimitedCount = 0\<rparr>"

definition statsStep ::
  "UserSubscription \<Rightarrow> (int \<Rightarrow> SubscriptionPlanStats option) \<times> (int \<Rightarrow> int list) \<Rightarrow>
     (int \<Rightarrow> SubscriptionPlanStats option) \<times> (int \<Rightarrow> int list)" where
  "statsStep s acc =
     (case acc of (stats, usersByPlan) \<Rightarrow>
        let planId = sub_PlanId s;
            stat0 = (case stats planId of None \<Rightarrow> zero_stats | Some x \<Rightarrow> x);
            stat1 = stat0\<lparr>stat_ActiveSubscriptionCount :=
                      add64 (stat_ActiveSubscriptionCount stat0) 1\<rparr>;
            remaining = sub64 (sub_AmountTotal s) (sub_AmountUsed s);
            stat2 = (if sub_AmountTotal s = 0 then
                       stat1\<lparr>stat_UnlimitedCount := add64 (stat_UnlimitedCount stat1) 1\<rparr>
                     else if remaining > 0 then
                       stat1\<lparr>stat_RemainingAmount := add64 (stat_RemainingAmount stat1) remaining\<rparr>
                     else stat1)
        in (stats(planId := Some stat2),
            usersByPlan(planId := List.insert (sub_UserId s) (usersByPlan planId))))"

definition GetSubscriptionPlanStatsMap ::
  "env \<Rightarrow> int \<Rightarrow> db \<Rightarrow> (int \<Rightarrow> SubscriptionPlanStats option)" where
  "GetSubscriptionPlanStatsMap E now0 d =
     (let now = (if now0 \<le> 0 then GetTimestamp E else now0);
          active = select_where (\<lambda>s. sub_Status s = ''active'' \<and> sub_EndTime s > now) (subs d)
      in case fold statsStep active (\<lambda>_. None, \<lambda>_. []) of (stats, usersByPlan) \<Rightarrow>
        (\<lambda>planId. map_option (\<lambda>stat.
           stat\<lparr>stat_ActiveUserCount := int (length (usersByPlan planId))\<rparr>) (stats planId)))"

section \<open>Cycle renewal\<close>

definition maybeAdvanceValuePackageCycleTx ::
  "env \<Rightarrow> UserSubscription \<Rightarrow> SubscriptionPlan \<Rightarrow> int \<Rightarrow> db \<Rightarrow> merr + UserSubscription \<times> db" where
  "maybeAdvanceValuePackageCycleTx E s p now d =
     (let cycleSeconds = valuePackageCycleSeconds p in
      if cycleSeconds \<le> 0 \<or> sub_StartTime s \<le> 0 \<or> now < add64 (sub_StartTime s) cycleSeconds
      then Inr (s, d)
      else
        let completedCycles = quot64 (sub64 now (sub_StartTime s)) cycleSeconds;
            cycleStart = add64 (sub_StartTime s) (mul64 completedCycles cycleSeconds);
            lastCycleStart = (if sub_LastResetTime s < sub_StartTime s
                              then sub_StartTime s else sub_LastResetTime s)
        in if cycleStart \<le> lastCycleStart then Inr (s, d)
        else if sub_QuotaEpoch s = MaxInt64 then Inl (QuotaE ErrQuotaEpochOverflow)
        else
          let nextCycleStart = add64 cycleStart cycleSeconds;
              s1 = s\<lparr>sub_AmountUsed := 0, sub_QuotaEpoch := sub_QuotaEpoch s + 1,
                     sub_LastResetTime := cycleStart,
                     sub_NextResetTime :=
                       (if sub_EndTime s > 0 \<and> nextCycleStart \<ge> sub_EndTime s then 0
                        else nextCycleStart)\<rparr>;
              r = zero_reset\<lparr>reset_UserId := sub_UserId s, reset_UserSubscriptionId := sub_Id s,
                    reset_PlanId := sub_PlanId s, reset_PackageType := plan_PackageType p,
                    reset_ResetAt := cycleStart, reset_FromEpoch := sub_QuotaEpoch s,
                    reset_ToEpoch := sub_QuotaEpoch s1, reset_AmountUsedBefore := sub_AmountUsed s,
                    reset_Source := ValuePackageQuotaResetSourceCycleRenewal,
                    reset_Note := ''fixed package cycle renewal''\<rparr>
          in Inr (stampSub E s1, saveSub E s1 (createReset E r d)))"

definition maybeResetUserSubscriptionWithPlanTx ::
  "env \<Rightarrow> UserSubscription \<Rightarrow> SubscriptionPlan \<Rightarrow> int \<Rightarrow> db \<Rightarrow> (UserSubscription \<times> db) option" where
  "maybeResetUserSubscriptionWithPlanTx E s p now d =
     (if sub_NextResetTime s > 0 \<and> sub_NextResetTime s > now then Some (s, d)
      else if NormalizeResetPeriod (plan_QuotaResetPeriod p) = SubscriptionResetNever
      then Some (s, d)
      else
        let nextOf = (\<lambda>b. calcNextResetTime (env_TZ E) b p (sub_EndTime s));
            baseUnix = (if sub_LastResetTime s \<le> 0 then sub_StartTime s else sub_LastResetTime s)
        in case resetLoop nextOf now False baseUnix (nextOf baseUnix) of
             None \<Rightarrow> None
           | Some (advanced, base, nxt) \<Rightarrow>
               if \<not> advanced then
                 if sub_NextResetTime s = 0 \<and> nxt > 0 then
                   let s1 = s\<lparr>sub_NextResetTime := nxt, sub_LastResetTime := base\<rparr>
                   in Some (stampSub E s1, saveSub E s1 d)
                 else Some (s, d)
               else
                 let s1 = s\<lparr>sub_AmountUsed := 0, sub_LastResetTime := base,
                            sub_NextResetTime := nxt\<rparr>
                 in Some (stampSub E s1, saveSub E s1 d))"

section \<open>Frame facts\<close>

lemma stampSub_fields [simp]:
  "sub_Id (stampSub E s) = sub_Id s" "sub_UserId (stampSub E s) = sub_UserId s"
  "sub_PlanId (stampSub E s) = sub_PlanId s" "sub_AmountTotal (stampSub E s) = sub_AmountTotal s"
  "sub_AmountUsed (stampSub E s) = sub_AmountUsed s" "sub_QuotaEpoch (stampSub E s) = sub_QuotaEpoch s"
  "sub_StartTime (stampSub E s) = sub_StartTime s" "sub_EndTime (stampSub E s) = sub_EndTime s"
  "sub_Status (stampSub E s) = sub_Status s" "sub_LastResetTime (stampSub E s) = sub_LastResetTime s"
  "sub_NextResetTime (stampSub E s) = sub_NextResetTime s"
  "sub_UpgradeGroup (stampSub E s) = sub_UpgradeGroup s"
  "sub_PrevUserGroup (stampSub E s) = sub_PrevUserGroup s" "sub_CreatedAt (stampSub E s) = sub_CreatedAt s"
  by (simp_all add: stampSub_def)

lemma saveSub_tables [simp]:
  "plans (saveSub E s d) = plans d" "orders (saveSub E s d) = orders d"
  "prefs (saveSub E s d) = prefs d" "usages (saveSub E s d) = usages d"
  "resets (saveSub E s d) = resets d" "ledgers (saveSub E s d) = ledgers d"
  "pres (saveSub E s d) = pres d" "users (saveSub E s d) = users d"
  "topups (saveSub E s d) = topups d" "commissions (saveSub E s d) = commissions d"
  by (simp_all add: saveSub_def)

lemma createSub_tables [simp]:
  "plans (createSub E s d) = plans d" "orders (createSub E s d) = orders d"
  "prefs (createSub E s d) = prefs d" "usages (createSub E s d) = usages d"
  "resets (createSub E s d) = resets d" "ledgers (createSub E s d) = ledgers d"
  "pres (createSub E s d) = pres d" "users (createSub E s d) = users d"
  "topups (createSub E s d) = topups d" "commissions (createSub E s d) = commissions d"
  by (simp_all add: createSub_def)

lemma createReset_tables [simp]:
  "plans (createReset E r d) = plans d" "orders (createReset E r d) = orders d"
  "subs (createReset E r d) = subs d" "prefs (createReset E r d) = prefs d"
  "usages (createReset E r d) = usages d" "ledgers (createReset E r d) = ledgers d"
  "pres (createReset E r d) = pres d" "users (createReset E r d) = users d"
  "topups (createReset E r d) = topups d" "commissions (createReset E r d) = commissions d"
  by (simp_all add: createReset_def)

lemma rows_saveSub [simp]:
  "rows (subs (saveSub E s d)) = map (\<lambda>x. if sub_Id x = sub_Id s then stampSub E s else x) (rows (subs d))"
  by (simp add: saveSub_def rows_save_row)

lemma rows_createSub [simp]: "rows (subs (createSub E s d)) = rows (subs d) @ [newSub E s d]"
  by (simp add: createSub_def newSub_def)

section \<open>The highest package\<close>

text \<open>What the two lookups promise, over the set of running packages of a user.\<close>

definition runningPackage :: "int \<Rightarrow> int \<Rightarrow> db \<Rightarrow> UserSubscription \<Rightarrow> SubscriptionPlan \<Rightarrow> bool" where
  "runningPackage userId now d s p \<longleftrightarrow> s \<in> set (rows (subs d)) \<and> activeSub userId now s \<and>
     (\<exists>p0. getSubscriptionPlanByIdFreshTx (sub_PlanId s) d = Inr p0 \<and> p = normalizeValuePackagePlan p0) \<and>
     IsValuePackage p"

definition atLeast :: "UserSubscription \<times> SubscriptionPlan \<Rightarrow> UserSubscription \<times> SubscriptionPlan \<Rightarrow> bool" where
  "atLeast a b \<longleftrightarrow> plan_PackageLevel (snd b) < plan_PackageLevel (snd a) \<or>
     plan_PackageLevel (snd b) = plan_PackageLevel (snd a) \<and> sub_EndTime (fst b) \<le> sub_EndTime (fst a)"

lemma filterSubscriptions_set:
  "filterSubscriptions keep d ss = Inr out \<Longrightarrow>
     s \<in> set out \<longleftrightarrow> s \<in> set ss \<and> (\<exists>p. getSubscriptionPlanByIdFreshTx (sub_PlanId s) d = Inr p \<and>
        keep (normalizeValuePackagePlan p))"
  by (induction ss arbitrary: out) (auto simp: res_simps split: if_splits)

lemma atLeast_trans: "atLeast a b \<Longrightarrow> atLeast b c \<Longrightarrow> atLeast a c"
  by (auto simp: atLeast_def)

lemma atLeast_refl [simp]: "atLeast a a"
  by (simp add: atLeast_def)

lemma betterPackage_max:
  assumes "betterPackage s p best = Some b"
  shows "atLeast b (s, p)" and "best = Some c \<Longrightarrow> atLeast b c" and "b = (s, p) \<or> best = Some b"
  using assms by (auto simp: betterPackage_def atLeast_def split: option.splits if_splits prod.splits)

lemma betterPackage_Some: "\<exists>b. betterPackage s p best = Some b"
  by (auto simp: betterPackage_def split: option.split prod.split)

lemma highestOf_max:
  assumes "highestOf d ss best = Inr r"
  shows "(r = None \<longleftrightarrow> ss = [] \<and> best = None) \<and>
    (\<forall>b. r = Some b \<longrightarrow>
       (best = Some b \<or> (\<exists>s p. s \<in> set ss \<and> getSubscriptionPlanByIdFreshTx (sub_PlanId s) d = Inr p \<and>
                           b = (s, normalizeValuePackagePlan p))) \<and>
       (\<forall>c. best = Some c \<longrightarrow> atLeast b c) \<and>
       (\<forall>s p. s \<in> set ss \<longrightarrow> getSubscriptionPlanByIdFreshTx (sub_PlanId s) d = Inr p \<longrightarrow>
          atLeast b (s, normalizeValuePackagePlan p)))"
  using assms
proof (induction ss arbitrary: best)
  case Nil
  then show ?case by auto
next
  case (Cons s ss)
  then obtain p where p: "getSubscriptionPlanByIdFreshTx (sub_PlanId s) d = Inr p"
    and r: "highestOf d ss (betterPackage s (normalizeValuePackagePlan p) best) = Inr r"
    by (auto simp: res_simps)
  obtain b0 where b0: "betterPackage s (normalizeValuePackagePlan p) best = Some b0"
    using betterPackage_Some by blast
  from betterPackage_max [OF b0] Cons.IH [OF r] p b0 show ?case
    by (auto intro: atLeast_trans)
qed

section \<open>Cycle renewal\<close>

lemma cycle_positive: "0 < valuePackageCycleSeconds p \<Longrightarrow> valuePackageCycleSeconds p \<le> 2592000"
  by (simp add: valuePackageCycleSeconds_def split: if_splits)

text \<open>The start of the cycle that contains \<open>now\<close>, without overflow.\<close>

definition cycle_start :: "UserSubscription \<Rightarrow> SubscriptionPlan \<Rightarrow> int \<Rightarrow> int" where
  "cycle_start s p now = sub_StartTime s +
     (now - sub_StartTime s) div valuePackageCycleSeconds p * valuePackageCycleSeconds p"

lemma cycle_start_bounds:
  assumes "0 < valuePackageCycleSeconds p"
  shows "cycle_start s p now \<le> now" and "now < cycle_start s p now + valuePackageCycleSeconds p"
proof -
  let ?c = "valuePackageCycleSeconds p"
  have m: "(now - sub_StartTime s) div ?c * ?c = now - sub_StartTime s - (now - sub_StartTime s) mod ?c"
    by (simp add: minus_mod_eq_div_mult)
  have "0 \<le> (now - sub_StartTime s) mod ?c" "(now - sub_StartTime s) mod ?c < ?c"
    using assms by simp_all
  then show "cycle_start s p now \<le> now" "now < cycle_start s p now + ?c"
    using m by (simp_all add: cycle_start_def)
qed

lemma cycle_start_code:
  assumes "0 < valuePackageCycleSeconds p" "0 < sub_StartTime s" "sub_StartTime s \<le> now"
    and "now + valuePackageCycleSeconds p \<le> MaxInt64"
  shows "add64 (sub_StartTime s) (valuePackageCycleSeconds p) =
           sub_StartTime s + valuePackageCycleSeconds p"
    and "add64 (sub_StartTime s) (mul64 (quot64 (sub64 now (sub_StartTime s))
           (valuePackageCycleSeconds p)) (valuePackageCycleSeconds p)) = cycle_start s p now"
    and "add64 (cycle_start s p now) (valuePackageCycleSeconds p) =
           cycle_start s p now + valuePackageCycleSeconds p"
    and "sub_StartTime s \<le> cycle_start s p now"
proof -
  let ?c = "valuePackageCycleSeconds p" and ?a = "sub_StartTime s"
  let ?k = "(now - ?a) div ?c"
  note b = cycle_start_bounds [OF assms(1), where s = s and now = now]
  have k: "0 \<le> ?k" using assms(1,3) by (simp add: pos_imp_zdiv_nonneg_iff)
  then have kc: "0 \<le> ?k * ?c" using assms(1) by simp
  then show "?a \<le> cycle_start s p now" by (simp add: cycle_start_def)
  show "add64 ?a ?c = ?a + ?c"
    using assms by (intro add64_eq) (auto simp: in_i64_def MaxInt64_def)
  show "add64 (cycle_start s p now) ?c = cycle_start s p now + ?c"
    using assms b kc by (intro add64_eq) (auto simp: in_i64_def MaxInt64_def cycle_start_def)
  have "sub64 now ?a = now - ?a"
    using assms by (intro sub64_eq) (auto simp: in_i64_def MaxInt64_def)
  moreover have "quot64 (now - ?a) ?c = ?k"
    using assms by (intro quot64_eq) (auto simp: in_i64_def MaxInt64_def)
  moreover have "mul64 ?k ?c = ?k * ?c"
    using assms b kc by (intro mul64_eq) (auto simp: in_i64_def MaxInt64_def cycle_start_def)
  moreover have "add64 ?a (?k * ?c) = cycle_start s p now"
    using assms b kc unfolding cycle_start_def
    by (intro add64_eq) (auto simp: in_i64_def MaxInt64_def cycle_start_def)
  ultimately show "add64 ?a (mul64 (quot64 (sub64 now ?a) ?c) ?c) = cycle_start s p now" by simp
qed

definition cycle_due :: "UserSubscription \<Rightarrow> SubscriptionPlan \<Rightarrow> int \<Rightarrow> bool" where
  "cycle_due s p now \<longleftrightarrow> 0 < valuePackageCycleSeconds p \<and> 0 < sub_StartTime s \<and>
     sub_StartTime s + valuePackageCycleSeconds p \<le> now \<and>
     max (sub_StartTime s) (sub_LastResetTime s) < cycle_start s p now"

definition renewedSub :: "UserSubscription \<Rightarrow> SubscriptionPlan \<Rightarrow> int \<Rightarrow> UserSubscription" where
  "renewedSub s p now = s\<lparr>sub_AmountUsed := 0, sub_QuotaEpoch := sub_QuotaEpoch s + 1,
     sub_LastResetTime := cycle_start s p now,
     sub_NextResetTime := (let nxt = cycle_start s p now + valuePackageCycleSeconds p in
       if sub_EndTime s > 0 \<and> nxt \<ge> sub_EndTime s then 0 else nxt)\<rparr>"

definition renewalRow :: "UserSubscription \<Rightarrow> SubscriptionPlan \<Rightarrow> int \<Rightarrow> ValuePackageQuotaReset" where
  "renewalRow s p now = zero_reset\<lparr>reset_UserId := sub_UserId s, reset_UserSubscriptionId := sub_Id s,
     reset_PlanId := sub_PlanId s, reset_PackageType := plan_PackageType p,
     reset_ResetAt := cycle_start s p now, reset_FromEpoch := sub_QuotaEpoch s,
     reset_ToEpoch := sub_QuotaEpoch s + 1, reset_AmountUsedBefore := sub_AmountUsed s,
     reset_Source := ValuePackageQuotaResetSourceCycleRenewal,
     reset_Note := ''fixed package cycle renewal''\<rparr>"

text \<open>What the renewal does, as three cases: nothing is due, the epoch counter is used up, or
  the quota is renewed. \<open>time_in_range\<close> excludes overflow of the times.\<close>

definition time_in_range :: "int \<Rightarrow> bool" where
  "time_in_range now \<longleftrightarrow> now + 2592000 \<le> MaxInt64"

lemma advance_spec:
  assumes "time_in_range now" and "sub_StartTime s \<le> MaxInt64 - 2592000"
  shows "maybeAdvanceValuePackageCycleTx E s p now d =
    (if \<not> cycle_due s p now then Inr (s, d)
     else if sub_QuotaEpoch s = MaxInt64 then Inl (QuotaE ErrQuotaEpochOverflow)
     else Inr (stampSub E (renewedSub s p now),
               saveSub E (renewedSub s p now) (createReset E (renewalRow s p now) d)))"
proof (cases "0 < valuePackageCycleSeconds p \<and> 0 < sub_StartTime s")
  case True
  let ?c = "valuePackageCycleSeconds p"
  have c: "?c \<le> 2592000" using True cycle_positive by blast
  have a: "add64 (sub_StartTime s) ?c = sub_StartTime s + ?c"
    using True c assms by (intro add64_eq) (auto simp: in_i64_def MaxInt64_def)
  show ?thesis
  proof (cases "sub_StartTime s + ?c \<le> now")
    case late: True
    then have "sub_StartTime s \<le> now" "now + ?c \<le> MaxInt64"
      using True c assms(1) by (simp_all add: time_in_range_def)
    note cc = cycle_start_code [OF conjunct1 [OF True] conjunct2 [OF True] this]
    show ?thesis
      unfolding maybeAdvanceValuePackageCycleTx_def Let_def cc a cycle_due_def renewedSub_def renewalRow_def
      using True late by (simp add: max_def)
  next
    case False
    then show ?thesis using True a
      by (simp add: maybeAdvanceValuePackageCycleTx_def Let_def cycle_due_def)
  qed
next
  case False
  then show ?thesis
    by (auto simp: maybeAdvanceValuePackageCycleTx_def Let_def cycle_due_def)
qed

lemma renewedSub_fields [simp]:
  "sub_Id (renewedSub s p now) = sub_Id s" "sub_UserId (renewedSub s p now) = sub_UserId s"
  "sub_PlanId (renewedSub s p now) = sub_PlanId s"
  "sub_AmountTotal (renewedSub s p now) = sub_AmountTotal s"
  "sub_AmountUsed (renewedSub s p now) = 0"
  "sub_QuotaEpoch (renewedSub s p now) = sub_QuotaEpoch s + 1"
  "sub_StartTime (renewedSub s p now) = sub_StartTime s"
  "sub_EndTime (renewedSub s p now) = sub_EndTime s"
  "sub_Status (renewedSub s p now) = sub_Status s"
  "sub_LastResetTime (renewedSub s p now) = cycle_start s p now"
  by (simp_all add: renewedSub_def)

section \<open>A concrete database\<close>

text \<open>A user with one running monthly package, used by the witnesses of the properties.\<close>

definition ex_plan :: SubscriptionPlan where
  "ex_plan = zero_plan\<lparr>plan_Id := 1, plan_Title := ''monthly'', plan_Enabled := True,
     plan_Currency := ''CNY'', plan_PlanKind := ''value_package'', plan_PackageType := ''month'',
     plan_PackageLevel := 3, plan_ModelGroup := ''vip'', plan_ConcurrencyLimit := 1,
     plan_Limit5hAmount := 500, plan_Limit7dAmount := 800, plan_TotalAmount := 1000,
     plan_DurationUnit := ''day'', plan_DurationValue := 30, plan_AllowBalancePay := Some True\<rparr>"

definition ex_sub :: UserSubscription where
  "ex_sub = zero_sub\<lparr>sub_Id := 7, sub_UserId := 5, sub_PlanId := 1, sub_AmountTotal := 1000,
     sub_AmountUsed := 40, sub_QuotaEpoch := 2, sub_StartTime := 1000, sub_EndTime := 5185000,
     sub_Status := ''active'', sub_LastResetTime := 1000, sub_CreatedAt := 1000\<rparr>"

definition ex_pref :: UserValuePackagePreference where
  "ex_pref = zero_pref\<lparr>pref_Id := 1, pref_UserId := 5, pref_Enabled := True,
     pref_ActiveUserSubscriptionId := 7, pref_ResetCount := 3\<rparr>"

definition ex_usage :: ValuePackageUsageRecord where
  "ex_usage = zero_usage\<lparr>usage_Id := 1, usage_UserId := 5, usage_UserSubscriptionId := 7,
     usage_PlanId := 1, usage_PackageType := ''month'', usage_ModelGroup := ''vip'',
     usage_RequestId := ''r0'', usage_Quota := 40, usage_QuotaEpoch := 2, usage_CreatedAt := 1500\<rparr>"

definition ex_ledger :: ValuePackageResetCountLedger where
  "ex_ledger = zero_ledger\<lparr>ledger_Id := 1, ledger_UserId := 5, ledger_Delta := 3,
     ledger_AfterCount := 3\<rparr>"

definition ex_user :: User where
  "ex_user = zero_user\<lparr>user_Id := 5, user_Username := ''ada'', user_Quota := 700\<rparr>"

definition ex_db :: db where
  "ex_db = empty_db\<lparr>plans := \<lparr>rows = [ex_plan], seq = 1\<rparr>, subs := \<lparr>rows = [ex_sub], seq = 7\<rparr>,
     prefs := \<lparr>rows = [ex_pref], seq = 1\<rparr>, usages := \<lparr>rows = [ex_usage], seq = 1\<rparr>,
     ledgers := \<lparr>rows = [ex_ledger], seq = 1\<rparr>, users := \<lparr>rows = [ex_user], seq = 5\<rparr>\<rparr>"

definition ex_env :: env where
  "ex_env = \<lparr>env_Timestamp = 2000, env_DBClock = Some 2000, env_TZ = 0, env_QuotaPerUnit = 500000,
     env_DecimalCeilMul = (\<lambda>a b. \<lceil>a * b\<rceil>), env_DecimalTruncMul = (\<lambda>a b. \<lfloor>a * b\<rfloor>),
     env_DecimalCents = (\<lambda>m. round (m * 100)),
     env_DecimalRound2 = (\<lambda>m. of_int (round (m * 100)) / 100),
     env_SqlAddFloat = (\<lambda>q x. q + \<lfloor>x\<rfloor>), env_SqlSum = sum_list, env_FreshId = ''id1'',
     env_BatchUpdateEnabled = False\<rparr>"

lemmas ex_defs = ex_plan_def ex_sub_def ex_pref_def ex_usage_def ex_ledger_def ex_user_def

lemma ex_tables [simp]:
  "plans ex_db = \<lparr>rows = [ex_plan], seq = 1\<rparr>" "subs ex_db = \<lparr>rows = [ex_sub], seq = 7\<rparr>"
  "prefs ex_db = \<lparr>rows = [ex_pref], seq = 1\<rparr>" "usages ex_db = \<lparr>rows = [ex_usage], seq = 1\<rparr>"
  "ledgers ex_db = \<lparr>rows = [ex_ledger], seq = 1\<rparr>" "users ex_db = \<lparr>rows = [ex_user], seq = 5\<rparr>"
  "resets ex_db = empty_table" "pres ex_db = empty_table" "orders ex_db = empty_table"
  "topups ex_db = empty_table" "commissions ex_db = empty_table" "withdrawals ex_db = empty_table"
  "receipts ex_db = []" "tokens ex_db = empty_table" "channels ex_db = empty_table"
  "batchUpdateStores ex_db = (\<lambda>_. [])"
  by (simp_all add: ex_db_def empty_db_def)

lemma ex_clock [simp]: "GetTimestamp ex_env = 2000" "getDBTimestampTx ex_env = 2000"
  by (simp_all add: ex_env_def GetTimestamp_def getDBTimestampTx_def)

lemma ex_plan_normal [simp]:
  "IsValuePackage ex_plan" "NormalizeDefaults ex_plan = ex_plan"
  "normalizeValuePackagePlan ex_plan = ex_plan"
proof -
  show vp: "IsValuePackage ex_plan" by (simp add: IsValuePackage_def ex_plan_def const_defs)
  have f: "normalizeValuePackageFixedDurationFields ex_plan = ex_plan"
    by (simp add: normalizeValuePackageFixedDurationFields_def vp)
       (simp add: ex_plan_def const_defs zero_plan_def)
  show "NormalizeDefaults ex_plan = ex_plan"
    by (rule NormalizeDefaults_id) (simp add: defaults_normal_def vp f, simp add: ex_plan_def ex_bool_eq)
  show "normalizeValuePackagePlan ex_plan = ex_plan"
    by (rule normalizeValuePackagePlan_id)
       (simp add: package_normal_def f, simp add: ex_plan_def zero_plan_def)
qed

lemma ex_plan_read [simp]:
  "plans d = plans ex_db \<Longrightarrow> getSubscriptionPlanByIdFreshTx 1 d = Inr ex_plan"
  by (simp add: getSubscriptionPlanByIdFreshTx_def first_where_def) (simp add: ex_plan_def)

lemma ex_sub_active: "activeSub 5 2000 ex_sub"
  by (simp add: activeSub_def ex_sub_def const_defs)

lemma ex_highest: "getHighestActiveValuePackageTx 5 2000 ex_db = Inr (Some (ex_sub, ex_plan))"
proof -
  have "getActiveValuePackageSubscriptionsTx 5 2000 ex_db = Inr [ex_sub]"
    by (simp add: getActiveValuePackageSubscriptionsTx_def select_where_def ex_sub_active)
       (simp add: ex_sub_def)
  then show ?thesis
    by (simp add: getHighestActiveValuePackageTx_def betterPackage_def) (simp add: ex_sub_def)
qed

section \<open>Properties\<close>

lemma highest_package:
  assumes "getHighestActiveValuePackageTx userId now d = Inr r"
  shows "(r = None \<longleftrightarrow> (\<nexists>s p. runningPackage userId now d s p)) \<and>
    (\<forall>s p. r = Some (s, p) \<longrightarrow> runningPackage userId now d s p \<and>
       (\<forall>s' p'. runningPackage userId now d s' p' \<longrightarrow>
          plan_PackageLevel p' < plan_PackageLevel p \<or>
          plan_PackageLevel p' = plan_PackageLevel p \<and> sub_EndTime s' \<le> sub_EndTime s))"
proof -
  obtain ss where ss: "getActiveValuePackageSubscriptionsTx userId now d = Inr ss"
    and r: "highestOf d ss None = Inr r"
    using assms by (auto simp: getHighestActiveValuePackageTx_def res_simps)
  have mem: "(s \<in> set ss \<and> getSubscriptionPlanByIdFreshTx (sub_PlanId s) d = Inr p) \<longleftrightarrow>
      runningPackage userId now d s (normalizeValuePackagePlan p) \<and>
      getSubscriptionPlanByIdFreshTx (sub_PlanId s) d = Inr p" for s p
    using filterSubscriptions_set [OF ss [unfolded getActiveValuePackageSubscriptionsTx_def], of s]
    by (auto simp: runningPackage_def select_where_def)
  have all: "\<exists>p. getSubscriptionPlanByIdFreshTx (sub_PlanId s) d = Inr p" if "s \<in> set ss" for s
    using filterSubscriptions_set [OF ss [unfolded getActiveValuePackageSubscriptionsTx_def], of s] that
    by auto
  have "r = None \<longleftrightarrow> (\<nexists>s p. runningPackage userId now d s p)"
    using highestOf_max [OF r] mem all
    by (metis (no_types, lifting) list.set_intros(1) neq_Nil_conv runningPackage_def empty_iff empty_set)
  moreover have "runningPackage userId now d s p \<and>
      (\<forall>s' p'. runningPackage userId now d s' p' \<longrightarrow> atLeast (s, p) (s', p'))" if "r = Some (s, p)" for s p
    using highestOf_max [OF r] mem that
    by (metis (no_types, lifting) option.distinct(1) prod.inject runningPackage_def)
  ultimately show ?thesis by (auto simp: atLeast_def)
qed

text \<open>C10. The package an operation works with is the best one: the lookup returns a running
  value package of the user with the highest level and, within the level, the latest end, and
  returns nothing only if the user has no running value package.\<close>

theorem getHighestActiveValuePackageTx_spec:
  assumes "getHighestActiveValuePackageTx userId now d = Inr r"
  shows "(r = None \<longleftrightarrow> (\<nexists>s p. runningPackage userId now d s p)) \<and>
    (\<forall>s p. r = Some (s, p) \<longrightarrow> runningPackage userId now d s p \<and>
       (\<forall>s' p'. runningPackage userId now d s' p' \<longrightarrow>
          plan_PackageLevel p' < plan_PackageLevel p \<or>
          plan_PackageLevel p' = plan_PackageLevel p \<and> sub_EndTime s' \<le> sub_EndTime s))"
  using assms by (rule highest_package)

theorem getHighestActiveValuePackageTx_spec_witness:
  "getHighestActiveValuePackageTx 5 2000 ex_db = Inr (Some (ex_sub, ex_plan)) \<and>
   runningPackage 5 2000 ex_db ex_sub ex_plan"
  using getHighestActiveValuePackageTx_spec [OF ex_highest] ex_highest by blast



end
