(* ===== verification/Preferences.thy ===== *)
theory Preferences
  imports Packages "HOL-Library.List_Lexorder"
begin

text \<open>
  Package preferences and reset cards (\<open>src/model/subscription.go\<close>): which package a user
  has switched on, whether the wallet may be used when it is exhausted, how many reset cards
  the user holds, and the ledger of every change of that number. A reset card closes the
  current quota epoch of the active package.

  The contract of the reset-card counter is that the ledger explains it: every change is one
  ledger row whose delta is the difference of the counts, and the newest row of a user holds
  the current count.
\<close>

section \<open>Sources of ledger rows\<close>

definition ValuePackageResetCountLedgerSourceAdminSet :: string where
  "ValuePackageResetCountLedgerSourceAdminSet = ''admin_set''"
definition ValuePackageResetCountLedgerSourceAdminAdd :: string where
  "ValuePackageResetCountLedgerSourceAdminAdd = ''admin_add''"
definition ValuePackageResetCountLedgerSourceAdminSubtract :: string where
  "ValuePackageResetCountLedgerSourceAdminSubtract = ''admin_subtract''"
definition ValuePackageResetCountLedgerSourceUserConsume :: string where
  "ValuePackageResetCountLedgerSourceUserConsume = ''user_consume''"
definition ValuePackageResetCountLedgerSourceRedemption :: string where
  "ValuePackageResetCountLedgerSourceRedemption = ''redemption''"
definition ValuePackageResetCountLedgerSourcePlanGift :: string where
  "ValuePackageResetCountLedgerSourcePlanGift = ''plan_gift''"

section \<open>The preference row\<close>

definition AllowsWalletFallback :: "UserValuePackagePreference \<Rightarrow> bool" where
  "AllowsWalletFallback p \<longleftrightarrow>
     (case pref_WalletFallbackEnabled p of None \<Rightarrow> True | Some b \<Rightarrow> b)"

definition upsertValuePackagePreferenceTx ::
  "env \<Rightarrow> int \<Rightarrow> bool \<Rightarrow> int \<Rightarrow> db \<Rightarrow> merr + UserValuePackagePreference \<times> db" where
  "upsertValuePackagePreferenceTx E userId enabled activeSubId d =
     (let now = GetTimestamp E;
          updateTime = (if enabled then now else add64 now 1);
          pref = zero_pref\<lparr>pref_UserId := userId, pref_Enabled := enabled,
                   pref_ActiveUserSubscriptionId := activeSubId,
                   pref_CreatedAt := now, pref_UpdatedAt := now\<rparr>;
          d1 = d\<lparr>prefs := upsert_row (\<lambda>x. pref_UserId x = userId)
                 (\<lambda>x. let x1 = x\<lparr>pref_Enabled := enabled, pref_UpdatedAt := updateTime\<rparr> in
                    if activeSubId > 0 \<or> \<not> enabled
                    then x1\<lparr>pref_ActiveUserSubscriptionId := activeSubId\<rparr> else x1)
                 set_pref_Id pref (prefs d)\<rparr>
      in bind_e (of_option ErrRecordNotFound
              (first_where (\<lambda>x. pref_UserId x = userId) (prefs d1)))
           (\<lambda>reloaded. Inr (reloaded, d1)))"

definition ensureExistingUserForUpdateTx :: "int \<Rightarrow> db \<Rightarrow> merr + unit" where
  "ensureExistingUserForUpdateTx userId d =
     (if userId \<le> 0 then Inl (UserE ErrInvalidUserId)
      else case first_where (\<lambda>u. user_Id u = userId \<and> user_DeletedAt u = None) (users d) of
        None \<Rightarrow> Inl (UserE ErrUserNotFound)
      | Some _ \<Rightarrow> Inr ())"

definition ensureValuePackagePreferenceForUpdateTx ::
  "env \<Rightarrow> int \<Rightarrow> db \<Rightarrow> merr + UserValuePackagePreference \<times> db" where
  "ensureValuePackagePreferenceForUpdateTx E userId d =
     (if userId \<le> 0 then Inl (UserE ErrInvalidUserId)
      else case first_where (\<lambda>x. pref_UserId x = userId) (prefs d) of
        None \<Rightarrow>
          let pref = zero_pref\<lparr>pref_UserId := userId, pref_CreatedAt := GetTimestamp E,
                       pref_UpdatedAt := GetTimestamp E\<rparr>
          in Inr (new_row set_pref_Id pref (prefs d),
                  d\<lparr>prefs := insert_row set_pref_Id pref (prefs d)\<rparr>)
      | Some pref \<Rightarrow> Inr (pref, d))"

section \<open>Reset cards\<close>

text \<open>\<open>Update("reset_count", n)\<close> also sets the update time of the row.\<close>

definition setResetCount :: "env \<Rightarrow> int \<Rightarrow> int \<Rightarrow> db \<Rightarrow> db" where
  "setResetCount E userId n d = d\<lparr>prefs := update_where (\<lambda>x. pref_UserId x = userId)
     (\<lambda>x. x\<lparr>pref_ResetCount := n, pref_UpdatedAt := GetTimestamp E\<rparr>) (prefs d)\<rparr>"

definition createLedger :: "env \<Rightarrow> ValuePackageResetCountLedger \<Rightarrow> db \<Rightarrow> db" where
  "createLedger E l d = d\<lparr>ledgers := insert_row set_ledger_Id
     (if ledger_CreatedAt l = 0 then l\<lparr>ledger_CreatedAt := GetTimestamp E\<rparr> else l) (ledgers d)\<rparr>"

definition ledgerEntry ::
  "int \<Rightarrow> int \<Rightarrow> int \<Rightarrow> int \<Rightarrow> string \<Rightarrow> int \<Rightarrow> string \<Rightarrow> ValuePackageResetCountLedger" where
  "ledgerEntry userId delta before after source actor note =
     zero_ledger\<lparr>ledger_UserId := userId, ledger_Delta := delta, ledger_BeforeCount := before,
       ledger_AfterCount := after, ledger_Source := source, ledger_CreatedByUserId := actor,
       ledger_Note := note\<rparr>"

definition grantValuePackageResetCountTx ::
  "env \<Rightarrow> int \<Rightarrow> int \<Rightarrow> string \<Rightarrow> int \<Rightarrow> string \<Rightarrow> db \<Rightarrow>
     merr + UserValuePackagePreference \<times> db" where
  "grantValuePackageResetCountTx E userId count source actorUserId note d =
     (if userId \<le> 0 then Inl (UserE ErrInvalidUserId)
      else if count \<le> 0 then Inl (UserE ErrInvalidResetCardCount)
      else bind_e (ensureValuePackagePreferenceForUpdateTx E userId d)
        (\<lambda>(pref, d1).
          let oldCount = pref_ResetCount pref;
              newCount = add64 oldCount count;
              d2 = setResetCount E userId newCount d1;
              d3 = createLedger E (ledgerEntry userId count oldCount newCount source actorUserId note) d2
          in Inr (pref\<lparr>pref_ResetCount := newCount\<rparr>, d3)))"

definition ensureValuePackagePreferenceAfterPurchaseTx ::
  "env \<Rightarrow> int \<Rightarrow> int \<Rightarrow> SubscriptionPlan \<Rightarrow> int \<Rightarrow> string \<Rightarrow> db \<Rightarrow> merr + db" where
  "ensureValuePackagePreferenceAfterPurchaseTx E userId completedSubId p giftResetCount giftNote d =
     (if userId \<le> 0 \<or> completedSubId \<le> 0 then Inl (UserE ErrInvalidPreferenceArgs)
      else bind_e (upsertValuePackagePreferenceTx E userId True completedSubId d)
        (\<lambda>(_, d1).
          let giftCount = ClampSubscriptionPlanGiftResetCount giftResetCount in
          if \<not> IsValuePackage p \<or> giftCount = 0 then Inr d1
          else bind_e (grantValuePackageResetCountTx E userId giftCount
                 ValuePackageResetCountLedgerSourcePlanGift userId giftNote d1)
               (\<lambda>(_, d2). Inr d2)))"

record ValuePackageResetCountAdjustment =
  adj_UserId :: int
  adj_OldCount :: int
  adj_NewCount :: int
  adj_Delta :: int
  adj_Mode :: string
  adj_Reason :: string
  adj_AdminUserId :: int

definition adjustedCount :: "string \<Rightarrow> int \<Rightarrow> int \<Rightarrow> merr + int \<times> string" where
  "adjustedCount mode oldCount v =
     (if mode = ''set'' then Inr (v, ValuePackageResetCountLedgerSourceAdminSet)
      else if mode = ''add'' then
        if v \<le> 0 then Inl (UserE ErrAdjustNotPositive)
        else Inr (add64 oldCount v, ValuePackageResetCountLedgerSourceAdminAdd)
      else if mode = ''subtract'' then
        if v \<le> 0 then Inl (UserE ErrAdjustNotPositive)
        else Inr (if sub64 oldCount v < 0 then 0 else sub64 oldCount v,
                  ValuePackageResetCountLedgerSourceAdminSubtract)
      else Inl (UserE ErrInvalidAdjustMode))"

definition AdjustValuePackageResetCount ::
  "env \<Rightarrow> int \<Rightarrow> string \<Rightarrow> int \<Rightarrow> string \<Rightarrow> int \<Rightarrow> db \<Rightarrow>
     merr + ValuePackageResetCountAdjustment \<times> db" where
  "AdjustValuePackageResetCount E userId mode v reason0 adminUserId d =
     (if userId \<le> 0 then Inl (UserE ErrInvalidUserId)
      else if v < 0 then Inl (UserE ErrResetCountNegative)
      else bind_e (ensureExistingUserForUpdateTx userId d) (\<lambda>_.
           bind_e (ensureValuePackagePreferenceForUpdateTx E userId d) (\<lambda>(pref, d1).
           bind_e (adjustedCount mode (pref_ResetCount pref) v) (\<lambda>(newCount, source).
             let reason = TrimSpace reason0;
                 oldCount = pref_ResetCount pref;
                 delta = sub64 newCount oldCount
             in if delta = 0 then Inl (UserE ErrResetCountUnchanged)
             else
               let d2 = setResetCount E userId newCount d1;
                   d3 = createLedger E
                     (ledgerEntry userId delta oldCount newCount source adminUserId reason) d2
               in Inr (\<lparr>adj_UserId = userId, adj_OldCount = oldCount, adj_NewCount = newCount,
                        adj_Delta = delta, adj_Mode = mode, adj_Reason = reason,
                        adj_AdminUserId = adminUserId\<rparr>, d3)))))"

section \<open>The state shown to the user\<close>

record ValuePackageBillingState =
  bill_Active :: bool
  bill_RoutingGroup :: string
  bill_PackageGroup :: string
  bill_EffectiveRatio :: rat
  bill_OriginalGroupRatio :: rat
  bill_PlanTitle :: string
  bill_PlanId :: int

record ValuePackageState =
  st_Preference :: UserValuePackagePreference
  st_Subscription :: "UserSubscription option"
  st_Plan :: "SubscriptionPlan option"
  st_Usage :: "ValuePackageUsageSummary option"
  st_Billing :: ValuePackageBillingState

definition inactiveValuePackageBillingState :: ValuePackageBillingState where
  "inactiveValuePackageBillingState = \<lparr>bill_Active = False, bill_RoutingGroup = '''',
     bill_PackageGroup = '''', bill_EffectiveRatio = 0, bill_OriginalGroupRatio = 0,
     bill_PlanTitle = '''', bill_PlanId = 0\<rparr>"

definition newValuePackageState :: "UserValuePackagePreference \<Rightarrow> ValuePackageState" where
  "newValuePackageState pref = \<lparr>st_Preference = pref, st_Subscription = None, st_Plan = None,
     st_Usage = None, st_Billing = inactiveValuePackageBillingState\<rparr>"

definition buildValuePackageBillingState ::
  "UserValuePackagePreference \<Rightarrow> SubscriptionPlan \<Rightarrow> ValuePackageBillingState" where
  "buildValuePackageBillingState pref p =
     (if \<not> pref_Enabled pref \<or> \<not> IsValuePackage p then inactiveValuePackageBillingState
      else
        let packageGroup = TrimSpace (plan_ModelGroup p) in
        if packageGroup = '''' then inactiveValuePackageBillingState
        else \<lparr>bill_Active = True, bill_RoutingGroup = '''', bill_PackageGroup = packageGroup,
               bill_EffectiveRatio = 1, bill_OriginalGroupRatio = 0,
               bill_PlanTitle = plan_Title p, bill_PlanId = plan_Id p\<rparr>)"

definition packageState ::
  "UserValuePackagePreference \<Rightarrow> UserSubscription \<Rightarrow> SubscriptionPlan \<Rightarrow>
     ValuePackageUsageSummary option \<Rightarrow> ValuePackageState" where
  "packageState pref s p usage = \<lparr>st_Preference = pref, st_Subscription = Some s, st_Plan = Some p,
     st_Usage = usage, st_Billing = buildValuePackageBillingState pref p\<rparr>"

definition usageIf ::
  "bool \<Rightarrow> env \<Rightarrow> int \<Rightarrow> UserSubscription \<Rightarrow> SubscriptionPlan \<Rightarrow> int \<Rightarrow> db \<Rightarrow>
     merr + ValuePackageUsageSummary option" where
  "usageIf includeUsage E userId s p now d =
     (if includeUsage then buildValuePackageUsageSummaryTx E userId s p now d else Inr None)"

definition untouchedDisabled :: "UserValuePackagePreference \<Rightarrow> bool" where
  "untouchedDisabled pref \<longleftrightarrow> \<not> pref_Enabled pref \<and> pref_CreatedAt pref > 0 \<and>
     pref_UpdatedAt pref > 0 \<and> pref_CreatedAt pref = pref_UpdatedAt pref"

definition loadWithoutPreference ::
  "env \<Rightarrow> int \<Rightarrow> bool \<Rightarrow> db \<Rightarrow> (merr + ValuePackageState) \<times> db" where
  "loadWithoutPreference E userId includeUsage d =
     (let now = getDBTimestampTx E in
      case getHighestActiveValuePackageTx userId now d of
        Inl e \<Rightarrow> (Inl e, d)
      | Inr None \<Rightarrow> (Inr (newValuePackageState (zero_pref\<lparr>pref_UserId := userId\<rparr>)), d)
      | Inr (Some (s, p)) \<Rightarrow>
         (case upsertValuePackagePreferenceTx E userId True (sub_Id s) d of
            Inl e \<Rightarrow> (Inl e, d)
          | Inr (pref, d1) \<Rightarrow>
              (bind_e (usageIf includeUsage E userId s p now d1)
                 (\<lambda>usage. Inr (packageState pref s p usage)), d1)))"

definition loadWithPreference ::
  "env \<Rightarrow> int \<Rightarrow> bool \<Rightarrow> UserValuePackagePreference \<Rightarrow> db \<Rightarrow>
     (merr + ValuePackageState) \<times> db" where
  "loadWithPreference E userId includeUsage pref d =
     (let now = getDBTimestampTx E; state = newValuePackageState pref in
      if pref_ActiveUserSubscriptionId pref \<le> 0 then (Inr state, d)
      else case first_where (\<lambda>s. sub_Id s = pref_ActiveUserSubscriptionId pref \<and>
                  activeSub userId now s) (subs d) of
        None \<Rightarrow> (Inr state, d)
      | Some s \<Rightarrow>
         (case getSubscriptionPlanByIdFreshTx (sub_PlanId s) d of
            Inl e \<Rightarrow> (if e = ErrRecordNotFound then Inr state else Inl e, d)
          | Inr p0 \<Rightarrow>
              let p = normalizeValuePackagePlan p0 in
              if \<not> IsValuePackage p then (Inr state, d)
              else
                case (if untouchedDisabled pref
                      then upsertValuePackagePreferenceTx E userId True (sub_Id s) d
                      else Inr (pref, d)) of
                  Inl e \<Rightarrow> (Inl e, d)
                | Inr (pref1, d1) \<Rightarrow>
                    (bind_e (usageIf includeUsage E userId s p now d1)
                       (\<lambda>usage. Inr (packageState pref1 s p usage)), d1)))"

definition loadValuePackageStateTx ::
  "env \<Rightarrow> int \<Rightarrow> bool \<Rightarrow> db \<Rightarrow> (merr + ValuePackageState) \<times> db" where
  "loadValuePackageStateTx E userId includeUsage d =
     (if userId \<le> 0 then (Inr (newValuePackageState zero_pref), d)
      else case first_where (\<lambda>x. pref_UserId x = userId) (prefs d) of
        None \<Rightarrow> loadWithoutPreference E userId includeUsage d
      | Some pref \<Rightarrow> loadWithPreference E userId includeUsage pref d)"

definition getValuePackageStateTx :: "env \<Rightarrow> int \<Rightarrow> db \<Rightarrow> (merr + ValuePackageState) \<times> db" where
  "getValuePackageStateTx E userId d = loadValuePackageStateTx E userId True d"

definition GetActiveValuePackageForRelay ::
  "env \<Rightarrow> int \<Rightarrow> db \<Rightarrow> (merr + ValuePackageState option) \<times> db" where
  "GetActiveValuePackageForRelay E userId d =
     (case loadValuePackageStateTx E userId False d of
        (Inl e, d1) \<Rightarrow> (Inl e, d1)
      | (Inr state, d1) \<Rightarrow>
          (Inr (case (st_Subscription state, st_Plan state) of
             (Some s, Some p) \<Rightarrow>
               if \<not> pref_Enabled (st_Preference state) then None
               else if \<not> IsValuePackage p \<or> TrimSpace (plan_ModelGroup p) = '''' then None
               else Some state
           | _ \<Rightarrow> None), d1))"

section \<open>Operations of the user\<close>

definition ActivateValuePackage ::
  "env \<Rightarrow> int \<Rightarrow> int \<Rightarrow> db \<Rightarrow> merr + ValuePackageState \<times> db" where
  "ActivateValuePackage E userId userSubscriptionId d =
     (if userId \<le> 0 \<or> userSubscriptionId \<le> 0 then Inl (UserE ErrInvalidActivationArgs)
      else
        let now = getDBTimestampTx E in
        bind_e (of_option ErrRecordNotFound
            (first_where (\<lambda>s. sub_Id s = userSubscriptionId \<and> activeSub userId now s) (subs d)))
        (\<lambda>s. bind_e (getSubscriptionPlanByIdFreshTx (sub_PlanId s) d)
        (\<lambda>p0. let p = normalizeValuePackagePlan p0 in
          if \<not> IsValuePackage p then Inl (PlanE ErrNotValuePackage)
          else bind_e (upsertValuePackagePreferenceTx E userId True (sub_Id s) d)
          (\<lambda>(pref, d1). bind_e (buildValuePackageUsageSummaryTx E userId s p now d1)
          (\<lambda>usage. Inr (packageState pref s p usage, d1))))))"

definition DeactivateValuePackage :: "env \<Rightarrow> int \<Rightarrow> db \<Rightarrow> merr + ValuePackageState \<times> db" where
  "DeactivateValuePackage E userId d =
     (if userId \<le> 0 then Inl (UserE ErrInvalidUserId)
      else
        let activeSubId = (case first_where (\<lambda>x. pref_UserId x = userId) (prefs d) of
               None \<Rightarrow> 0 | Some current \<Rightarrow> pref_ActiveUserSubscriptionId current)
        in bind_e (upsertValuePackagePreferenceTx E userId False activeSubId d)
           (\<lambda>(pref, d1). case getValuePackageStateTx E userId d1 of
              (Inl e, _) \<Rightarrow> Inl e
            | (Inr state, d2) \<Rightarrow> Inr (state\<lparr>st_Preference := pref\<rparr>, d2)))"

definition UpdateValuePackageWalletFallback ::
  "env \<Rightarrow> int \<Rightarrow> bool \<Rightarrow> db \<Rightarrow> merr + ValuePackageState \<times> db" where
  "UpdateValuePackageWalletFallback E userId enabled d =
     (if userId \<le> 0 then Inl (UserE ErrInvalidUserId)
      else bind_e (ensureExistingUserForUpdateTx userId d) (\<lambda>_.
        case getValuePackageStateTx E userId d of
          (Inl e, _) \<Rightarrow> Inl e
        | (Inr state, d1) \<Rightarrow>
            bind_e (ensureValuePackagePreferenceForUpdateTx E userId d1) (\<lambda>(pref, d2).
              let now = GetTimestamp E;
                  d3 = d2\<lparr>prefs := update_where (\<lambda>x. pref_UserId x = userId)
                         (\<lambda>x. x\<lparr>pref_WalletFallbackEnabled := Some enabled, pref_UpdatedAt := now\<rparr>)
                         (prefs d2)\<rparr>
              in Inr (state\<lparr>st_Preference := pref\<lparr>pref_WalletFallbackEnabled := Some enabled,
                        pref_UpdatedAt := now\<rparr>\<rparr>, d3))))"

text \<open>The guards of a reset: the preference allows it and names a running value package.\<close>

definition resettablePackage ::
  "int \<Rightarrow> int \<Rightarrow> int \<Rightarrow> UserValuePackagePreference \<Rightarrow> db \<Rightarrow>
     merr + UserSubscription \<times> SubscriptionPlan" where
  "resettablePackage userId userSubscriptionId resetAt pref d =
     (if pref_ResetCount pref \<le> 0 then Inl (UserE ErrResetCountInsufficient)
      else if \<not> pref_Enabled pref \<or> pref_ActiveUserSubscriptionId pref \<le> 0
      then Inl (UserE ErrPackageNotEnabled)
      else if userSubscriptionId > 0 \<and> userSubscriptionId \<noteq> pref_ActiveUserSubscriptionId pref
      then Inl (UserE ErrPackageMismatch)
      else bind_e (of_option (UserE ErrNoResettablePackage)
          (first_where (\<lambda>s. sub_Id s = pref_ActiveUserSubscriptionId pref \<and>
             activeSub userId resetAt s) (subs d)))
        (\<lambda>s. bind_e (getSubscriptionPlanByIdFreshTx (sub_PlanId s) d)
        (\<lambda>p0. let p = normalizeValuePackagePlan p0 in
          if \<not> IsValuePackage p then Inl (UserE ErrNoResettablePackage)
          else if sub_QuotaEpoch s = MaxInt64 then Inl (QuotaE ErrQuotaEpochOverflow)
          else Inr (s, p))))"

definition ConsumeValuePackageResetCount ::
  "env \<Rightarrow> int \<Rightarrow> int \<Rightarrow> int \<Rightarrow> int \<Rightarrow> string \<Rightarrow> db \<Rightarrow> merr + ValuePackageState \<times> db" where
  "ConsumeValuePackageResetCount E userId userSubscriptionId resetAt0 actorUserId note0 d =
     (if userId \<le> 0 then Inl (UserE ErrInvalidUserId)
      else
        let note = TrimSpace note0;
            dbNow = getDBTimestampTx E;
            resetAt = (if resetAt0 \<le> 0 \<or> resetAt0 > dbNow then dbNow else resetAt0)
        in bind_e (ensureValuePackagePreferenceForUpdateTx E userId d) (\<lambda>(pref, d1).
           bind_e (resettablePackage userId userSubscriptionId resetAt pref d1) (\<lambda>(s, p).
             let toEpoch = sub_QuotaEpoch s + 1;
                 oldCount = pref_ResetCount pref;
                 newCount = sub64 oldCount 1;
                 stillHas = (\<lambda>x. pref_UserId x = userId \<and> pref_ResetCount x > 0);
                 d2 = d1\<lparr>prefs := update_where stillHas
                        (\<lambda>x. x\<lparr>pref_ResetCount := newCount, pref_UpdatedAt := GetTimestamp E\<rparr>)
                        (prefs d1)\<rparr>
             in if affected stillHas (prefs d1) \<noteq> 1 then Inl (UserE ErrResetCountStateChanged)
             else
               let r = zero_reset\<lparr>reset_UserId := userId, reset_UserSubscriptionId := sub_Id s,
                         reset_PlanId := plan_Id p, reset_PackageType := plan_PackageType p,
                         reset_ResetAt := resetAt, reset_FromEpoch := sub_QuotaEpoch s,
                         reset_ToEpoch := toEpoch, reset_AmountUsedBefore := sub_AmountUsed s,
                         reset_Source := ValuePackageQuotaResetSourceUserConsumeCount,
                         reset_CreatedByUserId := actorUserId, reset_Note := note\<rparr>;
                   d3 = createReset E r d2;
                   d4 = createLedger E (ledgerEntry userId (-1) oldCount newCount
                          ValuePackageResetCountLedgerSourceUserConsume actorUserId note) d3;
                   s1 = s\<lparr>sub_AmountUsed := 0, sub_QuotaEpoch := toEpoch\<rparr>;
                   d5 = saveSub E s1 d4
               in bind_e (buildValuePackageUsageSummaryTx E userId (stampSub E s1) p resetAt d5)
                    (\<lambda>usage. Inr (packageState (pref\<lparr>pref_ResetCount := newCount\<rparr>)
                                   (stampSub E s1) p usage, d5)))))"

section \<open>Default activation and listings\<close>

definition planOrSkip :: "int \<Rightarrow> db \<Rightarrow> merr + SubscriptionPlan option" where
  "planOrSkip pid d =
     (case getSubscriptionPlanByIdFreshTx pid d of
        Inl e \<Rightarrow> if e = ErrRecordNotFound then Inr None else Inl e
      | Inr p \<Rightarrow> let q = normalizeValuePackagePlan p in Inr (if IsValuePackage q then Some q else None))"

fun candidateUsers :: "db \<Rightarrow> UserSubscription list \<Rightarrow> merr + int list" where
  "candidateUsers d [] = Inr []"
| "candidateUsers d (s # ss) =
     bind_e (planOrSkip (sub_PlanId s) d) (\<lambda>q.
     bind_e (candidateUsers d ss) (\<lambda>out.
       Inr (if q \<noteq> None then List.insert (sub_UserId s) out else out)))"

definition backfillUser :: "env \<Rightarrow> int \<Rightarrow> int \<Rightarrow> db \<Rightarrow> merr + db" where
  "backfillUser E now userId d =
     (case first_where (\<lambda>x. pref_UserId x = userId) (prefs d) of
        None \<Rightarrow>
          bind_e (getHighestActiveValuePackageTx userId now d) (\<lambda>best.
            case best of None \<Rightarrow> Inr d
            | Some (bestSub, _) \<Rightarrow>
                bind_e (upsertValuePackagePreferenceTx E userId True (sub_Id bestSub) d)
                  (\<lambda>(_, d1). Inr d1))
      | Some pref \<Rightarrow>
          if \<not> untouchedDisabled pref \<or> pref_ActiveUserSubscriptionId pref \<le> 0 then Inr d
          else case first_where (\<lambda>s. sub_Id s = pref_ActiveUserSubscriptionId pref \<and>
                      activeSub userId now s) (subs d) of
            None \<Rightarrow> Inr d
          | Some s \<Rightarrow>
              bind_e (planOrSkip (sub_PlanId s) d) (\<lambda>q.
                if q = None then Inr d
                else bind_e (upsertValuePackagePreferenceTx E userId True (sub_Id s) d)
                       (\<lambda>(_, d1). Inr d1)))"

fun backfillUsers :: "env \<Rightarrow> int \<Rightarrow> int list \<Rightarrow> db \<Rightarrow> (merr + unit) \<times> db" where
  "backfillUsers E now [] d = (Inr (), d)"
| "backfillUsers E now (u # us) d =
     (case backfillUser E now u d of Inl e \<Rightarrow> (Inl e, d) | Inr d1 \<Rightarrow> backfillUsers E now us d1)"

text \<open>\<open>perm\<close> is the order in which Go ranges over the map of candidate users.\<close>

definition backfillDefaultEnabledValuePackagePreferencesTx ::
  "env \<Rightarrow> (int list \<Rightarrow> int list) \<Rightarrow> int \<Rightarrow> db \<Rightarrow> (merr + unit) \<times> db" where
  "backfillDefaultEnabledValuePackagePreferencesTx E perm now0 d =
     (let now = now_or_db E now0;
          active = sort_key (\<lambda>s. (sub_UserId s, - sub_EndTime s, - sub_Id s))
            (select_where (\<lambda>s. sub_Status s = UserSubscriptionStatusActive \<and> sub_EndTime s > now) (subs d))
      in case candidateUsers d active of
           Inl e \<Rightarrow> (Inl e, d)
         | Inr us \<Rightarrow> backfillUsers E now (perm us) d)"

definition GetValuePackagePlansForUser :: "db \<Rightarrow> SubscriptionPlan list" where
  "GetValuePackagePlansForUser d =
     map (\<lambda>p. normalizeValuePackagePlan (NormalizeDefaults p))
       (sort_key (\<lambda>p. (plan_PackageLevel p, - plan_SortOrder p, - plan_Id p))
         (select_where (\<lambda>p. plan_Enabled p \<and> plan_PlanKind p = SubscriptionPlanKindValuePackage)
           (plans d)))"

definition string_key :: "string \<Rightarrow> nat list" where
  "string_key s = map of_char s"

definition ListEnabledValuePackageBillingGroups :: "db \<Rightarrow> string list" where
  "ListEnabledValuePackageBillingGroups d =
     sort_key string_key (remdups (filter (\<lambda>g. g \<noteq> '''')
       (map (\<lambda>p. TrimSpace (plan_ModelGroup p))
         (select_where (\<lambda>p. plan_Enabled p \<and> plan_PlanKind p = SubscriptionPlanKindValuePackage)
           (plans d)))))"

record ValuePackageUsageRow =
  row_UserId :: int
  row_Username :: string
  row_Subscription :: UserSubscription
  row_Plan :: SubscriptionPlan
  row_Usage :: "ValuePackageUsageSummary option"

fun usageRows ::
  "env \<Rightarrow> int \<Rightarrow> UserValuePackagePreference list \<Rightarrow> db \<Rightarrow> merr + ValuePackageUsageRow list" where
  "usageRows E now [] d = Inr []"
| "usageRows E now (pref # ps) d =
     (let userId = pref_UserId pref in
      case first_where (\<lambda>s. sub_Id s = pref_ActiveUserSubscriptionId pref \<and>
             activeSub userId now s) (subs d) of
        None \<Rightarrow> usageRows E now ps d
      | Some s \<Rightarrow>
          bind_e (planOrSkip (sub_PlanId s) d) (\<lambda>q.
            case q of None \<Rightarrow> usageRows E now ps d
            | Some p \<Rightarrow>
               (case first_where (\<lambda>u. user_Id u = userId \<and> user_DeletedAt u = None) (users d) of
                  None \<Rightarrow> usageRows E now ps d
                | Some u \<Rightarrow>
                    bind_e (buildValuePackageUsageSummaryTx E userId s p now d) (\<lambda>usage.
                    bind_e (usageRows E now ps d) (\<lambda>rest.
                      Inr (\<lparr>row_UserId = userId, row_Username = user_Username u,
                            row_Subscription = s, row_Plan = p, row_Usage = usage\<rparr> # rest))))))"

definition listActiveValuePackageUsageRowsTx ::
  "env \<Rightarrow> (int list \<Rightarrow> int list) \<Rightarrow> int \<Rightarrow> db \<Rightarrow> (merr + ValuePackageUsageRow list) \<times> db" where
  "listActiveValuePackageUsageRowsTx E perm now0 d =
     (let now = now_or_db E now0 in
      case backfillDefaultEnabledValuePackagePreferencesTx E perm now d of
        (Inl e, d1) \<Rightarrow> (Inl e, d1)
      | (Inr _, d1) \<Rightarrow>
          (bind_e (usageRows E now
              (sort_key pref_ActiveUserSubscriptionId
                (select_where (\<lambda>x. pref_Enabled x \<and> pref_ActiveUserSubscriptionId x > 0) (prefs d1))) d1)
            (\<lambda>rs. Inr (sort_key (\<lambda>r. (plan_PackageLevel (row_Plan r), string_key (row_Username r),
                                        row_UserId r)) rs)), d1))"

section \<open>The reset-card account\<close>

text \<open>The account of a user is the number on the preference row; the log of the account are
  the deltas of the user's ledger rows.\<close>

definition cardCount :: "int \<Rightarrow> db \<Rightarrow> int" where
  "cardCount u d = (case first_where (\<lambda>x. pref_UserId x = u) (prefs d) of
     None \<Rightarrow> 0 | Some p \<Rightarrow> pref_ResetCount p)"

definition cardLog :: "int \<Rightarrow> db \<Rightarrow> int" where
  "cardLog u d = sum_list (map ledger_Delta (filter (\<lambda>l. ledger_UserId l = u) (rows (ledgers d))))"

definition cards_inv :: "db \<Rightarrow> bool" where
  "cards_inv d \<longleftrightarrow> distinct (map pref_UserId (rows (prefs d))) \<and>
     (\<forall>u. cardCount u d = i64 (cardLog u d))"

lemma upsert_pref:
  assumes "upsertValuePackagePreferenceTx E u en sid d = Inr (pref, d')"
  shows "cardCount v d' = cardCount v d" and "ledgers d' = ledgers d"
    and "distinct (map pref_UserId (rows (prefs d))) \<Longrightarrow> distinct (map pref_UserId (rows (prefs d')))"
    and "first_where (\<lambda>x. pref_UserId x = u) (prefs d') = Some pref"
    and "pref_Enabled pref = en" and "subs d' = subs d" and "usages d' = usages d"
    and "plans d' = plans d" and "resets d' = resets d" and "pres d' = pres d"
    and "users d' = users d" and "0 < sid \<Longrightarrow> pref_ActiveUserSubscriptionId pref = sid"
proof -
  note u = assms [unfolded upsertValuePackagePreferenceTx_def Let_def, simplified res_simps]
  show "ledgers d' = ledgers d" "subs d' = subs d" "usages d' = usages d" "plans d' = plans d"
    "resets d' = resets d" "pres d' = pres d" "users d' = users d"
    "first_where (\<lambda>x. pref_UserId x = u) (prefs d') = Some pref"
    using u by auto
  show "cardCount v d' = cardCount v d"
  proof (cases "list_ex (\<lambda>x. pref_UserId x = u) (rows (prefs d))")
    case True
    with u show ?thesis
      by (auto simp: cardCount_def upsert_row_def first_where_update split: option.split)
  next
    case False
    with u show ?thesis
      by (auto simp: cardCount_def upsert_row_def first_where_insert new_row_def zero_pref_def
          split: option.splits if_splits)
  qed
  have "map pref_UserId (rows (prefs d')) = map pref_UserId (rows (prefs d)) @
      (if u \<in> pref_UserId ` set (rows (prefs d)) then [] else [u])"
    using u by (auto simp: map_upsert_row new_row_def)
  then show "distinct (map pref_UserId (rows (prefs d')))" if "distinct (map pref_UserId (rows (prefs d)))"
    using that by simp
  have "pref_Enabled pref = en \<and> (0 < sid \<longrightarrow> pref_ActiveUserSubscriptionId pref = sid)"
    using u by (auto simp: first_where_upsert new_row_def split: option.splits if_splits)
  then show "pref_Enabled pref = en" "0 < sid \<Longrightarrow> pref_ActiveUserSubscriptionId pref = sid" by auto
qed

lemma ensure_pref:
  assumes "ensureValuePackagePreferenceForUpdateTx E u d = Inr (pref, d')"
  shows "cardCount v d' = cardCount v d" and "ledgers d' = ledgers d"
    and "distinct (map pref_UserId (rows (prefs d))) \<Longrightarrow> distinct (map pref_UserId (rows (prefs d')))"
    and "first_where (\<lambda>x. pref_UserId x = u) (prefs d') = Some pref"
    and "pref_ResetCount pref = cardCount u d" and "subs d' = subs d" and "usages d' = usages d"
    and "plans d' = plans d" and "resets d' = resets d" and "pres d' = pres d"
proof -
  let ?n = "zero_pref\<lparr>pref_UserId := u, pref_CreatedAt := GetTimestamp E, pref_UpdatedAt := GetTimestamp E\<rparr>"
  consider p where "first_where (\<lambda>x. pref_UserId x = u) (prefs d) = Some p" "pref = p" "d' = d"
    | "first_where (\<lambda>x. pref_UserId x = u) (prefs d) = None" "pref = new_row set_pref_Id ?n (prefs d)"
      "d' = d\<lparr>prefs := insert_row set_pref_Id ?n (prefs d)\<rparr>"
    using assms by (auto simp: ensureValuePackagePreferenceForUpdateTx_def Let_def
        split: if_splits option.splits)
  then have "(\<forall>v. cardCount v d' = cardCount v d) \<and> ledgers d' = ledgers d \<and>
    (distinct (map pref_UserId (rows (prefs d))) \<longrightarrow> distinct (map pref_UserId (rows (prefs d')))) \<and>
    first_where (\<lambda>x. pref_UserId x = u) (prefs d') = Some pref \<and>
    pref_ResetCount pref = cardCount u d \<and> subs d' = subs d \<and> usages d' = usages d \<and>
    plans d' = plans d \<and> resets d' = resets d \<and> pres d' = pres d"
  proof cases
    case 1
    then show ?thesis by (simp add: cardCount_def)
  next
    case 2
    then have "u \<notin> pref_UserId ` set (rows (prefs d))" by (auto simp: first_where_None)
    with 2 show ?thesis
      by (auto simp: cardCount_def first_where_insert new_row_def zero_pref_def split: option.splits if_splits)
  qed
  then show "cardCount v d' = cardCount v d" "ledgers d' = ledgers d"
    "distinct (map pref_UserId (rows (prefs d))) \<Longrightarrow> distinct (map pref_UserId (rows (prefs d')))"
    "first_where (\<lambda>x. pref_UserId x = u) (prefs d') = Some pref" "pref_ResetCount pref = cardCount u d"
    "subs d' = subs d" "usages d' = usages d" "plans d' = plans d" "resets d' = resets d" "pres d' = pres d"
    by auto
qed

text \<open>One booking: the number on the row and a ledger row change together.\<close>

definition bookCards ::
  "env \<Rightarrow> (UserValuePackagePreference \<Rightarrow> bool) \<Rightarrow> int \<Rightarrow> ValuePackageResetCountLedger \<Rightarrow> db \<Rightarrow> db" where
  "bookCards E Q n l d = createLedger E l (d\<lparr>prefs := update_where Q
     (\<lambda>x. x\<lparr>pref_ResetCount := n, pref_UpdatedAt := GetTimestamp E\<rparr>) (prefs d)\<rparr>)"

lemma createLedger_tables [simp]:
  "prefs (createLedger E l d) = prefs d" "subs (createLedger E l d) = subs d"
  "plans (createLedger E l d) = plans d" "usages (createLedger E l d) = usages d"
  "resets (createLedger E l d) = resets d" "pres (createLedger E l d) = pres d"
  "users (createLedger E l d) = users d"
  by (simp_all add: createLedger_def)

lemma cardLog_createLedger [simp]:
  "cardLog v (createLedger E l d) = cardLog v d + (if ledger_UserId l = v then ledger_Delta l else 0)"
  by (auto simp: cardLog_def createLedger_def new_row_def)

lemma cards_inv_book:
  assumes "cards_inv d" "first_where (\<lambda>x. pref_UserId x = u) (prefs d) = Some pref"
    and "ledger_UserId l = u" and "n = i64 (pref_ResetCount pref + ledger_Delta l)"
    and "\<And>x. Q x \<Longrightarrow> pref_UserId x = u" and "Q pref"
  shows "cards_inv (bookCards E Q n l d)"
proof -
  let ?d = "bookCards E Q n l d"
  let ?f = "\<lambda>x. x\<lparr>pref_ResetCount := n, pref_UpdatedAt := GetTimestamp E\<rparr>"
  have ids: "map pref_UserId (rows (prefs ?d)) = map pref_UserId (rows (prefs d))"
    by (auto simp: bookCards_def)
  have count: "cardCount v ?d = (if v = u then n else cardCount v d)" for v
    using assms(2,5,6)
    by (auto simp: cardCount_def bookCards_def first_where_update split: option.split dest!: first_where_Some)
  have log: "cardLog v ?d = cardLog v d + (if u = v then ledger_Delta l else 0)" for v
    using assms(3) by (simp add: bookCards_def) (simp add: cardLog_def)
  have "cardCount u d = pref_ResetCount pref" using assms(2) by (simp add: cardCount_def)
  with assms(1) have "pref_ResetCount pref = i64 (cardLog u d)" by (simp add: cards_inv_def)
  with assms(4) have "n = i64 (cardLog u d + ledger_Delta l)" by (simp only: i64_add_left)
  with assms(1) show ?thesis unfolding cards_inv_def ids count log by auto
qed

lemma cards_inv_frame:
  "(\<And>v. cardCount v d' = cardCount v d) \<Longrightarrow> ledgers d' = ledgers d \<Longrightarrow>
   (distinct (map pref_UserId (rows (prefs d))) \<Longrightarrow> distinct (map pref_UserId (rows (prefs d')))) \<Longrightarrow>
   cards_inv d \<Longrightarrow> cards_inv d'"
  by (simp add: cards_inv_def cardLog_def)

lemma cards_inv_tables: "prefs d' = prefs d \<Longrightarrow> ledgers d' = ledgers d \<Longrightarrow> cards_inv d' = cards_inv d"
  by (simp add: cards_inv_def cardLog_def cardCount_def)

lemma cards_inv_upsert:
  "upsertValuePackagePreferenceTx E u en sid d = Inr (pref, d') \<Longrightarrow> cards_inv d \<Longrightarrow> cards_inv d'"
  using upsert_pref by (intro cards_inv_frame [of d' d]) blast+

lemma cards_inv_ensure:
  "ensureValuePackagePreferenceForUpdateTx E u d = Inr (pref, d') \<Longrightarrow> cards_inv d \<Longrightarrow> cards_inv d'"
  using ensure_pref by (intro cards_inv_frame [of d' d]) blast+

lemma cards_inv_grant:
  assumes "grantValuePackageResetCountTx E u n src act note d = Inr (pref, d')" "cards_inv d"
  shows "cards_inv d'"
proof -
  obtain pref0 d1 where e: "ensureValuePackagePreferenceForUpdateTx E u d = Inr (pref0, d1)"
    and d': "d' = createLedger E (ledgerEntry u n (pref_ResetCount pref0)
        (add64 (pref_ResetCount pref0) n) src act note)
      (setResetCount E u (add64 (pref_ResetCount pref0) n) d1)"
    using assms(1) by (auto simp: grantValuePackageResetCountTx_def res_simps Let_def split: if_splits)
  note p = ensure_pref(4) [OF e]
  have "cards_inv (bookCards E (\<lambda>x. pref_UserId x = u) (add64 (pref_ResetCount pref0) n)
      (ledgerEntry u n (pref_ResetCount pref0) (add64 (pref_ResetCount pref0) n) src act note) d1)"
    by (rule cards_inv_book [OF cards_inv_ensure [OF e assms(2)] p])
       (use first_where_Some [OF p] in \<open>auto simp: ledgerEntry_def add64_def\<close>)
  then show ?thesis by (simp add: d' bookCards_def setResetCount_def)
qed

lemma adjustedCount_range:
  "adjustedCount mode old v = Inr (n, src) \<Longrightarrow> in_i64 v \<Longrightarrow> in_i64 n"
  by (auto simp: adjustedCount_def add64_def sub64_def split: if_splits)

lemma cards_inv_adjust:
  assumes "AdjustValuePackageResetCount E u mode v reason admin d = Inr (adj, d')" "cards_inv d" "in_i64 v"
  shows "cards_inv d'"
proof -
  obtain pref d1 n src where e: "ensureValuePackagePreferenceForUpdateTx E u d = Inr (pref, d1)"
    and n: "adjustedCount mode (pref_ResetCount pref) v = Inr (n, src)"
    and d': "d' = createLedger E (ledgerEntry u (sub64 n (pref_ResetCount pref)) (pref_ResetCount pref)
        n src admin (TrimSpace reason)) (setResetCount E u n d1)"
    using assms(1) by (auto simp: AdjustValuePackageResetCount_def res_simps Let_def split: if_splits)
  note p = ensure_pref(4) [OF e]
  have "n = i64 (pref_ResetCount pref + sub64 n (pref_ResetCount pref))"
    using adjustedCount_range [OF n assms(3)]
      i64_add_left [of "n - pref_ResetCount pref" "pref_ResetCount pref"]
    by (simp add: sub64_def i64_id add.commute)
  then have "cards_inv (bookCards E (\<lambda>x. pref_UserId x = u) n (ledgerEntry u (sub64 n (pref_ResetCount pref))
      (pref_ResetCount pref) n src admin (TrimSpace reason)) d1)"
    by (intro cards_inv_book [OF cards_inv_ensure [OF e assms(2)] p])
       (use first_where_Some [OF p] in \<open>auto simp: ledgerEntry_def\<close>)
  then show ?thesis by (simp add: d' bookCards_def setResetCount_def)
qed

text \<open>What a reset card does when it is accepted.\<close>

lemma consume_cases:
  assumes "ConsumeValuePackageResetCount E u sid t act note d = Inr (st, d')"
  obtains pref d1 s p l r where "ensureValuePackagePreferenceForUpdateTx E u d = Inr (pref, d1)"
    and "0 < pref_ResetCount pref" and "s \<in> set (rows (subs d))" and "sub_UserId s = u"
    and "sub_Id s = pref_ActiveUserSubscriptionId pref" and "sub_QuotaEpoch s \<noteq> MaxInt64"
    and "sub_Status s = UserSubscriptionStatusActive"
    and "getSubscriptionPlanByIdFreshTx (sub_PlanId s) d = Inr p"
    and "l = ledgerEntry u (-1) (pref_ResetCount pref) (sub64 (pref_ResetCount pref) 1)
           ValuePackageResetCountLedgerSourceUserConsume act (TrimSpace note)"
    and "reset_FromEpoch r = sub_QuotaEpoch s" and "reset_ToEpoch r = sub_QuotaEpoch s + 1"
    and "reset_AmountUsedBefore r = sub_AmountUsed s" and "reset_UserSubscriptionId r = sub_Id s"
    and "reset_UserId r = u"
    and "d' = saveSub E (s\<lparr>sub_AmountUsed := 0, sub_QuotaEpoch := sub_QuotaEpoch s + 1\<rparr>)
           (createLedger E l (createReset E r (d1\<lparr>prefs := update_where
             (\<lambda>x. pref_UserId x = u \<and> pref_ResetCount x > 0)
             (\<lambda>x. x\<lparr>pref_ResetCount := sub64 (pref_ResetCount pref) 1,
                    pref_UpdatedAt := GetTimestamp E\<rparr>) (prefs d1)\<rparr>)))"
proof -
  let ?at = "if t \<le> 0 \<or> t > getDBTimestampTx E then getDBTimestampTx E else t"
  let ?row = "\<lambda>s p. zero_reset\<lparr>reset_UserId := u, reset_UserSubscriptionId := sub_Id s,
      reset_PlanId := plan_Id p, reset_PackageType := plan_PackageType p,
      reset_ResetAt := ?at, reset_FromEpoch := sub_QuotaEpoch s,
      reset_ToEpoch := sub_QuotaEpoch s + 1, reset_AmountUsedBefore := sub_AmountUsed s,
      reset_Source := ValuePackageQuotaResetSourceUserConsumeCount,
      reset_CreatedByUserId := act, reset_Note := TrimSpace note\<rparr>"
  obtain pref d1 s p where e: "ensureValuePackagePreferenceForUpdateTx E u d = Inr (pref, d1)"
    and g: "resettablePackage u sid ?at pref d1 = Inr (s, p)"
    and d': "d' = saveSub E (s\<lparr>sub_AmountUsed := 0, sub_QuotaEpoch := sub_QuotaEpoch s + 1\<rparr>)
           (createLedger E (ledgerEntry u (-1) (pref_ResetCount pref) (sub64 (pref_ResetCount pref) 1)
           ValuePackageResetCountLedgerSourceUserConsume act (TrimSpace note))
           (createReset E (?row s p) (d1\<lparr>prefs := update_where
             (\<lambda>x. pref_UserId x = u \<and> pref_ResetCount x > 0)
             (\<lambda>x. x\<lparr>pref_ResetCount := sub64 (pref_ResetCount pref) 1,
                    pref_UpdatedAt := GetTimestamp E\<rparr>) (prefs d1)\<rparr>)))"
    using assms by (auto simp: ConsumeValuePackageResetCount_def res_simps Let_def split: if_splits)
  obtain p0 where g: "0 < pref_ResetCount pref" "s \<in> set (rows (subs d1))" "sub_UserId s = u"
    "sub_Id s = pref_ActiveUserSubscriptionId pref" "sub_QuotaEpoch s \<noteq> MaxInt64"
    "sub_Status s = UserSubscriptionStatusActive" "getSubscriptionPlanByIdFreshTx (sub_PlanId s) d1 = Inr p0"
    using g by (auto simp: resettablePackage_def res_simps Let_def activeSub_def
        dest!: first_where_Some split: if_splits)
  have s: "s \<in> set (rows (subs d))" using g(2) ensure_pref(6) [OF e] by simp
  have p: "getSubscriptionPlanByIdFreshTx (sub_PlanId s) d = Inr p0"
    using g(7) fresh_plan_frame [OF ensure_pref(8) [OF e]] by simp
  show ?thesis
    by (rule that [OF e g(1) s g(3-6) p refl _ _ _ _ _ d']) simp_all
qed

lemma cards_inv_consume:
  assumes "ConsumeValuePackageResetCount E u sid t act note d = Inr (st, d')" "cards_inv d"
  shows "cards_inv d'"
  using assms(1)
proof (cases rule: consume_cases)
  case (1 pref d1 s p l r)
  note p = ensure_pref(4) [OF 1(1)]
  let ?Q = "\<lambda>x. pref_UserId x = u \<and> pref_ResetCount x > 0"
  have "cards_inv (bookCards E ?Q (sub64 (pref_ResetCount pref) 1) l d1)"
    by (rule cards_inv_book [OF cards_inv_ensure [OF 1(1) assms(2)] p])
       (use 1(2,9) first_where_Some [OF p] in \<open>auto simp: ledgerEntry_def sub64_def\<close>)
  also have "cards_inv (bookCards E ?Q (sub64 (pref_ResetCount pref) 1) l d1) = cards_inv d'"
    by (rule cards_inv_tables) (simp_all add: 1(15) bookCards_def createLedger_def createReset_def)
  finally show ?thesis .
qed

text \<open>Loading the state writes at most the preference row, and only by the upsert.\<close>

lemma loadWithoutPreference_db:
  assumes "loadWithoutPreference E u inc d = (r, d')"
  shows "d' = d \<or> (\<exists>sid pref. upsertValuePackagePreferenceTx E u True sid d = Inr (pref, d'))"
proof (cases "getHighestActiveValuePackageTx u (getDBTimestampTx E) d")
  case (Inl e)
  with assms show ?thesis by (simp add: loadWithoutPreference_def)
next
  case (Inr best)
  show ?thesis
  proof (cases best)
    case None
    with Inr assms show ?thesis by (simp add: loadWithoutPreference_def)
  next
    case (Some sp)
    with Inr assms show ?thesis
      by (cases sp; cases "upsertValuePackagePreferenceTx E u True (sub_Id (fst sp)) d")
         (auto simp: loadWithoutPreference_def Let_def)
  qed
qed

lemma loadWithPreference_db:
  assumes "loadWithPreference E u inc pref d = (r, d')"
  shows "d' = d \<or> (\<exists>sid pref. upsertValuePackagePreferenceTx E u True sid d = Inr (pref, d'))"
proof -
  let ?sub = "first_where (\<lambda>s. sub_Id s = pref_ActiveUserSubscriptionId pref \<and>
      activeSub u (getDBTimestampTx E) s) (subs d)"
  consider "pref_ActiveUserSubscriptionId pref \<le> 0 \<or> ?sub = None"
    | s e where "0 < pref_ActiveUserSubscriptionId pref" "?sub = Some s"
        "getSubscriptionPlanByIdFreshTx (sub_PlanId s) d = Inl e"
    | s p where "0 < pref_ActiveUserSubscriptionId pref" "?sub = Some s"
        "getSubscriptionPlanByIdFreshTx (sub_PlanId s) d = Inr p"
    by (metis not_le option.exhaust sum.exhaust)
  then show ?thesis
  proof cases
    case (3 s p)
    with assms show ?thesis
      by (cases "upsertValuePackagePreferenceTx E u True (sub_Id s) d")
         (auto simp: loadWithPreference_def Let_def split: if_splits)
  qed (use assms in \<open>auto simp: loadWithPreference_def Let_def split: if_splits\<close>)
qed

lemma load_db:
  assumes "loadValuePackageStateTx E u inc d = (r, d')"
  shows "d' = d \<or> (\<exists>sid pref. upsertValuePackagePreferenceTx E u True sid d = Inr (pref, d'))"
  using assms by (auto simp: loadValuePackageStateTx_def split: if_splits option.splits
      dest: loadWithoutPreference_db loadWithPreference_db)

lemma cards_inv_load:
  "loadValuePackageStateTx E u inc d = (r, d') \<Longrightarrow> cards_inv d \<Longrightarrow> cards_inv d'"
  using load_db cards_inv_upsert by blast

lemma cards_inv_backfillUser:
  assumes "backfillUser E now u d = Inr d'" "cards_inv d"
  shows "cards_inv d'"
  using assms cards_inv_upsert
  by (auto simp: backfillUser_def res_simps split: if_splits option.splits)

lemma cards_inv_backfill:
  "backfillUsers E now us d = (r, d') \<Longrightarrow> cards_inv d \<Longrightarrow> cards_inv d'"
  by (induction us arbitrary: d) (auto split: sum.splits dest: cards_inv_backfillUser)

lemma cards_inv_purchase_gift:
  "ensureValuePackagePreferenceAfterPurchaseTx E u sid p n note d = Inr d' \<Longrightarrow> cards_inv d \<Longrightarrow> cards_inv d'"
  by (auto simp: ensureValuePackagePreferenceAfterPurchaseTx_def res_simps Let_def
      dest!: cards_inv_upsert cards_inv_grant split: if_splits)

lemma cards_inv_activate:
  "ActivateValuePackage E u sid d = Inr (st, d') \<Longrightarrow> cards_inv d \<Longrightarrow> cards_inv d'"
  by (auto simp: ActivateValuePackage_def res_simps Let_def dest!: cards_inv_upsert split: if_splits)

lemma load_result:
  "(case loadValuePackageStateTx E u inc d of (Inl e, _) \<Rightarrow> Inl e | (Inr st, d1) \<Rightarrow> f st d1) = Inr y \<Longrightarrow>
   \<exists>st d1. loadValuePackageStateTx E u inc d = (Inr st, d1) \<and> f st d1 = Inr y"
  by (cases "loadValuePackageStateTx E u inc d") (auto split: sum.splits)

lemma cards_inv_deactivate:
  assumes "DeactivateValuePackage E u d = Inr (st, d')" "cards_inv d"
  shows "cards_inv d'"
proof -
  obtain sid pref d1 st' where "upsertValuePackagePreferenceTx E u False sid d = Inr (pref, d1)"
    "loadValuePackageStateTx E u True d1 = (Inr st', d')"
    using assms(1) by (auto simp: DeactivateValuePackage_def getValuePackageStateTx_def res_simps Let_def
        split: if_splits dest!: load_result)
  then show ?thesis using assms(2) by (blast intro: cards_inv_upsert cards_inv_load)
qed

lemma cards_inv_fallback:
  assumes "UpdateValuePackageWalletFallback E u en d = Inr (st, d')" "cards_inv d"
  shows "cards_inv d'"
proof -
  let ?f = "\<lambda>x. x\<lparr>pref_WalletFallbackEnabled := Some en, pref_UpdatedAt := GetTimestamp E\<rparr>"
  obtain st1 d1 pref d2 where "loadValuePackageStateTx E u True d = (Inr st1, d1)"
    and e: "ensureValuePackagePreferenceForUpdateTx E u d1 = Inr (pref, d2)"
    and d': "d' = d2\<lparr>prefs := update_where (\<lambda>x. pref_UserId x = u) ?f (prefs d2)\<rparr>"
    using assms(1) by (auto simp: UpdateValuePackageWalletFallback_def getValuePackageStateTx_def res_simps Let_def
        split: if_splits dest!: load_result)
  then have "cards_inv d2" using assms(2) by (blast intro: cards_inv_load cards_inv_ensure)
  moreover have "cardCount v d' = cardCount v d2" for v
    by (simp add: d' cardCount_def first_where_update split: option.split)
  moreover have "map pref_UserId (rows (prefs d')) = map pref_UserId (rows (prefs d2))"
    by (simp add: d')
  moreover have "ledgers d' = ledgers d2" by (simp add: d')
  ultimately show ?thesis by (metis cards_inv_frame)
qed

section \<open>Histories of the card account\<close>

text \<open>The operations that touch preferences and reset cards, as steps of the database. Values
  given by an administrator are 64-bit integers.\<close>

inductive card_step :: "db \<Rightarrow> db \<Rightarrow> bool" where
  activate: "ActivateValuePackage E u sid d = Inr (st, d') \<Longrightarrow> card_step d d'"
| deactivate: "DeactivateValuePackage E u d = Inr (st, d') \<Longrightarrow> card_step d d'"
| fallback: "UpdateValuePackageWalletFallback E u en d = Inr (st, d') \<Longrightarrow> card_step d d'"
| adjust: "AdjustValuePackageResetCount E u mode v reason admin d = Inr (adj, d') \<Longrightarrow> in_i64 v \<Longrightarrow>
    card_step d d'"
| consume: "ConsumeValuePackageResetCount E u sid t act note d = Inr (st, d') \<Longrightarrow> card_step d d'"
| gift: "ensureValuePackagePreferenceAfterPurchaseTx E u sid p n note d = Inr d' \<Longrightarrow> card_step d d'"
| grant: "grantValuePackageResetCountTx E u n src act note d = Inr (pref, d') \<Longrightarrow> card_step d d'"
| load: "loadValuePackageStateTx E u inc d = (r, d') \<Longrightarrow> card_step d d'"
| backfill: "backfillDefaultEnabledValuePackagePreferencesTx E perm now d = (r', d') \<Longrightarrow> card_step d d'"

lemma cards_inv_backfillAll:
  assumes "backfillDefaultEnabledValuePackagePreferencesTx E perm now d = (r, d')" "cards_inv d"
  shows "cards_inv d'"
  using assms by (auto simp: backfillDefaultEnabledValuePackagePreferencesTx_def Let_def
      split: sum.splits intro: cards_inv_backfill)

lemmas cards_inv_ops = cards_inv_activate cards_inv_deactivate cards_inv_fallback cards_inv_adjust
  cards_inv_consume cards_inv_purchase_gift cards_inv_grant cards_inv_load cards_inv_backfillAll

lemma card_step_inv: "card_step d d' \<Longrightarrow> cards_inv d \<Longrightarrow> cards_inv d'"
  by (induction rule: card_step.induct) (blast intro: cards_inv_ops)+

lemma card_steps_inv: "card_step\<^sup>*\<^sup>* d d' \<Longrightarrow> cards_inv d \<Longrightarrow> cards_inv d'"
  by (induction rule: rtranclp_induct) (blast intro: card_step_inv)+

lemma ex_cards_inv: "cards_inv ex_db"
  by (simp add: cards_inv_def cardCount_def cardLog_def first_where_def ex_pref_def ex_ledger_def
      zero_ledger_def i64_def)

lemma first_where_distinct:
  "distinct (map g (rows t)) \<Longrightarrow> x \<in> set (rows t) \<Longrightarrow> first_where (\<lambda>y. g y = g x) t = Some x"
proof -
  have "distinct (map g xs) \<Longrightarrow> x \<in> set xs \<Longrightarrow> find (\<lambda>y. g y = g x) xs = Some x" for xs
    by (induction xs) force+
  then show "distinct (map g (rows t)) \<Longrightarrow> x \<in> set (rows t) \<Longrightarrow> ?thesis"
    by (simp add: first_where_def)
qed

lemma summary_ok:
  "first_where (\<lambda>x. sub_Id x = sub_Id s \<and> sub_UserId x = u) (subs d) = Some s' \<Longrightarrow>
   getSubscriptionPlanByIdFreshTx (sub_PlanId s') d = Inr p' \<Longrightarrow>
   \<exists>x. buildValuePackageUsageSummaryTx E u s p now d = Inr x"
  by (simp add: buildValuePackageUsageSummaryTx_def getValuePackageWindowUsageDetailsTx_def Let_def)

lemma ex_fields [simp]:
  "sub_Id ex_sub = 7" "sub_UserId ex_sub = 5" "sub_PlanId ex_sub = 1" "sub_QuotaEpoch ex_sub = 2"
  "pref_UserId ex_pref = 5" "pref_ResetCount ex_pref = 3" "pref_Enabled ex_pref"
  "pref_ActiveUserSubscriptionId ex_pref = 7"
  by (simp_all add: ex_sub_def ex_pref_def)

lemma ex_consume:
  "\<exists>st d'. ConsumeValuePackageResetCount ex_env 5 7 0 5 '''' ex_db = Inr (st, d')"
proof -
  have e: "ensureValuePackagePreferenceForUpdateTx ex_env 5 ex_db = Inr (ex_pref, ex_db)"
    by (simp add: ensureValuePackagePreferenceForUpdateTx_def first_where_def)
  have r: "resettablePackage 5 7 2000 ex_pref ex_db = Inr (ex_sub, ex_plan)"
    by (simp add: resettablePackage_def first_where_def ex_sub_active MaxInt64_def)
  have a: "affected (\<lambda>x. pref_UserId x = 5 \<and> 0 < pref_ResetCount x) \<lparr>rows = [ex_pref], seq = 1\<rparr> = 1"
    by (simp add: affected_def)
  let ?s = "ex_sub\<lparr>sub_AmountUsed := 0, sub_QuotaEpoch := 3\<rparr>"
  have "\<exists>x. buildValuePackageUsageSummaryTx ex_env 5 (stampSub ex_env ?s) ex_plan 2000
      (saveSub ex_env ?s d) = Inr x" if "subs d = subs ex_db" "plans d = plans ex_db" for d
    by (rule summary_ok [where s' = "stampSub ex_env ?s" and p' = ex_plan])
       (simp_all add: first_where_def that)
  then show ?thesis
    unfolding ConsumeValuePackageResetCount_def
    by (simp add: e r a Let_def bind_e_Inr)
qed

lemma ex_adjust:
  "\<exists>adj d'. AdjustValuePackageResetCount ex_env 5 ''add'' 2 '''' 1 ex_db = Inr (adj, d') \<and>
     rows (prefs d') = [ex_pref\<lparr>pref_ResetCount := 5, pref_UpdatedAt := 2000\<rparr>]"
  by (simp add: AdjustValuePackageResetCount_def ensureExistingUserForUpdateTx_def first_where_def
      ensureValuePackagePreferenceForUpdateTx_def adjustedCount_def setResetCount_def
      ex_user_def zero_user_def ex_pref_def add64_def sub64_def i64_def)

section \<open>Properties\<close>

text \<open>C7. The ledger explains the reset cards: along every history of activations, purchases,
  grants, administrative adjustments and resets, the number of cards on a user's preference
  row is the sum of the deltas of the user's ledger rows, as a 64-bit integer.\<close>

theorem reset_cards_match_ledger:
  assumes "cards_inv d" and "card_step\<^sup>*\<^sup>* d d'" and "pref \<in> set (rows (prefs d'))"
  shows "pref_ResetCount pref = i64 (cardLog (pref_UserId pref) d')"
proof -
  have inv: "cards_inv d'" using assms(1,2) by (rule card_steps_inv [rotated])
  then have "first_where (\<lambda>x. pref_UserId x = pref_UserId pref) (prefs d') = Some pref"
    using assms(3) by (intro first_where_distinct) (simp add: cards_inv_def)
  with inv show ?thesis by (auto simp: cards_inv_def cardCount_def dest: spec [of _ "pref_UserId pref"])
qed

theorem reset_cards_match_ledger_witness:
  "\<exists>d'. card_step\<^sup>*\<^sup>* ex_db d' \<and> i64 (cardLog 5 d') = 5"
proof -
  obtain adj d' where a: "AdjustValuePackageResetCount ex_env 5 ''add'' 2 '''' 1 ex_db = Inr (adj, d')"
    and r: "rows (prefs d') = [ex_pref\<lparr>pref_ResetCount := 5, pref_UpdatedAt := 2000\<rparr>]"
    using ex_adjust by blast
  have step: "card_step\<^sup>*\<^sup>* ex_db d'"
    using card_step.adjust [OF a] by (simp add: in_i64_def)
  from reset_cards_match_ledger [OF ex_cards_inv step, of "ex_pref\<lparr>pref_ResetCount := 5, pref_UpdatedAt := 2000\<rparr>"]
  have "i64 (cardLog 5 d') = 5" by (simp add: r)
  with step show ?thesis by blast
qed



end
