(* ===== verification/Consume.thy ===== *)
theory Consume
  imports Preferences
begin

text \<open>
  Metering of subscription quota (\<open>src/model/subscription.go\<close>): pre-consuming an estimate for
  a request, from a regular subscription or from a value package, moving a package's
  reservation to a new target while the request runs, refunding it, booking the final
  difference, the periodic reset of due subscriptions and the clean-up of idempotency
  records.

  The contract of a value package is that its \<open>AmountUsed\<close> is the sum of the usage records
  of its current quota epoch (\<open>package_ledger\<close>); every operation keeps it, under the
  invariant \<open>quota_inv\<close> of the tables it works on.
\<close>

section \<open>Results\<close>

record SubscriptionPreConsumeResult =
  res_UserSubscriptionId :: int
  res_PreConsumed :: int
  res_AmountTotal :: int
  res_AmountUsedBefore :: int
  res_AmountUsedAfter :: int
  res_QuotaEpoch :: int

definition consumeResult ::
  "UserSubscription \<Rightarrow> int \<Rightarrow> int \<Rightarrow> int \<Rightarrow> SubscriptionPreConsumeResult" where
  "consumeResult s preConsumed usedBefore epoch =
     \<lparr>res_UserSubscriptionId = sub_Id s, res_PreConsumed = preConsumed,
      res_AmountTotal = sub_AmountTotal s, res_AmountUsedBefore = usedBefore,
      res_AmountUsedAfter = sub_AmountUsed s, res_QuotaEpoch = epoch\<rparr>"

definition preByRequest :: "string \<Rightarrow> db \<Rightarrow> SubscriptionPreConsumeRecord option" where
  "preByRequest requestId d = first_where (\<lambda>r. pre_RequestId r = requestId) (pres d)"

definition usageByRequest :: "int \<Rightarrow> string \<Rightarrow> db \<Rightarrow> ValuePackageUsageRecord option" where
  "usageByRequest sid requestId d =
     first_where (\<lambda>r. usage_UserSubscriptionId r = sid \<and> usage_RequestId r = requestId) (usages d)"

definition createPre :: "env \<Rightarrow> SubscriptionPreConsumeRecord \<Rightarrow> db \<Rightarrow> db" where
  "createPre E r d = d\<lparr>pres := insert_row set_pre_Id
     (r\<lparr>pre_CreatedAt := GetTimestamp E, pre_UpdatedAt := GetTimestamp E\<rparr>) (pres d)\<rparr>"

definition savePre :: "env \<Rightarrow> SubscriptionPreConsumeRecord \<Rightarrow> db \<Rightarrow> db" where
  "savePre E r d = d\<lparr>pres := save_row pre_Id (r\<lparr>pre_UpdatedAt := GetTimestamp E\<rparr>) (pres d)\<rparr>"

text \<open>A request that was pre-consumed before gets the recorded result again.\<close>

definition replayPreConsume ::
  "SubscriptionPreConsumeRecord \<Rightarrow> db \<Rightarrow> merr + SubscriptionPreConsumeResult \<times> db" where
  "replayPreConsume existing d =
     bind_e (of_option ErrRecordNotFound
         (first_where (\<lambda>s. sub_Id s = pre_UserSubscriptionId existing) (subs d)))
       (\<lambda>s. Inr (consumeResult s (pre_PreConsumed existing) (sub_AmountUsed s)
                   (pre_QuotaEpoch existing), d))"

section \<open>Regular subscriptions\<close>

fun preConsumeFrom ::
  "env \<Rightarrow> string \<Rightarrow> int \<Rightarrow> int \<Rightarrow> int \<Rightarrow> UserSubscription list \<Rightarrow> db \<Rightarrow>
     (merr + SubscriptionPreConsumeResult \<times> db) option" where
  "preConsumeFrom E requestId userId amount now [] d = Some (Inl (QuotaE (ErrQuotaInsufficient amount)))"
| "preConsumeFrom E requestId userId amount now (candidate # rest) d =
     (case getSubscriptionPlanByIdFreshTx (sub_PlanId candidate) d of
        Inl e \<Rightarrow> Some (Inl e)
      | Inr p0 \<Rightarrow>
          let p = normalizeValuePackagePlan p0 in
          if IsValuePackage p then preConsumeFrom E requestId userId amount now rest d
          else case maybeResetUserSubscriptionWithPlanTx E candidate p now d of
            None \<Rightarrow> None
          | Some (s, d1) \<Rightarrow>
              let usedBefore = sub_AmountUsed s in
              if sub_AmountTotal s > 0 \<and> sub64 (sub_AmountTotal s) usedBefore < amount
              then preConsumeFrom E requestId userId amount now rest d1
              else case preByRequest requestId d1 of
                Some dup \<Rightarrow>
                  if pre_Status dup = ''refunded'' then Some (Inl (QuotaE ErrAlreadyRefunded))
                  else Some (Inr (consumeResult s (pre_PreConsumed dup) (sub_AmountUsed s) 0, d1))
              | None \<Rightarrow>
                  let d2 = createPre E (zero_pre\<lparr>pre_RequestId := requestId, pre_UserId := userId,
                             pre_UserSubscriptionId := sub_Id s, pre_PreConsumed := amount,
                             pre_Status := ''consumed''\<rparr>) d1;
                      s1 = s\<lparr>sub_AmountUsed := add64 (sub_AmountUsed s) amount\<rparr>
                  in Some (Inr (consumeResult s1 amount usedBefore 0, saveSub E s1 d2)))"

definition PreConsumeUserSubscription ::
  "env \<Rightarrow> string \<Rightarrow> int \<Rightarrow> int \<Rightarrow> db \<Rightarrow> (merr + SubscriptionPreConsumeResult \<times> db) option" where
  "PreConsumeUserSubscription E requestId userId amount d =
     (if userId \<le> 0 then Some (Inl (UserE ErrInvalidUserId))
      else if TrimSpace requestId = '''' then Some (Inl (QuotaE ErrRequestIdEmpty))
      else if amount \<le> 0 then Some (Inl (QuotaE ErrAmountNotPositive))
      else
        let now = getDBTimestampTx E in
        case preByRequest requestId d of
          Some existing \<Rightarrow>
            Some (if pre_Status existing = ''refunded'' then Inl (QuotaE ErrAlreadyRefunded)
                  else replayPreConsume existing d)
        | None \<Rightarrow>
            let candidates = sort_key (\<lambda>s. (sub_EndTime s, sub_Id s))
                  (select_where (activeSub userId now) (subs d))
            in if candidates = [] then Some (Inl (QuotaE ErrNoActiveSubscription))
               else preConsumeFrom E requestId userId amount now candidates d)"

section \<open>Value packages\<close>

definition packageForUpdate ::
  "env \<Rightarrow> int \<Rightarrow> int \<Rightarrow> int \<Rightarrow> db \<Rightarrow> merr + UserSubscription \<times> SubscriptionPlan \<times> db" where
  "packageForUpdate E userId userSubscriptionId now d =
     bind_e (of_option (QuotaE ErrNoActiveSubscription)
         (first_where (\<lambda>s. sub_Id s = userSubscriptionId \<and> activeSub userId now s) (subs d)))
     (\<lambda>s0. bind_e (getSubscriptionPlanByIdFreshTx (sub_PlanId s0) d)
     (\<lambda>p0. let p = normalizeValuePackagePlan p0 in
        if \<not> IsValuePackage p then Inl (PlanE ErrNotValuePackage)
        else bind_e (maybeAdvanceValuePackageCycleTx E s0 p now d) (\<lambda>(s, d1). Inr (s, p, d1))))"

definition usageFor ::
  "int \<Rightarrow> UserSubscription \<Rightarrow> SubscriptionPlan \<Rightarrow> string \<Rightarrow> int \<Rightarrow> int \<Rightarrow> int \<Rightarrow>
     ValuePackageUsageRecord" where
  "usageFor userId s p requestId quota epoch now =
     \<lparr>usage_Id = 0, usage_UserId = userId, usage_UserSubscriptionId = sub_Id s,
      usage_PlanId = plan_Id p, usage_PackageType = plan_PackageType p,
      usage_ModelGroup = plan_ModelGroup p, usage_RequestId = requestId, usage_Quota = quota,
      usage_QuotaEpoch = epoch, usage_CreatedAt = now\<rparr>"

definition preConsumePackage ::
  "env \<Rightarrow> string \<Rightarrow> int \<Rightarrow> int \<Rightarrow> int \<Rightarrow> UserSubscription \<Rightarrow> SubscriptionPlan \<Rightarrow> db \<Rightarrow>
     merr + SubscriptionPreConsumeResult \<times> db" where
  "preConsumePackage E requestId userId amount now s p d1 =
     (let usedBefore = sub_AmountUsed s in
      if sub_AmountTotal s > 0 \<and> sub64 (sub_AmountTotal s) usedBefore < amount
      then Inl (QuotaE (ErrQuotaInsufficient amount))
      else bind_e (getValuePackageWindowUsageDetailsTx E userId (sub_Id s) now d1) (\<lambda>det.
        if plan_Limit5hAmount p > 0 \<and> add64 (det_Used5h det) amount > plan_Limit5hAmount p
        then Inl (QuotaE (Err5hLimitExceeded amount))
        else if valuePackageHas7dWindow p \<and> add64 (det_Used7d det) amount > plan_Limit7dAmount p
        then Inl (QuotaE (Err7dLimitExceeded amount))
        else case preByRequest requestId d1 of
          Some dup \<Rightarrow>
            if pre_Status dup = ''refunded'' then Inl (QuotaE ErrAlreadyRefunded)
            else if pre_UserId dup \<noteq> userId \<or> pre_UserSubscriptionId dup \<noteq> sub_Id s
            then Inl (QuotaE ErrPreConsumeMismatch)
            else Inr (\<lparr>res_UserSubscriptionId = pre_UserSubscriptionId dup,
                       res_PreConsumed = pre_PreConsumed dup, res_AmountTotal = sub_AmountTotal s,
                       res_AmountUsedBefore = sub_AmountUsed s, res_AmountUsedAfter = sub_AmountUsed s,
                       res_QuotaEpoch = pre_QuotaEpoch dup\<rparr>, d1)
        | None \<Rightarrow>
            let d2 = createPre E (zero_pre\<lparr>pre_RequestId := requestId, pre_UserId := userId,
                       pre_UserSubscriptionId := sub_Id s, pre_PreConsumed := amount,
                       pre_QuotaEpoch := sub_QuotaEpoch s, pre_Status := ''consumed''\<rparr>) d1
            in bind_e (recordValuePackageUsageTx E
                 (usageFor userId s p requestId amount (sub_QuotaEpoch s) now) d2) (\<lambda>d3.
               let s1 = s\<lparr>sub_AmountUsed := add64 (sub_AmountUsed s) amount\<rparr>
               in Inr (consumeResult s1 amount usedBefore (sub_QuotaEpoch s1), saveSub E s1 d3))))"

definition PreConsumeValuePackageSubscription ::
  "env \<Rightarrow> string \<Rightarrow> int \<Rightarrow> int \<Rightarrow> int \<Rightarrow> db \<Rightarrow> merr + SubscriptionPreConsumeResult \<times> db" where
  "PreConsumeValuePackageSubscription E requestId userId userSubscriptionId amount d =
     (if userId \<le> 0 then Inl (UserE ErrInvalidUserId)
      else if userSubscriptionId \<le> 0 then Inl (QuotaE ErrInvalidUserSubscriptionId)
      else if TrimSpace requestId = '''' then Inl (QuotaE ErrRequestIdEmpty)
      else if amount \<le> 0 then Inl (QuotaE ErrAmountNotPositive)
      else
        let now = getDBTimestampTx E in
        case preByRequest requestId d of
          Some existing \<Rightarrow>
            if pre_Status existing = ''refunded'' then Inl (QuotaE ErrAlreadyRefunded)
            else if pre_UserId existing \<noteq> userId \<or>
                    pre_UserSubscriptionId existing \<noteq> userSubscriptionId
            then Inl (QuotaE ErrPreConsumeMismatch)
            else replayPreConsume existing d
        | None \<Rightarrow>
            bind_e (packageForUpdate E userId userSubscriptionId now d) (\<lambda>(s, p, d1).
              preConsumePackage E requestId userId amount now s p d1))"

text \<open>The records the limits are checked against once the request stands at its target.\<close>

definition replacedRecords ::
  "int \<Rightarrow> UserSubscription \<Rightarrow> SubscriptionPlan \<Rightarrow> string \<Rightarrow> int \<Rightarrow> int \<Rightarrow> int \<Rightarrow> int \<Rightarrow> db \<Rightarrow>
     ValuePackageUsageRecord list" where
  "replacedRecords userId s p requestId targetQuota requestEpoch currentCreatedAt now d =
     (let anchor = valuePackageSubscriptionAnchorStart s now;
          lowerBound = (if anchor \<le> 0 then sub64 now valuePackage7dWindowSeconds else anchor);
          usageRecords = sort_key (\<lambda>r. (usage_CreatedAt r, usage_Id r))
            (select_where (\<lambda>r. usage_UserId r = userId \<and> usage_UserSubscriptionId r = sub_Id s \<and>
                 usage_QuotaEpoch r = requestEpoch \<and> usage_CreatedAt r \<ge> lowerBound \<and>
                 usage_CreatedAt r \<le> now \<and> (usage_Quota r > 0 \<or> usage_RequestId r = requestId))
              (usages d));
          replaced = map (\<lambda>r. if usage_RequestId r = requestId
                              then r\<lparr>usage_Quota := targetQuota\<rparr> else r) usageRecords
      in if currentCreatedAt = 0 \<and> \<not> list_ex (\<lambda>r. usage_RequestId r = requestId) usageRecords
         then replaced @ [usageFor userId s p requestId targetQuota requestEpoch now]
         else replaced)"

definition reserveLimits ::
  "env \<Rightarrow> int \<Rightarrow> UserSubscription \<Rightarrow> SubscriptionPlan \<Rightarrow> string \<Rightarrow> int \<Rightarrow> int \<Rightarrow> int \<Rightarrow> int \<Rightarrow> int \<Rightarrow>
     db \<Rightarrow> merr + unit" where
  "reserveLimits E userId s p requestId targetQuota delta requestEpoch currentCreatedAt now d =
     (if delta \<le> 0 then Inr ()
      else if sub_AmountTotal s > 0 \<and> sub64 (sub_AmountTotal s) (sub_AmountUsed s) < delta
      then Inl (QuotaE (ErrQuotaInsufficient delta))
      else
        let lastResetAt = getLastValuePackageQuotaResetAtTx E userId (sub_Id s) now d;
            nextDetails = buildValuePackageWindowUsageDetailsFromRecords s p
              (replacedRecords userId s p requestId targetQuota requestEpoch currentCreatedAt now d)
              lastResetAt now
        in if plan_Limit5hAmount p > 0 \<and> det_Used5h nextDetails > plan_Limit5hAmount p
           then Inl (QuotaE (Err5hLimitExceeded targetQuota))
           else if valuePackageHas7dWindow p \<and> det_Used7d nextDetails > plan_Limit7dAmount p
           then Inl (QuotaE (Err7dLimitExceeded targetQuota))
           else Inr ())"

definition requestEpochOf ::
  "int \<Rightarrow> int \<Rightarrow> UserSubscription \<Rightarrow> string \<Rightarrow> db \<Rightarrow> merr + int \<times> int \<times> int" where
  "requestEpochOf userId userSubscriptionId s requestId d =
     (case (preByRequest requestId d, usageByRequest userSubscriptionId requestId d) of
        (None, None) \<Rightarrow> Inr (sub_QuotaEpoch s, 0, 0)
      | (None, Some u) \<Rightarrow> Inr (usage_QuotaEpoch u, usage_Quota u, usage_CreatedAt u)
      | (Some pre, existing) \<Rightarrow>
          if pre_UserId pre \<noteq> userId \<or> pre_UserSubscriptionId pre \<noteq> userSubscriptionId
          then Inl (QuotaE ErrPreConsumeMismatch)
          else (case existing of
              None \<Rightarrow> Inr (pre_QuotaEpoch pre, 0, 0)
            | Some u \<Rightarrow>
                if pre_QuotaEpoch pre \<noteq> usage_QuotaEpoch u then Inl (QuotaE ErrUsageEpochMismatch)
                else Inr (usage_QuotaEpoch u, usage_Quota u, usage_CreatedAt u)))"

definition reserveTarget ::
  "env \<Rightarrow> string \<Rightarrow> int \<Rightarrow> int \<Rightarrow> int \<Rightarrow> UserSubscription \<Rightarrow> SubscriptionPlan \<Rightarrow> int \<Rightarrow> int \<Rightarrow> int \<Rightarrow>
     db \<Rightarrow> merr + SubscriptionPreConsumeResult \<times> db" where
  "reserveTarget E requestId userId targetQuota now s p requestEpoch currentQuota currentCreatedAt d1 =
     (let usedBefore = sub_AmountUsed s;
          delta = sub64 targetQuota currentQuota;
          record = usageFor userId s p requestId targetQuota requestEpoch now
      in if delta = 0 then Inr (consumeResult s targetQuota usedBefore requestEpoch, d1)
      else if sub_QuotaEpoch s \<noteq> requestEpoch then
        bind_e (recordValuePackageUsageTx E record d1)
          (\<lambda>d2. Inr (consumeResult s targetQuota usedBefore requestEpoch, d2))
      else
        bind_e (reserveLimits E userId s p requestId targetQuota delta requestEpoch
                  currentCreatedAt now d1) (\<lambda>_.
        bind_e (recordValuePackageUsageTx E record d1) (\<lambda>d2.
          let newUsed = add64 (sub_AmountUsed s) delta;
              s1 = s\<lparr>sub_AmountUsed := (if newUsed < 0 then 0 else newUsed)\<rparr>
          in Inr (consumeResult s1 targetQuota usedBefore requestEpoch, saveSub E s1 d2))))"

definition ReserveValuePackageUsageToTarget ::
  "env \<Rightarrow> string \<Rightarrow> int \<Rightarrow> int \<Rightarrow> int \<Rightarrow> db \<Rightarrow> merr + SubscriptionPreConsumeResult \<times> db" where
  "ReserveValuePackageUsageToTarget E requestId userId userSubscriptionId targetQuota d =
     (if TrimSpace requestId = '''' then Inl (QuotaE ErrRequestIdEmpty)
      else if userId \<le> 0 then Inl (UserE ErrInvalidUserId)
      else if userSubscriptionId \<le> 0 then Inl (QuotaE ErrInvalidUserSubscriptionId)
      else if targetQuota < 0 then Inl (QuotaE ErrTargetQuotaNegative)
      else
        let now = getDBTimestampTx E in
        bind_e (packageForUpdate E userId userSubscriptionId now d) (\<lambda>(s, p, d1).
        bind_e (requestEpochOf userId userSubscriptionId s requestId d1)
          (\<lambda>(requestEpoch, currentQuota, currentCreatedAt).
             reserveTarget E requestId userId targetQuota now s p requestEpoch currentQuota
               currentCreatedAt d1)))"

section \<open>Refund and settlement\<close>

definition revokeValuePackageUsageReservationTx :: "int \<Rightarrow> string \<Rightarrow> db \<Rightarrow> db" where
  "revokeValuePackageUsageReservationTx userSubscriptionId requestId d =
     (if userSubscriptionId \<le> 0 \<or> TrimSpace requestId = '''' then d
      else d\<lparr>usages := update_where
        (\<lambda>r. usage_UserSubscriptionId r = userSubscriptionId \<and> usage_RequestId r = requestId)
        (\<lambda>r. r\<lparr>usage_Quota := 0\<rparr>) (usages d)\<rparr>)"

definition giveBack :: "env \<Rightarrow> UserSubscription \<Rightarrow> int \<Rightarrow> db \<Rightarrow> db" where
  "giveBack E s quota d =
     (let newUsed = sub64 (sub_AmountUsed s) quota
      in saveSub E (s\<lparr>sub_AmountUsed := (if newUsed < 0 then 0 else newUsed)\<rparr>) d)"

definition refundUsage ::
  "env \<Rightarrow> SubscriptionPreConsumeRecord \<Rightarrow> UserSubscription \<Rightarrow> SubscriptionPlan \<Rightarrow> db \<Rightarrow> merr + db" where
  "refundUsage E record s p d =
     (if IsValuePackage p then
        case usageByRequest (pre_UserSubscriptionId record) (pre_RequestId record) d of
          Some u \<Rightarrow>
            if usage_QuotaEpoch u \<noteq> pre_QuotaEpoch record then Inl (QuotaE ErrUsageEpochMismatch)
            else Inr (if sub_QuotaEpoch s = pre_QuotaEpoch record \<and> usage_Quota u > 0
                      then giveBack E s (usage_Quota u) d else d)
        | None \<Rightarrow>
            Inr (if sub_QuotaEpoch s = pre_QuotaEpoch record \<and> pre_PreConsumed record > 0
                 then giveBack E s (pre_PreConsumed record) d else d)
      else Inr (if pre_PreConsumed record > 0 then giveBack E s (pre_PreConsumed record) d else d))"

definition RefundSubscriptionPreConsume :: "env \<Rightarrow> string \<Rightarrow> db \<Rightarrow> merr + db" where
  "RefundSubscriptionPreConsume E requestId d =
     (if TrimSpace requestId = '''' then Inl (QuotaE ErrRequestIdEmpty)
      else bind_e (of_option ErrRecordNotFound (preByRequest requestId d)) (\<lambda>record.
        if pre_Status record = ''refunded'' then
          Inr (revokeValuePackageUsageReservationTx (pre_UserSubscriptionId record)
                 (pre_RequestId record) d)
        else
          bind_e (of_option ErrRecordNotFound
            (first_where (\<lambda>s. sub_Id s = pre_UserSubscriptionId record) (subs d))) (\<lambda>s.
          bind_e (getSubscriptionPlanByIdFreshTx (sub_PlanId s) d) (\<lambda>p0.
          bind_e (refundUsage E record s (normalizeValuePackagePlan p0) d) (\<lambda>d1.
            Inr (savePre E (record\<lparr>pre_Status := ''refunded''\<rparr>)
                   (revokeValuePackageUsageReservationTx (pre_UserSubscriptionId record)
                      (pre_RequestId record) d1)))))))"

definition PostConsumeUserSubscriptionDelta :: "env \<Rightarrow> int \<Rightarrow> int \<Rightarrow> db \<Rightarrow> merr + db" where
  "PostConsumeUserSubscriptionDelta E userSubscriptionId delta d =
     (if userSubscriptionId \<le> 0 then Inl (QuotaE ErrInvalidUserSubscriptionId)
      else if delta = 0 then Inr d
      else bind_e (of_option ErrRecordNotFound
          (first_where (\<lambda>s. sub_Id s = userSubscriptionId) (subs d))) (\<lambda>s.
        let newUsed0 = add64 (sub_AmountUsed s) delta;
            newUsed = (if newUsed0 < 0 then 0 else newUsed0)
        in if sub_AmountTotal s > 0 \<and> newUsed > sub_AmountTotal s
           then Inl (QuotaE (ErrUsedExceedsTotal newUsed (sub_AmountTotal s)))
           else Inr (saveSub E (s\<lparr>sub_AmountUsed := newUsed\<rparr>) d)))"

section \<open>Periodic work\<close>

definition resetDueOne ::
  "env \<Rightarrow> int \<Rightarrow> UserSubscription \<Rightarrow> SubscriptionPlan \<Rightarrow> db \<Rightarrow> (merr + bool \<times> db) option" where
  "resetDueOne E now s0 p0 d =
     (case first_where (\<lambda>s. sub_Id s = sub_Id s0 \<and> sub_NextResetTime s > 0 \<and>
              sub_NextResetTime s \<le> now) (subs d) of
        None \<Rightarrow> Some (Inr (False, d))
      | Some locked \<Rightarrow>
          let p = normalizeValuePackagePlan p0;
              changed = (\<lambda>s. \<not> (sub_QuotaEpoch s = sub_QuotaEpoch locked \<and>
                               sub_NextResetTime s = sub_NextResetTime locked))
          in if IsValuePackage p then
               Some (bind_e (maybeAdvanceValuePackageCycleTx E locked p now d)
                       (\<lambda>(s, d1). Inr (changed s, d1)))
             else map_option (\<lambda>(s, d1). Inr (changed s, d1))
                    (maybeResetUserSubscriptionWithPlanTx E locked p now d))"

fun resetDueLoop ::
  "env \<Rightarrow> int \<Rightarrow> UserSubscription list \<Rightarrow> int \<Rightarrow> db \<Rightarrow> (int \<times> merr option \<times> db) option" where
  "resetDueLoop E now [] resetCount d = Some (resetCount, None, d)"
| "resetDueLoop E now (s # ss) resetCount d =
     (case GetSubscriptionPlanById (sub_PlanId s) d of
        (Inl _, d1) \<Rightarrow> resetDueLoop E now ss resetCount d1
      | (Inr p, d1) \<Rightarrow>
         (case resetDueOne E now s p d1 of
            None \<Rightarrow> None
          | Some (Inl e) \<Rightarrow> Some (resetCount, Some e, d1)
          | Some (Inr (changed, d2)) \<Rightarrow>
              resetDueLoop E now ss (if changed then resetCount + 1 else resetCount) d2))"

definition ResetDueSubscriptions ::
  "env \<Rightarrow> int \<Rightarrow> db \<Rightarrow> (int \<times> merr option \<times> db) option" where
  "ResetDueSubscriptions E limit0 d =
     (let limit = (if limit0 \<le> 0 then 200 else limit0);
          now = getDBTimestampTx E;
          due = take (nat limit) (sort_key sub_NextResetTime
                  (select_where (\<lambda>s. sub_NextResetTime s > 0 \<and> sub_NextResetTime s \<le> now \<and>
                     sub_Status s = ''active'') (subs d)))
      in resetDueLoop E now due 0 d)"

definition CleanupSubscriptionPreConsumeRecords :: "env \<Rightarrow> int \<Rightarrow> db \<Rightarrow> int \<times> db" where
  "CleanupSubscriptionPreConsumeRecords E olderThanSeconds0 d =
     (let olderThanSeconds = (if olderThanSeconds0 \<le> 0 then 7 * 24 * 3600 else olderThanSeconds0);
          cutoff = sub64 (getDBTimestampTx E) olderThanSeconds;
          old = (\<lambda>r. pre_UpdatedAt r < cutoff)
      in (affected old (pres d), d\<lparr>pres := delete_where old (pres d)\<rparr>))"

section \<open>Frame facts\<close>

lemma createPre_tables [simp]:
  "plans (createPre E r d) = plans d" "subs (createPre E r d) = subs d"
  "prefs (createPre E r d) = prefs d" "usages (createPre E r d) = usages d"
  "resets (createPre E r d) = resets d" "ledgers (createPre E r d) = ledgers d"
  "users (createPre E r d) = users d"
  by (simp_all add: createPre_def)

lemma savePre_tables [simp]:
  "plans (savePre E r d) = plans d" "subs (savePre E r d) = subs d"
  "prefs (savePre E r d) = prefs d" "usages (savePre E r d) = usages d"
  "resets (savePre E r d) = resets d" "ledgers (savePre E r d) = ledgers d"
  "users (savePre E r d) = users d"
  by (simp_all add: savePre_def)

lemma revoke_tables [simp]:
  "plans (revokeValuePackageUsageReservationTx sid q d) = plans d"
  "subs (revokeValuePackageUsageReservationTx sid q d) = subs d"
  "prefs (revokeValuePackageUsageReservationTx sid q d) = prefs d"
  "resets (revokeValuePackageUsageReservationTx sid q d) = resets d"
  "pres (revokeValuePackageUsageReservationTx sid q d) = pres d"
  by (simp_all add: revokeValuePackageUsageReservationTx_def)

lemma giveBack_tables [simp]:
  "plans (giveBack E s q d) = plans d" "usages (giveBack E s q d) = usages d"
  "prefs (giveBack E s q d) = prefs d" "pres (giveBack E s q d) = pres d"
  "resets (giveBack E s q d) = resets d"
  by (simp_all add: giveBack_def Let_def)

lemma recordUsage_tables:
  "recordValuePackageUsageTx E r d = Inr d' \<Longrightarrow>
     plans d' = plans d \<and> subs d' = subs d \<and> prefs d' = prefs d \<and> pres d' = pres d \<and>
     resets d' = resets d \<and> ledgers d' = ledgers d \<and> users d' = users d"
  by (auto simp: recordValuePackageUsageTx_def Let_def split: if_splits)

end
