(* ===== verification/Quota_Ledger.thy ===== *)
theory Quota_Ledger
  imports Consume
begin

text \<open>
  The quota ledger of value packages: the invariant of subscriptions, usage records and
  pre-consume records that the operations of \<open>Consume\<close>, the reset cards and the cycle
  renewal keep, and the properties of metering that rest on it.

  An operation changes several tables in turn, and between its statements the invariant
  holds for all but the subscription and the request it works on. \<open>quota_inv_on S R\<close> is the
  invariant with the subscriptions \<open>S\<close> and the requests \<open>R\<close> exempt; every statement has a
  lemma that opens or closes an exemption.
\<close>

section \<open>Sums over a table\<close>

lemma sum_list_update:
  fixes w :: "'r \<Rightarrow> int"
  assumes "distinct (map k xs)"
  shows "sum_list (map w (map (\<lambda>x. if k x = c then f x else x) xs)) =
    sum_list (map w xs) + (case find (\<lambda>x. k x = c) xs of None \<Rightarrow> 0 | Some x \<Rightarrow> w (f x) - w x)"
  using assms
proof (induction xs)
  case (Cons a xs)
  show ?case
  proof (cases "k a = c")
    case True
    then have "\<forall>x \<in> set xs. k x \<noteq> c" using Cons.prems by (auto intro: rev_image_eqI)
    then have "map (\<lambda>x. if k x = c then f x else x) xs = xs" by (simp add: map_idI)
    with True show ?thesis by (simp add: comp_def)
  next
    case False
    with Cons show ?thesis by (auto split: option.splits)
  qed
qed simp

definition usage_key :: "ValuePackageUsageRecord \<Rightarrow> int \<times> string" where
  "usage_key r = (usage_UserSubscriptionId r, usage_RequestId r)"

definition usage_weight :: "int \<Rightarrow> int \<Rightarrow> ValuePackageUsageRecord \<Rightarrow> int" where
  "usage_weight sid ep r =
     (if usage_UserSubscriptionId r = sid \<and> usage_QuotaEpoch r = ep then usage_Quota r else 0)"

text \<open>What the usage records of an epoch of a subscription add up to.\<close>

definition usedIn :: "int \<Rightarrow> int \<Rightarrow> db \<Rightarrow> int" where
  "usedIn sid ep d = sum_list (map (usage_weight sid ep) (rows (usages d)))"

lemma usageByRequest_key: "usageByRequest sid q d = first_where (\<lambda>r. usage_key r = (sid, q)) (usages d)"
  by (simp add: usageByRequest_def usage_key_def)

lemma usageByRequest_Some:
  "usageByRequest sid q d = Some u \<Longrightarrow>
     usage_UserSubscriptionId u = sid \<and> usage_RequestId u = q \<and> u \<in> set (rows (usages d))"
  unfolding usageByRequest_def by (auto dest: first_where_Some)

text \<open>The usage record as the upsert leaves it.\<close>

definition mergedUsage :: "ValuePackageUsageRecord \<Rightarrow> ValuePackageUsageRecord \<Rightarrow> ValuePackageUsageRecord" where
  "mergedUsage r x = x\<lparr>usage_UserId := usage_UserId r, usage_PlanId := usage_PlanId r,
     usage_PackageType := usage_PackageType r, usage_ModelGroup := usage_ModelGroup r,
     usage_Quota := usage_Quota r\<rparr>"

lemma mergedUsage_fields [simp]:
  "usage_key (mergedUsage r x) = usage_key x" "usage_QuotaEpoch (mergedUsage r x) = usage_QuotaEpoch x"
  "usage_Quota (mergedUsage r x) = usage_Quota r" "usage_CreatedAt (mergedUsage r x) = usage_CreatedAt x"
  "usage_Id (mergedUsage r x) = usage_Id x" "usage_UserId (mergedUsage r x) = usage_UserId r"
  "usage_UserSubscriptionId (mergedUsage r x) = usage_UserSubscriptionId x"
  "usage_RequestId (mergedUsage r x) = usage_RequestId x"
  by (simp_all add: mergedUsage_def usage_key_def)

lemma recordUsage_rows:
  assumes "recordValuePackageUsageTx E r d = Inr d'" and "usage_CreatedAt r \<noteq> 0"
  shows "usages d' = upsert_row (\<lambda>x. usage_key x = usage_key r) (mergedUsage r) set_usage_Id r (usages d)"
  using assms unfolding recordValuePackageUsageTx_def mergedUsage_def usage_key_def
  by (auto simp: Let_def split: if_splits)

lemma recordUsage_usedIn:
  assumes "recordValuePackageUsageTx E r d = Inr d'" "usage_CreatedAt r \<noteq> 0"
    and "distinct (map usage_key (rows (usages d)))"
  shows "usedIn sid ep d' = usedIn sid ep d +
    (if usage_UserSubscriptionId r \<noteq> sid then 0
     else case usageByRequest sid (usage_RequestId r) d of
       None \<Rightarrow> if usage_QuotaEpoch r = ep then usage_Quota r else 0
     | Some u \<Rightarrow> if usage_QuotaEpoch u = ep then usage_Quota r - usage_Quota u else 0)"
proof (cases "list_ex (\<lambda>x. usage_key x = usage_key r) (rows (usages d))")
  case True
  then obtain u where u: "first_where (\<lambda>x. usage_key x = usage_key r) (usages d) = Some u"
    using first_where_None_ex by (metis not_Some_eq)
  have "usedIn sid ep d' = sum_list (map (usage_weight sid ep)
      (map (\<lambda>x. if usage_key x = usage_key r then mergedUsage r x else x) (rows (usages d))))"
    using True by (simp add: usedIn_def recordUsage_rows [OF assms(1,2)] upsert_row_def)
  also have "\<dots> = usedIn sid ep d + (usage_weight sid ep (mergedUsage r u) - usage_weight sid ep u)"
    using u by (subst sum_list_update [OF assms(3)]) (simp add: usedIn_def first_where_def)
  finally show ?thesis
    using u first_where_Some [OF u]
    by (auto simp: usageByRequest_key usage_weight_def usage_key_def)
next
  case False
  then have n: "first_where (\<lambda>x. usage_key x = usage_key r) (usages d) = None"
    by (simp add: first_where_None_ex)
  have "usedIn sid ep d' = usedIn sid ep d + usage_weight sid ep (new_row set_usage_Id r (usages d))"
    using False by (simp add: usedIn_def recordUsage_rows [OF assms(1,2)] upsert_row_def)
  then show ?thesis
    using n by (auto simp: usageByRequest_key usage_weight_def usage_key_def new_row_def)
qed

lemma recordUsage_lookup:
  assumes "recordValuePackageUsageTx E r d = Inr d'" "usage_CreatedAt r \<noteq> 0"
  shows "usageByRequest sid q d' =
    (if (sid, q) \<noteq> usage_key r then usageByRequest sid q d
     else Some (case usageByRequest sid q d of
       None \<Rightarrow> new_row set_usage_Id r (usages d) | Some u \<Rightarrow> mergedUsage r u))"
proof (cases "(sid, q) = usage_key r")
  case True
  then show ?thesis
    unfolding usageByRequest_key recordUsage_rows [OF assms] True
    by (subst first_where_upsert) (simp_all add: new_row_def usage_key_def)
next
  case False
  then show ?thesis
    unfolding usageByRequest_key recordUsage_rows [OF assms]
    by (auto simp: upsert_row_def first_where_update first_where_insert new_row_def usage_key_def
        split: option.split dest!: first_where_Some)
qed

lemma recordUsage_rows_set:
  assumes "recordValuePackageUsageTx E r d = Inr d'" "usage_CreatedAt r \<noteq> 0" "x \<in> set (rows (usages d'))"
  shows "x \<in> set (rows (usages d)) \<or> x = new_row set_usage_Id r (usages d) \<and>
      usageByRequest (usage_UserSubscriptionId r) (usage_RequestId r) d = None \<or>
    (\<exists>u \<in> set (rows (usages d)). x = mergedUsage r u \<and> usage_key u = usage_key r)"
  using assms(3) unfolding recordUsage_rows [OF assms(1,2)]
  by (auto simp: upsert_row_def usageByRequest_key usage_key_def first_where_None_ex split: if_splits)

lemma recordUsage_keys:
  assumes "recordValuePackageUsageTx E r d = Inr d'" "usage_CreatedAt r \<noteq> 0"
    and "distinct (map usage_key (rows (usages d)))"
  shows "distinct (map usage_key (rows (usages d')))"
  unfolding recordUsage_rows [OF assms(1,2)]
  by (subst map_upsert_row) (use assms(3) in \<open>auto simp: new_row_def usage_key_def\<close>)

section \<open>The invariant\<close>

definition isPackage :: "db \<Rightarrow> UserSubscription \<Rightarrow> bool" where
  "isPackage d s \<longleftrightarrow> (\<exists>p. getSubscriptionPlanByIdFreshTx (sub_PlanId s) d = Inr p \<and>
     IsValuePackage (normalizeValuePackagePlan p))"

text \<open>A package's account: its used amount is the sum of its usage records in its epoch, and
  neither usage nor pre-consume records belong to a later epoch.\<close>

definition sub_ok :: "db \<Rightarrow> UserSubscription \<Rightarrow> bool" where
  "sub_ok d s \<longleftrightarrow> (isPackage d s \<longrightarrow>
     0 < sub_AmountTotal s \<and> in_i64 (sub_AmountTotal s) \<and> in_i64 (sub_AmountUsed s) \<and>
     sub_AmountUsed s = usedIn (sub_Id s) (sub_QuotaEpoch s) d \<and> sub_AmountUsed s \<le> sub_AmountTotal s \<and>
     (\<forall>r \<in> set (rows (usages d)). usage_UserSubscriptionId r = sub_Id s \<longrightarrow>
        usage_QuotaEpoch r \<le> sub_QuotaEpoch s) \<and>
     (\<forall>q \<in> set (rows (pres d)). pre_UserSubscriptionId q = sub_Id s \<longrightarrow>
        pre_QuotaEpoch q \<le> sub_QuotaEpoch s))"

text \<open>A pre-consume record of a package has a usage record of the same epoch, with nothing
  left on it once it is refunded.\<close>

definition pre_ok :: "db \<Rightarrow> SubscriptionPreConsumeRecord \<Rightarrow> bool" where
  "pre_ok d q \<longleftrightarrow> 0 < pre_UserSubscriptionId q \<and> TrimSpace (pre_RequestId q) \<noteq> '''' \<and>
     (case usageByRequest (pre_UserSubscriptionId q) (pre_RequestId q) d of
        None \<Rightarrow> \<forall>s \<in> set (rows (subs d)). sub_Id s = pre_UserSubscriptionId q \<longrightarrow> \<not> isPackage d s
      | Some u \<Rightarrow> usage_QuotaEpoch u = pre_QuotaEpoch q \<and>
          (pre_Status q = ''refunded'' \<longrightarrow> usage_Quota u = 0))"

definition keys_ok :: "db \<Rightarrow> bool" where
  "keys_ok d \<longleftrightarrow> distinct (map sub_Id (rows (subs d))) \<and>
     (\<forall>s \<in> set (rows (subs d)). 0 < sub_Id s \<and> sub_Id s \<le> seq (subs d) \<and>
        sub_StartTime s \<le> MaxInt64 - 2592000) \<and>
     distinct (map usage_key (rows (usages d))) \<and> distinct (map pre_RequestId (rows (pres d))) \<and>
     distinct (map pre_Id (rows (pres d))) \<and> (\<forall>q \<in> set (rows (pres d)). pre_Id q \<le> seq (pres d)) \<and>
     (\<forall>r \<in> set (rows (usages d)). 0 \<le> usage_Quota r \<and> usage_Quota r \<le> MaxInt64)"

definition quota_inv_on :: "int set \<Rightarrow> string set \<Rightarrow> db \<Rightarrow> bool" where
  "quota_inv_on S R d \<longleftrightarrow> keys_ok d \<and>
     (\<forall>s \<in> set (rows (subs d)). sub_Id s \<notin> S \<longrightarrow> sub_ok d s) \<and>
     (\<forall>q \<in> set (rows (pres d)). pre_RequestId q \<notin> R \<longrightarrow> pre_ok d q)"

abbreviation quota_inv :: "db \<Rightarrow> bool" where
  "quota_inv \<equiv> quota_inv_on {} {}"

lemma isPackage_cong: "plans d' = plans d \<Longrightarrow> sub_PlanId s' = sub_PlanId s \<Longrightarrow> isPackage d' s' = isPackage d s"
  by (simp add: isPackage_def getSubscriptionPlanByIdFreshTx_def)

lemma sub_ok_cong:
  "plans d' = plans d \<Longrightarrow> usages d' = usages d \<Longrightarrow> pres d' = pres d \<Longrightarrow> sub_ok d' s = sub_ok d s"
  by (simp add: sub_ok_def isPackage_cong [of d' d s s] usedIn_def)

lemma quota_inv_on_cong:
  assumes "plans d' = plans d" "subs d' = subs d" "usages d' = usages d" "pres d' = pres d"
  shows "quota_inv_on S R d' = quota_inv_on S R d"
proof -
  have "isPackage d' s = isPackage d s" for s using assms(1) by (rule isPackage_cong) simp
  then have "pre_ok d' q = pre_ok d q" for q
    using assms by (auto simp: pre_ok_def usageByRequest_def split: option.splits)
  then show ?thesis using assms sub_ok_cong [of d' d] by (simp add: quota_inv_on_def keys_ok_def)
qed

text \<open>Saving the subscription closes its exemption.\<close>

lemma isPackage_stamp [simp]: "isPackage d (stampSub E s) = isPackage d s"
  by (rule isPackage_cong) simp_all

lemma sub_ok_stamp [simp]: "sub_ok d (stampSub E s) = sub_ok d s"
  by (simp add: sub_ok_def)

lemma quota_inv_saveSub:
  assumes inv: "quota_inv_on (insert (sub_Id s) S) R d" and ok: "sub_Id s \<notin> S \<Longrightarrow> sub_ok d s"
    and old: "\<exists>s0 \<in> set (rows (subs d)). sub_Id s0 = sub_Id s \<and> sub_PlanId s0 = sub_PlanId s \<and>
      sub_StartTime s0 = sub_StartTime s"
  shows "quota_inv_on S R (saveSub E s d)"
proof -
  let ?d = "saveSub E s d"
  have ids: "map sub_Id (rows (subs ?d)) = map sub_Id (rows (subs d))" by auto
  have row: "x = stampSub E s \<or> x \<in> set (rows (subs d)) \<and> sub_Id x \<noteq> sub_Id s"
    if "x \<in> set (rows (subs ?d))" for x using that by (auto split: if_splits)
  have so: "sub_ok ?d x = sub_ok d x" for x by (rule sub_ok_cong) simp_all
  have pk: "isPackage ?d x = isPackage d x" for x by (rule isPackage_cong) simp_all
  have "sub_ok ?d x" if "x \<in> set (rows (subs ?d))" "sub_Id x \<notin> S" for x
    using row [OF that(1)] that(2) ok inv unfolding so quota_inv_on_def by (metis insert_iff stampSub_fields(1) sub_ok_stamp)
  moreover have "pre_ok ?d q" if q: "pre_ok d q" for q
  proof -
    have "\<exists>y \<in> set (rows (subs d)). sub_Id y = sub_Id x \<and> isPackage d y = isPackage d x"
      if "x \<in> set (rows (subs ?d))" for x
      using row [OF that]
    proof
      assume x: "x = stampSub E s"
      from old obtain s0 where "s0 \<in> set (rows (subs d))" "sub_Id s0 = sub_Id s" "sub_PlanId s0 = sub_PlanId s"
        by blast
      moreover from this(3) have "isPackage d s0 = isPackage d s" by (rule isPackage_cong [OF refl])
      ultimately show ?thesis using x by auto
    qed blast
    moreover have "usageByRequest a b ?d = usageByRequest a b d" for a b
      by (simp add: usageByRequest_def)
    ultimately show ?thesis
      using q unfolding pre_ok_def pk by (auto split: option.splits simp del: rows_saveSub) metis
  qed
  moreover have bounds: "0 < sub_Id x \<and> sub_Id x \<le> seq (subs d) \<and> sub_StartTime x \<le> MaxInt64 - 2592000"
    if "x \<in> set (rows (subs ?d))" for x
    using row [OF that] old inv by (auto simp: quota_inv_on_def keys_ok_def)
  have "seq (subs ?d) = seq (subs d)" by (simp add: saveSub_def rows_save_row)
  with bounds have "keys_ok ?d" using inv ids by (simp add: quota_inv_on_def keys_ok_def del: rows_saveSub)
  ultimately show ?thesis using inv unfolding quota_inv_on_def by simp
qed

text \<open>Writing a usage record opens an exemption of its subscription and its request.\<close>

lemma quota_inv_recordUsage:
  assumes inv: "quota_inv_on S R d" and rec: "recordValuePackageUsageTx E r d = Inr d'"
    and c: "usage_CreatedAt r \<noteq> 0" and le: "usage_Quota r \<le> MaxInt64"
  shows "quota_inv_on (insert (usage_UserSubscriptionId r) S) (insert (usage_RequestId r) R) d'"
proof -
  note t = recordUsage_tables [OF rec]
  have q: "0 \<le> usage_Quota r" using rec by (auto simp: recordValuePackageUsageTx_def split: if_splits)
  have keys: "keys_ok d'"
    using inv t q le recordUsage_keys [OF rec c] recordUsage_rows_set [OF rec c]
    by (fastforce simp: quota_inv_on_def keys_ok_def new_row_def)
  have "sub_ok d' s" if "sub_Id s \<noteq> usage_UserSubscriptionId r" "sub_ok d s" for s
  proof -
    have "distinct (map usage_key (rows (usages d)))" using inv by (simp add: quota_inv_on_def keys_ok_def)
    then have "usedIn (sub_Id s) ep d' = usedIn (sub_Id s) ep d" for ep
      using that(1) by (simp add: recordUsage_usedIn [OF rec c])
    moreover have "x \<in> set (rows (usages d))"
      if "x \<in> set (rows (usages d'))" "usage_UserSubscriptionId x = sub_Id s" for x
      using recordUsage_rows_set [OF rec c that(1)] that(2) \<open>sub_Id s \<noteq> _\<close>
      by (auto simp: new_row_def usage_key_def)
    ultimately show ?thesis
      using that(2) t isPackage_cong [of d' d s s] by (auto simp: sub_ok_def)
  qed
  moreover have "pre_ok d' q" if "pre_RequestId q \<noteq> usage_RequestId r" "pre_ok d q" for q
  proof -
    have "isPackage d' s = isPackage d s" for s using t by (intro isPackage_cong) simp_all
    with that t show ?thesis
      by (auto simp: pre_ok_def recordUsage_lookup [OF rec c] usage_key_def split: option.splits)
  qed
  ultimately show ?thesis using inv keys t by (simp add: quota_inv_on_def)
qed

text \<open>A new pre-consume record, and closing the exemption of a request.\<close>

lemma quota_inv_createPre:
  assumes inv: "quota_inv_on S R d" and new: "preByRequest (pre_RequestId q) d = None"
    and ep: "\<And>s. s \<in> set (rows (subs d)) \<Longrightarrow> sub_Id s = pre_UserSubscriptionId q \<Longrightarrow> isPackage d s \<Longrightarrow>
               sub_Id s \<notin> S \<Longrightarrow> pre_QuotaEpoch q \<le> sub_QuotaEpoch s"
  shows "quota_inv_on S (insert (pre_RequestId q) R) (createPre E q d)"
proof -
  let ?d = "createPre E q d"
  let ?n = "new_row set_pre_Id (q\<lparr>pre_CreatedAt := GetTimestamp E, pre_UpdatedAt := GetTimestamp E\<rparr>) (pres d)"
  have rows: "rows (pres ?d) = rows (pres d) @ [?n]" and sq: "seq (pres ?d) = seq (pres d) + 1"
    by (simp_all add: createPre_def)
  have fresh: "\<forall>x \<in> set (rows (pres d)). pre_RequestId x \<noteq> pre_RequestId q"
    using new by (auto simp: preByRequest_def first_where_None)
  have pk: "isPackage ?d s = isPackage d s" for s by (rule isPackage_cong) simp_all
  have "keys_ok ?d"
    using inv fresh unfolding quota_inv_on_def keys_ok_def rows sq
    by (force simp: new_row_def)
  moreover have "sub_ok ?d s" if "s \<in> set (rows (subs d))" "sub_Id s \<notin> S" "sub_ok d s" for s
    using that ep [of s] unfolding sub_ok_def pk rows by (auto simp: usedIn_def new_row_def)
  moreover have "pre_ok ?d x = pre_ok d x" for x
    using pk by (auto simp: pre_ok_def usageByRequest_def split: option.splits)
  ultimately show ?thesis
    using inv unfolding quota_inv_on_def rows by (auto simp: new_row_def)
qed

lemma quota_inv_close_request:
  "quota_inv_on S (insert q R) d \<Longrightarrow> (\<And>x. preByRequest q d = Some x \<Longrightarrow> pre_ok d x) \<Longrightarrow> quota_inv_on S R d"
proof -
  assume inv: "quota_inv_on S (insert q R) d" and ok: "\<And>x. preByRequest q d = Some x \<Longrightarrow> pre_ok d x"
  have "preByRequest q d = Some x" if "x \<in> set (rows (pres d))" "pre_RequestId x = q" for x
    using inv that first_where_distinct [of pre_RequestId "pres d" x]
    by (auto simp: preByRequest_def quota_inv_on_def keys_ok_def)
  with inv ok show "quota_inv_on S R d" by (auto simp: quota_inv_on_def)
qed

text \<open>Closing the exemption of a subscription that was not written.\<close>

lemma quota_inv_close_sub:
  "quota_inv_on (insert i S) R d \<Longrightarrow>
   (\<And>s. s \<in> set (rows (subs d)) \<Longrightarrow> sub_Id s = i \<Longrightarrow> sub_ok d s) \<Longrightarrow> quota_inv_on S R d"
  by (auto simp: quota_inv_on_def)

text \<open>Enlarging the exemptions.\<close>

lemma quota_inv_weaken: "quota_inv_on S R d \<Longrightarrow> S \<subseteq> S' \<Longrightarrow> R \<subseteq> R' \<Longrightarrow> quota_inv_on S' R' d"
  by (auto simp: quota_inv_on_def)

section \<open>Cycle renewal and reset cards\<close>

lemma usedIn_future:
  "(\<forall>r \<in> set (rows (usages d)). usage_UserSubscriptionId r = sid \<longrightarrow> usage_QuotaEpoch r \<le> ep) \<Longrightarrow>
   ep < ep' \<Longrightarrow> usedIn sid ep' d = 0"
proof -
  assume "\<forall>r \<in> set (rows (usages d)). usage_UserSubscriptionId r = sid \<longrightarrow> usage_QuotaEpoch r \<le> ep" "ep < ep'"
  then have m: "map (usage_weight sid ep') (rows (usages d)) = map (\<lambda>_. 0) (rows (usages d))"
    by (fastforce simp: usage_weight_def)
  show "usedIn sid ep' d = 0" unfolding usedIn_def m by simp
qed

text \<open>Opening the next epoch of a package.\<close>

lemma quota_inv_next_epoch:
  assumes inv: "quota_inv d" and s: "s \<in> set (rows (subs d))"
    and s': "sub_Id s' = sub_Id s" "sub_PlanId s' = sub_PlanId s" "sub_AmountTotal s' = sub_AmountTotal s"
      "sub_AmountUsed s' = 0" "sub_QuotaEpoch s' = sub_QuotaEpoch s + 1" "sub_StartTime s' = sub_StartTime s"
    and d': "plans d' = plans d" "subs d' = subs d" "usages d' = usages d" "pres d' = pres d"
  shows "quota_inv (saveSub E s' d')"
proof (rule quota_inv_saveSub)
  have "quota_inv d'" using inv d' by (simp add: quota_inv_on_cong [of d' d])
  then show "quota_inv_on (insert (sub_Id s') {}) {} d'" by (rule quota_inv_weaken) auto
  have ok: "sub_ok d' s" using \<open>quota_inv d'\<close> s d' by (simp add: quota_inv_on_def)
  have pk: "isPackage d' s' = isPackage d' s" by (rule isPackage_cong) (simp_all add: s')
  have "usedIn (sub_Id s) (sub_QuotaEpoch s + 1) d' = 0" if "isPackage d' s"
    using ok that by (intro usedIn_future [of _ _ "sub_QuotaEpoch s"]) (auto simp: sub_ok_def)
  then show "sub_ok d' s'" using ok unfolding sub_ok_def pk s' by (auto dest: bspec intro: order_trans)
  show "\<exists>s0 \<in> set (rows (subs d')). sub_Id s0 = sub_Id s' \<and> sub_PlanId s0 = sub_PlanId s' \<and>
      sub_StartTime s0 = sub_StartTime s'"
    using s d' s' by auto
qed

lemma quota_inv_advance:
  assumes "maybeAdvanceValuePackageCycleTx E s p now d = Inr (s', d')" "quota_inv d"
    and "s \<in> set (rows (subs d))" "time_in_range now"
  shows "quota_inv d'" and "s' \<in> set (rows (subs d'))" and "sub_Id s' = sub_Id s"
    and "sub_PlanId s' = sub_PlanId s" and "plans d' = plans d" and "pres d' = pres d" and "usages d' = usages d"
    and "prefs d' = prefs d" and "sub_UserId s' = sub_UserId s" and "sub_AmountTotal s' = sub_AmountTotal s"
proof -
  have "sub_StartTime s \<le> MaxInt64 - 2592000" using assms(2,3) by (simp add: quota_inv_on_def keys_ok_def)
  then consider "s' = s" "d' = d" | "s' = stampSub E (renewedSub s p now)"
    "d' = saveSub E (renewedSub s p now) (createReset E (renewalRow s p now) d)"
    using assms(1,4) by (auto simp: advance_spec split: if_splits)
  then show "quota_inv d'" "s' \<in> set (rows (subs d'))" "sub_Id s' = sub_Id s" "sub_PlanId s' = sub_PlanId s"
    "plans d' = plans d" "pres d' = pres d" "usages d' = usages d" "prefs d' = prefs d" "sub_UserId s' = sub_UserId s"
    "sub_AmountTotal s' = sub_AmountTotal s"
    using assms(2,3) quota_inv_next_epoch [OF assms(2,3), of "renewedSub s p now" "createReset E (renewalRow s p now) d" E]
    by (cases; force)+
qed

lemma quota_inv_consume_card:
  assumes "ConsumeValuePackageResetCount E u sid t act note d = Inr (st, d')" "quota_inv d"
  shows "quota_inv d'"
  using assms(1)
proof (cases rule: consume_cases)
  case (1 pref d1 s p l r)
  note e = ensure_pref(6,7,8,10) [OF 1(1)]
  show ?thesis unfolding 1(15)
    by (rule quota_inv_next_epoch [OF assms(2) 1(3)]) (simp_all add: e)
qed

section \<open>Pre-consuming\<close>

lemma usedIn_nonneg: "keys_ok d \<Longrightarrow> 0 \<le> usedIn sid ep d"
  unfolding usedIn_def by (rule sum_list_nonneg) (auto simp: keys_ok_def usage_weight_def)

lemma usage_le_usedIn:
  assumes "keys_ok d" "u \<in> set (rows (usages d))"
  shows "usage_Quota u \<le> usedIn (usage_UserSubscriptionId u) (usage_QuotaEpoch u) d"
proof -
  let ?w = "usage_weight (usage_UserSubscriptionId u) (usage_QuotaEpoch u)"
  have "?w u \<le> sum_list (map ?w (rows (usages d)))"
    by (rule member_le_sum_list) (use assms in \<open>auto simp: keys_ok_def usage_weight_def\<close>)
  then show ?thesis by (simp add: usedIn_def usage_weight_def)
qed

lemma unique_sub:
  "keys_ok d \<Longrightarrow> s \<in> set (rows (subs d)) \<Longrightarrow> x \<in> set (rows (subs d)) \<Longrightarrow> sub_Id x = sub_Id s \<Longrightarrow> x = s"
  by (auto simp: keys_ok_def distinct_map inj_on_def)

text \<open>The check against the total leaves room for the amount.\<close>

lemma room_for_amount:
  assumes "sub_ok d s" "isPackage d s" "keys_ok d"
    and "\<not> (sub_AmountTotal s > 0 \<and> sub64 (sub_AmountTotal s) (sub_AmountUsed s) < amount)"
    and "0 \<le> amount"
  shows "add64 (sub_AmountUsed s) amount = sub_AmountUsed s + amount"
    and "sub_AmountUsed s + amount \<le> sub_AmountTotal s" and "0 \<le> sub_AmountUsed s"
proof -
  have ok: "0 < sub_AmountTotal s" "in_i64 (sub_AmountTotal s)" "in_i64 (sub_AmountUsed s)"
    using assms(1,2) by (auto simp: sub_ok_def)
  show nn: "0 \<le> sub_AmountUsed s"
    using assms(1,2) usedIn_nonneg [OF assms(3)] by (simp add: sub_ok_def)
  then have "sub64 (sub_AmountTotal s) (sub_AmountUsed s) = sub_AmountTotal s - sub_AmountUsed s"
    using ok by (intro sub64_nonneg) simp_all
  then show le: "sub_AmountUsed s + amount \<le> sub_AmountTotal s" using assms(4) ok(1) by simp
  show "add64 (sub_AmountUsed s) amount = sub_AmountUsed s + amount"
    using nn assms(5) le ok(2) by (intro add64_le) simp_all
qed

lemma preConsumePackage_cases:
  assumes "preConsumePackage E q u amount now s p d1 = Inr (r, d')" "preByRequest q d1 = None"
  obtains d3 where "recordValuePackageUsageTx E (usageFor u s p q amount (sub_QuotaEpoch s) now)
      (createPre E (zero_pre\<lparr>pre_RequestId := q, pre_UserId := u, pre_UserSubscriptionId := sub_Id s,
         pre_PreConsumed := amount, pre_QuotaEpoch := sub_QuotaEpoch s, pre_Status := ''consumed''\<rparr>) d1) = Inr d3"
    and "d' = saveSub E (s\<lparr>sub_AmountUsed := add64 (sub_AmountUsed s) amount\<rparr>) d3"
    and "\<not> (sub_AmountTotal s > 0 \<and> sub64 (sub_AmountTotal s) (sub_AmountUsed s) < amount)"
    and "r = consumeResult (s\<lparr>sub_AmountUsed := add64 (sub_AmountUsed s) amount\<rparr>) amount
           (sub_AmountUsed s) (sub_QuotaEpoch s)"
  using assms by (auto simp: preConsumePackage_def res_simps Let_def split: if_splits)

lemma sub_ok_charge:
  assumes ok: "sub_ok d s" and pk: "isPackage d s" and keys: "keys_ok d"
    and rec: "recordValuePackageUsageTx E r d = Inr d'" and c: "usage_CreatedAt r \<noteq> 0"
    and r: "usage_UserSubscriptionId r = sub_Id s" "usage_QuotaEpoch r = sub_QuotaEpoch s"
    and old: "case usageByRequest (sub_Id s) (usage_RequestId r) d of None \<Rightarrow> cur = 0
              | Some u \<Rightarrow> usage_QuotaEpoch u = sub_QuotaEpoch s \<and> cur = usage_Quota u"
    and n: "n = sub_AmountUsed s + usage_Quota r - cur" "in_i64 n" "n \<le> sub_AmountTotal s"
  shows "sub_ok d' (s\<lparr>sub_AmountUsed := n\<rparr>)"
proof -
  note t = recordUsage_tables [OF rec]
  have pk': "isPackage d' (s\<lparr>sub_AmountUsed := n\<rparr>)" using pk t isPackage_cong [of d' d "s\<lparr>sub_AmountUsed := n\<rparr>" s] by simp
  have "distinct (map usage_key (rows (usages d)))" using keys by (simp add: keys_ok_def)
  then have "usedIn (sub_Id s) (sub_QuotaEpoch s) d' = n"
    using old n ok pk r by (auto simp: recordUsage_usedIn [OF rec c] sub_ok_def split: option.splits)
  moreover have "usage_QuotaEpoch x \<le> sub_QuotaEpoch s"
    if "x \<in> set (rows (usages d'))" "usage_UserSubscriptionId x = sub_Id s" for x
    using recordUsage_rows_set [OF rec c that(1)] that(2) ok pk r
    by (auto simp: sub_ok_def new_row_def)
  ultimately show ?thesis using ok pk t n(2,3) unfolding sub_ok_def by auto
qed

lemma quota_inv_preConsumePackage:
  assumes "preConsumePackage E q u amount now s p d1 = Inr (r, d')"
    and inv: "quota_inv d1" and s: "s \<in> set (rows (subs d1))" and pk: "isPackage d1 s"
    and new: "preByRequest q d1 = None" "usageByRequest (sub_Id s) q d1 = None"
    and amount: "0 < amount" "amount \<le> MaxInt64" and now: "now \<noteq> 0"
  shows "quota_inv d'"
  using assms(1) new(1)
proof (cases rule: preConsumePackage_cases)
  case (1 d3)
  let ?pre = "zero_pre\<lparr>pre_RequestId := q, pre_UserId := u, pre_UserSubscriptionId := sub_Id s,
         pre_PreConsumed := amount, pre_QuotaEpoch := sub_QuotaEpoch s, pre_Status := ''consumed''\<rparr>"
  let ?d2 = "createPre E ?pre d1" and ?u = "usageFor u s p q amount (sub_QuotaEpoch s) now"
  let ?s1 = "s\<lparr>sub_AmountUsed := add64 (sub_AmountUsed s) amount\<rparr>"
  have keys: "keys_ok d1" and ok1: "sub_ok d1 s" using inv s by (simp_all add: quota_inv_on_def)
  have i2: "quota_inv_on {} (insert (pre_RequestId ?pre) {}) ?d2"
    by (rule quota_inv_createPre [OF inv]) (use new unique_sub [OF keys s] in auto)
  then have i2: "quota_inv_on {} {q} ?d2" by simp
  have ok2: "sub_ok ?d2 s" and keys2: "keys_ok ?d2" using i2 s by (simp_all add: quota_inv_on_def)
  have pk2: "isPackage ?d2 s" using pk isPackage_cong [of ?d2 d1 s s] by simp
  have c: "usage_CreatedAt ?u \<noteq> 0" using now by (simp add: usageFor_def)
  have i3: "quota_inv_on {sub_Id s} {q} d3"
    using quota_inv_recordUsage [OF i2 1(1) c] amount(2) by (simp add: usageFor_def)
  note room = room_for_amount [OF ok1 pk keys 1(3)]
  have ok3: "sub_ok d3 ?s1"
  proof (rule sub_ok_charge [OF ok2 pk2 keys2 1(1) c, where cur = 0])
    show "in_i64 (add64 (sub_AmountUsed s) amount)" by (simp add: add64_def)
  qed (use new(2) room amount in \<open>simp_all add: usageFor_def usageByRequest_def\<close>)
  note t3 = recordUsage_tables [OF 1(1)]
  have i4: "quota_inv_on {} {q} d'"
    unfolding 1(2) by (rule quota_inv_saveSub) (use i3 ok3 t3 s in auto)
  show ?thesis
  proof (rule quota_inv_close_request [of _ q])
    show "quota_inv_on {} (insert q {}) d'" using i4 .
    fix x assume "preByRequest q d' = Some x"
    then have x: "pre_RequestId x = q" "pre_UserSubscriptionId x = sub_Id s" "pre_QuotaEpoch x = sub_QuotaEpoch s"
      "pre_Status x = ''consumed''"
      using t3 new(1) by (auto simp: 1(2) preByRequest_def createPre_def first_where_insert new_row_def
          split: if_splits)
    have "usageByRequest (sub_Id s) q d' = Some (new_row set_usage_Id ?u (usages d1))"
      using recordUsage_lookup [OF 1(1) c, of "sub_Id s" q] new(2)
      by (simp add: 1(2) usageByRequest_def usageFor_def usage_key_def)
    moreover have "0 < sub_Id s" "TrimSpace q \<noteq> ''''"
      using 1(1) by (auto simp: recordValuePackageUsageTx_def usageFor_def split: if_splits)
    ultimately show "pre_ok d' x" by (simp add: pre_ok_def x usageFor_def new_row_def)
  qed
qed

lemma packageForUpdate_ok:
  assumes "packageForUpdate E u sid now d = Inr (s, p, d1)" "quota_inv d" "time_in_range now"
  shows "quota_inv d1" and "s \<in> set (rows (subs d1))" and "sub_Id s = sid" and "isPackage d1 s"
    and "pres d1 = pres d" and "usages d1 = usages d" and "sub_UserId s = u" and "plans d1 = plans d"
proof -
  from assms(1) obtain s0 p0 where s0: "first_where (\<lambda>s. sub_Id s = sid \<and> activeSub u now s) (subs d) = Some s0"
    and p0: "getSubscriptionPlanByIdFreshTx (sub_PlanId s0) d = Inr p0" "IsValuePackage (normalizeValuePackagePlan p0)"
    and adv: "maybeAdvanceValuePackageCycleTx E s0 (normalizeValuePackagePlan p0) now d = Inr (s, d1)"
    by (auto simp: packageForUpdate_def res_simps Let_def split: if_splits)
  note f = first_where_Some [OF s0]
  note a = quota_inv_advance [OF adv assms(2) _ assms(3)]
  have pk: "isPackage d s0" using p0 by (auto simp: isPackage_def)
  show "quota_inv d1" "s \<in> set (rows (subs d1))" "sub_Id s = sid" "pres d1 = pres d" "usages d1 = usages d"
    "sub_UserId s = u" "plans d1 = plans d"
    using a f by (auto simp: activeSub_def)
  show "isPackage d1 s" using pk a(4,5) f isPackage_cong [of d1 d s s0] by simp
qed

lemma quota_inv_preConsume:
  assumes "PreConsumeValuePackageSubscription E q u sid amount d = Inr (r, d')" "quota_inv d"
    and "time_in_range (getDBTimestampTx E)" "getDBTimestampTx E \<noteq> 0" "amount \<le> MaxInt64"
    and "preByRequest q d = None \<longrightarrow> usageByRequest sid q d = None"
  shows "quota_inv d'"
proof (cases "preByRequest q d")
  case None
  with assms(1) obtain s p d1 where pf: "packageForUpdate E u sid (getDBTimestampTx E) d = Inr (s, p, d1)"
    and pc: "preConsumePackage E q u amount (getDBTimestampTx E) s p d1 = Inr (r, d')" and "0 < amount"
    by (auto simp: PreConsumeValuePackageSubscription_def res_simps Let_def split: if_splits)
  note f = packageForUpdate_ok [OF pf assms(2,3)]
  show ?thesis
    by (rule quota_inv_preConsumePackage [OF pc f(1,2,4)])
      (use None assms(4-6) f(3,5,6) \<open>0 < amount\<close> in \<open>simp_all add: preByRequest_def usageByRequest_def\<close>)
next
  case (Some x)
  then show ?thesis using assms(1,2)
    by (auto simp: PreConsumeValuePackageSubscription_def replayPreConsume_def res_simps Let_def split: if_splits)
qed

section \<open>Moving a reservation to its target\<close>

text \<open>The epoch a reservation is booked in, and the quota it stands at.\<close>

lemma requestEpoch_cases:
  assumes "requestEpochOf u sid s q d = Inr (ep, cur, at0)" "quota_inv d" "s \<in> set (rows (subs d))"
    and "isPackage d s" "sub_Id s = sid"
  shows "(case usageByRequest sid q d of None \<Rightarrow> ep = sub_QuotaEpoch s \<and> cur = 0
          | Some x \<Rightarrow> ep = usage_QuotaEpoch x \<and> cur = usage_Quota x) \<and>
    (\<forall>x. preByRequest q d = Some x \<longrightarrow> pre_UserSubscriptionId x = sid \<and> pre_QuotaEpoch x = ep)"
proof -
  have "usageByRequest sid q d \<noteq> None" if "preByRequest q d = Some x" "pre_UserSubscriptionId x = sid" for x
    using that assms(2-5) first_where_Some [OF that(1) [unfolded preByRequest_def]]
    by (auto simp: quota_inv_on_def pre_ok_def split: option.splits)
  then show ?thesis
    using assms(1) by (auto simp: requestEpochOf_def split: option.splits if_splits)
qed

lemma usage_bounds:
  "keys_ok d \<Longrightarrow> usageByRequest sid q d = Some x \<Longrightarrow>
     0 \<le> usage_Quota x \<and> usage_Quota x \<le> MaxInt64 \<and> x \<in> set (rows (usages d)) \<and>
     usage_UserSubscriptionId x = sid \<and> usage_RequestId x = q \<and>
     usage_Quota x \<le> usedIn sid (usage_QuotaEpoch x) d"
  using usage_le_usedIn [of d x] by (auto simp: usageByRequest_def keys_ok_def dest!: first_where_Some)

text \<open>The request's own record is written; what is left to close is its subscription.\<close>

lemma quota_inv_reserve_record:
  assumes inv: "quota_inv d1" and s: "s \<in> set (rows (subs d1))" "isPackage d1 s"
    and rec: "recordValuePackageUsageTx E (usageFor u s p q t ep now) d1 = Inr d2"
    and now: "now \<noteq> 0" and t: "t \<le> MaxInt64"
    and old: "case usageByRequest (sub_Id s) q d1 of None \<Rightarrow> True | Some x \<Rightarrow> ep = usage_QuotaEpoch x"
    and pre: "\<forall>x. preByRequest q d1 = Some x \<longrightarrow>
      pre_UserSubscriptionId x = sub_Id s \<and> pre_QuotaEpoch x = ep \<and> pre_Status x \<noteq> ''refunded''"
  shows "quota_inv_on {sub_Id s} {} d2"
proof (rule quota_inv_close_request [of _ q])
  have c: "usage_CreatedAt (usageFor u s p q t ep now) \<noteq> 0" using now by (simp add: usageFor_def)
  show "quota_inv_on {sub_Id s} (insert q {}) d2"
    using quota_inv_recordUsage [OF inv rec c] t by (simp add: usageFor_def)
  fix x assume "preByRequest q d2 = Some x"
  then have x: "preByRequest q d1 = Some x" using recordUsage_tables [OF rec] by (simp add: preByRequest_def)
  then have ok: "pre_ok d1 x" and q: "pre_RequestId x = q"
    using inv by (auto simp: quota_inv_on_def preByRequest_def dest!: first_where_Some)
  have "usageByRequest (sub_Id s) q d2 = Some (case usageByRequest (sub_Id s) q d1 of
      None \<Rightarrow> new_row set_usage_Id (usageFor u s p q t ep now) (usages d1)
    | Some y \<Rightarrow> mergedUsage (usageFor u s p q t ep now) y)"
    using recordUsage_lookup [OF rec c, of "sub_Id s" q] by (simp add: usage_key_def usageFor_def)
  then show "pre_ok d2 x"
    using ok pre x q old unfolding pre_ok_def by (auto simp: usageFor_def new_row_def split: option.splits)
qed

lemma reserve_amount:
  assumes "sub_ok d s" "isPackage d s" "keys_ok d" "0 \<le> t" "t \<le> MaxInt64"
    and old: "case usageByRequest (sub_Id s) q d of None \<Rightarrow> cur = 0
              | Some x \<Rightarrow> usage_QuotaEpoch x = sub_QuotaEpoch s \<and> cur = usage_Quota x"
    and lim: "reserveLimits E u s p q t (sub64 t cur) ep at0 now d = Inr ()"
  shows "add64 (sub_AmountUsed s) (sub64 t cur) = sub_AmountUsed s + t - cur"
    and "0 \<le> sub_AmountUsed s + t - cur" and "in_i64 (sub_AmountUsed s + t - cur)"
    and "sub_AmountUsed s + t - cur \<le> sub_AmountTotal s"
proof -
  have ok: "in_i64 (sub_AmountTotal s)" "sub_AmountUsed s \<le> sub_AmountTotal s"
    "sub_AmountUsed s = usedIn (sub_Id s) (sub_QuotaEpoch s) d"
    using assms(1,2) by (auto simp: sub_ok_def)
  have cur: "0 \<le> cur" "cur \<le> MaxInt64" "cur \<le> sub_AmountUsed s"
    using old ok(3) usedIn_nonneg [OF assms(3), of "sub_Id s" "sub_QuotaEpoch s"]
      usage_bounds [OF assms(3), of "sub_Id s" q]
    by (auto split: option.splits simp: MaxInt64_def)
  have delta: "sub64 t cur = t - cur"
    using assms(4,5) cur by (intro sub64_nonneg) (auto simp: in_i64_def MaxInt64_def)
  show nn: "0 \<le> sub_AmountUsed s + t - cur" using cur assms(4) by simp
  have room: "\<not> (sub_AmountTotal s > 0 \<and> sub64 (sub_AmountTotal s) (sub_AmountUsed s) < t - cur)" if "cur < t"
    using lim that unfolding delta by (auto simp: reserveLimits_def split: if_splits)
  note r = room_for_amount [OF assms(1-3) room]
  show le: "sub_AmountUsed s + t - cur \<le> sub_AmountTotal s"
    using r(2) ok(2) by (cases "cur < t") simp_all
  show in64: "in_i64 (sub_AmountUsed s + t - cur)" using nn le ok(1) by (auto simp: in_i64_def)
  show "add64 (sub_AmountUsed s) (sub64 t cur) = sub_AmountUsed s + t - cur"
    unfolding delta using in64 by (subst add64_eq) (simp_all add: algebra_simps)
qed

lemma quota_inv_reserveTarget:
  assumes run: "reserveTarget E q u t now s p ep cur at0 d1 = Inr (r, d')"
    and inv: "quota_inv d1" and s: "s \<in> set (rows (subs d1))" "isPackage d1 s"
    and re: "requestEpochOf u (sub_Id s) s q d1 = Inr (ep, cur, at0)"
    and nr: "\<forall>x. preByRequest q d1 = Some x \<longrightarrow> pre_Status x \<noteq> ''refunded''"
    and b: "0 \<le> t" "t \<le> MaxInt64" "now \<noteq> 0"
  shows "quota_inv d'"
proof (cases "sub64 t cur = 0")
  case True then show ?thesis using run inv by (auto simp: reserveTarget_def)
next
  case False
  note e = requestEpoch_cases [OF re inv s refl]
  have ok: "sub_ok d1 s" and keys: "keys_ok d1" using inv s by (auto simp: quota_inv_on_def)
  from run False obtain d2 where rec: "recordValuePackageUsageTx E (usageFor u s p q t ep now) d1 = Inr d2"
    by (auto simp: reserveTarget_def res_simps Let_def split: if_splits)
  have i2: "quota_inv_on {sub_Id s} {} d2"
    by (rule quota_inv_reserve_record [OF inv s rec b(3,2)]) (use e nr in \<open>auto split: option.splits\<close>)
  have c: "usage_CreatedAt (usageFor u s p q t ep now) \<noteq> 0" using b by (simp add: usageFor_def)
  note t2 = recordUsage_tables [OF rec]
  show ?thesis
  proof (cases "sub_QuotaEpoch s = ep")
    case True
    have old: "case usageByRequest (sub_Id s) q d1 of None \<Rightarrow> cur = 0
       | Some x \<Rightarrow> usage_QuotaEpoch x = sub_QuotaEpoch s \<and> cur = usage_Quota x"
      using e True by (auto split: option.splits)
    from run False True rec have lim: "reserveLimits E u s p q t (sub64 t cur) ep at0 now d1 = Inr ()"
      by (auto simp: reserveTarget_def res_simps Let_def split: if_splits)
    note am = reserve_amount [OF ok s(2) keys b(1,2) old lim]
    let ?s1 = "s\<lparr>sub_AmountUsed := sub_AmountUsed s + t - cur\<rparr>"
    have d': "d' = saveSub E ?s1 d2"
      using run False True rec lim am(2) by (auto simp: reserveTarget_def res_simps Let_def am(1))
    have "sub_ok d2 ?s1"
      by (rule sub_ok_charge [OF ok s(2) keys rec c, where cur = cur])
        (use old am(3,4) True in \<open>simp_all add: usageFor_def\<close>)
    then show ?thesis unfolding d' by (intro quota_inv_saveSub) (use i2 t2 s in auto)
  next
    case neq: False
    then obtain x where x: "usageByRequest (sub_Id s) q d1 = Some x" "ep = usage_QuotaEpoch x"
      using e by (auto split: option.splits)
    have "distinct (map usage_key (rows (usages d1)))" using keys by (simp add: keys_ok_def)
    then have used: "usedIn (sub_Id s) (sub_QuotaEpoch s) d2 = usedIn (sub_Id s) (sub_QuotaEpoch s) d1"
      using x neq by (simp add: recordUsage_usedIn [OF rec c] usageFor_def)
    have pk: "isPackage d2 s = isPackage d1 s" using t2 isPackage_cong [of d2 d1 s s] by simp
    have "usage_QuotaEpoch y \<le> sub_QuotaEpoch s"
      if "y \<in> set (rows (usages d2))" "usage_UserSubscriptionId y = sub_Id s" for y
      using recordUsage_rows_set [OF rec c that(1)] that(2) ok s(2) x
      by (auto simp: sub_ok_def usageFor_def)
    then have "sub_ok d2 s" using ok t2 pk used by (auto simp: sub_ok_def)
    moreover have "d' = d2" using run False neq rec by (auto simp: reserveTarget_def res_simps Let_def)
    ultimately show ?thesis
      using quota_inv_close_sub [OF i2] unique_sub [of d2 s] s t2 i2 by (auto simp: quota_inv_on_def)
  qed
qed

lemma quota_inv_reserve:
  assumes "ReserveValuePackageUsageToTarget E q u sid t d = Inr (r, d')" "quota_inv d"
    and "time_in_range (getDBTimestampTx E)" "getDBTimestampTx E \<noteq> 0" "t \<le> MaxInt64"
    and "\<forall>x. preByRequest q d = Some x \<longrightarrow> pre_Status x \<noteq> ''refunded''"
  shows "quota_inv d'"
proof -
  from assms(1) obtain s p d1 ep cur at0 where
    pf: "packageForUpdate E u sid (getDBTimestampTx E) d = Inr (s, p, d1)"
    and re: "requestEpochOf u sid s q d1 = Inr (ep, cur, at0)"
    and run: "reserveTarget E q u t (getDBTimestampTx E) s p ep cur at0 d1 = Inr (r, d')" and "0 \<le> t"
    by (auto simp: ReserveValuePackageUsageToTarget_def res_simps Let_def split: if_splits)
  note f = packageForUpdate_ok [OF pf assms(2,3)]
  show ?thesis
    by (rule quota_inv_reserveTarget [OF run f(1,2,4)])
      (use re f(3,5) assms(4-6) \<open>0 \<le> t\<close> in \<open>simp_all add: preByRequest_def\<close>)
qed

section \<open>Refunding\<close>

lemma revoke_rows:
  assumes "0 < sid" "TrimSpace q \<noteq> ''''"
  shows "rows (usages (revokeValuePackageUsageReservationTx sid q d)) =
    map (\<lambda>x. if usage_key x = (sid, q) then x\<lparr>usage_Quota := 0\<rparr> else x) (rows (usages d))"
  using assms by (auto simp: revokeValuePackageUsageReservationTx_def update_where_def usage_key_def)

lemma revoke_lookup:
  assumes "0 < sid" "TrimSpace q \<noteq> ''''"
  shows "usageByRequest i r (revokeValuePackageUsageReservationTx sid q d) =
    (if (i, r) = (sid, q) then map_option (\<lambda>x. x\<lparr>usage_Quota := 0\<rparr>) (usageByRequest i r d)
     else usageByRequest i r d)"
proof (cases "usageByRequest i r d")
  case (Some x)
  then have "usage_UserSubscriptionId x = i" "usage_RequestId x = r"
    by (auto simp: usageByRequest_def dest!: first_where_Some)
  with Some assms show ?thesis
    by (auto simp: revokeValuePackageUsageReservationTx_def usageByRequest_def first_where_update)
qed (use assms in \<open>auto simp: revokeValuePackageUsageReservationTx_def usageByRequest_def first_where_update\<close>)

lemma revoke_usedIn:
  assumes "0 < sid" "TrimSpace q \<noteq> ''''" and "distinct (map usage_key (rows (usages d)))"
  shows "usedIn i ep (revokeValuePackageUsageReservationTx sid q d) = usedIn i ep d -
    (if i \<noteq> sid then 0 else case usageByRequest sid q d of None \<Rightarrow> 0
     | Some u \<Rightarrow> if usage_QuotaEpoch u = ep then usage_Quota u else 0)"
proof -
  have "usage_UserSubscriptionId u = sid" if "usageByRequest sid q d = Some u" for u
    using that by (auto simp: usageByRequest_def dest!: first_where_Some)
  moreover have "find (\<lambda>x. usage_key x = (sid, q)) (rows (usages d)) = usageByRequest sid q d"
    by (simp add: usageByRequest_key first_where_def)
  ultimately show ?thesis
    unfolding usedIn_def revoke_rows [OF assms(1,2)] sum_list_update [OF assms(3)]
    by (auto simp: usage_weight_def split: option.splits)
qed

lemma revoke_keeps_epochs:
  "x \<in> set (rows (usages (revokeValuePackageUsageReservationTx sid q d))) \<Longrightarrow>
   \<exists>y \<in> set (rows (usages d)). usage_key x = usage_key y \<and> usage_QuotaEpoch x = usage_QuotaEpoch y \<and>
     (usage_Quota x = 0 \<or> x = y)"
  by (auto simp: revokeValuePackageUsageReservationTx_def update_where_def usage_key_def split: if_splits)

lemma quota_inv_revoke:
  assumes inv: "quota_inv_on S R d" and v: "0 < sid" "TrimSpace q \<noteq> ''''"
  shows "quota_inv_on (insert sid S) (insert q R) (revokeValuePackageUsageReservationTx sid q d)"
proof -
  let ?d = "revokeValuePackageUsageReservationTx sid q d"
  have dist: "distinct (map usage_key (rows (usages d)))" using inv by (simp add: quota_inv_on_def keys_ok_def)
  have "map usage_key (rows (usages ?d)) = map usage_key (rows (usages d))"
    unfolding revoke_rows [OF v] by (simp add: usage_key_def)
  then have keys: "keys_ok ?d"
    using inv revoke_keeps_epochs [of _ sid q d]
    by (fastforce simp: quota_inv_on_def keys_ok_def MaxInt64_def)
  have "sub_ok ?d s" if "sub_ok d s" "sub_Id s \<noteq> sid" for s
  proof -
    have "usage_QuotaEpoch x \<le> sub_QuotaEpoch s"
      if "isPackage d s" "x \<in> set (rows (usages ?d))" "usage_UserSubscriptionId x = sub_Id s" for x
      using revoke_keeps_epochs [OF that(2)] that(1,3) \<open>sub_ok d s\<close>
      by (auto simp: sub_ok_def usage_key_def)
    then show ?thesis
      using that isPackage_cong [of ?d d s s] by (auto simp: sub_ok_def revoke_usedIn [OF v dist])
  qed
  moreover have "pre_ok ?d x" if "pre_ok d x" "pre_RequestId x \<noteq> q" for x
    using that isPackage_cong [of ?d d]
    by (auto simp: pre_ok_def revoke_lookup [OF v] split: option.splits)
  ultimately show ?thesis using inv keys by (auto simp: quota_inv_on_def)
qed

lemma revoke_noop:
  assumes "0 < sid" "TrimSpace q \<noteq> ''''" "distinct (map usage_key (rows (usages d)))"
    and "\<forall>u. usageByRequest sid q d = Some u \<longrightarrow> usage_Quota u = 0"
  shows "revokeValuePackageUsageReservationTx sid q d = d"
proof -
  have "x\<lparr>usage_Quota := 0\<rparr> = x" if "x \<in> set (rows (usages d))" "usage_key x = (sid, q)" for x
    using assms(4) first_where_distinct [OF assms(3) that(1)] that(2)
    by (cases x) (auto simp: usageByRequest_key)
  then have "rows (usages (revokeValuePackageUsageReservationTx sid q d)) = rows (usages d)"
    unfolding revoke_rows [OF assms(1,2)] by (auto intro: map_idI)
  then show ?thesis
    using assms(1,2) by (cases "usages d", cases d) (auto simp: revokeValuePackageUsageReservationTx_def update_where_def)
qed

lemma savePre_lookup:
  assumes "keys_ok d" "preByRequest q d = Some x" "pre_Id y = pre_Id x" "pre_RequestId y = q"
  shows "preByRequest q (savePre E y d) = Some (y\<lparr>pre_UpdatedAt := GetTimestamp E\<rparr>)"
    and "z \<in> set (rows (pres (savePre E y d))) \<Longrightarrow>
      z = y\<lparr>pre_UpdatedAt := GetTimestamp E\<rparr> \<or> z \<in> set (rows (pres d)) \<and> pre_RequestId z \<noteq> q"
    and "keys_ok (savePre E y d)"
proof -
  let ?y = "y\<lparr>pre_UpdatedAt := GetTimestamp E\<rparr>"
  have x: "x \<in> set (rows (pres d))" "pre_RequestId x = q"
    using first_where_Some [OF assms(2) [unfolded preByRequest_def]] by auto
  have d: "distinct (map pre_Id (rows (pres d)))" "distinct (map pre_RequestId (rows (pres d)))"
    using assms(1) by (auto simp: keys_ok_def)
  have same: "(pre_Id z = pre_Id y) = (pre_RequestId z = q)" if "z \<in> set (rows (pres d))" for z
    using d that x assms(3) by (auto simp: distinct_map inj_on_def)
  have rows: "rows (pres (savePre E y d)) = map (\<lambda>z. if pre_RequestId z = q then ?y else z) (rows (pres d))"
    using same by (auto simp: savePre_def save_row_def update_where_def)
  have reqs: "map pre_RequestId (rows (pres (savePre E y d))) = map pre_RequestId (rows (pres d))"
    and ids: "map pre_Id (rows (pres (savePre E y d))) = map pre_Id (rows (pres d))"
    using assms(4) same [THEN iffD2, symmetric] unfolding rows by auto
  have sq: "seq (pres (savePre E y d)) = seq (pres d)" by (simp add: savePre_def save_row_def update_where_def)
  have "pre_Id z \<le> seq (pres d)" if "z \<in> set (rows (pres (savePre E y d)))" for z
  proof -
    have "pre_Id z \<in> set (map pre_Id (rows (pres d)))" using that ids by (metis image_eqI set_map)
    then show ?thesis using assms(1) by (auto simp: keys_ok_def)
  qed
  then show "keys_ok (savePre E y d)" using assms(1) reqs ids sq by (simp add: keys_ok_def)
  show "z = ?y \<or> z \<in> set (rows (pres d)) \<and> pre_RequestId z \<noteq> q" if "z \<in> set (rows (pres (savePre E y d)))"
    using that unfolding rows by (auto split: if_splits)
  have "?y \<in> set (rows (pres (savePre E y d)))" using x unfolding rows by auto
  then show "preByRequest q (savePre E y d) = Some ?y"
    using first_where_distinct [of pre_RequestId "pres (savePre E y d)" ?y] d reqs assms(4)
    by (simp add: preByRequest_def)
qed

lemma pre_ok_updated: "pre_ok d (y\<lparr>pre_UpdatedAt := t\<rparr>) = pre_ok d y"
  by (simp add: pre_ok_def split: option.split)

lemma quota_inv_savePre:
  assumes inv: "quota_inv_on S (insert q R) d" and x: "preByRequest q d = Some x"
    and y: "pre_Id y = pre_Id x" "pre_RequestId y = q" "pre_UserSubscriptionId y = pre_UserSubscriptionId x"
      "pre_QuotaEpoch y = pre_QuotaEpoch x"
    and ok: "pre_ok d y"
  shows "quota_inv_on S R (savePre E y d)"
proof -
  let ?d = "savePre E y d"
  have keys: "keys_ok d" using inv by (simp add: quota_inv_on_def)
  note l = savePre_lookup [OF keys x y(1,2), where E = E]
  have x': "x \<in> set (rows (pres d))" using first_where_Some [OF x [unfolded preByRequest_def]] by simp
  have pk: "isPackage ?d s = isPackage d s" for s by (rule isPackage_cong) simp_all
  have po: "pre_ok ?d z = pre_ok d z" for z
    unfolding pre_ok_def pk by (auto simp: usageByRequest_def split: option.splits)
  have "pre_QuotaEpoch z \<le> e"
    if "z \<in> set (rows (pres ?d))" "pre_UserSubscriptionId z = i"
      "\<forall>w \<in> set (rows (pres d)). pre_UserSubscriptionId w = i \<longrightarrow> pre_QuotaEpoch w \<le> e" for z i e
    using l(2) [OF that(1)] that(2,3) x' y(3,4) by auto
  then have "sub_ok ?d s" if "sub_ok d s" for s
    using that unfolding sub_ok_def pk by (auto simp: usedIn_def)
  moreover have "pre_ok ?d z" if "z \<in> set (rows (pres ?d))" "pre_RequestId z \<notin> R" for z
    using l(2) [OF that(1)] that(2) inv ok unfolding po quota_inv_on_def by (auto simp: pre_ok_updated)
  ultimately show ?thesis using inv l(3) by (auto simp: quota_inv_on_def)
qed

lemma refund_cases:
  assumes "RefundSubscriptionPreConsume E q d = Inr d'"
  obtains (replay) x where "preByRequest q d = Some x" "pre_Status x = ''refunded''"
      "d' = revokeValuePackageUsageReservationTx (pre_UserSubscriptionId x) (pre_RequestId x) d"
  | (fresh) x s p d1 where "preByRequest q d = Some x" "pre_Status x \<noteq> ''refunded''"
      "first_where (\<lambda>s. sub_Id s = pre_UserSubscriptionId x) (subs d) = Some s"
      "getSubscriptionPlanByIdFreshTx (sub_PlanId s) d = Inr p"
      "refundUsage E x s (normalizeValuePackagePlan p) d = Inr d1"
      "d' = savePre E (x\<lparr>pre_Status := ''refunded''\<rparr>)
        (revokeValuePackageUsageReservationTx (pre_UserSubscriptionId x) (pre_RequestId x) d1)"
proof -
  from assms obtain x where x: "preByRequest q d = Some x"
    by (auto simp: RefundSubscriptionPreConsume_def res_simps split: if_splits)
  show thesis
  proof (cases "pre_Status x = ''refunded''")
    case True
    with assms x show thesis
      by (intro replay) (auto simp: RefundSubscriptionPreConsume_def res_simps split: if_splits)
  next
    case False
    with assms x show thesis
      by (auto simp: RefundSubscriptionPreConsume_def res_simps intro: fresh split: if_splits)
  qed
qed

text \<open>What a refund writes to a package: the quota of the request's usage record, when the
  package is still in the epoch of the request.\<close>

lemma refundUsage_package:
  assumes "refundUsage E x s (normalizeValuePackagePlan p) d = Inr d1" "IsValuePackage (normalizeValuePackagePlan p)"
    and "quota_inv d" "s \<in> set (rows (subs d))" "sub_Id s = pre_UserSubscriptionId x" "isPackage d s"
    and u: "usageByRequest (sub_Id s) (pre_RequestId x) d = Some u" "usage_QuotaEpoch u = pre_QuotaEpoch x"
  shows "d1 = (if sub_QuotaEpoch s = usage_QuotaEpoch u \<and> usage_Quota u > 0
    then saveSub E (s\<lparr>sub_AmountUsed := sub_AmountUsed s - usage_Quota u\<rparr>) d else d)"
proof -
  have keys: "keys_ok d" and ok: "sub_ok d s" using assms(3,4) by (auto simp: quota_inv_on_def)
  note b = usage_bounds [OF keys u(1)]
  have "giveBack E s (usage_Quota u) d = saveSub E (s\<lparr>sub_AmountUsed := sub_AmountUsed s - usage_Quota u\<rparr>) d"
    if "sub_QuotaEpoch s = usage_QuotaEpoch u"
  proof -
    have le: "usage_Quota u \<le> sub_AmountUsed s" "in_i64 (sub_AmountUsed s)"
      using ok assms(6) b that by (auto simp: sub_ok_def)
    then have "sub64 (sub_AmountUsed s) (usage_Quota u) = sub_AmountUsed s - usage_Quota u"
      using b by (intro sub64_nonneg) (auto simp: in_i64_def MaxInt64_def)
    then show ?thesis using le by (simp add: giveBack_def)
  qed
  then show ?thesis using assms(1,2,5) u by (auto simp: refundUsage_def split: if_splits)
qed

lemma quota_inv_refund_close:
  assumes inv: "quota_inv_on {i} {} d1" and x: "preByRequest q d1 = Some x" "pre_UserSubscriptionId x = i"
    and subs: "\<And>y. y \<in> set (rows (subs d1)) \<Longrightarrow> sub_Id y = i \<Longrightarrow>
      sub_ok (revokeValuePackageUsageReservationTx i q d1) y"
  shows "quota_inv (savePre E (x\<lparr>pre_Status := ''refunded''\<rparr>) (revokeValuePackageUsageReservationTx i q d1))"
proof -
  let ?d2 = "revokeValuePackageUsageReservationTx i q d1"
  have ok: "pre_ok d1 x" and q: "pre_RequestId x = q"
    using inv x(1) by (auto simp: quota_inv_on_def preByRequest_def dest!: first_where_Some)
  then have v: "0 < i" "TrimSpace q \<noteq> ''''" using x(2) by (auto simp: pre_ok_def)
  have "quota_inv_on {i} {q} ?d2" using quota_inv_revoke [OF inv v] by simp
  then have i2: "quota_inv_on {} {q} ?d2" by (rule quota_inv_close_sub) (simp add: subs)
  have pk: "isPackage ?d2 s = isPackage d1 s" for s by (rule isPackage_cong) simp_all
  have "pre_ok ?d2 (x\<lparr>pre_Status := ''refunded''\<rparr>)"
    using ok x(2) q unfolding pre_ok_def pk by (auto simp: revoke_lookup [OF v] split: option.splits)
  then show ?thesis
    by (intro quota_inv_savePre [OF i2, where x = x]) (use x(1) q in \<open>simp_all add: preByRequest_def\<close>)
qed

lemma sub_ok_revoke:
  assumes "sub_ok d s" "isPackage d s" "keys_ok d" "0 < sub_Id s" "TrimSpace q \<noteq> ''''"
    and u: "usageByRequest (sub_Id s) q d = Some u"
    and n: "n = sub_AmountUsed s - (if usage_QuotaEpoch u = sub_QuotaEpoch s then usage_Quota u else 0)"
  shows "sub_ok (revokeValuePackageUsageReservationTx (sub_Id s) q d) (s\<lparr>sub_AmountUsed := n\<rparr>)"
proof -
  let ?d = "revokeValuePackageUsageReservationTx (sub_Id s) q d"
  have dist: "distinct (map usage_key (rows (usages d)))" using assms(3) by (simp add: keys_ok_def)
  have ok: "0 < sub_AmountTotal s" "in_i64 (sub_AmountTotal s)" "in_i64 (sub_AmountUsed s)"
    "sub_AmountUsed s = usedIn (sub_Id s) (sub_QuotaEpoch s) d" "sub_AmountUsed s \<le> sub_AmountTotal s"
    using assms(1,2) by (auto simp: sub_ok_def)
  have used: "usedIn (sub_Id s) (sub_QuotaEpoch s) ?d = n"
    using u ok(4) n by (simp add: revoke_usedIn [OF assms(4,5) dist])
  have "0 \<le> n" "n \<le> sub_AmountUsed s"
    using usage_bounds [OF assms(3) u] ok(4) n usedIn_nonneg [OF assms(3)] by auto
  then have "in_i64 n" "n \<le> sub_AmountTotal s" using ok(3,5) by (auto simp: in_i64_def)
  moreover have "usage_QuotaEpoch y \<le> sub_QuotaEpoch s"
    if "y \<in> set (rows (usages ?d))" "usage_UserSubscriptionId y = sub_Id s" for y
    using revoke_keeps_epochs [OF that(1)] that(2) assms(1,2) by (auto simp: sub_ok_def usage_key_def)
  ultimately show ?thesis using used ok assms(1,2) by (auto simp: sub_ok_def)
qed

lemma quota_inv_refund_package:
  assumes inv: "quota_inv d" and x: "preByRequest q d = Some x"
    and s: "s \<in> set (rows (subs d))" "sub_Id s = pre_UserSubscriptionId x" "isPackage d s"
    and r: "refundUsage E x s (normalizeValuePackagePlan p) d = Inr d1" "IsValuePackage (normalizeValuePackagePlan p)"
  shows "quota_inv (savePre E (x\<lparr>pre_Status := ''refunded''\<rparr>) (revokeValuePackageUsageReservationTx (sub_Id s) q d1))"
proof -
  have ok: "pre_ok d x" and q: "pre_RequestId x = q"
    using inv x by (auto simp: quota_inv_on_def preByRequest_def dest!: first_where_Some)
  then have v: "0 < sub_Id s" "TrimSpace q \<noteq> ''''" using s(2) by (auto simp: pre_ok_def)
  have keys: "keys_ok d" and so: "sub_ok d s" using inv s(1) by (auto simp: quota_inv_on_def)
  obtain u where u: "usageByRequest (sub_Id s) q d = Some u" "usage_QuotaEpoch u = pre_QuotaEpoch x"
    using ok s q by (auto simp: pre_ok_def split: option.splits)
  have qu: "0 \<le> usage_Quota u" using usage_bounds [OF keys u(1)] by simp
  let ?n = "sub_AmountUsed s - (if usage_QuotaEpoch u = sub_QuotaEpoch s then usage_Quota u else 0)"
  have d1: "d1 = (if ?n = sub_AmountUsed s then d else saveSub E (s\<lparr>sub_AmountUsed := ?n\<rparr>) d)"
    using refundUsage_package [OF r inv s, of u] u q qu by (auto split: if_splits)
  have s': "s\<lparr>sub_AmountUsed := sub_AmountUsed s\<rparr> = s" by (cases s) simp
  have t1: "pres d1 = pres d" "usages d1 = usages d" "plans d1 = plans d" using d1 by (auto split: if_splits)
  note sr = sub_ok_revoke [OF so s(3) keys v u(1) refl]
  have "sub_ok (revokeValuePackageUsageReservationTx (sub_Id s) q d1) y =
      sub_ok (revokeValuePackageUsageReservationTx (sub_Id s) q d) y" for y
    by (rule sub_ok_cong) (use t1 in \<open>simp_all add: revokeValuePackageUsageReservationTx_def\<close>)
  moreover have "y = s\<lparr>sub_AmountUsed := ?n\<rparr> \<or> y = stampSub E (s\<lparr>sub_AmountUsed := ?n\<rparr>)"
    if "y \<in> set (rows (subs d1))" "sub_Id y = sub_Id s" for y
    using that d1 unique_sub [OF keys s(1)] s' by (auto split: if_splits)
  ultimately have subs: "sub_ok (revokeValuePackageUsageReservationTx (sub_Id s) q d1) y"
    if "y \<in> set (rows (subs d1))" "sub_Id y = sub_Id s" for y
    using that sr by (metis sub_ok_stamp)
  have "quota_inv_on {sub_Id s} {} d" using inv by (rule quota_inv_weaken) auto
  then have "quota_inv_on {sub_Id s} {} (saveSub E (s\<lparr>sub_AmountUsed := ?n\<rparr>) d)"
    by (intro quota_inv_saveSub) (use s(1) in auto)
  with \<open>quota_inv_on {sub_Id s} {} d\<close> have "quota_inv_on {sub_Id s} {} d1" using d1 by (auto split: if_splits)
  then show ?thesis
    by (rule quota_inv_refund_close) (use x t1 s(2) subs in \<open>simp_all add: preByRequest_def\<close>)
qed

lemma sub_ok_regular: "\<not> isPackage d s \<Longrightarrow> sub_ok d s"
  by (simp add: sub_ok_def)

lemma refundUsage_regular:
  assumes "refundUsage E x s p d = Inr d1" "\<not> IsValuePackage p"
  shows "d1 = d \<or> (\<exists>n. d1 = saveSub E (s\<lparr>sub_AmountUsed := n\<rparr>) d)"
  using assms by (auto simp: refundUsage_def giveBack_def Let_def split: if_splits)

lemma quota_inv_refund_regular:
  assumes inv: "quota_inv d" and x: "preByRequest q d = Some x"
    and s: "s \<in> set (rows (subs d))" "sub_Id s = pre_UserSubscriptionId x" "\<not> isPackage d s"
    and r: "refundUsage E x s (normalizeValuePackagePlan p) d = Inr d1" "\<not> IsValuePackage (normalizeValuePackagePlan p)"
  shows "quota_inv (savePre E (x\<lparr>pre_Status := ''refunded''\<rparr>) (revokeValuePackageUsageReservationTx (sub_Id s) q d1))"
proof (rule quota_inv_refund_close)
  have keys: "keys_ok d" using inv by (simp add: quota_inv_on_def)
  note d1 = refundUsage_regular [OF r]
  have w: "quota_inv_on {sub_Id s} {} d" using inv by (rule quota_inv_weaken) auto
  then have "quota_inv_on {sub_Id s} {} (saveSub E (s\<lparr>sub_AmountUsed := n\<rparr>) d)" for n
    by (intro quota_inv_saveSub) (use s(1) in auto)
  then show "quota_inv_on {sub_Id s} {} d1" using w d1 by auto
  have t1: "pres d1 = pres d" "plans d1 = plans d" using d1 by auto
  show "preByRequest q d1 = Some x" using x t1 by (simp add: preByRequest_def)
  show "pre_UserSubscriptionId x = sub_Id s" using s(2) by simp
  fix y assume y: "y \<in> set (rows (subs d1))" "sub_Id y = sub_Id s"
  then have "sub_PlanId y = sub_PlanId s" using d1 unique_sub [OF keys s(1)] by (auto split: if_splits)
  then have "isPackage (revokeValuePackageUsageReservationTx (sub_Id s) q d1) y = isPackage d s"
    by (intro isPackage_cong) (simp_all add: t1)
  then show "sub_ok (revokeValuePackageUsageReservationTx (sub_Id s) q d1) y"
    using s(3) by (simp add: sub_ok_regular)
qed

lemma refund_replay:
  assumes "quota_inv d" "preByRequest q d = Some x" "pre_Status x = ''refunded''"
  shows "revokeValuePackageUsageReservationTx (pre_UserSubscriptionId x) (pre_RequestId x) d = d"
proof -
  have "pre_ok d x"
    using assms(1,2) by (auto simp: quota_inv_on_def preByRequest_def dest!: first_where_Some)
  then show ?thesis
    using assms(1,3) by (intro revoke_noop) (auto simp: pre_ok_def quota_inv_on_def keys_ok_def)
qed

lemma quota_inv_refund:
  assumes "RefundSubscriptionPreConsume E q d = Inr d'" "quota_inv d"
  shows "quota_inv d'"
  using assms(1)
proof (cases rule: refund_cases)
  case (replay x)
  then show ?thesis using refund_replay [OF assms(2) replay(1,2)] assms(2) by simp
next
  case (fresh x s p d1)
  have q: "pre_RequestId x = q" using fresh(1) by (auto simp: preByRequest_def dest!: first_where_Some)
  have s: "s \<in> set (rows (subs d))" "sub_Id s = pre_UserSubscriptionId x"
    using first_where_Some [OF fresh(3)] by auto
  have "isPackage d s = IsValuePackage (normalizeValuePackagePlan p)" using fresh(4) by (simp add: isPackage_def)
  then show ?thesis
    using quota_inv_refund_package [OF assms(2) fresh(1) s _ fresh(5)]
      quota_inv_refund_regular [OF assms(2) fresh(1) s _ fresh(5)] q s(2)
    unfolding fresh(6) by (cases "isPackage d s") simp_all
qed

end
