(* ===== verification/Quota_Limits.thy ===== *)
theory Quota_Limits
  imports Quota_Ledger
begin

text \<open>
  The five-hour and seven-day limits of a value package: what the usage query returns once a
  pre-consumed request is booked, and that it stays within the limits of the plan.
\<close>

section \<open>One more record\<close>

lemma used5h_append:
  assumes "0 < now" "now + valuePackage5hWindowSeconds \<le> MaxInt64" "usage_CreatedAt x = now"
    and "0 < usage_Quota x" "in_i64 (usage_Quota x)" "usage_QuotaEpoch x = sub_QuotaEpoch s"
  shows "det_Used5h (buildValuePackageWindowUsageDetailsFromRecords s p (rs @ [x]) l now) =
    add64 (det_Used5h (buildValuePackageWindowUsageDetailsFromRecords s p rs l now)) (usage_Quota x)"
proof -
  let ?l = "if l > 0 \<and> l \<le> now then l else 0"
  let ?c = "\<lambda>r. counted_record s now r \<and> \<not> (?l > 0 \<and> usage_CreatedAt r < ?l)"
  let ?W = valuePackage5hWindowSeconds
  have W: "0 < ?W" by (simp add: valuePackage5hWindowSeconds_def)
  have z: "fst w = 0" if "valuePackageFixedWindowUsageDetails zs ?W now = w" "snd w = 0" for zs w
    using that W assms(1) by (auto simp: fixed_details_result window_result_def split: if_splits)
  have eq: "det_Used5h (buildValuePackageWindowUsageDetailsFromRecords s p zs l now) =
      fst (valuePackageFixedWindowUsageDetails (filter ?c zs) ?W now)" for zs
    using assms(1) by (simp add: buildValuePackageWindowUsageDetailsFromRecords_def)
  obtain u st where ust: "valuePackageFixedWindowUsageDetails (filter ?c rs) ?W now = (u, st)" by fastforce
  have "?c x" using assms by (simp add: counted_record_def)
  then have f: "filter ?c (rs @ [x]) = filter ?c rs @ [x]" by simp
  have "st = 0 \<Longrightarrow> u = 0" using z [OF ust] by simp
  then have "fst (valuePackageFixedWindowUsageDetails (filter ?c rs @ [x]) ?W now) = add64 u (usage_Quota x)"
    unfolding fixed_details_append [OF W assms(2,3,1,4,5)] ust using assms(5) by (auto simp: add64_def i64_id)
  then show ?thesis unfolding eq f ust fst_conv .
qed

lemma used7d_append:
  assumes "0 < sub_StartTime s" "sub_StartTime s \<le> now" "now < sub_EndTime s"
    and "now + valuePackage7dWindowSeconds \<le> MaxInt64" "usage_CreatedAt x = now"
    and "0 < usage_Quota x" "usage_QuotaEpoch x = sub_QuotaEpoch s" "valuePackageHas7dWindow p"
  shows "det_Used7d (buildValuePackageWindowUsageDetailsFromRecords s p (rs @ [x]) l now) =
    add64 (det_Used7d (buildValuePackageWindowUsageDetailsFromRecords s p rs l now)) (usage_Quota x)"
proof -
  note w = stage_window_facts [OF assms(1-4)]
  have pos: "0 < win_Start (stage_window s now)" "0 < win_End (stage_window s now)"
    using w assms(1,2) by linarith+
  have "stage_record s (if l > 0 \<and> l \<le> now then l else 0) now x"
    using w assms by (auto simp: stage_record_def counted_record_def)
  moreover have "det_Used7d (buildValuePackageWindowUsageDetailsFromRecords s p zs l now) =
      i64 (quota_sum (filter (stage_record s (if l > 0 \<and> l \<le> now then l else 0) now) zs))" for zs
  proof -
    have n: "\<not> now \<le> 0" using assms(1,2) by simp
    show ?thesis
      unfolding buildValuePackageWindowUsageDetailsFromRecords_def Let_def if_not_P [OF n]
      by (rule sevenDayDetails_used7d [OF assms(8) _ pos]) simp
  qed
  ultimately show ?thesis by (simp add: add64_def)
qed

lemma build_cong:
  assumes "sub_QuotaEpoch s' = sub_QuotaEpoch s" "sub_StartTime s' = sub_StartTime s"
    "sub_CreatedAt s' = sub_CreatedAt s" "sub_EndTime s' = sub_EndTime s"
  shows "buildValuePackageWindowUsageDetailsFromRecords s' p rs l now =
    buildValuePackageWindowUsageDetailsFromRecords s p rs l now"
proof -
  have c: "counted_record s' = counted_record s"
    using assms(1) by (simp add: counted_record_def fun_eq_iff)
  have a: "valuePackageSubscriptionAnchorStart s' now = valuePackageSubscriptionAnchorStart s now"
    by (simp only: valuePackageSubscriptionAnchorStart_def assms)
  show ?thesis
    unfolding buildValuePackageWindowUsageDetailsFromRecords_def fiveHourDetails_def sevenDayDetails_def
      assms(4) c a by (rule refl)
qed

section \<open>The query after a booking\<close>

lemma windowRecords_append:
  assumes "rows (usages d') = rows (usages d) @ [x]" "\<forall>r \<in> set (rows (usages d)). usage_Id r \<le> usage_Id x"
    and "usage_UserId x = u" "usage_UserSubscriptionId x = sub_Id s" "usage_QuotaEpoch x = sub_QuotaEpoch s"
    and "usage_CreatedAt x = now" "lb \<le> now" "0 < usage_Quota x"
  shows "windowRecords s u lb now d' = windowRecords s u lb now d @ [x]"
proof -
  let ?P = "\<lambda>r. usage_UserId r = u \<and> usage_UserSubscriptionId r = sub_Id s \<and>
            usage_QuotaEpoch r = sub_QuotaEpoch s \<and> usage_CreatedAt r \<ge> lb \<and>
            usage_CreatedAt r \<le> now \<and> usage_Quota r > 0"
  have sel: "select_where ?P (usages d') = select_where ?P (usages d) @ [x]"
    using assms by (simp add: select_where_def)
  have "sort_key (\<lambda>r. (usage_CreatedAt r, usage_Id r)) (select_where ?P (usages d) @ [x]) =
      sort_key (\<lambda>r. (usage_CreatedAt r, usage_Id r)) (select_where ?P (usages d)) @ [x]"
    by (rule sort_key_append_max) (use assms(2,6) in \<open>auto simp: select_where_def\<close>)
  then show ?thesis unfolding windowRecords_def sel .
qed

lemma windowRecords_cong:
  "sub_Id s' = sub_Id s \<Longrightarrow> sub_QuotaEpoch s' = sub_QuotaEpoch s \<Longrightarrow>
   windowRecords s' u lb now d = windowRecords s u lb now d"
  by (simp add: windowRecords_def)

lemma packageForUpdate_plan:
  assumes "packageForUpdate E u sid now d = Inr (s, p, d1)" "quota_inv d" "time_in_range now"
  obtains s0 p0 where "s0 \<in> set (rows (subs d))" "sub_StartTime s = sub_StartTime s0" "now < sub_EndTime s"
    "getSubscriptionPlanByIdFreshTx (sub_PlanId s) d1 = Inr p0" "p = normalizeValuePackagePlan p0"
proof -
  from assms(1) obtain s0 p0 where s0: "first_where (\<lambda>s. sub_Id s = sid \<and> activeSub u now s) (subs d) = Some s0"
    and p0: "getSubscriptionPlanByIdFreshTx (sub_PlanId s0) d = Inr p0" and p: "p = normalizeValuePackagePlan p0"
    and adv: "maybeAdvanceValuePackageCycleTx E s0 p now d = Inr (s, d1)"
    by (auto simp: packageForUpdate_def res_simps Let_def split: if_splits)
  note f = first_where_Some [OF s0]
  have b: "sub_StartTime s0 \<le> MaxInt64 - 2592000" using f assms(2) by (simp add: quota_inv_on_def keys_ok_def)
  have st: "sub_StartTime s = sub_StartTime s0" "sub_EndTime s = sub_EndTime s0"
    using adv advance_spec [OF assms(3) b, of E p d] by (auto simp: renewedSub_def split: if_splits)
  have "getSubscriptionPlanByIdFreshTx (sub_PlanId s) d1 = Inr p0"
    using p0 quota_inv_advance(4,5) [OF adv assms(2) _ assms(3)] f fresh_plan_frame [of d1 d] by simp
  then show thesis by (intro that [of s0 p0]) (use f st p in \<open>simp_all add: activeSub_def\<close>)
qed

lemma usageDetails_eq:
  assumes "keys_ok d" "s \<in> set (rows (subs d))" "sub_UserId s = u" "0 < now"
    and "getSubscriptionPlanByIdFreshTx (sub_PlanId s) d = Inr p" "0 < sub_StartTime s"
  shows "getValuePackageWindowUsageDetailsTx E u (sub_Id s) now d =
    Inr (buildValuePackageWindowUsageDetailsFromRecords s (normalizeValuePackagePlan p)
      (windowRecords s u (sub_StartTime s) now d)
      (getLastValuePackageQuotaResetAtTx E u (sub_Id s) now d) now)"
proof -
  have "first_where (\<lambda>x. sub_Id x = sub_Id s \<and> sub_UserId x = u) (subs d) = Some s"
  proof (rule ccontr)
    assume n: "\<not> ?thesis"
    show False
    proof (cases "first_where (\<lambda>x. sub_Id x = sub_Id s \<and> sub_UserId x = u) (subs d)")
      case None then show False using assms(2,3) by (auto simp: first_where_None)
    next
      case (Some x) then show False using n unique_sub [OF assms(1,2)] by (auto dest: first_where_Some)
    qed
  qed
  then show ?thesis
    using assms(4-6) by (simp add: getValuePackageWindowUsageDetailsTx_def res_simps now_or_db_def
        valuePackageSubscriptionAnchorStart_def)
qed

lemma preConsumePackage_limits:
  assumes "preConsumePackage E q u amount now s p d1 = Inr (r, d')"
  shows "\<exists>det. getValuePackageWindowUsageDetailsTx E u (sub_Id s) now d1 = Inr det \<and>
    (plan_Limit5hAmount p > 0 \<longrightarrow> add64 (det_Used5h det) amount \<le> plan_Limit5hAmount p) \<and>
    (valuePackageHas7dWindow p \<longrightarrow> add64 (det_Used7d det) amount \<le> plan_Limit7dAmount p)"
  using assms unfolding preConsumePackage_def Let_def
  by (auto simp: res_simps split: if_splits)

text \<open>The state a booking of \<open>amount\<close> on \<open>s\<close> leads to, as far as the query reads it.\<close>

lemma details_after_booking:
  assumes keys: "keys_ok d1" "keys_ok d'" and s: "s \<in> set (rows (subs d1))" "sub_UserId s = u"
    and p: "getSubscriptionPlanByIdFreshTx (sub_PlanId s) d1 = Inr p" "plans d' = plans d1" "resets d' = resets d1"
    and s': "stampSub E (s\<lparr>sub_AmountUsed := n\<rparr>) \<in> set (rows (subs d'))"
    and x: "rows (usages d') = rows (usages d1) @ [x]" "\<forall>r \<in> set (rows (usages d1)). usage_Id r \<le> usage_Id x"
      "usage_UserId x = u" "usage_UserSubscriptionId x = sub_Id s" "usage_QuotaEpoch x = sub_QuotaEpoch s"
      "usage_CreatedAt x = now" "0 < usage_Quota x" "in_i64 (usage_Quota x)"
    and t: "0 < sub_StartTime s" "sub_StartTime s \<le> now" "now < sub_EndTime s" "time_in_range now"
    and det: "getValuePackageWindowUsageDetailsTx E u (sub_Id s) now d1 = Inr det"
  obtains det' where "getValuePackageWindowUsageDetailsTx E u (sub_Id s) now d' = Inr det'"
    and "det_Used5h det' = add64 (det_Used5h det) (usage_Quota x)"
    and "valuePackageHas7dWindow (normalizeValuePackagePlan p) \<Longrightarrow>
      det_Used7d det' = add64 (det_Used7d det) (usage_Quota x)"
proof -
  let ?s = "stampSub E (s\<lparr>sub_AmountUsed := n\<rparr>)" and ?p = "normalizeValuePackagePlan p"
  let ?l = "getLastValuePackageQuotaResetAtTx E u (sub_Id s) now d1"
  let ?rs = "windowRecords s u (sub_StartTime s) now d1"
  have now: "0 < now" using t by simp
  have w: "now + valuePackage5hWindowSeconds \<le> MaxInt64" "now + valuePackage7dWindowSeconds \<le> MaxInt64"
    using t(4) by (simp_all add: time_in_range_def valuePackage5hWindowSeconds_def valuePackage7dWindowSeconds_def)
  have d: "det = buildValuePackageWindowUsageDetailsFromRecords s ?p ?rs ?l now"
    using usageDetails_eq [OF keys(1) s now p(1) t(1), of E] det by simp
  have l: "getLastValuePackageQuotaResetAtTx E u (sub_Id s) now d' = ?l"
    by (simp add: getLastValuePackageQuotaResetAtTx_def p(3))
  have rs: "windowRecords ?s u (sub_StartTime s) now d' = ?rs @ [x]"
    using windowRecords_append [OF x(1-6) t(2) x(7)] windowRecords_cong [of ?s s] by simp
  have p': "getSubscriptionPlanByIdFreshTx (sub_PlanId ?s) d' = Inr p"
    using p fresh_plan_frame [of d' d1] by simp
  have "getValuePackageWindowUsageDetailsTx E u (sub_Id s) now d' =
      Inr (buildValuePackageWindowUsageDetailsFromRecords s ?p (?rs @ [x]) ?l now)"
    using usageDetails_eq [OF keys(2) s' _ now p', of u E] s(2) t(1) l rs build_cong [of ?s s] by simp
  then show thesis
    by (rule that) (use d used5h_append [OF now w(1) x(6-8,5)] used7d_append [OF t(1-3) w(2) x(6,7,5)] in simp_all)
qed

section \<open>The concrete database\<close>

lemma ex_quota_inv: "quota_inv ex_db"
  by (simp add: quota_inv_on_def keys_ok_def sub_ok_def usedIn_def usage_weight_def empty_table_def
      in_i64_def MaxInt64_def usage_key_def ex_usage_def ex_sub_def)

lemma ex_advance: "maybeAdvanceValuePackageCycleTx ex_env ex_sub ex_plan 2000 d = Inr (ex_sub, d)"
  by (subst advance_spec)
    (simp_all add: time_in_range_def MaxInt64_def cycle_due_def ex_sub_def ex_plan_def valuePackageCycleSeconds_def const_defs
      IsValuePackage_def)

lemma ex_package: "packageForUpdate ex_env 5 7 2000 ex_db = Inr (ex_sub, ex_plan, ex_db)"
  by (simp add: packageForUpdate_def first_where_def ex_sub_active ex_advance bind_e_Inr)

lemma ex_details:
  "\<exists>det. getValuePackageWindowUsageDetailsTx ex_env 5 7 2000 ex_db = Inr det \<and> det_Used5h det = 40 \<and> det_Used7d det = 40"
proof -
  let ?b = "buildValuePackageWindowUsageDetailsFromRecords ex_sub ex_plan [ex_usage] 0 2000"
  have keys: "keys_ok ex_db" using ex_quota_inv by (simp add: quota_inv_on_def)
  have "windowRecords ex_sub 5 1000 2000 ex_db = [ex_usage]"
    by (simp add: windowRecords_def select_where_def) (simp add: ex_usage_def)
  moreover have "getLastValuePackageQuotaResetAtTx ex_env 5 7 2000 ex_db = 0"
    by (simp add: getLastValuePackageQuotaResetAtTx_def select_where_def empty_table_def)
  moreover have "sub_StartTime ex_sub = 1000" by (simp add: ex_sub_def)
  ultimately have "getValuePackageWindowUsageDetailsTx ex_env 5 7 2000 ex_db = Inr ?b"
    using usageDetails_eq [OF keys, of ex_sub 5 2000 ex_plan ex_env] by simp
  moreover have "det_Used5h ?b = 40"
    by (simp add: buildValuePackageWindowUsageDetailsFromRecords_def counted_record_def ex_usage_def
        fixedWindowStep_def valuePackageFixedWindowUsageDetails_def valuePackage5hWindowSeconds_def add64_def i64_def)
  moreover have "det_Used7d ?b = 40"
  proof -
    have w: "stage_window ex_sub 2000 = \<lparr>win_Start = 1000, win_End = 605800\<rparr>"
      using anchored_window(1) [of 1000 604800 2000 2000 5185000]
      by (simp add: stage_window_def valuePackageSubscriptionAnchorStart_def ex_sub_def
          valuePackage7dWindowSeconds_def MaxInt64_def)
    have "valuePackageHas7dWindow ex_plan"
      by (simp add: valuePackageHas7dWindow_def) (simp add: ex_plan_def const_defs)
    then show ?thesis
      by (simp add: buildValuePackageWindowUsageDetailsFromRecords_def sevenDayDetails_used7d w stage_record_def
          counted_record_def) (simp add: ex_usage_def i64_def)
  qed
  ultimately show ?thesis by blast
qed

lemma ex_preConsume:
  "\<exists>r d'. PreConsumeValuePackageSubscription ex_env ''r1'' 5 7 100 ex_db = Inr (r, d')"
proof -
  obtain det where det: "getValuePackageWindowUsageDetailsTx ex_env 5 7 2000 ex_db = Inr det"
    "det_Used5h det = 40" "det_Used7d det = 40" using ex_details by blast
  have l: "plan_Limit5hAmount ex_plan = 500" "plan_Limit7dAmount ex_plan = 800"
    "sub_AmountTotal ex_sub = 1000" "sub_AmountUsed ex_sub = 40"
    by (simp_all add: ex_plan_def ex_sub_def)
  have t: "TrimSpace ''r1'' = ''r1''" by code_simp
  show ?thesis
    by (simp add: PreConsumeValuePackageSubscription_def t preByRequest_def first_where_def empty_table_def ex_package
        preConsumePackage_def det l add64_def sub64_def i64_def bind_e_Inr recordValuePackageUsageTx_def usageFor_def Let_def)
qed

section \<open>Properties\<close>

text \<open>C4. A booked request stays within every limit of its package: after a successful
  pre-consume of a new request, the usage the system reports is within the five-hour limit,
  the seven-day limit and the total of the package.\<close>

theorem package_limits_respected:
  assumes run: "PreConsumeValuePackageSubscription E q u sid amount d = Inr (r, d')"
    and inv: "quota_inv d" and ids: "wf_table usage_Id (usages d)"
    and new: "preByRequest q d = None" "usageByRequest sid q d = None"
    and clock: "time_in_range (getDBTimestampTx E)"
    and started: "\<forall>s \<in> set (rows (subs d)). 0 < sub_StartTime s \<and> sub_StartTime s \<le> getDBTimestampTx E"
    and amount: "amount \<le> MaxInt64"
  shows "\<exists>s p det. s \<in> set (rows (subs d')) \<and> sub_Id s = sid \<and> sub_AmountUsed s \<le> sub_AmountTotal s \<and>
    getSubscriptionPlanByIdFreshTx (sub_PlanId s) d' = Inr p \<and>
    getValuePackageWindowUsageDetailsTx E u sid (getDBTimestampTx E) d' = Inr det \<and>
    (plan_Limit5hAmount (normalizeValuePackagePlan p) > 0 \<longrightarrow>
       det_Used5h det \<le> plan_Limit5hAmount (normalizeValuePackagePlan p)) \<and>
    (valuePackageHas7dWindow (normalizeValuePackagePlan p) \<longrightarrow>
       det_Used7d det \<le> plan_Limit7dAmount (normalizeValuePackagePlan p))"
proof -
  let ?now = "getDBTimestampTx E"
  from run new(1) obtain s p d1 where pf: "packageForUpdate E u sid ?now d = Inr (s, p, d1)"
    and pc: "preConsumePackage E q u amount ?now s p d1 = Inr (r, d')" and pos: "0 < amount"
    by (auto simp: PreConsumeValuePackageSubscription_def res_simps Let_def split: if_splits)
  note f = packageForUpdate_ok [OF pf inv clock]
  obtain s0 p0 where p0: "s0 \<in> set (rows (subs d))" "sub_StartTime s = sub_StartTime s0" "?now < sub_EndTime s"
    "getSubscriptionPlanByIdFreshTx (sub_PlanId s) d1 = Inr p0" "p = normalizeValuePackagePlan p0"
    using packageForUpdate_plan [OF pf inv clock] .
  have st: "0 < sub_StartTime s" "sub_StartTime s \<le> ?now" using started p0(1,2) by simp_all
  have new1: "preByRequest q d1 = None" "usageByRequest (sub_Id s) q d1 = None"
    using new f by (simp_all add: preByRequest_def usageByRequest_def)
  have inv': "quota_inv d'"
    by (rule quota_inv_preConsumePackage [OF pc f(1,2,4) new1 pos amount]) (use st in simp)
  have keys: "keys_ok d1" "keys_ok d'" using f(1) inv' by (simp_all add: quota_inv_on_def)
  show ?thesis
    using pc new1(1)
  proof (cases rule: preConsumePackage_cases)
    case (1 d3)
    let ?s = "stampSub E (s\<lparr>sub_AmountUsed := add64 (sub_AmountUsed s) amount\<rparr>)"
    let ?u = "usageFor u s p q amount (sub_QuotaEpoch s) ?now"
    have t3: "plans d' = plans d1" "resets d' = resets d1" "subs d3 = subs d1"
      using recordUsage_tables [OF 1(1)] by (simp_all add: 1(2))
    have c: "usage_CreatedAt ?u \<noteq> 0" using st by (simp add: usageFor_def)
    have "\<not> list_ex (\<lambda>x. usage_key x = usage_key ?u) (rows (usages d1))"
      using new1(2) by (simp add: usageByRequest_key first_where_None_ex usage_key_def usageFor_def)
    then have us: "rows (usages d') = rows (usages d1) @ [new_row set_usage_Id ?u (usages d1)]"
      using recordUsage_rows [OF 1(1) c] by (simp add: 1(2) upsert_row_def insert_row_def new_row_def)
    have ids1: "\<forall>x \<in> set (rows (usages d1)). usage_Id x \<le> usage_Id (new_row set_usage_Id ?u (usages d1))"
      using ids f(6) by (fastforce simp: wf_table_def new_row_def)
    have s': "?s \<in> set (rows (subs d'))" using f(2) t3(3) by (auto simp: 1(2))
    obtain det where det: "getValuePackageWindowUsageDetailsTx E u (sub_Id s) ?now d1 = Inr det"
      "plan_Limit5hAmount p > 0 \<longrightarrow> add64 (det_Used5h det) amount \<le> plan_Limit5hAmount p"
      "valuePackageHas7dWindow p \<longrightarrow> add64 (det_Used7d det) amount \<le> plan_Limit7dAmount p"
      using preConsumePackage_limits [OF pc] by blast
    have i: "in_i64 amount" using pos amount by (simp add: in_i64_def MaxInt64_def)
    obtain det' where d: "getValuePackageWindowUsageDetailsTx E u (sub_Id s) ?now d' = Inr det'"
      "det_Used5h det' = add64 (det_Used5h det) amount"
      "valuePackageHas7dWindow p \<Longrightarrow> det_Used7d det' = add64 (det_Used7d det) amount"
      using details_after_booking [OF keys f(2,7) p0(4) t3(1,2) s' us ids1 _ _ _ _ _ _ st p0(3) clock det(1)] pos i p0(5)
      by (auto simp: new_row_def usageFor_def)
    have "sub_ok d' ?s" using inv' s' unfolding quota_inv_on_def by blast
    moreover have "isPackage d' ?s" using f(4) isPackage_cong [of d' d1 ?s s] t3(1) by simp
    ultimately have "sub_AmountUsed ?s \<le> sub_AmountTotal ?s" by (simp add: sub_ok_def)
    moreover have "getSubscriptionPlanByIdFreshTx (sub_PlanId ?s) d' = Inr p0"
      using p0(4) fresh_plan_frame [of d' d1] t3(1) by simp
    ultimately show ?thesis
      using d det f(3) s' p0(5) by (intro exI [of _ ?s] exI [of _ p0] exI [of _ det']) auto
  qed
qed

theorem package_limits_respected_witness:
  "\<exists>r d' s. PreConsumeValuePackageSubscription ex_env ''r1'' 5 7 100 ex_db = Inr (r, d') \<and>
     s \<in> set (rows (subs d')) \<and> sub_Id s = 7 \<and> sub_AmountUsed s \<le> sub_AmountTotal s"
proof -
  obtain r d' where run: "PreConsumeValuePackageSubscription ex_env ''r1'' 5 7 100 ex_db = Inr (r, d')"
    using ex_preConsume by blast
  have "wf_table usage_Id (usages ex_db)" by (simp add: wf_table_def ex_usage_def)
  moreover have "preByRequest ''r1'' ex_db = None" "usageByRequest 7 ''r1'' ex_db = None"
    by (simp_all add: preByRequest_def usageByRequest_def first_where_def empty_table_def ex_usage_def)
  ultimately show ?thesis
    using package_limits_respected [OF run ex_quota_inv] run
    by (fastforce simp: time_in_range_def MaxInt64_def ex_sub_def)
qed

end
