(* ===== verification/Quota_Steps.thy ===== *)
theory Quota_Steps
  imports Quota_Limits
begin

text \<open>
  The life of a package's quota as a step relation: pre-consuming, moving a reservation,
  refunding, settling regular subscriptions, cards, the periodic reset and the clean-up of
  idempotency records, in any order and at any time. Every reachable state satisfies
  \<open>quota_inv\<close>: what a package has used is what its usage records of the current epoch say.
\<close>

section \<open>Regular subscriptions\<close>

lemma quota_inv_save_regular:
  assumes "quota_inv d" "s \<in> set (rows (subs d))" "\<not> isPackage d s"
    and "sub_Id s' = sub_Id s" "sub_PlanId s' = sub_PlanId s" "sub_StartTime s' = sub_StartTime s"
  shows "quota_inv (saveSub E s' d)"
proof (rule quota_inv_saveSub)
  show "quota_inv_on (insert (sub_Id s') {}) {} d" using assms(1) by (rule quota_inv_weaken) auto
  have "isPackage d s' = isPackage d s" by (rule isPackage_cong) (simp_all add: assms)
  then show "sub_ok d s'" using assms(3) by (simp add: sub_ok_regular)
qed (use assms in auto)

lemma maybeReset_cases:
  assumes "maybeResetUserSubscriptionWithPlanTx E s p now d = Some (s', d')"
  obtains "s' = s" "d' = d"
  | n where "s' = stampSub E n" "d' = saveSub E n d" "sub_Id n = sub_Id s" "sub_PlanId n = sub_PlanId s"
      "sub_StartTime n = sub_StartTime s" "sub_AmountTotal n = sub_AmountTotal s"
      "sub_UserId n = sub_UserId s" "sub_AmountUsed n = 0 \<or> sub_AmountUsed n = sub_AmountUsed s"
proof (cases "(sub_NextResetTime s > 0 \<and> sub_NextResetTime s > now) \<or>
    NormalizeResetPeriod (plan_QuotaResetPeriod p) = SubscriptionResetNever")
  case True
  then show thesis using assms by (intro that(1)) (auto simp: maybeResetUserSubscriptionWithPlanTx_def split: if_splits)
next
  case False
  let ?next = "\<lambda>b. calcNextResetTime (env_TZ E) b p (sub_EndTime s)"
  let ?base = "if sub_LastResetTime s \<le> 0 then sub_StartTime s else sub_LastResetTime s"
  obtain a b n where l: "resetLoop ?next now False ?base (?next ?base) = Some (a, b, n)"
    using assms False by (auto simp: maybeResetUserSubscriptionWithPlanTx_def Let_def split: option.splits)
  let ?s1 = "if a then s\<lparr>sub_AmountUsed := 0, sub_LastResetTime := b, sub_NextResetTime := n\<rparr>
    else s\<lparr>sub_NextResetTime := n, sub_LastResetTime := b\<rparr>"
  have "(s', d') = (if a \<or> sub_NextResetTime s = 0 \<and> n > 0 then (stampSub E ?s1, saveSub E ?s1 d) else (s, d))"
    using assms False l by (auto simp: maybeResetUserSubscriptionWithPlanTx_def Let_def split: if_splits)
  then consider "s' = s" "d' = d" | "s' = stampSub E ?s1" "d' = saveSub E ?s1 d" by (metis Pair_inject)
  then show thesis
  proof cases
    case 1 then show thesis by (rule that(1))
  next
    case 2 show thesis by (rule that(2) [OF 2]) simp_all
  qed
qed

lemma quota_inv_maybeReset:
  assumes r: "maybeResetUserSubscriptionWithPlanTx E s p now d = Some (s', d')"
    and inv: "quota_inv d" "s \<in> set (rows (subs d))" "\<not> isPackage d s"
  shows "quota_inv d' \<and> s' \<in> set (rows (subs d')) \<and> \<not> isPackage d' s' \<and> pres d' = pres d \<and>
    usages d' = usages d \<and> plans d' = plans d \<and> sub_Id s' = sub_Id s \<and>
    (\<forall>x \<in> set (rows (subs d)). sub_Id x \<noteq> sub_Id s \<longrightarrow> x \<in> set (rows (subs d'))) \<and>
    sub_PlanId s' = sub_PlanId s \<and> sub_StartTime s' = sub_StartTime s"
  using r
proof (cases rule: maybeReset_cases)
  case 1 then show ?thesis using inv by simp
next
  case (2 n)
  have "quota_inv d'" unfolding 2(2) using inv by (rule quota_inv_save_regular) (simp_all add: 2)
  moreover have "isPackage d' s' = isPackage d s" by (rule isPackage_cong) (simp_all add: 2)
  ultimately show ?thesis using 2 inv by force
qed

lemma quota_inv_preConsumeRegular:
  assumes inv: "quota_inv d" and s: "s \<in> set (rows (subs d))" "\<not> isPackage d s"
    and new: "preByRequest q d = None" "usageByRequest (sub_Id s) q d = None" and q: "TrimSpace q \<noteq> ''''"
    and pre: "pre_RequestId r = q" "pre_UserSubscriptionId r = sub_Id s"
    and s': "sub_Id s' = sub_Id s" "sub_PlanId s' = sub_PlanId s" "sub_StartTime s' = sub_StartTime s"
  shows "quota_inv (saveSub E s' (createPre E r d))"
proof (rule quota_inv_save_regular)
  have keys: "keys_ok d" using inv by (simp add: quota_inv_on_def)
  have pk: "isPackage (createPre E r d) x = isPackage d x" for x by (rule isPackage_cong) simp_all
  show "quota_inv (createPre E r d)"
  proof (rule quota_inv_close_request [of _ q])
    show "quota_inv_on {} (insert q {}) (createPre E r d)"
      using quota_inv_createPre [OF inv, of r E] new unique_sub [OF keys s(1)] s(2) pre by auto
    fix x assume "preByRequest q (createPre E r d) = Some x"
    then have "pre_RequestId x = q" "pre_UserSubscriptionId x = sub_Id s"
      using new(1) pre by (auto simp: preByRequest_def createPre_def first_where_insert new_row_def split: if_splits)
    moreover have "usageByRequest (sub_Id s) q (createPre E r d) = None" using new(2) by (simp add: usageByRequest_def)
    moreover have "0 < sub_Id s" using keys s(1) by (simp add: keys_ok_def)
    ultimately show "pre_ok (createPre E r d) x"
      using q s unique_sub [OF keys s(1)] unfolding pre_ok_def pk by auto
  qed
  show "s \<in> set (rows (subs (createPre E r d)))" "\<not> isPackage (createPre E r d) s" using s pk by auto
qed (use s' in simp_all)

lemma quota_inv_preConsumeFrom:
  assumes "preConsumeFrom E q u amount now cs d = Some (Inr (r, d'))" "quota_inv d"
    and "set cs \<subseteq> set (rows (subs d))" "distinct (map sub_Id cs)"
    and "preByRequest q d = None" "\<forall>i. usageByRequest i q d = None" "TrimSpace q \<noteq> ''''"
  shows "quota_inv d'"
  using assms
proof (induction E q u amount now cs d rule: preConsumeFrom.induct)
  case (2 E q u amount now c cs d)
  from "2.prems"(1) obtain p where p: "getSubscriptionPlanByIdFreshTx (sub_PlanId c) d = Inr p"
    by (auto split: sum.splits)
  let ?p = "normalizeValuePackagePlan p"
  show ?case
  proof (cases "IsValuePackage ?p")
    case True
    then show ?thesis using "2.IH"(1) [OF p refl True] "2.prems" p by auto
  next
    case False
    then obtain s d1 where m: "maybeResetUserSubscriptionWithPlanTx E c ?p now d = Some (s, d1)"
      using "2.prems"(1) p by (auto simp: Let_def split: option.splits)
    have "\<not> isPackage d c" using p False by (simp add: isPackage_def)
    then have r: "quota_inv d1" "s \<in> set (rows (subs d1))" "\<not> isPackage d1 s" "pres d1 = pres d" "usages d1 = usages d"
      "sub_Id s = sub_Id c" "\<forall>x \<in> set (rows (subs d)). sub_Id x \<noteq> sub_Id c \<longrightarrow> x \<in> set (rows (subs d1))"
      using quota_inv_maybeReset [OF m "2.prems"(2)] "2.prems"(3) by auto
    have new: "preByRequest q d1 = None" "\<forall>i. usageByRequest i q d1 = None"
      using "2.prems"(5,6) r by (simp_all add: preByRequest_def usageByRequest_def)
    show ?thesis
    proof (cases "sub_AmountTotal s > 0 \<and> sub64 (sub_AmountTotal s) (sub_AmountUsed s) < amount")
      case True
      have "set cs \<subseteq> set (rows (subs d1))"
        using "2.prems"(3,4) r(7) by (metis distinct.simps(2) image_eqI list.set_intros(2) list.set_map list.simps(9) subset_code(1))
      then show ?thesis
        using "2.IH"(2) [OF p refl False m refl refl True] "2.prems" p False m True r(1) new
        by (simp add: Let_def)
    next
      case nt: False
      then have "d' = saveSub E (s\<lparr>sub_AmountUsed := add64 (sub_AmountUsed s) amount\<rparr>) (createPre E (zero_pre\<lparr>pre_RequestId := q,
          pre_UserId := u, pre_UserSubscriptionId := sub_Id s, pre_PreConsumed := amount,
          pre_Status := ''consumed''\<rparr>) d1)"
        using "2.prems"(1) p False m new(1) by (auto simp: Let_def split: if_splits)
      then show ?thesis
        using quota_inv_preConsumeRegular [OF r(1-3) new(1) _ "2.prems"(7)] new(2) by simp
    qed
  qed
qed simp

lemma quota_inv_preConsumeUser:
  assumes "PreConsumeUserSubscription E q u amount d = Some (Inr (r, d'))" "quota_inv d"
    and "preByRequest q d = None \<longrightarrow> (\<forall>i. usageByRequest i q d = None)"
  shows "quota_inv d'"
proof (cases "preByRequest q d")
  case None
  let ?now = "getDBTimestampTx E"
  let ?cs = "sort_key (\<lambda>s. (sub_EndTime s, sub_Id s)) (select_where (activeSub u ?now) (subs d))"
  have "preConsumeFrom E q u amount ?now ?cs d = Some (Inr (r, d'))" "TrimSpace q \<noteq> ''''"
    using assms(1) None by (auto simp: PreConsumeUserSubscription_def Let_def split: if_splits)
  moreover have "distinct (map sub_Id ?cs)"
  proof -
    have "distinct (map sub_Id (rows (subs d)))" using assms(2) by (simp add: quota_inv_on_def keys_ok_def)
    then show ?thesis by (simp add: distinct_map select_where_def inj_on_def)
  qed
  ultimately show ?thesis
    using quota_inv_preConsumeFrom [where cs = ?cs] assms(2,3) None by (simp add: select_where_def)
next
  case (Some x)
  then show ?thesis using assms(1,2)
    by (auto simp: PreConsumeUserSubscription_def replayPreConsume_def res_simps Let_def split: if_splits)
qed

lemma quota_inv_postConsume:
  assumes "PostConsumeUserSubscriptionDelta E sid delta d = Inr d'" "quota_inv d"
    and "\<forall>s \<in> set (rows (subs d)). sub_Id s = sid \<longrightarrow> \<not> isPackage d s"
  shows "quota_inv d'"
proof (cases "delta = 0")
  case True then show ?thesis using assms(1,2) by (auto simp: PostConsumeUserSubscriptionDelta_def split: if_splits)
next
  case False
  with assms(1) obtain s n where s: "first_where (\<lambda>s. sub_Id s = sid) (subs d) = Some s"
    and d': "d' = saveSub E (s\<lparr>sub_AmountUsed := n\<rparr>) d"
    by (auto simp: PostConsumeUserSubscriptionDelta_def res_simps Let_def split: if_splits)
  show ?thesis unfolding d'
    by (rule quota_inv_save_regular [OF assms(2)]) (use first_where_Some [OF s] assms(3) in auto)
qed

section \<open>Periodic work\<close>

lemma quota_inv_cleanup: "quota_inv d \<Longrightarrow> quota_inv (snd (CleanupSubscriptionPreConsumeRecords E n d))"
proof -
  assume inv: "quota_inv d"
  let ?d = "snd (CleanupSubscriptionPreConsumeRecords E n d)"
  have t: "plans ?d = plans d" "subs ?d = subs d" "usages ?d = usages d"
    by (simp_all add: CleanupSubscriptionPreConsumeRecords_def Let_def)
  have sub: "set (rows (pres ?d)) \<subseteq> set (rows (pres d))" "seq (pres ?d) = seq (pres d)"
    by (auto simp: CleanupSubscriptionPreConsumeRecords_def Let_def delete_where_def)
  have pk: "isPackage ?d s = isPackage d s" for s using t(1) by (rule isPackage_cong) simp
  have "keys_ok ?d"
    using inv t sub by (auto simp: quota_inv_on_def keys_ok_def CleanupSubscriptionPreConsumeRecords_def Let_def
        delete_where_def distinct_map_filter)
  moreover have "sub_ok ?d s" if "sub_ok d s" for s
    using that t sub unfolding sub_ok_def pk usedIn_def by auto
  moreover have "pre_ok ?d q" if "pre_ok d q" for q
    using that t unfolding pre_ok_def pk by (auto simp: usageByRequest_def split: option.splits)
  ultimately show ?thesis using inv sub t by (auto simp: quota_inv_on_def)
qed

lemma saveSub_cache: "planCache (saveSub E s d) = planCache d"
  by (simp add: saveSub_def)

lemma advance_cache:
  assumes "maybeAdvanceValuePackageCycleTx E s p now d = Inr (s', d')" "quota_inv d"
    and "s \<in> set (rows (subs d))" "time_in_range now"
  shows "planCache d' = planCache d"
proof -
  have b: "sub_StartTime s \<le> MaxInt64 - 2592000" using assms(2,3) by (simp add: quota_inv_on_def keys_ok_def)
  show ?thesis
    using assms(1) advance_spec [OF assms(4) b, of E p d]
    by (auto simp: saveSub_cache createReset_def split: if_splits)
qed

lemma quota_inv_resetDueOne:
  assumes "resetDueOne E now s0 p0 d = Some (Inr (c, d'))" "quota_inv d" "time_in_range now"
    and "cache_coherent d"
    and p0: "\<forall>s \<in> set (rows (subs d)). sub_Id s = sub_Id s0 \<longrightarrow> getSubscriptionPlanByIdFreshTx (sub_PlanId s) d = Inr p0"
  shows "quota_inv d' \<and> cache_coherent d' \<and> plans d' = plans d \<and>
    map (\<lambda>s. (sub_Id s, sub_PlanId s)) (rows (subs d')) = map (\<lambda>s. (sub_Id s, sub_PlanId s)) (rows (subs d))"
proof (cases "first_where (\<lambda>s. sub_Id s = sub_Id s0 \<and> sub_NextResetTime s > 0 \<and> sub_NextResetTime s \<le> now) (subs d)")
  case None then show ?thesis using assms(1,2,4) by (auto simp: resetDueOne_def)
next
  case (Some l)
  note l = first_where_Some [OF Some]
  let ?p = "normalizeValuePackagePlan p0"
  have coh: "cache_coherent d'" if "plans d' = plans d" "planCache d' = planCache d"
    using assms(4) that fresh_plan_frame [of d' d] by (simp add: cache_coherent_def)
  have ids: "map (\<lambda>s. (sub_Id s, sub_PlanId s)) (rows (subs (saveSub E n d1))) =
      map (\<lambda>s. (sub_Id s, sub_PlanId s)) (rows (subs d))"
    if "sub_Id n = sub_Id l" "sub_PlanId n = sub_PlanId l" "subs d1 = subs d" for n d1
    using that l assms(2) unique_sub [of d l] by (auto simp: quota_inv_on_def)
  have pl: "getSubscriptionPlanByIdFreshTx (sub_PlanId l) d = Inr p0" using p0 l by simp
  show ?thesis
  proof (cases "IsValuePackage ?p")
    case True
    then obtain s where a: "maybeAdvanceValuePackageCycleTx E l ?p now d = Inr (s, d')"
      using assms(1) Some by (auto simp: resetDueOne_def Let_def res_simps)
    have b: "sub_StartTime l \<le> MaxInt64 - 2592000" using l assms(2) by (simp add: quota_inv_on_def keys_ok_def)
    have "map (\<lambda>s. (sub_Id s, sub_PlanId s)) (rows (subs d')) = map (\<lambda>s. (sub_Id s, sub_PlanId s)) (rows (subs d))"
      using a advance_spec [OF assms(3) b, of E ?p d] ids [of "renewedSub l ?p now" "createReset E (renewalRow l ?p now) d"]
      by (auto simp del: rows_saveSub split: if_splits)
    then show ?thesis
      using quota_inv_advance(1,5) [OF a assms(2) _ assms(3)] advance_cache [OF a assms(2) _ assms(3)] l coh by auto
  next
    case False
    then obtain s where m: "maybeResetUserSubscriptionWithPlanTx E l ?p now d = Some (s, d')"
      using assms(1) Some by (auto simp: resetDueOne_def Let_def res_simps)
    have np: "\<not> isPackage d l" using pl False by (simp add: isPackage_def)
    have "planCache d' = planCache d \<and>
      map (\<lambda>s. (sub_Id s, sub_PlanId s)) (rows (subs d')) = map (\<lambda>s. (sub_Id s, sub_PlanId s)) (rows (subs d))"
      using m ids by (cases rule: maybeReset_cases) (simp_all add: saveSub_cache del: rows_saveSub)
    then show ?thesis using quota_inv_maybeReset [OF m assms(2) _ np] l coh by auto
  qed
qed

lemma quota_inv_resetDueLoop:
  assumes "resetDueLoop E now ss n d = Some (m, e, d')" "quota_inv d" "time_in_range now" "cache_coherent d"
    and "\<forall>s \<in> set ss. (sub_Id s, sub_PlanId s) \<in> set (map (\<lambda>s. (sub_Id s, sub_PlanId s)) (rows (subs d)))"
  shows "quota_inv d'"
  using assms
proof (induction E now ss n d rule: resetDueLoop.induct)
  case (2 E now s ss n d)
  obtain r d1 where g: "GetSubscriptionPlanById (sub_PlanId s) d = (r, d1)" by fastforce
  note c = cached_plan [OF "2.prems"(4) g]
  then have t: "plans d1 = plans d" "subs d1 = subs d" "usages d1 = usages d" "pres d1 = pres d"
    by (metis db.select_convs db.surjective db.update_convs(12))+
  have inv1: "quota_inv d1" using "2.prems"(2) quota_inv_on_cong [OF t] by simp
  show ?case
  proof (cases r)
    case (Inl x)
    then show ?thesis using "2.IH"(1) [OF g [symmetric]] "2.prems" c g inv1 t by simp
  next
    case (Inr p)
    have p: "\<forall>x \<in> set (rows (subs d1)). sub_Id x = sub_Id s \<longrightarrow> getSubscriptionPlanByIdFreshTx (sub_PlanId x) d1 = Inr p"
    proof (intro ballI impI)
      fix x assume x: "x \<in> set (rows (subs d1))" "sub_Id x = sub_Id s"
      obtain y where "y \<in> set (rows (subs d1))" "sub_Id y = sub_Id s" "sub_PlanId y = sub_PlanId s"
        using "2.prems"(5) t(2) by auto
      with x have "sub_PlanId x = sub_PlanId s" using unique_sub [of d1 y x] inv1 by (auto simp: quota_inv_on_def)
      then show "getSubscriptionPlanByIdFreshTx (sub_PlanId x) d1 = Inr p"
        using c Inr t(1) fresh_plan_frame [of d1 d] by simp
    qed
    obtain o1 where o1: "resetDueOne E now s p d1 = Some o1" using "2.prems"(1) g Inr by (auto split: option.splits)
    show ?thesis
    proof (cases o1)
      case (Inl x) then show ?thesis using "2.prems"(1) g Inr o1 inv1 by auto
    next
      case o: (Inr cd)
      obtain b d2 where bd: "cd = (b, d2)" by fastforce
      note r = quota_inv_resetDueOne [OF o1 [unfolded o bd] inv1 "2.prems"(3) _ p]
      show ?thesis
        using "2.IH"(2) [OF g [symmetric] Inr o1 o bd [symmetric]] "2.prems"(1,3,5) g Inr o1 o bd r c t(2) by auto
    qed
  qed
qed simp

lemma quota_inv_resetDue:
  assumes "ResetDueSubscriptions E n d = Some (m, e, d')" "quota_inv d" "time_in_range (getDBTimestampTx E)"
    and "cache_coherent d"
  shows "quota_inv d'"
  using assms(1) unfolding ResetDueSubscriptions_def Let_def
  by (rule quota_inv_resetDueLoop) (use assms in \<open>auto simp: select_where_def dest!: in_set_takeD\<close>)

section \<open>The metering state machine\<close>

text \<open>Every operation on the quota of a subscription, at any clock of the running system.
  A request identifier without a pre-consume record has no usage record either: the relay
  draws a new identifier for each request, so an identifier is not used again once its record
  has been cleaned up. Reservations are only moved before the request is refunded, and the
  final difference is booked on regular subscriptions only, as the billing session does.\<close>

definition new_or_known :: "string \<Rightarrow> db \<Rightarrow> bool" where
  "new_or_known q d \<longleftrightarrow> (preByRequest q d = None \<longrightarrow> (\<forall>i. usageByRequest i q d = None))"

definition clock_ok :: "env \<Rightarrow> bool" where
  "clock_ok E \<longleftrightarrow> time_in_range (getDBTimestampTx E) \<and> getDBTimestampTx E \<noteq> 0"

inductive quota_step :: "db \<Rightarrow> db \<Rightarrow> bool" where
  pre_package: "PreConsumeValuePackageSubscription E q u sid amount d = Inr (r, d') \<Longrightarrow> clock_ok E \<Longrightarrow>
    amount \<le> MaxInt64 \<Longrightarrow> new_or_known q d \<Longrightarrow> quota_step d d'"
| pre_regular: "PreConsumeUserSubscription E q u amount d = Some (Inr (r, d')) \<Longrightarrow> new_or_known q d \<Longrightarrow> quota_step d d'"
| reserve: "ReserveValuePackageUsageToTarget E q u sid t d = Inr (r, d') \<Longrightarrow> clock_ok E \<Longrightarrow> t \<le> MaxInt64 \<Longrightarrow>
    \<forall>x. preByRequest q d = Some x \<longrightarrow> pre_Status x \<noteq> ''refunded'' \<Longrightarrow> quota_step d d'"
| refund: "RefundSubscriptionPreConsume E q d = Inr d' \<Longrightarrow> quota_step d d'"
| settle: "PostConsumeUserSubscriptionDelta E sid delta d = Inr d' \<Longrightarrow>
    \<forall>s \<in> set (rows (subs d)). sub_Id s = sid \<longrightarrow> \<not> isPackage d s \<Longrightarrow> quota_step d d'"
| card: "ConsumeValuePackageResetCount E u sid t act note d = Inr (st, d') \<Longrightarrow> quota_step d d'"
| reset_due: "ResetDueSubscriptions E n d = Some (m, e, d') \<Longrightarrow> clock_ok E \<Longrightarrow> cache_coherent d \<Longrightarrow> quota_step d d'"
| cleanup: "CleanupSubscriptionPreConsumeRecords E n d = (m, d') \<Longrightarrow> quota_step d d'"

lemma quota_step_inv: "quota_step d d' \<Longrightarrow> quota_inv d \<Longrightarrow> quota_inv d'"
proof (induction rule: quota_step.induct)
  case (cleanup E n d m d') then show ?case using quota_inv_cleanup [of d E n] by simp
qed (auto simp: clock_ok_def new_or_known_def intro: quota_inv_preConsume quota_inv_preConsumeUser quota_inv_reserve
    quota_inv_refund quota_inv_postConsume quota_inv_consume_card quota_inv_resetDue)

lemma quota_steps_inv: "quota_step\<^sup>*\<^sup>* d d' \<Longrightarrow> quota_inv d \<Longrightarrow> quota_inv d'"
  by (induction rule: rtranclp_induct) (auto intro: quota_step_inv)

section \<open>Properties\<close>



end
