(* ===== verification/Quota_Requests.thy ===== *)
theory Quota_Requests
  imports Quota_Steps
begin

text \<open>
  The life of one request: a request is charged once however often it is pre-consumed, a
  refund has the effect of one however often it is repeated, and a refund after a
  pre-consume gives the package back what it had.
\<close>

section \<open>The state after a pre-consume\<close>

lemma preConsume_cases:
  assumes "PreConsumeValuePackageSubscription E q u sid amount d = Inr (r, d')" "preByRequest q d = None"
  obtains s p d1 where "packageForUpdate E u sid (getDBTimestampTx E) d = Inr (s, p, d1)"
    "preConsumePackage E q u amount (getDBTimestampTx E) s p d1 = Inr (r, d')" "0 < amount" "0 < sid" "0 < u"
    "TrimSpace q \<noteq> ''''"
  using assms by (auto simp: PreConsumeValuePackageSubscription_def res_simps Let_def split: if_splits)

definition preOf :: "string \<Rightarrow> int \<Rightarrow> UserSubscription \<Rightarrow> int \<Rightarrow> SubscriptionPreConsumeRecord" where
  "preOf q u s amount = zero_pre\<lparr>pre_RequestId := q, pre_UserId := u, pre_UserSubscriptionId := sub_Id s,
     pre_PreConsumed := amount, pre_QuotaEpoch := sub_QuotaEpoch s, pre_Status := ''consumed''\<rparr>"

lemma preConsumed_state:
  assumes "PreConsumeValuePackageSubscription E q u sid amount d = Inr (r, d')" "quota_inv d"
    and "time_in_range (getDBTimestampTx E)" "getDBTimestampTx E \<noteq> 0" "amount \<le> MaxInt64"
    and "preByRequest q d = None" "usageByRequest sid q d = None"
  obtains s d1 x y where "quota_inv d1" "s \<in> set (rows (subs d1))" "sub_Id s = sid" "isPackage d1 s"
    "usages d1 = usages d" "plans d' = plans d1" "quota_inv d'"
    "first_where (\<lambda>x. sub_Id x = sid) (subs d') = Some (stampSub E (s\<lparr>sub_AmountUsed := sub_AmountUsed s + amount\<rparr>))"
    "preByRequest q d' = Some x" "pre_UserSubscriptionId x = sid" "pre_UserId x = u" "pre_PreConsumed x = amount"
    "pre_Status x = ''consumed''" "pre_QuotaEpoch x = sub_QuotaEpoch s" "pre_RequestId x = q"
    "usageByRequest sid q d' = Some y" "usage_Quota y = amount" "usage_QuotaEpoch y = sub_QuotaEpoch s"
    "\<And>i ep. usedIn i ep d' = usedIn i ep d + (if i = sid \<and> ep = sub_QuotaEpoch s then amount else 0)"
    "res_AmountUsedBefore r = sub_AmountUsed s" "res_PreConsumed r = amount" "res_QuotaEpoch r = sub_QuotaEpoch s"
  using assms(1,6)
proof (cases rule: preConsume_cases)
  case (1 s p d1)
  note f = packageForUpdate_ok [OF 1(1) assms(2,3)]
  have new1: "preByRequest q d1 = None" "usageByRequest (sub_Id s) q d1 = None"
    using assms(6,7) f by (simp_all add: preByRequest_def usageByRequest_def)
  have inv': "quota_inv d'"
    by (rule quota_inv_preConsumePackage [OF 1(2) f(1,2,4) new1 1(3) assms(5,4)])
  have keys: "keys_ok d1" "keys_ok d'" "sub_ok d1 s" using f(1,2) inv' by (auto simp: quota_inv_on_def)
  from 1(2) new1(1) show thesis
  proof (cases rule: preConsumePackage_cases)
    case c: (1 d3)
    let ?u = "usageFor u s p q amount (sub_QuotaEpoch s) (getDBTimestampTx E)"
    have cr: "usage_CreatedAt ?u \<noteq> 0" using assms(4) by (simp add: usageFor_def)
    note t3 = recordUsage_tables [OF c(1)]
    note room = room_for_amount [OF keys(3) f(4) keys(1) c(3)]
    have am: "add64 (sub_AmountUsed s) amount = sub_AmountUsed s + amount" using room 1(3) by simp
    let ?s = "stampSub E (s\<lparr>sub_AmountUsed := sub_AmountUsed s + amount\<rparr>)"
    have "?s \<in> set (rows (subs d'))" using f(2) t3 by (auto simp: c(2) am)
    then have sub: "first_where (\<lambda>x. sub_Id x = sid) (subs d') = Some ?s"
      using first_where_distinct [of sub_Id "subs d'" ?s] keys(2) f(3) by (simp add: keys_ok_def)
    obtain x where x: "preByRequest q d' = Some x" "pre_UserSubscriptionId x = sid" "pre_UserId x = u"
      "pre_PreConsumed x = amount" "pre_Status x = ''consumed''" "pre_QuotaEpoch x = sub_QuotaEpoch s" "pre_RequestId x = q"
      using t3 new1(1) f(3)
      by (auto simp: c(2) preByRequest_def createPre_def first_where_insert new_row_def)
    have y: "usageByRequest sid q d' = Some (new_row set_usage_Id ?u (usages d1))"
      using recordUsage_lookup [OF c(1) cr, of "sub_Id s" q] new1(2) f(3)
      by (simp add: c(2) usageByRequest_def usageFor_def usage_key_def)
    have "distinct (map usage_key (rows (usages d1)))" using keys(1) by (simp add: keys_ok_def)
    then have used: "usedIn i ep d' = usedIn i ep d + (if i = sid \<and> ep = sub_QuotaEpoch s then amount else 0)" for i ep
      using recordUsage_usedIn [OF c(1) cr, of i ep] new1(2) f(3,6)
      by (auto simp: c(2) usedIn_def usageFor_def usageByRequest_def)
    show thesis
      by (rule that [OF f(1,2,3,4,6) _ inv' sub x y _ _ used])
        (use t3 in \<open>simp_all add: c(2,4) usageFor_def new_row_def consumeResult_def\<close>)
  qed
qed

section \<open>Refund of a booked request\<close>

lemma refund_after_preConsume:
  assumes "PreConsumeValuePackageSubscription E q u sid amount d = Inr (r, d')" and "quota_inv d"
    and "clock_ok E" and "amount \<le> MaxInt64" and "preByRequest q d = None" and "usageByRequest sid q d = None"
  shows "\<exists>d''. RefundSubscriptionPreConsume E' q d' = Inr d'' \<and>
    (\<forall>s \<in> set (rows (subs d'')). sub_Id s = sid \<longrightarrow> sub_AmountUsed s = res_AmountUsedBefore r) \<and>
    (\<forall>i ep. usedIn i ep d'' = usedIn i ep d)"
proof -
  have t: "time_in_range (getDBTimestampTx E)" "getDBTimestampTx E \<noteq> 0" using assms(3) by (simp_all add: clock_ok_def)
  obtain v: "0 < sid" "TrimSpace q \<noteq> ''''" "0 < amount" using assms(1,5) by (cases rule: preConsume_cases)
  show ?thesis
  proof (rule preConsumed_state [OF assms(1,2) t assms(4-6)], goal_cases)
  case (1 s d1 x y)
  note st = 1
  let ?s = "stampSub E (s\<lparr>sub_AmountUsed := sub_AmountUsed s + amount\<rparr>)"
  let ?s2 = "?s\<lparr>sub_AmountUsed := sub_AmountUsed s\<rparr>"
  have s: "?s \<in> set (rows (subs d'))" using first_where_Some [OF st(8)] by simp
  obtain p where p: "getSubscriptionPlanByIdFreshTx (sub_PlanId s) d' = Inr p" "IsValuePackage (normalizeValuePackagePlan p)"
    using st(4,6) fresh_plan_frame [of d' d1] by (auto simp: isPackage_def)
  have pk: "isPackage d' ?s" using p by (simp add: isPackage_def)
  obtain d2 where d2: "refundUsage E' x ?s (normalizeValuePackagePlan p) d' = Inr d2"
    using p(2) st(10,14-18) by (auto simp: refundUsage_def)
  have e2: "d2 = saveSub E' ?s2 d'"
    using refundUsage_package [OF d2 p(2) st(7) s _ pk, of y] st(3,10,14-18) v(3) by simp
  let ?d3 = "revokeValuePackageUsageReservationTx sid q d2"
  have run: "RefundSubscriptionPreConsume E' q d' = Inr (savePre E' (x\<lparr>pre_Status := ''refunded''\<rparr>) ?d3)"
    using v(2) st(8-10,13,15) p(1) d2 by (simp add: RefundSubscriptionPreConsume_def res_simps)
  have dist: "distinct (map usage_key (rows (usages d')))" using st(7) by (simp add: quota_inv_on_def keys_ok_def)
  have "usedIn i ep (savePre E' (x\<lparr>pre_Status := ''refunded''\<rparr>) ?d3) = usedIn i ep d" for i ep
  proof -
    have d3: "usages ?d3 = usages (revokeValuePackageUsageReservationTx sid q d')"
      using v by (simp add: revokeValuePackageUsageReservationTx_def e2)
    have "usedIn i ep (revokeValuePackageUsageReservationTx sid q d') = usedIn i ep d"
      by (simp add: revoke_usedIn [OF v(1,2) dist] st(16-19))
    then show ?thesis by (simp add: usedIn_def d3)
  qed
  moreover have "sub_AmountUsed z = sub_AmountUsed s"
    if "z \<in> set (rows (subs (savePre E' (x\<lparr>pre_Status := ''refunded''\<rparr>) ?d3)))" "sub_Id z = sid" for z
    using that st(3) by (auto simp: e2 split: if_splits)
  ultimately show ?thesis using run st(20) by auto
  qed
qed

lemma ex_request:
  "clock_ok ex_env" "100 \<le> MaxInt64" "preByRequest ''r1'' ex_db = None" "usageByRequest 7 ''r1'' ex_db = None"
  by (simp_all add: clock_ok_def time_in_range_def MaxInt64_def preByRequest_def usageByRequest_def first_where_def
      empty_table_def ex_usage_def)

section \<open>Properties\<close>

text \<open>C6. A request is charged once: repeating a successful pre-consume of a request, at any
  later clock and for any estimate, changes nothing and reports the amount and the epoch of
  the first charge.\<close>

theorem preConsume_charges_once:
  assumes "PreConsumeValuePackageSubscription E q u sid amount d = Inr (r, d')" and "quota_inv d"
    and "clock_ok E" and "amount \<le> MaxInt64" and "preByRequest q d = None" and "usageByRequest sid q d = None"
    and "0 < amount'"
  shows "\<exists>r'. PreConsumeValuePackageSubscription E' q u sid amount' d' = Inr (r', d') \<and>
    res_PreConsumed r' = res_PreConsumed r \<and> res_QuotaEpoch r' = res_QuotaEpoch r \<and>
    res_AmountUsedAfter r' = res_AmountUsedBefore r + res_PreConsumed r"
proof -
  have t: "time_in_range (getDBTimestampTx E)" "getDBTimestampTx E \<noteq> 0" using assms(3) by (simp_all add: clock_ok_def)
  obtain v: "0 < sid" "0 < u" "TrimSpace q \<noteq> ''''" using assms(1,5) by (cases rule: preConsume_cases)
  show ?thesis
    by (rule preConsumed_state [OF assms(1,2) t assms(4-6)])
      (use v assms(7) in \<open>simp add: PreConsumeValuePackageSubscription_def replayPreConsume_def consumeResult_def res_simps\<close>)
qed

theorem preConsume_charges_once_witness:
  "\<exists>r d' r'. PreConsumeValuePackageSubscription ex_env ''r1'' 5 7 100 ex_db = Inr (r, d') \<and>
     PreConsumeValuePackageSubscription ex_env ''r1'' 5 7 60 d' = Inr (r', d') \<and>
     res_PreConsumed r' = res_PreConsumed r"
proof -
  obtain r d' where run: "PreConsumeValuePackageSubscription ex_env ''r1'' 5 7 100 ex_db = Inr (r, d')"
    using ex_preConsume by blast
  show ?thesis using preConsume_charges_once [OF run ex_quota_inv ex_request, of 60 ex_env] run by auto
qed

text \<open>C5. A refund undoes a pre-consume: after a new request is pre-consumed on a package, its
  refund succeeds and leaves the package with the used amount it had before and every epoch
  with the sum of usage records it had before.\<close>

theorem preConsume_refund_roundtrip:
  assumes "PreConsumeValuePackageSubscription E q u sid amount d = Inr (r, d')" and "quota_inv d"
    and "clock_ok E" and "amount \<le> MaxInt64" and "preByRequest q d = None" and "usageByRequest sid q d = None"
  shows "\<exists>d''. RefundSubscriptionPreConsume E' q d' = Inr d'' \<and>
    (\<forall>s \<in> set (rows (subs d'')). sub_Id s = sid \<longrightarrow> sub_AmountUsed s = res_AmountUsedBefore r) \<and>
    (\<forall>i ep. usedIn i ep d'' = usedIn i ep d)"
  using assms by (rule refund_after_preConsume)

theorem preConsume_refund_roundtrip_witness:
  "\<exists>r d' d''. PreConsumeValuePackageSubscription ex_env ''r1'' 5 7 100 ex_db = Inr (r, d') \<and>
     RefundSubscriptionPreConsume ex_env ''r1'' d' = Inr d'' \<and> usedIn 7 2 d'' = 40"
proof -
  obtain r d' where run: "PreConsumeValuePackageSubscription ex_env ''r1'' 5 7 100 ex_db = Inr (r, d')"
    using ex_preConsume by blast
  have "usedIn 7 2 ex_db = 40" by (simp add: usedIn_def usage_weight_def ex_usage_def)
  then show ?thesis
    using preConsume_refund_roundtrip [OF run ex_quota_inv ex_request, of ex_env] run by auto
qed

text \<open>C19. A refund has the effect of one: repeating a successful refund succeeds and changes
  nothing.\<close>

theorem refund_idempotent:
  assumes "RefundSubscriptionPreConsume E q d = Inr d'" and "quota_inv d"
  shows "RefundSubscriptionPreConsume E' q d' = Inr d'"
proof -
  have inv': "quota_inv d'" using quota_inv_refund [OF assms] .
  have q: "TrimSpace q \<noteq> ''''" using assms(1) by (auto simp: RefundSubscriptionPreConsume_def split: if_splits)
  have "\<exists>x. preByRequest q d' = Some x \<and> pre_Status x = ''refunded''"
    using assms(1)
  proof (cases rule: refund_cases)
    case (replay x)
    then show ?thesis by (simp add: preByRequest_def)
  next
    case (fresh x s p d1)
    let ?y = "x\<lparr>pre_Status := ''refunded''\<rparr>"
    have "pres d1 = pres d" using fresh(5) by (auto simp: refundUsage_def split: if_splits option.splits)
    then have "pres d' = pres (savePre E ?y d)" unfolding fresh(6) by (simp add: savePre_def)
    moreover have "pre_RequestId x = q" using fresh(1) by (auto simp: preByRequest_def dest!: first_where_Some)
    moreover have "keys_ok d" using assms(2) by (simp add: quota_inv_on_def)
    ultimately show ?thesis
      using savePre_lookup(1) [OF _ fresh(1), of ?y E] by (simp add: preByRequest_def)
  qed
  then show ?thesis using refund_replay [OF inv'] q by (auto simp: RefundSubscriptionPreConsume_def)
qed

theorem refund_idempotent_witness:
  "\<exists>d d'. RefundSubscriptionPreConsume ex_env ''r1'' d = Inr d' \<and>
     RefundSubscriptionPreConsume ex_env ''r1'' d' = Inr d'"
proof -
  obtain r d where run: "PreConsumeValuePackageSubscription ex_env ''r1'' 5 7 100 ex_db = Inr (r, d)"
    using ex_preConsume by blast
  have inv: "quota_inv d"
    by (rule quota_inv_preConsume [OF run ex_quota_inv]) (use ex_request in \<open>simp_all add: clock_ok_def\<close>)
  obtain d' where "RefundSubscriptionPreConsume ex_env ''r1'' d = Inr d'"
    using refund_after_preConsume [OF run ex_quota_inv ex_request] by blast
  with refund_idempotent [OF this inv] show ?thesis by blast
qed

end
