(* ===== verification/Accounts.thy ===== *)
theory Accounts
  imports Packages
begin

text \<open>
  The accounts a request is charged to: the quota of a user (\<open>src/model/user.go\<close>), the quota
  of a token (\<open>src/model/token.go\<close>) and the batch updater that holds back their updates
  (\<open>src/model/utils.go\<close>).

  SQL expressions on an integer column (\<open>quota + ?\<close>) are integer arithmetic; the range of the
  column is the database's. The batch updater is proved invisible: the quota of a user plus
  what waits for it in the store changes in the same way whether updates are batched or not,
  and a batch run leaves it as it is.
\<close>

section \<open>Users\<close>

definition UserGroupDefault :: string where "UserGroupDefault = ''default''"

definition UserGroupTiyan :: string where
  "UserGroupTiyan = map char_of [228, 189, 147, 233, 170, 140, 231, 148, 168, 230, 136, 183 :: nat]"

definition UserGroupVIP :: string where "UserGroupVIP = ''vip''"

definition RoleCommonUser :: int where "RoleCommonUser = 1"

definition liveUser :: "int \<Rightarrow> User \<Rightarrow> bool" where
  "liveUser uid u \<longleftrightarrow> user_Id u = uid \<and> user_DeletedAt u = None"

definition userById :: "int \<Rightarrow> db \<Rightarrow> User option" where
  "userById uid d = first_where (liveUser uid) (users d)"

definition updateUser :: "int \<Rightarrow> (User \<Rightarrow> User) \<Rightarrow> db \<Rightarrow> db" where
  "updateUser uid f d = d\<lparr>users := update_where (liveUser uid) f (users d)\<rparr>"

section \<open>Updates that wait in memory\<close>

text \<open>The stores of the batch updater: pending sums per row, one list per kind of update.
  \<open>storeAdd\<close> is the map update of \<open>addNewRecord\<close>.\<close>

definition BatchUpdateTypeUserQuota :: nat where "BatchUpdateTypeUserQuota = 0"
definition BatchUpdateTypeTokenQuota :: nat where "BatchUpdateTypeTokenQuota = 1"
definition BatchUpdateTypeUsedQuota :: nat where "BatchUpdateTypeUsedQuota = 2"
definition BatchUpdateTypeChannelUsedQuota :: nat where "BatchUpdateTypeChannelUsedQuota = 3"
definition BatchUpdateTypeRequestCount :: nat where "BatchUpdateTypeRequestCount = 4"
definition BatchUpdateTypeCount :: nat where "BatchUpdateTypeCount = 5"

lemmas batch_type_defs = BatchUpdateTypeUserQuota_def BatchUpdateTypeTokenQuota_def BatchUpdateTypeUsedQuota_def
  BatchUpdateTypeChannelUsedQuota_def BatchUpdateTypeRequestCount_def BatchUpdateTypeCount_def

fun storeAdd :: "int \<Rightarrow> int \<Rightarrow> (int \<times> int) list \<Rightarrow> (int \<times> int) list" where
  "storeAdd i v [] = [(i, v)]"
| "storeAdd i v ((k, w) # s) = (if k = i then (k, add64 w v) # s else (k, w) # storeAdd i v s)"

definition storeGet :: "(int \<times> int) list \<Rightarrow> int \<Rightarrow> int" where
  "storeGet s k = (case map_of s k of None \<Rightarrow> 0 | Some v \<Rightarrow> v)"

definition addNewRecord :: "nat \<Rightarrow> int \<Rightarrow> int \<Rightarrow> db \<Rightarrow> db" where
  "addNewRecord ty i v d =
     d\<lparr>batchUpdateStores := (batchUpdateStores d)(ty := storeAdd i v (batchUpdateStores d ty))\<rparr>"

section \<open>The quota of a user\<close>

definition increaseUserQuota :: "int \<Rightarrow> int \<Rightarrow> db \<Rightarrow> db" where
  "increaseUserQuota uid quota d = updateUser uid (\<lambda>u. u\<lparr>user_Quota := user_Quota u + quota\<rparr>) d"

definition decreaseUserQuota :: "int \<Rightarrow> int \<Rightarrow> db \<Rightarrow> db" where
  "decreaseUserQuota uid quota d = updateUser uid (\<lambda>u. u\<lparr>user_Quota := user_Quota u - quota\<rparr>) d"

definition IncreaseUserQuota :: "env \<Rightarrow> int \<Rightarrow> int \<Rightarrow> bool \<Rightarrow> db \<Rightarrow> merr + db" where
  "IncreaseUserQuota E uid quota toDb d =
     (if quota < 0 then Inl (TopUpE ErrQuotaNegative)
      else if \<not> toDb \<and> env_BatchUpdateEnabled E
      then Inr (addNewRecord BatchUpdateTypeUserQuota uid quota d)
      else Inr (increaseUserQuota uid quota d))"

definition DecreaseUserQuota :: "env \<Rightarrow> int \<Rightarrow> int \<Rightarrow> bool \<Rightarrow> db \<Rightarrow> merr + db" where
  "DecreaseUserQuota E uid quota toDb d =
     (if quota < 0 then Inl (TopUpE ErrQuotaNegative)
      else if \<not> toDb \<and> env_BatchUpdateEnabled E
      then Inr (addNewRecord BatchUpdateTypeUserQuota uid (sub64 0 quota) d)
      else Inr (decreaseUserQuota uid quota d))"

definition DecreaseUserQuotaIfEnough :: "int \<Rightarrow> int \<Rightarrow> db \<Rightarrow> merr + db" where
  "DecreaseUserQuotaIfEnough uid quota d =
     (if quota < 0 then Inl (TopUpE ErrQuotaNegative)
      else if quota = 0 then Inr d
      else if uid \<le> 0 then Inl (UserE ErrInvalidUserId)
      else let enough = (\<lambda>u. liveUser uid u \<and> user_Quota u \<ge> quota) in
        if affected enough (users d) = 0 then Inl (TopUpE (ErrNotEnoughQuota quota))
        else Inr (d\<lparr>users := update_where enough
                    (\<lambda>u. u\<lparr>user_Quota := user_Quota u - quota\<rparr>) (users d)\<rparr>))"

definition DeltaUpdateUserQuota :: "env \<Rightarrow> int \<Rightarrow> int \<Rightarrow> db \<Rightarrow> merr + db" where
  "DeltaUpdateUserQuota E uid delta d =
     (if delta = 0 then Inr d
      else if delta > 0 then IncreaseUserQuota E uid delta False d
      else DecreaseUserQuota E uid (sub64 0 delta) False d)"

definition GetUserQuota :: "int \<Rightarrow> db \<Rightarrow> int" where
  "GetUserQuota uid d = (case userById uid d of None \<Rightarrow> 0 | Some u \<Rightarrow> user_Quota u)"

definition UpdateUserUsedQuotaAndRequestCount :: "env \<Rightarrow> int \<Rightarrow> int \<Rightarrow> db \<Rightarrow> db" where
  "UpdateUserUsedQuotaAndRequestCount E uid quota d =
     (if env_BatchUpdateEnabled E
      then addNewRecord BatchUpdateTypeRequestCount uid 1 (addNewRecord BatchUpdateTypeUsedQuota uid quota d)
      else updateUser uid (\<lambda>u. u\<lparr>user_UsedQuota := user_UsedQuota u + quota,
             user_RequestCount := user_RequestCount u + 1\<rparr>) d)"

definition updateUserQuotaUsedQuotaAndRequestCount :: "int \<Rightarrow> int \<Rightarrow> int \<Rightarrow> int \<Rightarrow> db \<Rightarrow> db" where
  "updateUserQuotaUsedQuotaAndRequestCount uid quota usedQuota requestCount d =
     (if quota = 0 \<and> usedQuota = 0 \<and> requestCount = 0 then d
      else updateUser uid (\<lambda>u. u\<lparr>user_Quota := user_Quota u + quota,
             user_UsedQuota := user_UsedQuota u + usedQuota,
             user_RequestCount := user_RequestCount u + requestCount\<rparr>) d)"

text \<open>\<open>Find\<close> leaves the group empty when there is no such user.\<close>

definition getUserGroupByIdTx :: "int \<Rightarrow> db \<Rightarrow> merr + string" where
  "getUserGroupByIdTx userId d =
     (if userId \<le> 0 then Inl (UserE ErrInvalidUserId)
      else Inr (case userById userId d of None \<Rightarrow> '''' | Some u \<Rightarrow> user_Group u))"

section \<open>Tokens and channels\<close>

definition liveToken :: "int \<Rightarrow> Token \<Rightarrow> bool" where
  "liveToken i t \<longleftrightarrow> tok_Id t = i \<and> tok_DeletedAt t = None"

definition GetTokenByKey :: "string \<Rightarrow> db \<Rightarrow> merr + Token" where
  "GetTokenByKey key d =
     of_option ErrRecordNotFound (first_where (\<lambda>t. tok_Key t = key \<and> tok_DeletedAt t = None) (tokens d))"

definition increaseTokenQuota :: "env \<Rightarrow> int \<Rightarrow> int \<Rightarrow> db \<Rightarrow> db" where
  "increaseTokenQuota E i quota d = d\<lparr>tokens := update_where (liveToken i)
     (\<lambda>t. t\<lparr>tok_RemainQuota := tok_RemainQuota t + quota, tok_UsedQuota := tok_UsedQuota t - quota,
            tok_AccessedTime := GetTimestamp E\<rparr>) (tokens d)\<rparr>"

definition decreaseTokenQuota :: "env \<Rightarrow> int \<Rightarrow> int \<Rightarrow> db \<Rightarrow> db" where
  "decreaseTokenQuota E i quota d = d\<lparr>tokens := update_where (liveToken i)
     (\<lambda>t. t\<lparr>tok_RemainQuota := tok_RemainQuota t - quota, tok_UsedQuota := tok_UsedQuota t + quota,
            tok_AccessedTime := GetTimestamp E\<rparr>) (tokens d)\<rparr>"

definition IncreaseTokenQuota :: "env \<Rightarrow> int \<Rightarrow> int \<Rightarrow> db \<Rightarrow> merr + db" where
  "IncreaseTokenQuota E i quota d =
     (if quota < 0 then Inl (TopUpE ErrQuotaNegative)
      else if env_BatchUpdateEnabled E then Inr (addNewRecord BatchUpdateTypeTokenQuota i quota d)
      else Inr (increaseTokenQuota E i quota d))"

definition DecreaseTokenQuota :: "env \<Rightarrow> int \<Rightarrow> int \<Rightarrow> db \<Rightarrow> merr + db" where
  "DecreaseTokenQuota E i quota d =
     (if quota < 0 then Inl (TopUpE ErrQuotaNegative)
      else if env_BatchUpdateEnabled E
      then Inr (addNewRecord BatchUpdateTypeTokenQuota i (sub64 0 quota) d)
      else Inr (decreaseTokenQuota E i quota d))"

definition updateChannelUsedQuota :: "int \<Rightarrow> int \<Rightarrow> db \<Rightarrow> db" where
  "updateChannelUsedQuota i quota d = d\<lparr>channels := update_where (\<lambda>c. ch_Id c = i)
     (\<lambda>c. c\<lparr>ch_UsedQuota := ch_UsedQuota c + quota\<rparr>) (channels d)\<rparr>"

section \<open>The batch updater\<close>

text \<open>\<open>permS\<close> and \<open>permU\<close> are the orders in which Go ranges over a store and over the map of
  user identifiers.\<close>

definition batchUpdate ::
  "env \<Rightarrow> ((int \<times> int) list \<Rightarrow> (int \<times> int) list) \<Rightarrow> (int list \<Rightarrow> int list) \<Rightarrow> db \<Rightarrow> db" where
  "batchUpdate E permS permU d =
     (let stores = batchUpdateStores d in
      if \<not> list_ex (\<lambda>i. stores i \<noteq> []) [0..<BatchUpdateTypeCount] then d
      else
        let d1 = d\<lparr>batchUpdateStores := (\<lambda>i. if i < BatchUpdateTypeCount then [] else stores i)\<rparr>;
            d2 = fold (\<lambda>(k, v). increaseTokenQuota E k v) (permS (stores BatchUpdateTypeTokenQuota)) d1;
            d3 = fold (\<lambda>(k, v). updateChannelUsedQuota k v) (permS (stores BatchUpdateTypeChannelUsedQuota)) d2;
            userIDs = remdups (map fst (stores BatchUpdateTypeUserQuota @ stores BatchUpdateTypeUsedQuota @
                        stores BatchUpdateTypeRequestCount))
        in fold (\<lambda>k. updateUserQuotaUsedQuotaAndRequestCount k (storeGet (stores BatchUpdateTypeUserQuota) k)
                   (storeGet (stores BatchUpdateTypeUsedQuota) k) (storeGet (stores BatchUpdateTypeRequestCount) k))
             (permU userIDs) d3)"

section \<open>Frame facts\<close>

lemma userById_update:
  assumes "\<And>u. user_Id (f u) = user_Id u" "\<And>u. user_DeletedAt (f u) = user_DeletedAt u"
  shows "userById i (updateUser uid f d) = map_option (\<lambda>u. if i = uid then f u else u) (userById i d)"
proof -
  have "userById i (updateUser uid f d) = map_option (\<lambda>u. if liveUser uid u then f u else u) (userById i d)"
    unfolding userById_def updateUser_def
    by (simp add: first_where_update liveUser_def assms)
  also have "\<dots> = map_option (\<lambda>u. if i = uid then f u else u) (userById i d)"
    by (cases "userById i d") (auto simp: userById_def liveUser_def dest!: first_where_Some)
  finally show ?thesis .
qed

lemma account_frames [simp]:
  "batchUpdateStores (updateUser uid f d) = batchUpdateStores d"
  "batchUpdateStores (increaseTokenQuota E i q d) = batchUpdateStores d"
  "batchUpdateStores (updateChannelUsedQuota i q d) = batchUpdateStores d"
  "users (increaseTokenQuota E i q d) = users d" "users (decreaseTokenQuota E i q d) = users d"
  "users (updateChannelUsedQuota i q d) = users d" "users (addNewRecord ty i q d) = users d"
  by (simp_all add: updateUser_def increaseTokenQuota_def decreaseTokenQuota_def updateChannelUsedQuota_def addNewRecord_def)

lemma map_of_storeAdd:
  "map_of (storeAdd i v s) k = (if k = i then Some (case map_of s i of None \<Rightarrow> v | Some w \<Rightarrow> add64 w v) else map_of s k)"
  by (induction i v s rule: storeAdd.induct) auto

lemma storeGet_add:
  "in_i64 v \<Longrightarrow> storeGet (storeAdd i v s) k = (if k = i then add64 (storeGet s i) v else storeGet s k)"
  by (simp add: storeGet_def map_of_storeAdd add64_def i64_id split: option.split)

section \<open>What a user has\<close>

text \<open>The quota of a user as if every pending update had been applied.\<close>

definition pendingQuota :: "int \<Rightarrow> db \<Rightarrow> int" where
  "pendingQuota uid d = storeGet (batchUpdateStores d BatchUpdateTypeUserQuota) uid"

definition virtualQuota :: "int \<Rightarrow> db \<Rightarrow> int option" where
  "virtualQuota uid d = map_option (\<lambda>u. user_Quota u + pendingQuota uid d) (userById uid d)"

lemma virtualQuota_update:
  assumes "\<And>u. user_Id (f u) = user_Id u" "\<And>u. user_DeletedAt (f u) = user_DeletedAt u"
    and "\<And>u. user_Quota (f u) = user_Quota u + q"
  shows "virtualQuota i (updateUser uid f d) = map_option (\<lambda>v. v + (if i = uid then q else 0)) (virtualQuota i d)"
  by (cases "userById i d")
    (simp_all add: virtualQuota_def pendingQuota_def userById_update [OF assms(1,2)] assms(3))

lemma virtualQuota_pending:
  assumes "in_i64 q" "in_i64 (pendingQuota uid d + q)"
  shows "virtualQuota i (addNewRecord BatchUpdateTypeUserQuota uid q d) =
    map_option (\<lambda>v. v + (if i = uid then q else 0)) (virtualQuota i d)"
  using assms by (cases "userById i d")
    (simp_all add: virtualQuota_def pendingQuota_def addNewRecord_def storeGet_add userById_def add64_eq)

lemma userById_fold:
  assumes "distinct ks"
  shows "userById i (fold (\<lambda>k. updateUserQuotaUsedQuotaAndRequestCount k (q k) (uq k) (rc k)) ks d) =
    map_option (\<lambda>u. if i \<in> set ks then u\<lparr>user_Quota := user_Quota u + q i, user_UsedQuota := user_UsedQuota u + uq i,
      user_RequestCount := user_RequestCount u + rc i\<rparr> else u) (userById i d)"
  using assms
proof (induction ks arbitrary: d)
  case (Cons k ks)
  have "userById i (updateUserQuotaUsedQuotaAndRequestCount k (q k) (uq k) (rc k) d) =
      map_option (\<lambda>u. if i = k then u\<lparr>user_Quota := user_Quota u + q i, user_UsedQuota := user_UsedQuota u + uq i,
      user_RequestCount := user_RequestCount u + rc i\<rparr> else u) (userById i d)"
    by (cases "userById i d") (auto simp: updateUserQuotaUsedQuotaAndRequestCount_def userById_update)
  then show ?case using Cons by (cases "userById i d") auto
qed (simp add: option.map_ident)

lemma fold_frame:
  assumes "\<And>x d. g (h x d) = g d"
  shows "g (fold h xs d) = g d"
  using assms by (induction xs arbitrary: d) auto

lemma virtualQuota_batchUpdate:
  assumes "\<And>xs. set (permU xs) = set xs" "\<And>xs. distinct xs \<Longrightarrow> distinct (permU xs)"
  shows "virtualQuota i (batchUpdate E permS permU d) = virtualQuota i d \<and>
    pendingQuota i (batchUpdate E permS permU d) = 0"
proof (cases "list_ex (\<lambda>k. batchUpdateStores d k \<noteq> []) [0..<BatchUpdateTypeCount]")
  case False
  then have "batchUpdateStores d 0 = []" by (simp add: list_ex_iff batch_type_defs)
  with False show ?thesis
    by (simp add: batchUpdate_def pendingQuota_def storeGet_def batch_type_defs)
next
  case True
  let ?s = "batchUpdateStores d"
  let ?q = "storeGet (?s BatchUpdateTypeUserQuota)"
  let ?ids = "remdups (map fst (?s BatchUpdateTypeUserQuota @ ?s BatchUpdateTypeUsedQuota @ ?s BatchUpdateTypeRequestCount))"
  let ?d1 = "d\<lparr>batchUpdateStores := (\<lambda>k. if k < BatchUpdateTypeCount then [] else ?s k)\<rparr>"
  let ?d3 = "fold (\<lambda>(k, v). updateChannelUsedQuota k v) (permS (?s BatchUpdateTypeChannelUsedQuota))
    (fold (\<lambda>(k, v). increaseTokenQuota E k v) (permS (?s BatchUpdateTypeTokenQuota)) ?d1)"
  let ?d4 = "fold (\<lambda>k. updateUserQuotaUsedQuotaAndRequestCount k (?q k)
      (storeGet (?s BatchUpdateTypeUsedQuota) k) (storeGet (?s BatchUpdateTypeRequestCount) k)) (permU ?ids) ?d3"
  have d4: "batchUpdate E permS permU d = ?d4" using True by (simp add: batchUpdate_def Let_def)
  have "users ?d3 = users d" by (subst fold_frame; (subst fold_frame)?; auto)
  then have u3: "userById i ?d3 = userById i d" by (simp add: userById_def)
  have b3: "batchUpdateStores ?d3 = batchUpdateStores ?d1" by (subst fold_frame; (subst fold_frame)?; auto)
  have "batchUpdateStores ?d4 = batchUpdateStores ?d3"
    by (rule fold_frame) (simp add: updateUserQuotaUsedQuotaAndRequestCount_def)
  then have "batchUpdateStores ?d4 = batchUpdateStores ?d1" unfolding b3 .
  moreover have "batchUpdateStores ?d1 BatchUpdateTypeUserQuota = []" by (simp add: batch_type_defs)
  ultimately have p: "pendingQuota i ?d4 = 0" unfolding pendingQuota_def storeGet_def by (simp only: map_of.simps option.case)
  have z: "?q i = 0" if "i \<notin> set ?ids"
  proof -
    have "map_of (?s BatchUpdateTypeUserQuota) i = None" using that by (auto simp: map_of_eq_None_iff)
    then show ?thesis by (simp add: storeGet_def)
  qed
  have "virtualQuota i ?d4 = map_option (\<lambda>u. user_Quota u + ?q i) (userById i d)"
    using assms z p by (cases "userById i d") (auto simp: virtualQuota_def userById_fold u3)
  then show ?thesis unfolding d4 using p by (simp add: virtualQuota_def pendingQuota_def)
qed

section \<open>Accounts as an interface\<close>

text \<open>What a client of an account relies on: crediting changes the balance of that account
  by the amount, and of no other.\<close>

locale ledger_account =
  fixes balance :: "int \<Rightarrow> 's \<Rightarrow> int option"
    and credit :: "int \<Rightarrow> int \<Rightarrow> 's \<Rightarrow> 's"
    and room :: "int \<Rightarrow> int \<Rightarrow> 's \<Rightarrow> bool"
  assumes balance_credit:
    "room u q s \<Longrightarrow> balance i (credit u q s) = map_option (\<lambda>v. v + (if i = u then q else 0)) (balance i s)"
begin

lemma credit_back:
  assumes "room u q s" "room u (- q) (credit u q s)"
  shows "balance i (credit u (- q) (credit u q s)) = balance i s"
  using assms by (simp add: balance_credit option.map_comp comp_def option.map_ident)

lemma credit_split:
  assumes "room u (a + b) s" "room u a s" "room u b (credit u a s)"
  shows "balance i (credit u b (credit u a s)) = balance i (credit u (a + b) s)"
  using assms by (simp add: balance_credit option.map_comp comp_def add.assoc)

end

interpretation direct_quota: ledger_account virtualQuota increaseUserQuota "\<lambda>_ _ _. True"
  by unfold_locales (simp add: increaseUserQuota_def virtualQuota_update)

interpretation batched_quota: ledger_account virtualQuota "addNewRecord BatchUpdateTypeUserQuota"
  "\<lambda>u q d. in_i64 q \<and> in_i64 (pendingQuota u d + q)"
  by unfold_locales (simp add: virtualQuota_pending)

lemma decrease_as_credit: "decreaseUserQuota u q d = increaseUserQuota u (- q) d"
  by (simp add: decreaseUserQuota_def increaseUserQuota_def)

section \<open>Properties\<close>

text \<open>C27. Batching is invisible: in either mode a change of a user's quota has the effect of
  the direct update on what every user has, quota and pending updates together.\<close>

theorem batched_change_is_direct:
  assumes "DeltaUpdateUserQuota E uid delta d = Inr d'"
    and "in_i64 (pendingQuota uid d + delta)" and "- MaxInt64 \<le> delta" and "delta \<le> MaxInt64"
  shows "virtualQuota i d' = virtualQuota i (increaseUserQuota uid delta d)"
proof -
  have i: "in_i64 delta" "in_i64 (- delta)" "sub64 0 delta = - delta" "sub64 0 (- delta) = delta"
    using assms(3,4) by (simp_all add: in_i64_def MaxInt64_def sub64_eq)
  consider "delta = 0" "d' = d" | "d' = increaseUserQuota uid delta d"
    | "d' = addNewRecord BatchUpdateTypeUserQuota uid delta d"
    using assms(1) i by (auto simp: DeltaUpdateUserQuota_def IncreaseUserQuota_def DecreaseUserQuota_def
        decrease_as_credit split: if_splits)
  then show ?thesis
  proof cases
    case 1
    then show ?thesis by (simp add: direct_quota.balance_credit option.map_ident)
  next
    case 3
    then show ?thesis using assms(2) i(1) by (simp add: direct_quota.balance_credit batched_quota.balance_credit)
  qed simp
qed

theorem batched_change_is_direct_witness:
  "virtualQuota 5 (addNewRecord BatchUpdateTypeUserQuota 5 (- 30) ex_db) = Some 670"
proof -
  let ?E = "ex_env\<lparr>env_BatchUpdateEnabled := True\<rparr>"
  have s: "sub64 0 (- 30) = 30" "sub64 0 30 = - 30" by (simp_all add: sub64_def i64_def)
  have "DeltaUpdateUserQuota ?E 5 (- 30) ex_db = Inr (addNewRecord BatchUpdateTypeUserQuota 5 (- 30) ex_db)"
    by (simp add: DeltaUpdateUserQuota_def DecreaseUserQuota_def s)
  from batched_change_is_direct [OF this, of 5] show ?thesis
    by (simp add: pendingQuota_def storeGet_def in_i64_def MaxInt64_def increaseUserQuota_def updateUser_def
        virtualQuota_def userById_def first_where_def update_where_def liveUser_def ex_user_def zero_user_def)
qed



end
