(* ===== verification/Payments.thy ===== *)
theory Payments
  imports Accounts
begin

text \<open>
  What a payment does: the VIP group and the recharge callbacks of the payment providers
  (\<open>src/model/topup.go\<close>), valid top-up cents and their reconciliation (\<open>src/model/svip.go\<close>),
  affiliate commissions and withdrawals (\<open>src/model/affiliate.go\<close>).
\<close>

section \<open>The VIP group\<close>

definition VIPUpgradeThresholdMoney :: rat where "VIPUpgradeThresholdMoney = 30"

definition isVIPUpgradeableUser :: "User \<Rightarrow> bool" where
  "isVIPUpgradeableUser u \<longleftrightarrow>
     user_Role u = RoleCommonUser \<and> user_Group u \<in> {'''', UserGroupDefault, UserGroupTiyan}"

definition topUpVIPQualifiedAmount :: "TopUp \<Rightarrow> rat" where
  "topUpVIPQualifiedAmount t = (if topup_Amount t > 0 then fl64 (of_int (topup_Amount t)) else topup_Money t)"

definition totalVIPAmount :: "TopUp list \<Rightarrow> rat" where
  "totalVIPAmount ts = fold (\<lambda>t total. fl64 (total + topUpVIPQualifiedAmount t)) ts 0"

definition MaybeUpgradeUserToVIPTx :: "int \<Rightarrow> db \<Rightarrow> merr + bool \<times> db" where
  "MaybeUpgradeUserToVIPTx uid d =
     (if uid \<le> 0 then Inr (False, d)
      else bind_e (of_option ErrRecordNotFound (userById uid d)) (\<lambda>u.
        if user_Group u = UserGroupVIP \<or> \<not> isVIPUpgradeableUser u then Inr (False, d)
        else if totalVIPAmount (select_where (\<lambda>t. topup_UserId t = uid \<and>
                  topup_Status t = TopUpStatusSuccess) (topups d)) < VIPUpgradeThresholdMoney
        then Inr (False, d)
        else let hit = (\<lambda>u. liveUser uid u \<and> isVIPUpgradeableUser u) in
          Inr (affected hit (users d) > 0,
               d\<lparr>users := update_where hit (\<lambda>u. u\<lparr>user_Group := UserGroupVIP\<rparr>) (users d)\<rparr>)))"

section \<open>Valid top-up cents\<close>

definition SVIPThresholdCents :: int where "SVIPThresholdCents = 20000"

definition IsSVIPValidTopupCents :: "int \<Rightarrow> bool" where
  "IsSVIPValidTopupCents cents \<longleftrightarrow> cents \<ge> SVIPThresholdCents"

definition IsSVIP :: "User \<Rightarrow> bool" where
  "IsSVIP u \<longleftrightarrow> IsSVIPValidTopupCents (user_ValidTopupCents u)"

definition MoneyToValidTopupCents :: "env \<Rightarrow> rat \<Rightarrow> int" where
  "MoneyToValidTopupCents E money =
     (if money \<le> 0 then 0
      else let cents = env_DecimalCents E money in if cents > MaxInt64 then 0 else cents)"

definition AmountToValidTopupCents :: "int \<Rightarrow> int" where
  "AmountToValidTopupCents amount =
     (if amount \<le> 0 \<or> amount > quot64 MaxInt64 100 then 0 else mul64 amount 100)"

definition AddUserValidTopupCentsTx :: "int \<Rightarrow> int \<Rightarrow> db \<Rightarrow> merr + db" where
  "AddUserValidTopupCentsTx userId cents d =
     (if userId \<le> 0 \<or> cents \<le> 0 then Inr d
      else if affected (liveUser userId) (users d) \<noteq> 1 then Inl ErrRecordNotFound
      else Inr (updateUser userId (\<lambda>u. u\<lparr>user_ValidTopupCents := user_ValidTopupCents u + cents,
                  user_TopupWatermark := user_TopupWatermark u + cents\<rparr>) d))"

definition IncreaseUserQuotaAndValidTopupCents :: "int \<Rightarrow> int \<Rightarrow> int \<Rightarrow> db \<Rightarrow> merr + db" where
  "IncreaseUserQuotaAndValidTopupCents userId quota cents d =
     (if userId \<le> 0 then Inl ErrRecordNotFound
      else if quota \<le> 0 then Inl (TopUpE ErrQuotaNotPositive)
      else if cents < 0 then Inl (TopUpE ErrCentsNegative)
      else if affected (liveUser userId) (users d) \<noteq> 1 then Inl ErrRecordNotFound
      else Inr (updateUser userId (\<lambda>u. u\<lparr>user_Quota := user_Quota u + quota,
                  user_ValidTopupCents := user_ValidTopupCents u + cents\<rparr>) d))"

definition validTopupCentsForTopUp :: "env \<Rightarrow> TopUp \<Rightarrow> int" where
  "validTopupCentsForTopUp E t =
     (if topup_Amount t > 0 then AmountToValidTopupCents (topup_Amount t)
      else MoneyToValidTopupCents E (topup_Money t))"

text \<open>The totals per user, in the order of the rows; \<open>None\<close> on overflow.\<close>

fun addTotals :: "env \<Rightarrow> TopUp list \<Rightarrow> (int \<Rightarrow> int) \<Rightarrow> (int \<Rightarrow> int) option" where
  "addTotals E [] totals = Some totals"
| "addTotals E (t # ts) totals =
     (let cents = validTopupCentsForTopUp E t; uid = topup_UserId t in
      if cents \<le> 0 then addTotals E ts totals
      else if totals uid > sub64 MaxInt64 cents then None
      else addTotals E ts (totals(uid := add64 (totals uid) cents)))"

definition backfillOne :: "bool \<Rightarrow> (int \<Rightarrow> int) \<Rightarrow> int \<Rightarrow> db \<Rightarrow> merr + db" where
  "backfillOne initialized totals userId d =
     (let cents = totals userId in
      if cents \<le> 0 then Inr d
      else case userById userId d of None \<Rightarrow> Inr d
      | Some u \<Rightarrow>
          let valid = user_ValidTopupCents u; mark = user_TopupWatermark u;
              accountedHistory = (if initialized then mark
                 else let a = (if valid < 0 then 0 else valid) in if a > cents then cents else a);
              missingCents = (if cents > accountedHistory then sub64 cents accountedHistory else 0);
              targetHistory = (if cents > mark then cents else mark);
              same = (\<lambda>x. liveUser userId x \<and> user_ValidTopupCents x = valid \<and>
                          user_TopupWatermark x = mark)
          in if missingCents > 0 \<and> valid > sub64 MaxInt64 missingCents
             then Inl (TopUpE ErrReconcileOverflow)
             else if missingCents = 0 \<and> targetHistory = mark then Inr d
             else if affected same (users d) \<noteq> 1 then Inl (TopUpE (ErrBackfillStateChanged userId))
             else Inr (d\<lparr>users := update_where same (\<lambda>x. x\<lparr>user_TopupWatermark := targetHistory,
                    user_ValidTopupCents := user_ValidTopupCents x +
                      (if missingCents > 0 then missingCents else 0)\<rparr>) (users d)\<rparr>))"

fun backfillAll :: "bool \<Rightarrow> (int \<Rightarrow> int) \<Rightarrow> int list \<Rightarrow> db \<Rightarrow> merr + db" where
  "backfillAll initialized totals [] d = Inr d"
| "backfillAll initialized totals (u # us) d =
     bind_e (backfillOne initialized totals u d) (backfillAll initialized totals us)"

definition SVIPValidTopupReconcileVersion :: string where
  "SVIPValidTopupReconcileVersion = ''svip_valid_topup_reconcile_v1''"

definition backfillUserValidTopupCents :: "env \<Rightarrow> db \<Rightarrow> merr + db" where
  "backfillUserValidTopupCents E d =
     (let initialized = list_ex (\<lambda>r. receipt_MigrationVersion r = SVIPValidTopupReconcileVersion) (receipts d);
          ts = select_where (\<lambda>t. topup_Status t = TopUpStatusSuccess \<and>
                 topup_PaymentProvider t \<in> {''ldxp'', ''redemption_code''}) (topups d);
          userIDs = sort (remdups (map topup_UserId (filter (\<lambda>t. validTopupCentsForTopUp E t > 0) ts)))
      in case addTotals E ts (\<lambda>_. 0) of
           None \<Rightarrow> Inl (TopUpE ErrBackfillOverflow)
         | Some totals \<Rightarrow>
             bind_e (backfillAll initialized totals userIDs d) (\<lambda>d1.
               Inr (if initialized then d1
                    else d1\<lparr>receipts := receipts d1 @
                      [\<lparr>receipt_MigrationVersion = SVIPValidTopupReconcileVersion,
                        receipt_AppliedAt = GetTimestamp E\<rparr>]\<rparr>)))"

section \<open>Affiliate commissions\<close>

definition AffiliateCommissionRate :: rat where "AffiliateCommissionRate = fl64 (15 / 100)"

definition AffiliateCommissionStatusAvailable :: string where
  "AffiliateCommissionStatusAvailable = ''available''"

definition roundAffiliateMoney :: "env \<Rightarrow> rat \<Rightarrow> rat" where
  "roundAffiliateMoney E v = env_DecimalRound2 E v"

definition newAffiliatePublicID :: "env \<Rightarrow> string \<Rightarrow> string" where
  "newAffiliatePublicID E prefix = prefix @ filter (\<lambda>c. c \<noteq> CHR ''-'') (env_FreshId E)"

definition MaybeCreateAffiliateCommissionForTopUpTx :: "env \<Rightarrow> TopUp \<Rightarrow> db \<Rightarrow> db" where
  "MaybeCreateAffiliateCommissionForTopUpTx E t d =
     (if topup_Id t \<le> 0 \<or> topup_UserId t \<le> 0 \<or> topup_Status t \<noteq> TopUpStatusSuccess \<or> topup_Money t \<le> 0
      then d
      else if first_where (\<lambda>c. comm_TopupId c = topup_Id t) (commissions d) \<noteq> None then d
      else case userById (topup_UserId t) d of None \<Rightarrow> d
      | Some invitee \<Rightarrow>
          if user_InviterId invitee \<le> 0 \<or> user_InviterId invitee = user_Id invitee then d
          else case userById (user_InviterId invitee) d of None \<Rightarrow> d
          | Some inviter \<Rightarrow>
              let commissionMoney = roundAffiliateMoney E (fl64 (topup_Money t * AffiliateCommissionRate)) in
              if commissionMoney \<le> 0 then d
              else let now = GetTimestamp E in
                d\<lparr>commissions := insert_row set_comm_Id
                   (zero_comm\<lparr>comm_CommissionId := newAffiliatePublicID E ''affc_'',
                      comm_InviterUserId := user_Id inviter, comm_InviteeUserId := user_Id invitee,
                      comm_TopupId := topup_Id t, comm_TradeNo := topup_TradeNo t,
                      comm_BaseMoney := roundAffiliateMoney E (topup_Money t),
                      comm_Rate := AffiliateCommissionRate, comm_CommissionMoney := commissionMoney,
                      comm_Status := AffiliateCommissionStatusAvailable,
                      comm_CreatedTime := now, comm_UpdatedTime := now\<rparr>) (commissions d)\<rparr>)"

definition MaybeCreateAffiliateCommissionForTopUp :: "env \<Rightarrow> int \<Rightarrow> db \<Rightarrow> merr + db" where
  "MaybeCreateAffiliateCommissionForTopUp E topupID d =
     (case first_where (\<lambda>t. topup_Id t = topupID) (topups d) of
        None \<Rightarrow> Inl ErrRecordNotFound
      | Some t \<Rightarrow> Inr (MaybeCreateAffiliateCommissionForTopUpTx E t d))"

section \<open>Top-ups\<close>

definition PaymentProviderEpay :: string where "PaymentProviderEpay = ''epay''"
definition PaymentProviderStripe :: string where "PaymentProviderStripe = ''stripe''"
definition PaymentProviderCreem :: string where "PaymentProviderCreem = ''creem''"
definition PaymentProviderWaffo :: string where "PaymentProviderWaffo = ''waffo''"
definition PaymentProviderWaffoPancake :: string where "PaymentProviderWaffoPancake = ''waffo_pancake''"

lemmas provider_defs = PaymentProviderEpay_def PaymentProviderStripe_def PaymentProviderCreem_def
  PaymentProviderWaffo_def PaymentProviderWaffoPancake_def

text \<open>\<open>Insert\<close> fails on the unique index of the trade number, the only error it has here.\<close>

definition insertTopUp :: "TopUp \<Rightarrow> db \<Rightarrow> db option" where
  "insertTopUp t d =
     (if list_ex (\<lambda>x. topup_TradeNo x = topup_TradeNo t) (rows (topups d)) then None
      else Some (d\<lparr>topups := insert_row set_topup_Id t (topups d)\<rparr>))"

definition updateTopUp :: "TopUp \<Rightarrow> db \<Rightarrow> db" where
  "updateTopUp t d = d\<lparr>topups := save_row topup_Id t (topups d)\<rparr>"

definition GetTopUpById :: "int \<Rightarrow> db \<Rightarrow> TopUp option" where
  "GetTopUpById i d = first_where (\<lambda>t. topup_Id t = i) (topups d)"

definition GetTopUpByTradeNo :: "string \<Rightarrow> db \<Rightarrow> TopUp option" where
  "GetTopUpByTradeNo tradeNo d = first_where (\<lambda>t. topup_TradeNo t = tradeNo) (topups d)"

definition UpdatePendingTopUpStatus :: "string \<Rightarrow> string \<Rightarrow> string \<Rightarrow> db \<Rightarrow> merr + db" where
  "UpdatePendingTopUpStatus tradeNo expectedPaymentProvider targetStatus d =
     (if tradeNo = '''' then Inl (TopUpE ErrNoTradeNo)
      else bind_e (of_option (TopUpE ErrTopUpNotFound) (GetTopUpByTradeNo tradeNo d)) (\<lambda>t.
        if expectedPaymentProvider \<noteq> '''' \<and> topup_PaymentProvider t \<noteq> expectedPaymentProvider
        then Inl (OrderE ErrPaymentMethodMismatch)
        else if topup_Status t \<noteq> TopUpStatusPending then Inl (TopUpE ErrTopUpStatusInvalid)
        else Inr (updateTopUp (t\<lparr>topup_Status := targetStatus\<rparr>) d)))"

text \<open>The statements every recharge ends with: save the completed top-up, update its user,
  create the inviter's commission.\<close>

definition completed :: "env \<Rightarrow> TopUp \<Rightarrow> TopUp" where
  "completed E t = t\<lparr>topup_CompleteTime := GetTimestamp E, topup_Status := TopUpStatusSuccess\<rparr>"

definition creditTopUp :: "env \<Rightarrow> TopUp \<Rightarrow> (User \<Rightarrow> User) \<Rightarrow> db \<Rightarrow> db" where
  "creditTopUp E t f d =
     MaybeCreateAffiliateCommissionForTopUpTx E t (updateUser (topup_UserId t) f (updateTopUp t d))"

definition addQuota :: "int \<Rightarrow> User \<Rightarrow> User" where
  "addQuota q u = u\<lparr>user_Quota := user_Quota u + q\<rparr>"

text \<open>\<open>int(decimal.NewFromInt(Amount).Mul(decimal.NewFromFloat(QuotaPerUnit)).IntPart())\<close>\<close>

definition unitsToQuota :: "env \<Rightarrow> int \<Rightarrow> int" where
  "unitsToQuota E amount = env_DecimalTruncMul E (of_int amount) (env_QuotaPerUnit E)"

text \<open>The callbacks of Stripe, Creem and Waffo hide the error of their transaction.\<close>

definition hideError :: "merr + 'a \<Rightarrow> merr + 'a" where
  "hideError r = (case r of Inl _ \<Rightarrow> Inl (TopUpE ErrRechargeFailed) | Inr x \<Rightarrow> Inr x)"

definition Recharge :: "env \<Rightarrow> string \<Rightarrow> string \<Rightarrow> db \<Rightarrow> merr + db" where
  "Recharge E referenceId customerId d =
     (if referenceId = '''' then Inl (TopUpE ErrNoTradeNo)
      else hideError (bind_e (of_option (TopUpE ErrTopUpOrderMissing) (GetTopUpByTradeNo referenceId d)) (\<lambda>t.
        if topup_PaymentProvider t \<noteq> PaymentProviderStripe then Inl (OrderE ErrPaymentMethodMismatch)
        else if topup_Status t \<noteq> TopUpStatusPending then Inl (TopUpE ErrTopUpOrderStatus)
        else let quota = fl64 (topup_Money t * env_QuotaPerUnit E) in
          Inr (creditTopUp E (completed E t)
            (\<lambda>u. u\<lparr>user_StripeCustomer := customerId,
                    user_Quota := env_SqlAddFloat E (user_Quota u) quota\<rparr>) d))))"

definition ManualCompleteTopUp :: "env \<Rightarrow> string \<Rightarrow> db \<Rightarrow> merr + db" where
  "ManualCompleteTopUp E tradeNo d =
     (if tradeNo = '''' then Inl (TopUpE ErrNoOrderNo)
      else bind_e (of_option (TopUpE ErrTopUpOrderMissing) (GetTopUpByTradeNo tradeNo d)) (\<lambda>t.
        if topup_Status t = TopUpStatusSuccess then Inr d
        else if topup_Status t \<noteq> TopUpStatusPending then Inl (TopUpE ErrTopUpNotPending)
        else let quotaToAdd = (if topup_PaymentProvider t = PaymentProviderStripe
                   then env_DecimalTruncMul E (topup_Money t) (env_QuotaPerUnit E)
                   else unitsToQuota E (topup_Amount t)) in
          if quotaToAdd \<le> 0 then Inl (TopUpE ErrTopUpQuotaInvalid)
          else Inr (creditTopUp E (completed E t) (addQuota quotaToAdd) d)))"

definition RechargeEpay :: "env \<Rightarrow> string \<Rightarrow> string \<Rightarrow> db \<Rightarrow> merr + db" where
  "RechargeEpay E referenceId actualPaymentMethod d =
     (if referenceId = '''' then Inl (TopUpE ErrNoTradeNo)
      else bind_e (of_option (TopUpE ErrTopUpNotFound) (GetTopUpByTradeNo referenceId d)) (\<lambda>t.
        if topup_PaymentProvider t \<noteq> PaymentProviderEpay then Inl (OrderE ErrPaymentMethodMismatch)
        else if topup_Status t = TopUpStatusSuccess then Inr d
        else if topup_Status t \<noteq> TopUpStatusPending then Inl (TopUpE ErrTopUpStatusInvalid)
        else let t1 = (if actualPaymentMethod \<noteq> '''' \<and> topup_PaymentMethod t \<noteq> actualPaymentMethod
                       then t\<lparr>topup_PaymentMethod := actualPaymentMethod\<rparr> else t);
                 quotaToAdd = unitsToQuota E (topup_Amount t1) in
          if quotaToAdd \<le> 0 then Inl (TopUpE ErrTopUpQuotaInvalid)
          else Inr (creditTopUp E (completed E t1) (addQuota quotaToAdd) d)))"

definition RechargeCreem :: "env \<Rightarrow> string \<Rightarrow> string \<Rightarrow> db \<Rightarrow> merr + db" where
  "RechargeCreem E referenceId customerEmail d =
     (if referenceId = '''' then Inl (TopUpE ErrNoTradeNo)
      else hideError (bind_e (of_option (TopUpE ErrTopUpOrderMissing) (GetTopUpByTradeNo referenceId d)) (\<lambda>t.
        if topup_PaymentProvider t \<noteq> PaymentProviderCreem then Inl (OrderE ErrPaymentMethodMismatch)
        else if topup_Status t \<noteq> TopUpStatusPending then Inl (TopUpE ErrTopUpOrderStatus)
        else let quota = topup_Amount t in
          bind_e (if customerEmail = '''' then Inr False
                  else bind_e (of_option ErrRecordNotFound (userById (topup_UserId t) d))
                    (\<lambda>u. Inr (user_Email u = ''''))) (\<lambda>setEmail.
          Inr (creditTopUp E (completed E t)
            (\<lambda>u. (addQuota quota u)\<lparr>user_Email := if setEmail then customerEmail else user_Email u\<rparr>) d)))))"

definition RechargeWaffo :: "env \<Rightarrow> string \<Rightarrow> db \<Rightarrow> merr + db" where
  "RechargeWaffo E tradeNo d =
     (if tradeNo = '''' then Inl (TopUpE ErrNoTradeNo)
      else hideError (bind_e (of_option (TopUpE ErrTopUpOrderMissing) (GetTopUpByTradeNo tradeNo d)) (\<lambda>t.
        if topup_PaymentProvider t \<noteq> PaymentProviderWaffo then Inl (OrderE ErrPaymentMethodMismatch)
        else if topup_Status t = TopUpStatusSuccess then Inr d
        else if topup_Status t \<noteq> TopUpStatusPending then Inl (TopUpE ErrTopUpOrderStatus)
        else let quotaToAdd = unitsToQuota E (topup_Amount t) in
          if quotaToAdd \<le> 0 then Inl (TopUpE ErrTopUpQuotaInvalid)
          else Inr (creditTopUp E (completed E t) (addQuota quotaToAdd) d))))"

definition RechargeWaffoPancake :: "env \<Rightarrow> string \<Rightarrow> db \<Rightarrow> merr + db" where
  "RechargeWaffoPancake E tradeNo d =
     (if tradeNo = '''' then Inl (TopUpE ErrNoTradeNo)
      else hideError (bind_e (of_option (TopUpE ErrTopUpOrderMissing) (GetTopUpByTradeNo tradeNo d)) (\<lambda>t.
        if topup_PaymentProvider t \<noteq> PaymentProviderWaffoPancake then Inl (OrderE ErrPaymentMethodMismatch)
        else if topup_Status t = TopUpStatusSuccess then Inr d
        else if topup_Status t \<noteq> TopUpStatusPending then Inl (TopUpE ErrTopUpOrderStatus)
        else let quotaToAdd = unitsToQuota E (topup_Amount t) in
          if quotaToAdd \<le> 0 then Inl (TopUpE ErrTopUpQuotaInvalid)
          else Inr (creditTopUp E (completed E t) (addQuota quotaToAdd) d))))"

section \<open>Lists of top-ups\<close>

definition topUpQueryWindowSeconds :: int where "topUpQueryWindowSeconds = 30 * 24 * 60 * 60"

definition topUpQueryCutoff :: "env \<Rightarrow> int" where
  "topUpQueryCutoff E = sub64 (GetTimestamp E) topUpQueryWindowSeconds"

text \<open>\<open>Limit\<close> and \<open>Offset\<close>; gorm drops a negative limit.\<close>

definition page :: "int \<Rightarrow> int \<Rightarrow> 'a list \<Rightarrow> 'a list" where
  "page pageSize startIdx xs =
     (let ys = drop (nat startIdx) xs in if pageSize < 0 then ys else take (nat pageSize) ys)"

definition GetUserTopUps :: "env \<Rightarrow> int \<Rightarrow> int \<Rightarrow> int \<Rightarrow> db \<Rightarrow> TopUp list \<times> int" where
  "GetUserTopUps E userId pageSize startIdx d =
     (let found = select_where (\<lambda>t. topup_UserId t = userId \<and> topup_CreateTime t \<ge> topUpQueryCutoff E) (topups d)
      in (page pageSize startIdx (rev (sort_key topup_Id found)), int (length found)))"

definition GetAllTopUps :: "int \<Rightarrow> int \<Rightarrow> db \<Rightarrow> TopUp list \<times> int" where
  "GetAllTopUps pageSize startIdx d =
     (page pageSize startIdx (rev (sort_key topup_Id (rows (topups d)))), int (length (rows (topups d))))"

section \<open>Affiliate summary and withdrawals\<close>

definition AffiliateWithdrawalStatusPending :: string where "AffiliateWithdrawalStatusPending = ''pending''"
definition AffiliateWithdrawalStatusPaid :: string where "AffiliateWithdrawalStatusPaid = ''paid''"
definition AffiliateWithdrawalStatusRejected :: string where "AffiliateWithdrawalStatusRejected = ''rejected''"

lemmas withdrawal_status_defs = AffiliateWithdrawalStatusPending_def AffiliateWithdrawalStatusPaid_def
  AffiliateWithdrawalStatusRejected_def

record AffiliateSummary =
  as_AffCode :: string
  as_InviteCount :: int
  as_Rate :: rat
  as_TotalMoney :: rat
  as_AvailableMoney :: rat
  as_FrozenMoney :: rat
  as_WithdrawnMoney :: rat

text \<open>The first 255 runes of a UTF-8 string: a byte that is not a continuation byte starts a rune.\<close>

definition is_cont :: "char \<Rightarrow> bool" where
  "is_cont c \<longleftrightarrow> 128 \<le> (of_char c :: nat) \<and> (of_char c :: nat) < 192"

fun take_runes :: "nat \<Rightarrow> string \<Rightarrow> string" where
  "take_runes n [] = []"
| "take_runes n (c # cs) =
     (if is_cont c then c # take_runes n cs
      else case n of 0 \<Rightarrow> [] | Suc m \<Rightarrow> c # take_runes m cs)"

definition normalizeAffiliateWithdrawalInput ::
  "env \<Rightarrow> rat \<Rightarrow> string \<Rightarrow> string \<Rightarrow> merr + rat \<times> string \<times> string" where
  "normalizeAffiliateWithdrawalInput E amount contact remark =
     (let amount' = roundAffiliateMoney E amount; contact' = TrimSpace contact in
      if amount' \<le> 0 then Inl (AffE ErrAffiliateInvalidAmount)
      else if contact' = '''' then Inl (AffE ErrAffiliateContactRequired)
      else Inr (amount', take_runes 255 contact', TrimSpace remark))"

definition commissionsOf :: "int \<Rightarrow> db \<Rightarrow> rat list" where
  "commissionsOf userID d = map comm_CommissionMoney (select_where (\<lambda>c. comm_InviterUserId c = userID \<and>
     comm_Status c = AffiliateCommissionStatusAvailable) (commissions d))"

definition withdrawalsOf :: "int \<Rightarrow> string \<Rightarrow> db \<Rightarrow> rat list" where
  "withdrawalsOf userID status d =
     map wd_Amount (select_where (\<lambda>w. wd_UserId w = userID \<and> wd_Status w = status) (withdrawals d))"

definition GetAffiliateSummaryTx :: "env \<Rightarrow> int \<Rightarrow> db \<Rightarrow> merr + AffiliateSummary" where
  "GetAffiliateSummaryTx E userID d =
     bind_e (of_option ErrRecordNotFound (userById userID d)) (\<lambda>u.
       let totalCommission = env_SqlSum E (commissionsOf userID d);
           frozenMoney = env_SqlSum E (withdrawalsOf userID AffiliateWithdrawalStatusPending d);
           withdrawnMoney = env_SqlSum E (withdrawalsOf userID AffiliateWithdrawalStatusPaid d);
           total = roundAffiliateMoney E totalCommission;
           frozen = roundAffiliateMoney E frozenMoney;
           withdrawn = roundAffiliateMoney E withdrawnMoney
       in Inr \<lparr>as_AffCode = user_AffCode u,
            as_InviteCount = affected (\<lambda>x. user_InviterId x = userID \<and> user_DeletedAt x = None) (users d),
            as_Rate = AffiliateCommissionRate, as_TotalMoney = total,
            as_AvailableMoney = roundAffiliateMoney E (max (fl64 (fl64 (total - frozen) - withdrawn)) 0),
            as_FrozenMoney = frozen, as_WithdrawnMoney = withdrawn\<rparr>)"

definition CreateAffiliateWithdrawalTx ::
  "env \<Rightarrow> int \<Rightarrow> rat \<Rightarrow> string \<Rightarrow> string \<Rightarrow> db \<Rightarrow> merr + AffiliateWithdrawal \<times> db" where
  "CreateAffiliateWithdrawalTx E userID amount contact remark d =
     bind_e (normalizeAffiliateWithdrawalInput E amount contact remark) (\<lambda>(amount, contact, remark).
     bind_e (of_option ErrRecordNotFound (userById userID d)) (\<lambda>_.
     bind_e (GetAffiliateSummaryTx E userID d) (\<lambda>summary.
       if as_AvailableMoney summary < amount then Inl (AffE ErrAffiliateInsufficientBalance)
       else let now = GetTimestamp E;
                w = zero_wd\<lparr>wd_WithdrawalId := newAffiliatePublicID E ''affw_'', wd_UserId := userID,
                      wd_Amount := amount, wd_Contact := contact, wd_Remark := remark,
                      wd_Status := AffiliateWithdrawalStatusPending,
                      wd_CreatedTime := now, wd_UpdatedTime := now\<rparr>
            in Inr (new_row set_wd_Id w (withdrawals d),
                    d\<lparr>withdrawals := insert_row set_wd_Id w (withdrawals d)\<rparr>))))"

definition CreateAffiliateWithdrawal ::
  "env \<Rightarrow> int \<Rightarrow> rat \<Rightarrow> string \<Rightarrow> string \<Rightarrow> db \<Rightarrow> merr + AffiliateWithdrawal \<times> db" where
  "CreateAffiliateWithdrawal E userID amount contact remark d =
     bind_e (normalizeAffiliateWithdrawalInput E amount contact remark) (\<lambda>(amount, contact, remark).
       CreateAffiliateWithdrawalTx E userID amount contact remark d)"

definition loadPendingAffiliateWithdrawalForUpdate :: "int \<Rightarrow> db \<Rightarrow> merr + AffiliateWithdrawal" where
  "loadPendingAffiliateWithdrawalForUpdate i d =
     (if i \<le> 0 then Inl (AffE ErrAffiliateWithdrawalNotFound)
      else bind_e (of_option (AffE ErrAffiliateWithdrawalNotFound)
          (first_where (\<lambda>w. wd_Id w = i) (withdrawals d))) (\<lambda>w.
        if wd_Status w \<noteq> AffiliateWithdrawalStatusPending then Inl (AffE ErrAffiliateWithdrawalBadStatus)
        else Inr w))"

definition MarkAffiliateWithdrawalPaid ::
  "env \<Rightarrow> int \<Rightarrow> string \<Rightarrow> db \<Rightarrow> merr + AffiliateWithdrawal \<times> db" where
  "MarkAffiliateWithdrawalPaid E i adminRemark d =
     bind_e (loadPendingAffiliateWithdrawalForUpdate i d) (\<lambda>w.
       let now = GetTimestamp E;
           w' = w\<lparr>wd_Status := AffiliateWithdrawalStatusPaid, wd_AdminRemark := TrimSpace adminRemark,
                 wd_UpdatedTime := now, wd_ProcessedTime := now\<rparr>
       in Inr (w', d\<lparr>withdrawals := save_row wd_Id w' (withdrawals d)\<rparr>))"

definition RejectAffiliateWithdrawal ::
  "env \<Rightarrow> int \<Rightarrow> string \<Rightarrow> db \<Rightarrow> merr + AffiliateWithdrawal \<times> db" where
  "RejectAffiliateWithdrawal E i adminRemark d =
     bind_e (loadPendingAffiliateWithdrawalForUpdate i d) (\<lambda>w.
       let now = GetTimestamp E;
           w' = w\<lparr>wd_Status := AffiliateWithdrawalStatusRejected, wd_AdminRemark := TrimSpace adminRemark,
                 wd_UpdatedTime := now, wd_ProcessedTime := now\<rparr>
       in Inr (w', d\<lparr>withdrawals := save_row wd_Id w' (withdrawals d)\<rparr>))"

definition ItemsPerPage :: int where "ItemsPerPage = 10"

definition GetAffiliateWithdrawals :: "int \<Rightarrow> int \<Rightarrow> string \<Rightarrow> db \<Rightarrow> AffiliateWithdrawal list \<times> int" where
  "GetAffiliateWithdrawals pageNo pageSize status d =
     (let pageNo' = (if pageNo < 1 then 1 else pageNo);
          pageSize' = (if pageSize \<le> 0 then ItemsPerPage else pageSize);
          status' = TrimSpace status;
          found = select_where (\<lambda>w. status' = '''' \<or> wd_Status w = status') (withdrawals d)
      in (page pageSize' (mul64 (sub64 pageNo' 1) pageSize') (rev (sort_key wd_Id found)), int (length found)))"

end
