(* ===== verification/Receipts.thy ===== *)
theory Receipts
  imports Main
begin

text \<open>
  Runs of events that credit accounts against vouchers, each of which may be used once: top-ups
  that are paid, redemption codes that are redeemed. A run goes through its events in order; an
  event whose operation fails leaves the state as it was. It keeps the receipts (voucher,
  account, amount) of the events that used one. The interface of such a component is the locale
  \<open>receipt_run\<close>; its lemma says that accounts end with what they had and their receipts, that
  no voucher has two, and that a voucher with a receipt was open before and is closed after.
\<close>

type_synonym receipts = "(int \<times> int \<times> int) list"

fun runEvents ::
  "('ev \<Rightarrow> 's \<Rightarrow> 'e + 's) \<Rightarrow> ('ev \<Rightarrow> 's \<Rightarrow> receipts) \<Rightarrow> 'ev list \<Rightarrow> 's \<Rightarrow> 's \<times> receipts" where
  "runEvents stp receipt [] s = (s, [])"
| "runEvents stp receipt (e # es) s = (case stp e s of
     Inl _ \<Rightarrow> runEvents stp receipt es s
   | Inr s1 \<Rightarrow> let (s2, rs) = runEvents stp receipt es s1 in (s2, receipt e s @ rs))"

definition receivedBy :: "int \<Rightarrow> receipts \<Rightarrow> int" where
  "receivedBy i rs = (\<Sum>(k, u, a) \<leftarrow> rs. if u = i then a else 0)"

lemma receivedBy_simps [simp]:
  "receivedBy i [] = 0" "receivedBy i (rs @ rs') = receivedBy i rs + receivedBy i rs'"
  "receivedBy i [(k, u, a)] = (if u = i then a else 0)"
  by (simp_all add: receivedBy_def)

locale receipt_run =
  fixes stp :: "'ev \<Rightarrow> 's \<Rightarrow> 'e + 's"
    and receipt :: "'ev \<Rightarrow> 's \<Rightarrow> receipts"
    and inv :: "'s \<Rightarrow> bool"
    and opened :: "int \<Rightarrow> int \<Rightarrow> 's \<Rightarrow> bool"
    and closed :: "int \<Rightarrow> int \<Rightarrow> 's \<Rightarrow> bool"
    and balance :: "int \<Rightarrow> 's \<Rightarrow> int option"
  assumes step_inv: "inv s \<Longrightarrow> stp e s = Inr s' \<Longrightarrow> inv s'"
    and step_receipt: "inv s \<Longrightarrow> stp e s = Inr s' \<Longrightarrow> receipt e s = [] \<or>
      (\<exists>k u a. receipt e s = [(k, u, a)] \<and> opened k u s \<and> closed k u s')"
    and step_closed: "inv s \<Longrightarrow> stp e s = Inr s' \<Longrightarrow> closed k u s \<Longrightarrow> closed k u s'"
    and step_opened: "inv s \<Longrightarrow> stp e s = Inr s' \<Longrightarrow> opened k u s' \<Longrightarrow> opened k u s"
    and not_both: "inv s \<Longrightarrow> opened k u s \<Longrightarrow> closed k v s \<Longrightarrow> False"
    and step_balance: "inv s \<Longrightarrow> stp e s = Inr s' \<Longrightarrow>
      balance i s' = map_option (\<lambda>q. q + receivedBy i (receipt e s)) (balance i s)"
begin

lemma run_receipts:
  assumes "inv s" and "runEvents stp receipt es s = (s', rs)"
  shows "inv s' \<and> (\<forall>k u. closed k u s \<longrightarrow> closed k u s') \<and> distinct (map fst rs) \<and>
    (\<forall>(k, u, a) \<in> set rs. opened k u s \<and> closed k u s')"
  using assms
proof (induction es arbitrary: s s' rs)
  case Nil
  then show ?case by simp
next
  case (Cons e es)
  show ?case
  proof (cases "stp e s")
    case (Inl x)
    then show ?thesis using Cons by simp
  next
    case (Inr s1)
    obtain rs1 where rs1: "runEvents stp receipt es s1 = (s', rs1)" "rs = receipt e s @ rs1"
      using Cons.prems(2) Inr by (auto split: prod.splits)
    note i1 = step_inv [OF Cons.prems(1) Inr]
    note IH = Cons.IH [OF i1 rs1(1)]
    note bk = step_opened [OF Cons.prems(1) Inr] and keep = step_closed [OF Cons.prems(1) Inr]
    from step_receipt [OF Cons.prems(1) Inr] show ?thesis
    proof (elim disjE exE conjE)
      assume "receipt e s = []"
      then show ?thesis using IH rs1(2) bk keep by auto
    next
      fix k u a
      assume r: "receipt e s = [(k, u, a)]" and o: "opened k u s" and c: "closed k u s1"
      have "k \<notin> fst ` set rs1" using IH not_both [OF i1 _ c] by fastforce
      then show ?thesis using IH rs1(2) bk keep r o c by auto
    qed
  qed
qed

lemma run_balance:
  assumes "inv s" and "runEvents stp receipt es s = (s', rs)"
  shows "balance i s' = map_option (\<lambda>q. q + receivedBy i rs) (balance i s)"
  using assms
proof (induction es arbitrary: s s' rs)
  case Nil
  then show ?case by (simp add: option.map_ident)
next
  case (Cons e es)
  show ?case
  proof (cases "stp e s")
    case (Inl x)
    then show ?thesis using Cons by simp
  next
    case (Inr s1)
    obtain rs1 where rs1: "runEvents stp receipt es s1 = (s', rs1)" "rs = receipt e s @ rs1"
      using Cons.prems(2) Inr by (auto split: prod.splits)
    have "balance i s' = map_option (\<lambda>q. q + receivedBy i rs1) (balance i s1)"
      using Cons.IH [OF step_inv [OF Cons.prems(1) Inr] rs1(1)] .
    then show ?thesis using step_balance [OF Cons.prems(1) Inr, of i] rs1(2)
      by (cases "balance i s") simp_all
  qed
qed

end

end
