(* ===== verification/Payment_Runs.thy ===== *)
theory Payment_Runs
  imports Payments Receipts
begin

text \<open>
  What any sequence of payment events does. An event is a callback of a payment provider, an
  administrator who completes a top-up by hand, or a change of a pending top-up's status; an
  event whose operation fails leaves the database as it was. A run keeps the receipts of the
  top-ups it completes, and the properties say that users are credited with exactly these
  receipts, each top-up once, and that a top-up gives at most one commission.
\<close>

datatype payment =
    PayStripe string string
  | PayEpay string string
  | PayCreem string string
  | PayWaffo string
  | PayPancake string
  | PayManual string
  | PayStatus string string string

fun runPayment :: "env \<Rightarrow> payment \<Rightarrow> db \<Rightarrow> merr + db" where
  "runPayment E (PayStripe tn customer) d = Recharge E tn customer d"
| "runPayment E (PayEpay tn m) d = RechargeEpay E tn m d"
| "runPayment E (PayCreem tn email) d = RechargeCreem E tn email d"
| "runPayment E (PayWaffo tn) d = RechargeWaffo E tn d"
| "runPayment E (PayPancake tn) d = RechargeWaffoPancake E tn d"
| "runPayment E (PayManual tn) d = ManualCompleteTopUp E tn d"
| "runPayment E (PayStatus tn provider target) d = UpdatePendingTopUpStatus tn provider target d"

fun tradeNoOf :: "payment \<Rightarrow> string" where
  "tradeNoOf (PayStripe tn _) = tn"
| "tradeNoOf (PayEpay tn _) = tn"
| "tradeNoOf (PayCreem tn _) = tn"
| "tradeNoOf (PayWaffo tn) = tn"
| "tradeNoOf (PayPancake tn) = tn"
| "tradeNoOf (PayManual tn) = tn"
| "tradeNoOf (PayStatus tn _ _) = tn"

text \<open>What completing top-up \<open>t\<close> gives a user who has \<open>q\<close>.\<close>

fun paymentAmount :: "env \<Rightarrow> payment \<Rightarrow> TopUp \<Rightarrow> int \<Rightarrow> int" where
  "paymentAmount E (PayStripe _ _) t q = env_SqlAddFloat E q (fl64 (topup_Money t * env_QuotaPerUnit E)) - q"
| "paymentAmount E (PayCreem _ _) t q = topup_Amount t"
| "paymentAmount E (PayManual _) t q =
     (if topup_PaymentProvider t = PaymentProviderStripe
      then env_DecimalTruncMul E (topup_Money t) (env_QuotaPerUnit E) else unitsToQuota E (topup_Amount t))"
| "paymentAmount E (PayStatus _ _ _) t q = 0"
| "paymentAmount E _ t q = unitsToQuota E (topup_Amount t)"

fun credits :: "payment \<Rightarrow> bool" where
  "credits (PayStatus _ _ _) = False"
| "credits _ = True"

definition quotaOf :: "int \<Rightarrow> db \<Rightarrow> int" where
  "quotaOf i d = (case userById i d of None \<Rightarrow> 0 | Some u \<Rightarrow> user_Quota u)"

text \<open>The top-up, the user and the amount of a completed payment.\<close>

definition receiptOf :: "env \<Rightarrow> payment \<Rightarrow> db \<Rightarrow> receipts" where
  "receiptOf E p d = (case GetTopUpByTradeNo (tradeNoOf p) d of None \<Rightarrow> []
     | Some t \<Rightarrow> if topup_Status t = TopUpStatusPending \<and> credits p
         then [(topup_Id t, topup_UserId t, paymentAmount E p t (quotaOf (topup_UserId t) d))] else [])"

definition runPayments :: "(env \<times> payment) list \<Rightarrow> db \<Rightarrow> db \<times> receipts" where
  "runPayments = runEvents (\<lambda>(E, p). runPayment E p) (\<lambda>(E, p). receiptOf E p)"

definition wf_topups :: "db \<Rightarrow> bool" where
  "wf_topups d \<longleftrightarrow> wf_table topup_Id (topups d) \<and> distinct (map topup_TradeNo (rows (topups d)))"

section \<open>One payment\<close>

lemma commission_frame [simp]:
  "users (MaybeCreateAffiliateCommissionForTopUpTx E t d) = users d"
  "topups (MaybeCreateAffiliateCommissionForTopUpTx E t d) = topups d"
  by (simp_all add: MaybeCreateAffiliateCommissionForTopUpTx_def Let_def split: option.split)

lemma updateTopUp_frame [simp]:
  "users (updateTopUp t d) = users d"
  "commissions (updateTopUp t d) = commissions d"
  "topups (updateTopUp t d) = save_row topup_Id t (topups d)"
  by (simp_all add: updateTopUp_def)

lemma creditTopUp_tables:
  "topups (creditTopUp E t f d) = save_row topup_Id t (topups d)"
  "users (creditTopUp E t f d) = update_where (liveUser (topup_UserId t)) f (users d)"
  by (simp_all add: creditTopUp_def updateUser_def)

lemma hideError_Inr: "hideError r = Inr x \<longleftrightarrow> r = Inr x"
  by (cases r) (simp_all add: hideError_def)

lemma liveUser_cong: "user_Id u = user_Id v \<Longrightarrow> user_DeletedAt u = user_DeletedAt v \<Longrightarrow> liveUser i u = liveUser i v"
  by (simp add: liveUser_def)

lemmas pay_defs = Recharge_def RechargeEpay_def RechargeCreem_def RechargeWaffo_def
  RechargeWaffoPancake_def ManualCompleteTopUp_def

lemma runPayment_cases:
  assumes "runPayment E p d = Inr d'"
  obtains (idle) "d' = d" "receiptOf E p d = []"
  | (status) t s where "GetTopUpByTradeNo (tradeNoOf p) d = Some t" "topup_Status t = TopUpStatusPending"
      "d' = updateTopUp (t\<lparr>topup_Status := s\<rparr>) d" "receiptOf E p d = []"
  | (paid) t m f where "GetTopUpByTradeNo (tradeNoOf p) d = Some t" "topup_Status t = TopUpStatusPending"
      "d' = creditTopUp E (completed E (t\<lparr>topup_PaymentMethod := m\<rparr>)) f d" "credits p"
      "\<And>u. user_Id (f u) = user_Id u" "\<And>u. user_DeletedAt (f u) = user_DeletedAt u"
      "\<And>u. user_InviterId (f u) = user_InviterId u"
      "\<And>u. user_Quota (f u) = user_Quota u + paymentAmount E p t (user_Quota u)"
proof -
  have ne: "TopUpStatusSuccess \<noteq> TopUpStatusPending" by (simp add: const_defs)
  obtain t where t: "GetTopUpByTradeNo (tradeNoOf p) d = Some t"
    using assms by (cases p) (auto simp: pay_defs UpdatePendingTopUpStatus_def hideError_Inr res_simps split: if_splits)
  have self: "t = t\<lparr>topup_PaymentMethod := topup_PaymentMethod t\<rparr>" by simp
  show thesis
  proof (cases "topup_Status t = TopUpStatusPending")
    case False
    then have "d' = d" "receiptOf E p d = []"
      using assms t by (cases p; auto simp: pay_defs UpdatePendingTopUpStatus_def hideError_Inr receiptOf_def split: if_splits)+
    then show thesis by (rule idle)
  next
    case True
    show thesis
    proof (cases p)
      case (PayStatus tn provider target)
      then show thesis using assms t True
        by (intro status [of t target]) (auto simp: UpdatePendingTopUpStatus_def receiptOf_def split: if_splits)
    next
      case (PayStripe tn customer)
      show thesis
        by (rule paid [OF t True, of "topup_PaymentMethod t" "\<lambda>u. u\<lparr>user_StripeCustomer := customer,
              user_Quota := env_SqlAddFloat E (user_Quota u) (fl64 (topup_Money t * env_QuotaPerUnit E))\<rparr>"])
          (use assms t True PayStripe ne in \<open>auto simp: pay_defs hideError_Inr Let_def split: if_splits\<close>)
    next
      case (PayEpay tn m)
      show thesis
        by (rule paid [OF t True, of "if m \<noteq> '''' \<and> topup_PaymentMethod t \<noteq> m then m else topup_PaymentMethod t"
              "addQuota (unitsToQuota E (topup_Amount t))"])
          (use assms t True PayEpay ne in \<open>auto simp: pay_defs Let_def addQuota_def split: if_splits\<close>)
    next
      case (PayCreem tn email)
      then obtain b where "d' = creditTopUp E (completed E t)
            (\<lambda>u. (addQuota (topup_Amount t) u)\<lparr>user_Email := if b then email else user_Email u\<rparr>) d"
        using assms t True by (auto simp: pay_defs hideError_Inr Let_def res_simps split: if_splits)
      then show thesis
        by (intro paid [OF t True, of "topup_PaymentMethod t" "\<lambda>u. (addQuota (topup_Amount t) u)\<lparr>user_Email := if b then email else user_Email u\<rparr>"])
          (auto simp: PayCreem addQuota_def)
    next
      case (PayWaffo tn)
      then show thesis
        by (intro paid [OF t True, of "topup_PaymentMethod t" "addQuota (unitsToQuota E (topup_Amount t))"])
          (use assms t True ne in \<open>auto simp: pay_defs hideError_Inr Let_def addQuota_def split: if_splits\<close>)
    next
      case (PayPancake tn)
      then show thesis
        by (intro paid [OF t True, of "topup_PaymentMethod t" "addQuota (unitsToQuota E (topup_Amount t))"])
          (use assms t True ne in \<open>auto simp: pay_defs hideError_Inr Let_def addQuota_def split: if_splits\<close>)
    next
      case (PayManual tn)
      then show thesis
        by (intro paid [OF t True, of "topup_PaymentMethod t" "addQuota (paymentAmount E p t 0)"])
          (use assms t True ne in \<open>auto simp: pay_defs Let_def addQuota_def split: if_splits\<close>)
    qed
  qed
qed

lemma topup_of_trade:
  assumes "wf_topups d" "GetTopUpByTradeNo tn d = Some t"
  shows "t \<in> set (rows (topups d))" "topup_TradeNo t = tn"
    "\<And>x. x \<in> set (rows (topups d)) \<Longrightarrow> topup_Id x = topup_Id t \<Longrightarrow> x = t"
proof -
  have t: "t \<in> set (rows (topups d)) \<and> topup_TradeNo t = tn"
    using assms(2) by (auto simp: GetTopUpByTradeNo_def dest: first_where_Some)
  then show "t \<in> set (rows (topups d))" "topup_TradeNo t = tn" by simp_all
  show "\<And>x. x \<in> set (rows (topups d)) \<Longrightarrow> topup_Id x = topup_Id t \<Longrightarrow> x = t"
    using assms(1) t by (auto simp: wf_topups_def wf_table_def distinct_map inj_on_def)
qed

lemma save_topup_facts:
  assumes "wf_topups d" "GetTopUpByTradeNo tn d = Some t" "topup_Id t' = topup_Id t" "topup_TradeNo t' = topup_TradeNo t"
  shows "set (rows (save_row topup_Id t' (topups d))) = insert t' (set (rows (topups d)) - {t})"
    and "wf_table topup_Id (save_row topup_Id t' (topups d)) \<and>
      map topup_TradeNo (rows (save_row topup_Id t' (topups d))) = map topup_TradeNo (rows (topups d))"
proof -
  note f = topup_of_trade [OF assms(1,2)]
  show "set (rows (save_row topup_Id t' (topups d))) = insert t' (set (rows (topups d)) - {t})"
    using f assms(3) by (auto simp: rows_save_row)
  have "(if topup_Id x = topup_Id t' then topup_TradeNo t' else topup_TradeNo x) = topup_TradeNo x"
    if "x \<in> set (rows (topups d))" for x
    using f(3) [OF that] assms(3,4) by (cases "topup_Id x = topup_Id t'") auto
  then show "wf_table topup_Id (save_row topup_Id t' (topups d)) \<and>
      map topup_TradeNo (rows (save_row topup_Id t' (topups d))) = map topup_TradeNo (rows (topups d))"
    using assms(1) by (auto simp: wf_topups_def topup_rows.wf_save rows_save_row if_distrib)
qed

lemma completed_simps [simp]:
  "topup_Id (completed E t) = topup_Id t" "topup_TradeNo (completed E t) = topup_TradeNo t"
  "topup_UserId (completed E t) = topup_UserId t" "topup_Status (completed E t) = TopUpStatusSuccess"
  "topup_Money (completed E t) = topup_Money t"
  by (simp_all add: completed_def)

text \<open>A payment replaces a pending top-up \<open>t\<close> by \<open>t'\<close>; if it writes a receipt, \<open>t'\<close> is completed.\<close>

definition topup_moves :: "env \<Rightarrow> payment \<Rightarrow> db \<Rightarrow> db \<Rightarrow> TopUp \<Rightarrow> TopUp \<Rightarrow> bool" where
  "topup_moves E p d d' t t' \<longleftrightarrow>
     t \<in> set (rows (topups d)) \<and> topup_Status t = TopUpStatusPending \<and>
     topup_Id t' = topup_Id t \<and> topup_UserId t' = topup_UserId t \<and> topup_TradeNo t' = topup_TradeNo t \<and>
     set (rows (topups d')) = insert t' (set (rows (topups d)) - {t}) \<and>
     (receiptOf E p d = [] \<or> topup_Status t' = TopUpStatusSuccess \<and>
       receiptOf E p d = [(topup_Id t, topup_UserId t, paymentAmount E p t (quotaOf (topup_UserId t) d))])"

lemma runPayment_topups:
  assumes "runPayment E p d = Inr d'" "wf_topups d"
  shows "wf_topups d' \<and> (topups d' = topups d \<and> receiptOf E p d = [] \<or> (\<exists>t t'. topup_moves E p d d' t t'))"
  using assms(1)
proof (cases rule: runPayment_cases)
  case idle
  then show ?thesis using assms(2) by simp
next
  case (status t s)
  note f = save_topup_facts [OF assms(2) status(1), of "t\<lparr>topup_Status := s\<rparr>", simplified]
  have "wf_topups d'" using assms(2) f(2) status(3) by (simp add: wf_topups_def)
  moreover have "topup_moves E p d d' t (t\<lparr>topup_Status := s\<rparr>)"
    using status f(1) topup_of_trade(1) [OF assms(2) status(1)] by (simp add: topup_moves_def)
  ultimately show ?thesis by blast
next
  case (paid t m f)
  let ?t = "completed E (t\<lparr>topup_PaymentMethod := m\<rparr>)"
  note g = save_topup_facts [OF assms(2) paid(1), of ?t, simplified]
  have "wf_topups d'" using assms(2) g(2) paid(3) by (simp add: wf_topups_def creditTopUp_tables)
  moreover have "topup_moves E p d d' t ?t"
    using paid(1-4) g(1) topup_of_trade(1) [OF assms(2) paid(1)]
    by (simp add: topup_moves_def creditTopUp_tables receiptOf_def)
  ultimately show ?thesis by blast
qed

lemma userById_update_where:
  assumes "\<And>u. user_Id (f u) = user_Id u" "\<And>u. user_DeletedAt (f u) = user_DeletedAt u"
  shows "userById i (d\<lparr>users := update_where (liveUser j) f (users d)\<rparr>) =
    map_option (\<lambda>u. if i = j then f u else u) (userById i d)"
proof -
  have "first_where (liveUser i) (update_where (liveUser j) f (users d)) =
    map_option (\<lambda>u. if liveUser j u then f u else u) (first_where (liveUser i) (users d))"
    using assms by (intro first_where_update) (simp add: liveUser_def)
  then show ?thesis
    by (cases "first_where (liveUser i) (users d)")
      (auto simp: userById_def liveUser_def dest: first_where_Some)
qed

lemma runPayment_quota:
  assumes "runPayment E p d = Inr d'"
  shows "map_option user_Quota (userById i d') =
    map_option (\<lambda>u. user_Quota u + receivedBy i (receiptOf E p d)) (userById i d)"
  using assms
proof (cases rule: runPayment_cases)
  case (status t s)
  then show ?thesis by (simp add: userById_def option.map_ident)
next
  case (paid t m f)
  have "userById i d' = userById i (d\<lparr>users := update_where (liveUser (topup_UserId t)) f (users d)\<rparr>)"
    unfolding paid(3) userById_def creditTopUp_tables by simp
  also have "\<dots> = map_option (\<lambda>u. if i = topup_UserId t then f u else u) (userById i d)"
    using paid by (intro userById_update_where)
  finally show ?thesis using paid
    by (cases "userById i d") (auto simp: receiptOf_def quotaOf_def)
qed simp

section \<open>Payments use vouchers\<close>

text \<open>A top-up is a voucher of its user, open while it is pending.\<close>

definition topupWith :: "string \<Rightarrow> int \<Rightarrow> int \<Rightarrow> db \<Rightarrow> bool" where
  "topupWith status k u d \<longleftrightarrow>
     (\<exists>t \<in> set (rows (topups d)). topup_Id t = k \<and> topup_UserId t = u \<and> topup_Status t = status)"

lemma topupWith_unique:
  assumes "wf_topups d" "topupWith a k u d" "topupWith b k v d"
  shows "a = b"
proof -
  have "inj_on topup_Id (set (rows (topups d)))" using assms(1) by (simp add: wf_topups_def wf_table_def distinct_map)
  then show ?thesis using assms(2,3) unfolding topupWith_def by (metis inj_onD)
qed

lemma runPayment_vouchers:
  assumes "runPayment E p d = Inr d'" "wf_topups d"
  shows "wf_topups d'"
    and "receiptOf E p d = [] \<or> (\<exists>k u a. receiptOf E p d = [(k, u, a)] \<and>
      topupWith TopUpStatusPending k u d \<and> topupWith TopUpStatusSuccess k u d')"
    and "topupWith TopUpStatusSuccess k u d \<Longrightarrow> topupWith TopUpStatusSuccess k u d'"
    and "topupWith TopUpStatusPending k u d' \<Longrightarrow> topupWith TopUpStatusPending k u d"
proof -
  have ne: "TopUpStatusSuccess \<noteq> TopUpStatusPending" by (simp add: const_defs)
  note step = runPayment_topups [OF assms]
  then show "wf_topups d'" by simp
  from step consider (same) "topups d' = topups d" "receiptOf E p d = []" | (moves) t t' where "topup_moves E p d d' t t'"
    by blast
  then have "(receiptOf E p d = [] \<or> (\<exists>k u a. receiptOf E p d = [(k, u, a)] \<and>
      topupWith TopUpStatusPending k u d \<and> topupWith TopUpStatusSuccess k u d')) \<and>
    (topupWith TopUpStatusSuccess k u d \<longrightarrow> topupWith TopUpStatusSuccess k u d') \<and>
    (topupWith TopUpStatusPending k u d' \<longrightarrow> topupWith TopUpStatusPending k u d)"
  proof cases
    case same
    then show ?thesis by (simp add: topupWith_def)
  next
    case moves
    then show ?thesis using ne unfolding topup_moves_def topupWith_def by auto
  qed
  then show "receiptOf E p d = [] \<or> (\<exists>k u a. receiptOf E p d = [(k, u, a)] \<and>
      topupWith TopUpStatusPending k u d \<and> topupWith TopUpStatusSuccess k u d')"
    and "topupWith TopUpStatusSuccess k u d \<Longrightarrow> topupWith TopUpStatusSuccess k u d'"
    and "topupWith TopUpStatusPending k u d' \<Longrightarrow> topupWith TopUpStatusPending k u d"
    by simp_all
qed

interpretation payment_run: receipt_run "\<lambda>(E, p). runPayment E p" "\<lambda>(E, p). receiptOf E p" wf_topups
  "topupWith TopUpStatusPending" "topupWith TopUpStatusSuccess" "\<lambda>i d. map_option user_Quota (userById i d)"
proof (unfold_locales, goal_cases)
  case (2 s e s')
  then show ?case using runPayment_vouchers(2) by (auto split: prod.splits)
next
  case (5 s k u v)
  then show ?case using topupWith_unique by (fastforce simp: const_defs)
next
  case (6 s e s' i)
  then show ?case by (auto simp: runPayment_quota option.map_comp comp_def split: prod.splits)
qed (auto intro: runPayment_vouchers split: prod.splits)

section \<open>Commissions\<close>

text \<open>Every commission belongs to a completed top-up of the invitee, and no top-up has two.\<close>

definition commissions_ok :: "db \<Rightarrow> bool" where
  "commissions_ok d \<longleftrightarrow> distinct (map comm_TopupId (rows (commissions d))) \<and>
     (\<forall>c \<in> set (rows (commissions d)). comm_InviterUserId c \<noteq> comm_InviteeUserId c \<and> 0 < comm_CommissionMoney c \<and>
       (\<exists>t \<in> set (rows (topups d)). topup_Id t = comm_TopupId c \<and> topup_UserId t = comm_InviteeUserId c \<and>
         topup_TradeNo t = comm_TradeNo c \<and> topup_Status t = TopUpStatusSuccess))"

lemma commission_created:
  assumes "t \<in> set (rows (topups d))" "commissions_ok d"
  shows "commissions_ok (MaybeCreateAffiliateCommissionForTopUpTx E t d)"
proof -
  have live: "userById i d = Some u \<Longrightarrow> user_Id u = i" for i u
    by (auto simp: userById_def liveUser_def dest: first_where_Some)
  show ?thesis
    using assms by (auto simp: MaybeCreateAffiliateCommissionForTopUpTx_def commissions_ok_def Let_def
        new_row_def first_where_None live split: option.splits)
qed

lemma commissions_ok_topups:
  assumes "commissions_ok d" "commissions d' = commissions d"
    "\<And>t. t \<in> set (rows (topups d)) \<Longrightarrow> topup_Status t = TopUpStatusSuccess \<Longrightarrow> t \<in> set (rows (topups d'))"
  shows "commissions_ok d'"
  using assms(1,3) unfolding commissions_ok_def assms(2) by blast

lemma updateTopUp_commissions:
  assumes "wf_topups d" "commissions_ok d" "GetTopUpByTradeNo tn d = Some t" "topup_Status t = TopUpStatusPending"
    "topup_Id t' = topup_Id t" "topup_TradeNo t' = topup_TradeNo t"
    "commissions d' = commissions d" "topups d' = save_row topup_Id t' (topups d)"
  shows "commissions_ok d'"
proof (rule commissions_ok_topups [OF assms(2,7)])
  have ne: "TopUpStatusSuccess \<noteq> TopUpStatusPending" by (simp add: const_defs)
  fix x assume "x \<in> set (rows (topups d))" "topup_Status x = TopUpStatusSuccess"
  moreover from this assms(4) ne have "x \<noteq> t" by metis
  ultimately show "x \<in> set (rows (topups d'))"
    unfolding assms(8) save_topup_facts(1) [OF assms(1,3,5,6)] by blast
qed

lemma runPayment_commissions:
  assumes "runPayment E p d = Inr d'" "wf_topups d" "commissions_ok d"
  shows "commissions_ok d'"
  using assms(1)
proof (cases rule: runPayment_cases)
  case idle
  then show ?thesis using assms(3) by simp
next
  case (status t s)
  then show ?thesis
    by (intro updateTopUp_commissions [OF assms(2,3) status(1,2), of "t\<lparr>topup_Status := s\<rparr>"]) simp_all
next
  case (paid t m f)
  let ?t = "completed E (t\<lparr>topup_PaymentMethod := m\<rparr>)"
  let ?d = "updateUser (topup_UserId t) f (updateTopUp ?t d)"
  have ts: "topups ?d = save_row topup_Id ?t (topups d)" by (simp add: updateUser_def)
  have "commissions_ok ?d"
    by (rule updateTopUp_commissions [OF assms(2,3) paid(1,2), of ?t]) (simp_all add: updateUser_def)
  moreover have "?t \<in> set (rows (topups ?d))"
    unfolding ts using save_topup_facts(1) [OF assms(2) paid(1), of ?t] by simp
  ultimately show ?thesis unfolding paid(3) creditTopUp_def by (simp add: commission_created)
qed

lemma runPayments_commissions:
  assumes "wf_topups d" "commissions_ok d"
  shows "commissions_ok (fst (runPayments ps d))"
  using assms unfolding runPayments_def
proof (induction ps arbitrary: d)
  case (Cons e ps)
  obtain E p where e: "e = (E, p)" by (cases e)
  show ?case
  proof (cases "runPayment E p d")
    case (Inr d1)
    then show ?thesis
      using Cons.IH [of d1] Cons.prems runPayment_commissions [OF Inr] runPayment_vouchers(1) [OF Inr] e
      by (auto split: prod.split)
  qed (use Cons e in simp)
qed simp

section \<open>Properties\<close>

text \<open>C2. Whatever sequence of provider callbacks, manual completions and status changes runs,
  with its repetitions, errors and mismatches: every user ends with the quota they had plus
  the receipts of the run that are theirs, no top-up has two receipts, and a top-up with a
  receipt was pending before and is a success after.\<close>

theorem payments_exact:
  assumes "wf_topups d" and "runPayments ps d = (d', rs)"
  shows "map_option user_Quota (userById i d') =
      map_option (\<lambda>u. user_Quota u + (\<Sum>(k, u, a) \<leftarrow> rs. if u = i then a else 0)) (userById i d) \<and>
    distinct (map fst rs) \<and>
    (\<forall>(k, u, a) \<in> set rs.
      (\<exists>t \<in> set (rows (topups d)). topup_Id t = k \<and> topup_UserId t = u \<and> topup_Status t = TopUpStatusPending) \<and>
      (\<exists>t \<in> set (rows (topups d')). topup_Id t = k \<and> topup_UserId t = u \<and> topup_Status t = TopUpStatusSuccess))"
  using payment_run.run_receipts [OF assms(1) assms(2) [unfolded runPayments_def]]
    payment_run.run_balance [OF assms(1) assms(2) [unfolded runPayments_def], of i]
  by (simp add: topupWith_def receivedBy_def option.map_comp comp_def)

definition ex_topup :: TopUp where
  "ex_topup = zero_topup\<lparr>topup_Id := 1, topup_UserId := 5, topup_Amount := 2, topup_Money := 14,
     topup_TradeNo := ''T1'', topup_PaymentProvider := ''epay'', topup_Status := ''pending''\<rparr>"

definition ex_paydb :: db where
  "ex_paydb = ex_db\<lparr>topups := \<lparr>rows = [ex_topup], seq = 1\<rparr>,
     users := \<lparr>rows = [zero_user\<lparr>user_Id := 3\<rparr>, ex_user\<lparr>user_InviterId := 3\<rparr>], seq = 5\<rparr>\<rparr>"

lemmas ex_pay_defs = ex_paydb_def ex_topup_def ex_user_def ex_env_def zero_user_def zero_topup_def

lemma ex_wf_topups: "wf_topups ex_paydb"
  by (simp add: wf_topups_def wf_table_def ex_pay_defs)

definition ex_paid :: db where
  "ex_paid = creditTopUp ex_env (completed ex_env ex_topup) (addQuota 1000000) ex_paydb"

lemma ex_trades:
  "GetTopUpByTradeNo ''T1'' ex_paydb = Some ex_topup"
  "GetTopUpByTradeNo ''T1'' ex_paid = Some (completed ex_env ex_topup)"
  "userById 5 ex_paydb = Some (ex_user\<lparr>user_InviterId := 3\<rparr>)"
  by (simp_all add: GetTopUpByTradeNo_def ex_paid_def creditTopUp_tables first_where_def rows_save_row
      completed_def ex_pay_defs userById_def liveUser_def)

lemma ex_events:
  "RechargeEpay ex_env ''T1'' '''' ex_paydb = Inr ex_paid"
  "RechargeEpay ex_env ''T1'' '''' ex_paid = Inr ex_paid"
  "ManualCompleteTopUp ex_env ''T1'' ex_paid = Inr ex_paid"
  by (simp_all add: RechargeEpay_def ManualCompleteTopUp_def ex_trades ex_paid_def [symmetric])
    (simp_all add: ex_pay_defs completed_def const_defs provider_defs unitsToQuota_def ex_paid_def)

lemma ex_run:
  "runPayments [(ex_env, PayEpay ''T1'' ''''), (ex_env, PayEpay ''T1'' ''''), (ex_env, PayManual ''T1'')] ex_paydb =
    (ex_paid, [(1, 5, 1000000)])"
  by (simp add: runPayments_def ex_events receiptOf_def ex_trades)
    (simp add: ex_pay_defs const_defs unitsToQuota_def)

theorem payments_exact_witness:
  "map_option user_Quota (userById 5 ex_paid) = Some 1000700"
  using payments_exact [OF ex_wf_topups ex_run, of 5] by (simp add: ex_trades ex_user_def)

text \<open>C20. Payments keep the commissions right: no top-up has two, and each belongs to a
  completed top-up of the invitee and goes to somebody else.\<close>

theorem one_commission_per_topup:
  assumes "wf_topups d" and "commissions_ok d"
  shows "commissions_ok (fst (runPayments ps d))"
  using assms by (rule runPayments_commissions)

theorem one_commission_per_topup_witness:
  "commissions_ok (fst (runPayments [(ex_env, PayEpay ''T1'' ''''), (ex_env, PayEpay ''T1'' '''')] ex_paydb)) \<and>
   commissions_ok ex_paydb"
proof -
  have c: "commissions_ok ex_paydb" by (simp add: commissions_ok_def ex_paydb_def ex_db_def empty_db_def empty_table_def)
  with one_commission_per_topup [OF ex_wf_topups c] show ?thesis by blast
qed


end
