(* ===== verification/Purchase.thy ===== *)
theory Purchase
  imports Payment_Runs Preferences
begin

text \<open>
  Buying subscriptions and packages (\<open>src/model/subscription.go\<close>): the intent of a package
  purchase (new, extension, upgrade), what a purchase creates or changes, the orders that
  payment providers complete, purchases with the wallet, and subscriptions an administrator
  binds. The plan read inside a transaction is the fresh one; \<open>AdminBindSubscription\<close> and
  \<open>CheckValuePackagePurchaseIntent\<close> read it through the cache.
\<close>

section \<open>Formatting\<close>

fun dec_nat :: "nat \<Rightarrow> string" where
  "dec_nat n = (if n < 10 then [char_of (48 + n)] else dec_nat (n div 10) @ [char_of (48 + n mod 10)])"

declare dec_nat.simps [simp del]

definition FormatInt :: "int \<Rightarrow> string" where
  "FormatInt i = (if i < 0 then ''-'' @ dec_nat (nat (- i)) else dec_nat (nat i))"

definition utf8 :: "nat list \<Rightarrow> string" where
  "utf8 bs = map char_of bs"

section \<open>Orders\<close>

definition PaymentMethodBalance :: string where "PaymentMethodBalance = ''balance''"

definition orderByTradeNo :: "string \<Rightarrow> db \<Rightarrow> SubscriptionOrder option" where
  "orderByTradeNo tradeNo d = first_where (\<lambda>o1. order_TradeNo o1 = tradeNo) (orders d)"

definition createOrder :: "SubscriptionOrder \<Rightarrow> db \<Rightarrow> merr + db" where
  "createOrder o1 d =
     (if list_ex (\<lambda>x. order_TradeNo x = order_TradeNo o1) (rows (orders d)) then Inl ErrDuplicateKey
      else Inr (d\<lparr>orders := insert_row set_order_Id o1 (orders d)\<rparr>))"

definition insertOrder :: "env \<Rightarrow> SubscriptionOrder \<Rightarrow> db \<Rightarrow> merr + db" where
  "insertOrder E o1 d =
     createOrder (if order_CreateTime o1 = 0 then o1\<lparr>order_CreateTime := GetTimestamp E\<rparr> else o1) d"

definition updateOrder :: "SubscriptionOrder \<Rightarrow> db \<Rightarrow> db" where
  "updateOrder o1 d = d\<lparr>orders := save_row order_Id o1 (orders d)\<rparr>"

definition GetSubscriptionOrderByTradeNo :: "string \<Rightarrow> db \<Rightarrow> SubscriptionOrder option" where
  "GetSubscriptionOrderByTradeNo tradeNo d = (if tradeNo = '''' then None else orderByTradeNo tradeNo d)"

section \<open>User groups\<close>

definition setUserGroup :: "int \<Rightarrow> string \<Rightarrow> db \<Rightarrow> db" where
  "setUserGroup userId g d = updateUser userId (\<lambda>u. u\<lparr>user_Group := g\<rparr>) d"

text \<open>The group a user gets back when subscription \<open>s\<close> ends; empty when it stays.\<close>

definition downgradeUserGroupForSubscriptionTx ::
  "UserSubscription \<Rightarrow> int \<Rightarrow> db \<Rightarrow> merr + string \<times> db" where
  "downgradeUserGroupForSubscriptionTx s now d =
     (let upgradeGroup = TrimSpace (sub_UpgradeGroup s) in
      if upgradeGroup = '''' then Inr ('''', d)
      else bind_e (getUserGroupByIdTx (sub_UserId s) d) (\<lambda>currentGroup.
        if currentGroup \<noteq> upgradeGroup then Inr ('''', d)
        else if list_ex (\<lambda>x. sub_UserId x = sub_UserId s \<and> sub_Status x = ''active'' \<and> sub_EndTime x > now \<and>
               sub_Id x \<noteq> sub_Id s \<and> sub_UpgradeGroup x \<noteq> '''') (rows (subs d))
        then Inr ('''', d)
        else let prevGroup = TrimSpace (sub_PrevUserGroup s) in
          if prevGroup = '''' \<or> prevGroup = currentGroup then Inr ('''', d)
          else Inr (prevGroup, setUserGroup (sub_UserId s) prevGroup d)))"

section \<open>Regular subscriptions\<close>

text \<open>The upgrade of the buyer's group, and the group to go back to.\<close>

definition raiseGroup :: "int \<Rightarrow> string \<Rightarrow> db \<Rightarrow> merr + string \<times> db" where
  "raiseGroup userId upgradeGroup d =
     (if upgradeGroup = '''' then Inr ('''', d)
      else bind_e (getUserGroupByIdTx userId d) (\<lambda>currentGroup.
        if currentGroup \<noteq> upgradeGroup then Inr (currentGroup, setUserGroup userId upgradeGroup d)
        else Inr ('''', d)))"

definition regularSubscription ::
  "env \<Rightarrow> int \<Rightarrow> SubscriptionPlan \<Rightarrow> string \<Rightarrow> int \<Rightarrow> int \<Rightarrow> string \<Rightarrow> UserSubscription" where
  "regularSubscription E userId plan source now endUnix prevGroup =
     (let nextReset = calcNextResetTime (env_TZ E) now plan endUnix;
          lastReset = (if nextReset > 0 then now else 0)
      in zero_sub\<lparr>sub_UserId := userId, sub_PlanId := plan_Id plan,
           sub_AmountTotal := plan_TotalAmount plan, sub_StartTime := now,
           sub_EndTime := endUnix, sub_Status := ''active'', sub_Source := source,
           sub_LastResetTime := lastReset, sub_NextResetTime := nextReset,
           sub_UpgradeGroup := TrimSpace (plan_UpgradeGroup plan), sub_PrevUserGroup := prevGroup\<rparr>)"

definition CreateUserSubscriptionFromPlanTx ::
  "env \<Rightarrow> int \<Rightarrow> SubscriptionPlan \<Rightarrow> string \<Rightarrow> db \<Rightarrow> merr + UserSubscription \<times> db" where
  "CreateUserSubscriptionFromPlanTx E userId plan0 source d =
     (if plan_Id plan0 = 0 then Inl (PlanE ErrInvalidPlan)
      else if userId \<le> 0 then Inl (UserE ErrInvalidUserId)
      else let plan = normalizeValuePackagePlan plan0 in
        if IsValuePackage plan then Inl (OrderE ErrValuePackageViaSubscription)
        else if plan_MaxPurchasePerUser plan > 0 \<and>
            affected (\<lambda>s. sub_UserId s = userId \<and> sub_PlanId s = plan_Id plan) (subs d) \<ge> plan_MaxPurchasePerUser plan
        then Inl (OrderE ErrPurchaseLimitReached)
        else let now = getDBTimestampTx E in
          bind_e (calcPlanEndTime (env_TZ E) now plan) (\<lambda>endUnix.
            bind_e (raiseGroup userId (TrimSpace (plan_UpgradeGroup plan)) d) (\<lambda>(prevGroup, d1).
              let s = regularSubscription E userId plan source now endUnix prevGroup
              in Inr (newSub E s d1, createSub E s d1))))"

section \<open>The intent of a package purchase\<close>

definition ValuePackagePurchaseActionCreate :: string where "ValuePackagePurchaseActionCreate = ''create''"
definition ValuePackagePurchaseActionExtend :: string where "ValuePackagePurchaseActionExtend = ''extend''"
definition ValuePackagePurchaseActionUpgrade :: string where "ValuePackagePurchaseActionUpgrade = ''upgrade''"

lemmas action_defs = ValuePackagePurchaseActionCreate_def ValuePackagePurchaseActionExtend_def
  ValuePackagePurchaseActionUpgrade_def

record ValuePackagePurchaseIntent =
  intent_Action :: string
  intent_RequiresConfirmation :: bool
  intent_CurrentSubscription :: "UserSubscription option"
  intent_CurrentPlan :: "SubscriptionPlan option"
  intent_TargetPlan :: SubscriptionPlan
  intent_Message :: string

definition validateValuePackagePlanLifecycleLimits :: "SubscriptionPlan \<Rightarrow> merr + unit" where
  "validateValuePackagePlanLifecycleLimits plan =
     (if plan_TotalAmount plan \<le> 0 then Inl (PlanE ErrTotalAmountNotPositive)
      else if plan_PackageType plan = ValuePackageTypeMonth \<and> plan_Limit7dAmount plan > plan_TotalAmount plan
      then Inl (PlanE ErrLimit7dExceedsTotal)
      else Inr ())"

definition coverMessage :: "SubscriptionPlan \<Rightarrow> SubscriptionPlan \<Rightarrow> string" where
  "coverMessage plan currentPlan =
     utf8 [232,180,173,228,185,176,32] @ plan_Title plan @
     utf8 [32,229,176,134,231,155,180,230,142,165,232,166,134,231,155,150,229,189,147,229,137,141,32] @
     plan_Title currentPlan @
     utf8 [239,188,140,229,137,169,228,189,153,230,151,182,233,151,180,228,184,141,228,188,154,230,138,152,
           231,174,151,230,136,150,233,161,186,229,187,182]"

definition checkValuePackagePurchaseIntentTx ::
  "env \<Rightarrow> int \<Rightarrow> SubscriptionPlan \<Rightarrow> bool \<Rightarrow> db \<Rightarrow> merr + ValuePackagePurchaseIntent" where
  "checkValuePackagePurchaseIntentTx E userId plan confirmedCover d =
     bind_e (validateValuePackagePlanLifecycleLimits plan) (\<lambda>_.
     bind_e (getHighestActiveValuePackageTx userId (getDBTimestampTx E) d) (\<lambda>cur.
       let intent = \<lparr>intent_Action = ValuePackagePurchaseActionCreate, intent_RequiresConfirmation = False,
             intent_CurrentSubscription = None, intent_CurrentPlan = None, intent_TargetPlan = plan,
             intent_Message = ''''\<rparr>
       in case cur of None \<Rightarrow> Inr intent
       | Some (currentSub, currentPlan) \<Rightarrow>
           let intent = intent\<lparr>intent_CurrentSubscription := Some currentSub, intent_CurrentPlan := Some currentPlan\<rparr> in
           if plan_Id plan = plan_Id currentPlan
           then Inr (intent\<lparr>intent_Action := ValuePackagePurchaseActionExtend\<rparr>)
           else if plan_PackageLevel plan < plan_PackageLevel currentPlan
           then Inl (OrderE ErrLowerLevelPackage)
           else let intent = intent\<lparr>intent_Action := ValuePackagePurchaseActionUpgrade\<rparr> in
             Inr (if confirmedCover then intent
                  else intent\<lparr>intent_RequiresConfirmation := True,
                         intent_Message := coverMessage plan currentPlan\<rparr>)))"

definition CheckValuePackagePurchaseIntent ::
  "env \<Rightarrow> int \<Rightarrow> int \<Rightarrow> bool \<Rightarrow> db \<Rightarrow> (merr + ValuePackagePurchaseIntent) \<times> db" where
  "CheckValuePackagePurchaseIntent E userId planId confirmedCover d =
     (if userId \<le> 0 \<or> planId \<le> 0 then (Inl (UserE ErrInvalidUserOrPlanId), d)
      else case GetSubscriptionPlanById planId d of
        (Inl e, d1) \<Rightarrow> (Inl e, d1)
      | (Inr plan0, d1) \<Rightarrow>
          let plan = normalizeValuePackagePlan plan0 in
          (if \<not> IsValuePackage plan then Inl (PlanE ErrNotValuePackage)
           else if \<not> plan_Enabled plan then Inl (PlanE ErrPlanDisabled)
           else checkValuePackagePurchaseIntentTx E userId plan confirmedCover d1, d1))"

definition CheckValuePackagePurchaseIntentTx ::
  "env \<Rightarrow> int \<Rightarrow> SubscriptionPlan \<Rightarrow> bool \<Rightarrow> db \<Rightarrow> merr + ValuePackagePurchaseIntent" where
  "CheckValuePackagePurchaseIntentTx E userId plan0 confirmedCover d =
     (if userId \<le> 0 \<or> plan_Id plan0 \<le> 0 then Inl (UserE ErrInvalidUserOrPlanId)
      else let plan = normalizeValuePackagePlan plan0 in
        if \<not> IsValuePackage plan then Inl (PlanE ErrNotValuePackage)
        else if \<not> plan_Enabled plan then Inl (PlanE ErrPlanDisabled)
        else checkValuePackagePurchaseIntentTx E userId plan confirmedCover d)"

section \<open>Packages\<close>

definition valuePackageRenewalExhaustedReasonTotalDust :: string where
  "valuePackageRenewalExhaustedReasonTotalDust = ''total_quota_dust''"

text \<open>Go's conversion of a \<open>float64\<close> to an integer cuts towards zero.\<close>

definition trunc_rat :: "rat \<Rightarrow> int" where
  "trunc_rat x = (if x < 0 then - \<lfloor>- x\<rfloor> else \<lfloor>x\<rfloor>)"

definition valuePackageRenewalExhaustedReason :: "env \<Rightarrow> ValuePackageUsageSummary option \<Rightarrow> string" where
  "valuePackageRenewalExhaustedReason E usage = (case usage of None \<Rightarrow> ''''
     | Some u \<Rightarrow>
         if sum_Exhausted u then sum_ExhaustedReason u
         else if sum_TotalLimit u \<le> 0 \<or> sum_TotalRemaining u \<le> 0 then ''''
         else let relativeDustLimit = quot64 (sum_TotalLimit u) 10000;
                  absoluteDustLimit = trunc_rat (fl64 (env_QuotaPerUnit E / 100)) in
           if relativeDustLimit \<le> 0 \<or> absoluteDustLimit \<le> 0 then ''''
           else if sum_TotalRemaining u \<le> min relativeDustLimit absoluteDustLimit
           then valuePackageRenewalExhaustedReasonTotalDust else '''')"

text \<open>A renewal of an exhausted package starts it afresh in the next quota epoch; otherwise its
  end moves by the purchased duration.\<close>

definition renewExhausted ::
  "env \<Rightarrow> UserSubscription \<Rightarrow> SubscriptionPlan \<Rightarrow> int \<Rightarrow> int \<Rightarrow> string \<Rightarrow> db \<Rightarrow> merr + UserSubscription \<times> db" where
  "renewExhausted E s plan now purchasedEnd reason d =
     (if sub_QuotaEpoch s = MaxInt64 then Inl (QuotaE ErrQuotaEpochOverflow)
      else let s' = s\<lparr>sub_AmountTotal := plan_TotalAmount plan, sub_AmountUsed := 0, sub_StartTime := now,
                 sub_EndTime := purchasedEnd, sub_QuotaEpoch := add64 (sub_QuotaEpoch s) 1,
                 sub_LastResetTime := now, sub_NextResetTime := 0\<rparr>;
               d1 = createReset E (zero_reset\<lparr>reset_UserId := sub_UserId s, reset_UserSubscriptionId := sub_Id s,
                      reset_PlanId := sub_PlanId s, reset_PackageType := plan_PackageType plan,
                      reset_ResetAt := now, reset_FromEpoch := sub_QuotaEpoch s, reset_ToEpoch := sub_QuotaEpoch s',
                      reset_AmountUsedBefore := sub_AmountUsed s,
                      reset_Source := ValuePackageQuotaResetSourcePackageRenewal,
                      reset_Note := ''exhausted package renewal: '' @ reason\<rparr>) d
           in Inr (stampSub E s', saveSub E s' d1))"

definition extendEnd ::
  "env \<Rightarrow> UserSubscription \<Rightarrow> SubscriptionPlan \<Rightarrow> int \<Rightarrow> int \<Rightarrow> db \<Rightarrow> merr + UserSubscription \<times> db" where
  "extendEnd E s plan now duration d =
     (let base = (if sub_EndTime s < now then now else sub_EndTime s) in
      if base > sub64 MaxInt64 duration then Inl (QuotaE ErrEndTimeOverflow)
      else let s' = syncValuePackageCycleSchedule plan (s\<lparr>sub_EndTime := add64 base duration\<rparr>)
           in Inr (stampSub E s', saveSub E s' d))"

definition extendValuePackageSubscriptionTx ::
  "env \<Rightarrow> int \<Rightarrow> SubscriptionPlan \<Rightarrow> int \<Rightarrow> int \<Rightarrow> db \<Rightarrow> merr + UserSubscription \<times> db" where
  "extendValuePackageSubscriptionTx E subscriptionID plan now purchasedEnd d =
     (if subscriptionID \<le> 0 then Inl (QuotaE ErrInvalidSubscriptionId)
      else if \<not> IsValuePackage plan \<or> plan_TotalAmount plan \<le> 0 then Inl (PlanE ErrInvalidPlanTotal)
      else let duration = sub64 purchasedEnd now in
        if now \<le> 0 \<or> duration \<le> 0 then Inl (PlanE ErrInvalidPurchaseDuration)
        else bind_e (of_option ErrRecordNotFound (first_where (\<lambda>s. sub_Id s = subscriptionID) (subs d))) (\<lambda>s.
          if sub_Status s \<noteq> UserSubscriptionStatusActive then Inl (QuotaE ErrSubscriptionNotActive)
          else bind_e (maybeAdvanceValuePackageCycleTx E s plan now d) (\<lambda>(s1, d1).
            bind_e (buildValuePackageUsageSummaryTx E (sub_UserId s1) s1 plan now d1) (\<lambda>usage.
              let reason = valuePackageRenewalExhaustedReason E usage in
              if reason \<noteq> '''' then renewExhausted E s1 plan now purchasedEnd reason d1
              else extendEnd E s1 plan now duration d1))))"

definition coverSub :: "env \<Rightarrow> int \<Rightarrow> int \<Rightarrow> db \<Rightarrow> db" where
  "coverSub E i now d = d\<lparr>subs := update_where (\<lambda>s. sub_Id s = i)
     (\<lambda>s. s\<lparr>sub_Status := UserSubscriptionStatusCovered, sub_CoveredTime := now,
             sub_UpdatedAt := GetTimestamp E\<rparr>) (subs d)\<rparr>"

definition setCoveredBy :: "env \<Rightarrow> int \<Rightarrow> int \<Rightarrow> db \<Rightarrow> db" where
  "setCoveredBy E i by_id d = d\<lparr>subs := update_where (\<lambda>s. sub_Id s = i)
     (\<lambda>s. s\<lparr>sub_CoveredBySubscriptionId := by_id, sub_UpdatedAt := GetTimestamp E\<rparr>) (subs d)\<rparr>"

definition freshPackage :: "int \<Rightarrow> SubscriptionPlan \<Rightarrow> string \<Rightarrow> int \<Rightarrow> int \<Rightarrow> UserSubscription" where
  "freshPackage userId plan source now endUnix =
     syncValuePackageCycleSchedule plan (zero_sub\<lparr>sub_UserId := userId, sub_PlanId := plan_Id plan,
       sub_AmountTotal := plan_TotalAmount plan, sub_StartTime := now, sub_EndTime := endUnix,
       sub_Status := UserSubscriptionStatusActive, sub_Source := source\<rparr>)"

text \<open>The switch over the intent's action, the same in both purchase paths. An extension has a
  current subscription, so the branch without one is never taken.\<close>

definition applyIntent ::
  "env \<Rightarrow> int \<Rightarrow> SubscriptionPlan \<Rightarrow> string \<Rightarrow> ValuePackagePurchaseIntent \<Rightarrow> int \<Rightarrow> int \<Rightarrow> db \<Rightarrow>
     merr + UserSubscription \<times> db" where
  "applyIntent E userId plan source intent now endUnix d =
     (if intent_Action intent = ValuePackagePurchaseActionExtend then
        (case intent_CurrentSubscription intent of
           None \<Rightarrow> Inl (OrderE ErrCompletedSubscriptionMissing)
         | Some cur \<Rightarrow> extendValuePackageSubscriptionTx E (sub_Id cur) plan now endUnix d)
      else if intent_Action intent \<in> {ValuePackagePurchaseActionUpgrade, ValuePackagePurchaseActionCreate} then
        let covered = (if intent_Action intent = ValuePackagePurchaseActionUpgrade
                       then intent_CurrentSubscription intent else None);
            d1 = (case covered of None \<Rightarrow> d | Some cur \<Rightarrow> coverSub E (sub_Id cur) now d);
            s = freshPackage userId plan source now endUnix;
            s' = newSub E s d1;
            d2 = createSub E s d1;
            d3 = (case covered of None \<Rightarrow> d2 | Some cur \<Rightarrow> setCoveredBy E (sub_Id cur) (sub_Id s') d2)
        in Inr (s', d3)
      else Inl (OrderE ErrUnknownPurchaseAction))"

definition giftNoteSource :: "SubscriptionPlan \<Rightarrow> string \<Rightarrow> string" where
  "giftNoteSource plan source =
     utf8 [229,188,128,233,128,154,229,165,151,233,164,144,232,181,160,233,128,129,239,188,154] @ plan_Title plan @
     utf8 [239,188,140,230,157,165,230,186,144,32] @ source"

definition giftNoteOrder :: "SubscriptionPlan \<Rightarrow> string \<Rightarrow> string" where
  "giftNoteOrder plan tradeNo =
     utf8 [229,188,128,233,128,154,229,165,151,233,164,144,232,181,160,233,128,129,239,188,154] @ plan_Title plan @
     utf8 [239,188,140,232,174,162,229,141,149,32] @ tradeNo"

definition CreateValuePackageSubscriptionFromPlanTx ::
  "env \<Rightarrow> int \<Rightarrow> SubscriptionPlan \<Rightarrow> string \<Rightarrow> db \<Rightarrow> merr + UserSubscription \<times> db" where
  "CreateValuePackageSubscriptionFromPlanTx E userId plan0 source d =
     (if plan_Id plan0 = 0 then Inl (PlanE ErrInvalidPlan)
      else if userId \<le> 0 then Inl (UserE ErrInvalidUserId)
      else let plan = normalizeValuePackagePlan plan0 in
        if \<not> IsValuePackage plan then Inl (PlanE ErrNotValuePackage)
        else if \<not> plan_Enabled plan then Inl (PlanE ErrPlanDisabled)
        else bind_e (ensureExistingUserForUpdateTx userId d) (\<lambda>_.
          bind_e (checkValuePackagePurchaseIntentTx E userId plan True d) (\<lambda>intent.
          let now = getDBTimestampTx E in
          bind_e (calcPlanEndTime (env_TZ E) now plan) (\<lambda>endUnix.
          bind_e (applyIntent E userId plan source intent now endUnix d) (\<lambda>(completed, d1).
            if sub_Id completed \<le> 0 then Inl (OrderE ErrCompletedSubscriptionMissing)
            else bind_e (ensureValuePackagePreferenceAfterPurchaseTx E userId (sub_Id completed) plan
                   (ClampSubscriptionPlanGiftResetCount (plan_GiftResetCount plan)) (giftNoteSource plan source) d1)
              (\<lambda>d2. Inr (completed, d2)))))))"

section \<open>Completing orders\<close>

definition upsertSubscriptionTopUpTx :: "env \<Rightarrow> SubscriptionOrder \<Rightarrow> db \<Rightarrow> merr + TopUp \<times> db" where
  "upsertSubscriptionTopUpTx E o1 d =
     (let now = GetTimestamp E in
      case GetTopUpByTradeNo (order_TradeNo o1) d of
        None \<Rightarrow>
          let t = zero_topup\<lparr>topup_UserId := order_UserId o1, topup_Money := order_Money o1,
                    topup_TradeNo := order_TradeNo o1, topup_PaymentMethod := order_PaymentMethod o1,
                    topup_PaymentProvider := order_PaymentProvider o1, topup_CreateTime := order_CreateTime o1,
                    topup_CompleteTime := now, topup_Status := TopUpStatusSuccess\<rparr>
          in Inr (new_row set_topup_Id t (topups d), d\<lparr>topups := insert_row set_topup_Id t (topups d)\<rparr>)
      | Some t \<Rightarrow>
          if topup_UserId t \<noteq> order_UserId o1 then Inl (OrderE ErrTopupUserMismatch)
          else if topup_Amount t > 0 then Inl (OrderE ErrExistingTopupIsRecharge)
          else if topup_PaymentMethod t \<noteq> '''' \<and> topup_PaymentMethod t \<noteq> order_PaymentMethod o1
          then Inl (OrderE ErrPaymentMethodMismatch)
          else if topup_PaymentProvider t \<noteq> '''' \<and> topup_PaymentProvider t \<noteq> order_PaymentProvider o1
          then Inl (OrderE ErrPaymentMethodMismatch)
          else let t' = t\<lparr>topup_PaymentMethod := order_PaymentMethod o1,
                     topup_PaymentProvider := order_PaymentProvider o1, topup_Amount := 0,
                     topup_Money := order_Money o1,
                     topup_CreateTime := (if topup_CreateTime t = 0 then order_CreateTime o1 else topup_CreateTime t),
                     topup_CompleteTime := now, topup_Status := TopUpStatusSuccess\<rparr>
               in Inr (t', updateTopUp t' d))"

definition closeOrder :: "env \<Rightarrow> string \<Rightarrow> SubscriptionOrder \<Rightarrow> SubscriptionOrder" where
  "closeOrder E providerPayload o1 = o1\<lparr>order_Status := TopUpStatusSuccess, order_CompleteTime := GetTimestamp E,
     order_ProviderPayload := (if providerPayload \<noteq> '''' then providerPayload else order_ProviderPayload o1)\<rparr>"

definition CompleteSubscriptionOrder ::
  "env \<Rightarrow> string \<Rightarrow> string \<Rightarrow> string \<Rightarrow> string \<Rightarrow> db \<Rightarrow> merr + db" where
  "CompleteSubscriptionOrder E tradeNo providerPayload expectedPaymentProvider actualPaymentMethod d =
     (if tradeNo = '''' then Inl (OrderE ErrTradeNoEmpty)
      else bind_e (of_option (OrderE ErrSubscriptionOrderNotFound) (orderByTradeNo tradeNo d)) (\<lambda>o1.
        if expectedPaymentProvider \<noteq> '''' \<and> order_PaymentProvider o1 \<noteq> expectedPaymentProvider
        then Inl (OrderE ErrPaymentMethodMismatch)
        else bind_e (getSubscriptionPlanByIdFreshTx (order_PlanId o1) d) (\<lambda>plan0.
          let plan = normalizeValuePackagePlan plan0 in
          if IsValuePackage plan then Inl (OrderE ErrValuePackageOnlyLdxp)
          else if order_Status o1 = TopUpStatusSuccess then Inr d
          else if order_Status o1 \<noteq> TopUpStatusPending then Inl (OrderE ErrSubscriptionOrderStatusInvalid)
          else bind_e (CreateUserSubscriptionFromPlanTx E (order_UserId o1) plan ''order'' d) (\<lambda>(createdSub, d1).
            let o2 = o1\<lparr>order_UserSubscriptionId := sub_Id createdSub,
                  order_PaymentMethod := (if actualPaymentMethod \<noteq> '''' then actualPaymentMethod
                                          else order_PaymentMethod o1)\<rparr>
            in bind_e (upsertSubscriptionTopUpTx E o2 d1) (\<lambda>(_, d2).
               bind_e (MaybeUpgradeUserToVIPTx (order_UserId o2) d2) (\<lambda>(_, d3).
                 Inr (updateOrder (closeOrder E providerPayload o2) d3)))))))"

definition ExpireSubscriptionOrder :: "env \<Rightarrow> string \<Rightarrow> string \<Rightarrow> db \<Rightarrow> merr + db" where
  "ExpireSubscriptionOrder E tradeNo expectedPaymentProvider d =
     (if tradeNo = '''' then Inl (OrderE ErrTradeNoEmpty)
      else bind_e (of_option (OrderE ErrSubscriptionOrderNotFound) (orderByTradeNo tradeNo d)) (\<lambda>o1.
        if expectedPaymentProvider \<noteq> '''' \<and> order_PaymentProvider o1 \<noteq> expectedPaymentProvider
        then Inl (OrderE ErrPaymentMethodMismatch)
        else if order_Status o1 \<noteq> TopUpStatusPending then Inr d
        else Inr (updateOrder (o1\<lparr>order_Status := TopUpStatusExpired, order_CompleteTime := GetTimestamp E\<rparr>) d)))"

definition CompleteValuePackageOrder ::
  "env \<Rightarrow> string \<Rightarrow> string \<Rightarrow> string \<Rightarrow> string \<Rightarrow> bool \<Rightarrow> db \<Rightarrow> merr + UserSubscription \<times> db" where
  "CompleteValuePackageOrder E tradeNo providerPayload expectedPaymentProvider actualPaymentMethod confirmedCover d =
     (if TrimSpace tradeNo = '''' then Inl (OrderE ErrTradeNoEmpty)
      else bind_e (of_option (OrderE ErrSubscriptionOrderNotFound) (orderByTradeNo tradeNo d)) (\<lambda>o1.
        if expectedPaymentProvider \<noteq> '''' \<and> order_PaymentProvider o1 \<noteq> expectedPaymentProvider
        then Inl (OrderE ErrPaymentMethodMismatch)
        else if order_Status o1 = TopUpStatusSuccess then
          (if order_UserSubscriptionId o1 \<le> 0 then Inl (OrderE ErrCompletedOrderMissingSubscription)
           else bind_e (of_option (OrderE ErrCompletedSubscriptionNotFound)
                  (first_where (\<lambda>s. sub_Id s = order_UserSubscriptionId o1 \<and> sub_UserId s = order_UserId o1) (subs d)))
             (\<lambda>s. Inr (s, d)))
        else if order_Status o1 \<noteq> TopUpStatusPending then Inl (OrderE ErrSubscriptionOrderStatusInvalid)
        else bind_e (of_option ErrRecordNotFound (userById (order_UserId o1) d)) (\<lambda>_.
          bind_e (getSubscriptionPlanByIdFreshTx (order_PlanId o1) d) (\<lambda>plan0.
          let plan = normalizeValuePackagePlan plan0 in
          if \<not> IsValuePackage plan then Inl (OrderE ErrOrderPlanNotValuePackage)
          else bind_e (checkValuePackagePurchaseIntentTx E (order_UserId o1) plan confirmedCover d) (\<lambda>intent.
          if intent_RequiresConfirmation intent then Inl (OrderE ErrCoverConfirmationRequired)
          else let now = getDBTimestampTx E in
          bind_e (calcPlanEndTime (env_TZ E) now plan) (\<lambda>endUnix.
          bind_e (applyIntent E (order_UserId o1) plan ''ldxp'' intent now endUnix d) (\<lambda>(completed, d1).
          if sub_Id completed \<le> 0 then Inl (OrderE ErrCompletedSubscriptionMissing)
          else bind_e (ensureValuePackagePreferenceAfterPurchaseTx E (order_UserId o1) (sub_Id completed) plan
                 (order_GiftResetCount o1) (giftNoteOrder plan (order_TradeNo o1)) d1) (\<lambda>d2.
          let o2 = o1\<lparr>order_UserSubscriptionId := sub_Id completed,
                order_PaymentMethod := (if actualPaymentMethod \<noteq> '''' then actualPaymentMethod
                                        else order_PaymentMethod o1)\<rparr> in
          bind_e (upsertSubscriptionTopUpTx E o2 d2) (\<lambda>(t, d3).
          bind_e (AddUserValidTopupCentsTx (order_UserId o2) (MoneyToValidTopupCents E (order_Money o2)) d3) (\<lambda>d4.
          bind_e (MaybeUpgradeUserToVIPTx (order_UserId o2) (MaybeCreateAffiliateCommissionForTopUpTx E t d4)) (\<lambda>(_, d5).
            Inr (completed, updateOrder (closeOrder E providerPayload o2) d5))))))))))))"

section \<open>Purchases without a payment provider\<close>

definition AdminBindSubscription :: "env \<Rightarrow> int \<Rightarrow> int \<Rightarrow> db \<Rightarrow> (merr + string) \<times> db" where
  "AdminBindSubscription E userId planId d =
     (if userId \<le> 0 \<or> planId \<le> 0 then (Inl (UserE ErrInvalidUserOrPlanId), d)
      else case GetSubscriptionPlanById planId d of
        (Inl e, d1) \<Rightarrow> (Inl e, d1)
      | (Inr plan0, d1) \<Rightarrow>
          let plan = normalizeValuePackagePlan plan0 in
          if IsValuePackage plan then (Inl (OrderE ErrValuePackageViaSubscription), d1)
          else case CreateUserSubscriptionFromPlanTx E userId plan ''admin'' d1 of
            Inl e \<Rightarrow> (Inl e, d1)
          | Inr (_, d2) \<Rightarrow>
              (Inr (if TrimSpace (plan_UpgradeGroup plan) \<noteq> ''''
                    then utf8 [231,148,168,230,136,183,229,136,134,231,187,132,229,176,134,229,141,135,231,186,167,
                           229,136,176,32] @ plan_UpgradeGroup plan
                    else ''''), d2))"

definition calcSubscriptionBalanceQuota :: "env \<Rightarrow> rat \<Rightarrow> merr + int" where
  "calcSubscriptionBalanceQuota E priceAmount =
     (if priceAmount \<le> 0 then Inr 0
      else if env_QuotaPerUnit E \<le> 0 then Inl (OrderE ErrQuotaUnitConfig)
      else Inr (env_DecimalCeilMul E priceAmount (env_QuotaPerUnit E)))"

definition balanceOrder :: "env \<Rightarrow> int \<Rightarrow> SubscriptionPlan \<Rightarrow> int \<Rightarrow> SubscriptionOrder" where
  "balanceOrder E userId plan requiredQuota =
     (let now = GetTimestamp E in
      zero_order\<lparr>order_UserId := userId, order_PlanId := plan_Id plan, order_Money := plan_PriceAmount plan,
        order_TradeNo := ''SUBBALUSR'' @ FormatInt userId @ ''NO'' @ env_FreshId E,
        order_PaymentMethod := PaymentMethodBalance, order_PaymentProvider := PaymentMethodBalance,
        order_Status := TopUpStatusSuccess, order_CreateTime := now, order_CompleteTime := now,
        order_ProviderPayload := ''charged_quota='' @ FormatInt requiredQuota\<rparr>)"

definition PurchaseSubscriptionWithBalance :: "env \<Rightarrow> int \<Rightarrow> int \<Rightarrow> db \<Rightarrow> merr + db" where
  "PurchaseSubscriptionWithBalance E userId planId d =
     (if userId \<le> 0 \<or> planId \<le> 0 then Inl (UserE ErrInvalidUserOrPlanId)
      else bind_e (getSubscriptionPlanByIdFreshTx planId d) (\<lambda>plan.
        if IsValuePackage plan then Inl (OrderE ErrValuePackageOnlyLdxp)
        else if \<not> plan_Enabled plan then Inl (PlanE ErrPlanDisabled)
        else if plan_PriceAmount plan < 0 then Inl (OrderE ErrPriceNegative)
        else if plan_AllowBalancePay plan = Some False then Inl (OrderE ErrBalancePayNotAllowed)
        else bind_e (calcSubscriptionBalanceQuota E (plan_PriceAmount plan)) (\<lambda>requiredQuota.
          bind_e (of_option ErrRecordNotFound (userById userId d)) (\<lambda>u.
          if requiredQuota > 0 \<and> user_Quota u < requiredQuota then Inl (OrderE ErrInsufficientBalance)
          else let d1 = (if requiredQuota > 0 then decreaseUserQuota userId requiredQuota d else d) in
            bind_e (CreateUserSubscriptionFromPlanTx E userId plan PaymentMethodBalance d1) (\<lambda>(_, d2).
              createOrder (balanceOrder E userId (normalizeValuePackagePlan plan) requiredQuota) d2)))))"

end
