(* ===== verification/Purchase_Laws.thy ===== *)
theory Purchase_Laws
  imports Purchase
begin

text \<open>
  What purchases promise: a user never has two running packages, completing an order twice is
  completing it once, a purchase with the wallet takes its price and nothing else, and the
  action of a purchase follows from the package the user has.
\<close>

section \<open>What an operation leaves alone\<close>

lemma updateUser_frame [simp]:
  "subs (updateUser i f d) = subs d" "plans (updateUser i f d) = plans d" "orders (updateUser i f d) = orders d"
  "topups (updateUser i f d) = topups d"
  by (simp_all add: updateUser_def)

lemma commission_keeps [simp]:
  "subs (MaybeCreateAffiliateCommissionForTopUpTx E t d) = subs d"
  "plans (MaybeCreateAffiliateCommissionForTopUpTx E t d) = plans d"
  "orders (MaybeCreateAffiliateCommissionForTopUpTx E t d) = orders d"
  by (simp_all add: MaybeCreateAffiliateCommissionForTopUpTx_def Let_def split: option.split)

lemma vip_keeps:
  "MaybeUpgradeUserToVIPTx i d = Inr (b, d') \<Longrightarrow> subs d' = subs d \<and> plans d' = plans d \<and> orders d' = orders d"
  by (auto simp: MaybeUpgradeUserToVIPTx_def res_simps Let_def split: if_splits)

lemma cents_keeps:
  "AddUserValidTopupCentsTx i c d = Inr d' \<Longrightarrow> subs d' = subs d \<and> plans d' = plans d \<and> orders d' = orders d"
  by (auto simp: AddUserValidTopupCentsTx_def split: if_splits)

lemma upsertTopUp_keeps:
  "upsertSubscriptionTopUpTx E o1 d = Inr (t, d') \<Longrightarrow> subs d' = subs d \<and> plans d' = plans d \<and> orders d' = orders d"
  by (auto simp: upsertSubscriptionTopUpTx_def updateTopUp_def Let_def split: option.splits if_splits)

lemma preference_keeps:
  "ensureValuePackagePreferenceAfterPurchaseTx E i k p g n d = Inr d' \<Longrightarrow>
    subs d' = subs d \<and> plans d' = plans d \<and> orders d' = orders d"
  by (auto simp: ensureValuePackagePreferenceAfterPurchaseTx_def upsertValuePackagePreferenceTx_def
      grantValuePackageResetCountTx_def ensureValuePackagePreferenceForUpdateTx_def createLedger_def setResetCount_def Let_def res_simps
      split: if_splits option.splits)

lemma updateOrder_frame [simp]:
  "subs (updateOrder o1 d) = subs d" "plans (updateOrder o1 d) = plans d"
  "orders (updateOrder o1 d) = save_row order_Id o1 (orders d)"
  by (simp_all add: updateOrder_def)

lemmas keeps = vip_keeps cents_keeps upsertTopUp_keeps preference_keeps

section \<open>What a package purchase does to the subscriptions\<close>

lemma advance_shape:
  assumes "maybeAdvanceValuePackageCycleTx E s p now d = Inr (s1, d1)"
  shows "plans d1 = plans d \<and> orders d1 = orders d \<and> sub_Id s1 = sub_Id s \<and> sub_UserId s1 = sub_UserId s \<and>
    sub_PlanId s1 = sub_PlanId s \<and> sub_Status s1 = sub_Status s \<and>
    (d1 = d \<and> s1 = s \<or> subs d1 = save_row sub_Id s1 (subs d))"
  using assms by (auto simp: maybeAdvanceValuePackageCycleTx_def Let_def saveSub_def split: if_splits)

text \<open>An extension replaces one active subscription by the one it returns.\<close>

lemma extend_shape:
  assumes "extendValuePackageSubscriptionTx E i plan now e d = Inr (s', d')"
  shows "plans d' = plans d \<and> orders d' = orders d \<and>
    (\<exists>s. first_where (\<lambda>s. sub_Id s = i) (subs d) = Some s \<and> sub_Status s = UserSubscriptionStatusActive \<and>
      sub_UserId s' = sub_UserId s \<and> sub_PlanId s' = sub_PlanId s \<and> sub_Status s' = sub_Status s \<and> sub_Id s' = i \<and> 0 < i \<and>
      subs d' = save_row sub_Id s' (subs d))"
proof -
  obtain s s1 d1 where s: "first_where (\<lambda>s. sub_Id s = i) (subs d) = Some s" "sub_Status s = UserSubscriptionStatusActive" "0 < i"
    and adv: "maybeAdvanceValuePackageCycleTx E s plan now d = Inr (s1, d1)"
    and fin: "(\<exists>r. renewExhausted E s1 plan now e r d1 = Inr (s', d')) \<or> extendEnd E s1 plan now (sub64 e now) d1 = Inr (s', d')"
    using assms by (auto simp: extendValuePackageSubscriptionTx_def Let_def res_simps split: if_splits)
  have i: "sub_Id s = i" using s(1) by (auto dest: first_where_Some)
  note a = advance_shape [OF adv]
  from fin have f: "plans d' = plans d1 \<and> orders d' = orders d1 \<and> subs d' = save_row sub_Id s' (subs d1) \<and> sub_Id s' = sub_Id s1 \<and>
      sub_UserId s' = sub_UserId s1 \<and> sub_PlanId s' = sub_PlanId s1 \<and> sub_Status s' = sub_Status s1"
    by (auto simp: renewExhausted_def extendEnd_def syncValuePackageCycleSchedule_def saveSub_def Let_def split: if_splits)
  have "save_row sub_Id s' (save_row sub_Id s1 t) = save_row sub_Id s' t" if "sub_Id s' = sub_Id s1" for t
    using that by (simp add: save_row_def update_where_def)
  then show ?thesis using a f s i by auto
qed

text \<open>A new package is appended; an upgrade also marks the package it covers.\<close>

definition mark_covered :: "env \<Rightarrow> int \<Rightarrow> int \<Rightarrow> UserSubscription option \<Rightarrow> UserSubscription \<Rightarrow> UserSubscription" where
  "mark_covered E now by_id cur x = (case cur of None \<Rightarrow> x
     | Some c \<Rightarrow> if sub_Id x = sub_Id c
         then x\<lparr>sub_Status := UserSubscriptionStatusCovered, sub_CoveredTime := now,
                sub_UpdatedAt := GetTimestamp E, sub_CoveredBySubscriptionId := by_id\<rparr> else x)"

lemma freshPackage_fields [simp]:
  "sub_UserId (freshPackage u p src now e) = u" "sub_PlanId (freshPackage u p src now e) = plan_Id p"
  "sub_AmountUsed (freshPackage u p src now e) = 0" "sub_AmountTotal (freshPackage u p src now e) = plan_TotalAmount p"
  "sub_QuotaEpoch (freshPackage u p src now e) = 0" "sub_StartTime (freshPackage u p src now e) = now"
  "sub_EndTime (freshPackage u p src now e) = e" "sub_Status (freshPackage u p src now e) = UserSubscriptionStatusActive"
  by (simp_all add: freshPackage_def syncValuePackageCycleSchedule_def zero_sub_def Let_def)

lemma newSub_fields [simp]:
  "sub_Id (newSub E s d) = seq (subs d) + 1" "sub_UserId (newSub E s d) = sub_UserId s"
  "sub_PlanId (newSub E s d) = sub_PlanId s" "sub_AmountUsed (newSub E s d) = sub_AmountUsed s"
  "sub_AmountTotal (newSub E s d) = sub_AmountTotal s" "sub_QuotaEpoch (newSub E s d) = sub_QuotaEpoch s"
  "sub_StartTime (newSub E s d) = sub_StartTime s" "sub_EndTime (newSub E s d) = sub_EndTime s"
  "sub_Status (newSub E s d) = sub_Status s"
  by (simp_all add: newSub_def new_row_def)

lemma new_shape:
  assumes "applyIntent E userId plan source intent now e d = Inr (s', d')"
    and "intent_Action intent \<noteq> ValuePackagePurchaseActionExtend"
    and "\<And>c. intent_CurrentSubscription intent = Some c \<Longrightarrow> sub_Id c \<le> seq (subs d)"
  shows "plans d' = plans d \<and> orders d' = orders d \<and> sub_Id s' = seq (subs d) + 1 \<and> sub_UserId s' = userId \<and>
    sub_AmountUsed s' = 0 \<and> sub_Status s' = UserSubscriptionStatusActive \<and>
    rows (subs d') = map (mark_covered E now (seq (subs d) + 1)
      (if intent_Action intent = ValuePackagePurchaseActionUpgrade then intent_CurrentSubscription intent else None))
      (rows (subs d)) @ [s']"
proof -
  let ?s = "freshPackage userId plan source now e"
  have r: "rows (subs (createSub E ?s x)) = rows (subs x) @ [newSub E ?s x]" for x by simp
  have n: "newSub E ?s (coverSub E i now d) = newSub E ?s d" for i by (simp add: newSub_def new_row_def coverSub_def)
  show ?thesis
  proof (cases "intent_Action intent = ValuePackagePurchaseActionUpgrade \<and> intent_CurrentSubscription intent \<noteq> None")
    case True
    then obtain c where c: "intent_CurrentSubscription intent = Some c" by auto
    have le: "sub_Id c \<le> seq (subs d)" using assms(3) c .
    have "s' = newSub E ?s d \<and> d' = setCoveredBy E (sub_Id c) (seq (subs d) + 1) (createSub E ?s (coverSub E (sub_Id c) now d))"
      using assms(1,2) True c by (auto simp: applyIntent_def n Let_def)
    then show ?thesis using c True le
      by (auto simp: setCoveredBy_def createSub_def coverSub_def mark_covered_def newSub_def new_row_def)
  next
    case False
    then have "s' = newSub E ?s d \<and> d' = createSub E ?s d"
      using assms(1,2) by (auto simp: applyIntent_def Let_def split: if_splits option.splits)
    moreover have "mark_covered E now k (if intent_Action intent = ValuePackagePurchaseActionUpgrade
        then intent_CurrentSubscription intent else None) = id" for k
      using False by (auto simp: mark_covered_def)
    ultimately show ?thesis by (simp add: createSub_def newSub_def new_row_def)
  qed
qed

section \<open>One running package per user\<close>

definition single_package :: "int \<Rightarrow> db \<Rightarrow> bool" where
  "single_package now d \<longleftrightarrow> (\<forall>v x y p q. runningPackage v now d x p \<longrightarrow> runningPackage v now d y q \<longrightarrow> x = y)"

lemma running_cong:
  assumes "subs d' = subs d" "plans d' = plans d"
  shows "runningPackage v now d' x p = runningPackage v now d x p"
  using assms by (simp add: runningPackage_def getSubscriptionPlanByIdFreshTx_def)

lemma running_moved:
  assumes "runningPackage v now d' x p" "x \<in> set (rows (subs d))" "plans d' = plans d"
  shows "runningPackage v now d x p"
proof -
  have "getSubscriptionPlanByIdFreshTx k d' = getSubscriptionPlanByIdFreshTx k d" for k
    using assms(3) by (simp add: getSubscriptionPlanByIdFreshTx_def)
  then show ?thesis using assms(1,2) unfolding runningPackage_def by simp
qed

lemma running_earlier: "runningPackage v now' d x p \<Longrightarrow> now \<le> now' \<Longrightarrow> runningPackage v now d x p"
  by (auto simp: runningPackage_def activeSub_def)

lemma single_package_later: "single_package now d \<Longrightarrow> now \<le> now' \<Longrightarrow> single_package now' d"
  unfolding single_package_def using running_earlier by blast

lemma intent_cases:
  assumes "checkValuePackagePurchaseIntentTx E u plan c d = Inr intent"
  obtains (create) "intent_Action intent = ValuePackagePurchaseActionCreate" "intent_CurrentSubscription intent = None"
      "\<And>x p. \<not> runningPackage u (getDBTimestampTx E) d x p" "\<not> intent_RequiresConfirmation intent"
  | (extend) cur cp where "intent_Action intent = ValuePackagePurchaseActionExtend"
      "intent_CurrentSubscription intent = Some cur" "runningPackage u (getDBTimestampTx E) d cur cp"
      "plan_Id cp = plan_Id plan" "\<not> intent_RequiresConfirmation intent"
  | (upgrade) cur cp where "intent_Action intent = ValuePackagePurchaseActionUpgrade"
      "intent_CurrentSubscription intent = Some cur" "runningPackage u (getDBTimestampTx E) d cur cp"
      "plan_Id cp \<noteq> plan_Id plan" "plan_PackageLevel cp \<le> plan_PackageLevel plan"
      "intent_RequiresConfirmation intent \<longleftrightarrow> \<not> c"
proof -
  obtain r where r: "getHighestActiveValuePackageTx u (getDBTimestampTx E) d = Inr r"
    using assms by (auto simp: checkValuePackagePurchaseIntentTx_def res_simps)
  show thesis
  proof (cases r)
    case None
    then have none: "\<And>x p. \<not> runningPackage u (getDBTimestampTx E) d x p" using highest_package [OF r] by blast
    show thesis
      by (rule create [OF _ _ none]) (use assms r None in \<open>auto simp: checkValuePackagePurchaseIntentTx_def res_simps Let_def\<close>)
  next
    case (Some b)
    obtain cur cp where b: "b = (cur, cp)" by (cases b)
    have run: "runningPackage u (getDBTimestampTx E) d cur cp" using highest_package [OF r] Some b by blast
    show thesis
    proof (cases "plan_Id plan = plan_Id cp")
      case True
      show thesis
        by (rule extend [OF _ _ run])
          (use assms r Some b True in \<open>auto simp: checkValuePackagePurchaseIntentTx_def res_simps Let_def\<close>)
    next
      case False
      then have "\<not> plan_PackageLevel plan < plan_PackageLevel cp"
        using assms r Some b by (auto simp: checkValuePackagePurchaseIntentTx_def res_simps Let_def)
      then show thesis
        by (intro upgrade [OF _ _ run])
          (use assms r Some b False in \<open>auto simp: checkValuePackagePurchaseIntentTx_def res_simps Let_def\<close>)
    qed
  qed
qed

lemma running_sub:
  assumes "runningPackage v now d x p"
  shows "x \<in> set (rows (subs d))" "sub_UserId x = v" "sub_Status x = UserSubscriptionStatusActive"
  using assms by (simp_all add: runningPackage_def activeSub_def)

text \<open>The running packages after a purchase: of the buyer only the result, of others the same.\<close>

lemma purchase_running:
  assumes wf: "wf_table sub_Id (subs d)" and single: "single_package now d"
    and int: "checkValuePackagePurchaseIntentTx E u plan c d = Inr intent" and now: "now = getDBTimestampTx E"
    and app: "applyIntent E u plan source intent now e d = Inr (s', d')"
    and run: "runningPackage v now d' x p"
  shows "if v = u then x = s' else runningPackage v now d x p"
  using int
proof (cases rule: intent_cases)
  case create
  note n = new_shape [OF app, unfolded create, simplified]
  have "x = s' \<or> x \<in> set (rows (subs d))" and u: "sub_UserId s' = u" and e: "plans d' = plans d"
    using n running_sub(1) [OF run] by (auto simp: action_defs mark_covered_def)
  then show ?thesis
    using running_moved [OF run _ e] create(3) running_sub(2) [OF run] unfolding now by metis
next
  case (extend cur cp)
  have "extendValuePackageSubscriptionTx E (sub_Id cur) plan now e d = Inr (s', d')"
    using app extend by (simp add: applyIntent_def)
  from extend_shape [OF this] obtain s where e: "plans d' = plans d" "first_where (\<lambda>s. sub_Id s = sub_Id cur) (subs d) = Some s"
    "sub_UserId s' = sub_UserId s" "sub_Id s' = sub_Id cur" "subs d' = save_row sub_Id s' (subs d)" by auto
  have "s = cur" using e(2) running_sub(1) [OF extend(3)] sub_rows.by_key_iff [OF wf] by (metis (full_types) option.inject)
  then have "sub_UserId s' = u" using e(3) running_sub(2) [OF extend(3)] by simp
  moreover have "x = s' \<or> x \<in> set (rows (subs d)) \<and> sub_Id x \<noteq> sub_Id cur"
    using set_save_row [OF running_sub(1) [OF run, unfolded e(5)]] e(4) by simp
  moreover have "x \<in> set (rows (subs d)) \<Longrightarrow> runningPackage v now d x p" using running_moved [OF run _ e(1)] .
  ultimately show ?thesis
    using single extend(3) running_sub(2) [OF run] unfolding now single_package_def by metis
next
  case (upgrade cur cp)
  have le: "sub_Id cur \<le> seq (subs d)" using running_sub(1) [OF upgrade(3)] wf by (auto simp: wf_table_def)
  note n = new_shape [OF app, unfolded upgrade, simplified, OF _ le]
  have "x = s' \<or> (x \<in> set (rows (subs d)) \<and> sub_Id x \<noteq> sub_Id cur) \<or> sub_Status x = UserSubscriptionStatusCovered"
    and "sub_UserId s' = u" and e: "plans d' = plans d"
    using n running_sub(1) [OF run] by (auto simp: action_defs mark_covered_def)
  then have m: "x = s' \<or> x \<in> set (rows (subs d)) \<and> sub_Id x \<noteq> sub_Id cur"
    using running_sub(3) [OF run] by (auto simp: const_defs)
  moreover have "x \<in> set (rows (subs d)) \<Longrightarrow> runningPackage v now d x p" using running_moved [OF run _ e] .
  ultimately show ?thesis
    using single upgrade(3) running_sub(2) [OF run] \<open>sub_UserId s' = u\<close> unfolding now single_package_def by metis
qed

lemma purchase_single:
  assumes "wf_table sub_Id (subs d)" "single_package (getDBTimestampTx E) d"
    "checkValuePackagePurchaseIntentTx E u plan c d = Inr intent"
    "applyIntent E u plan source intent (getDBTimestampTx E) e d = Inr (s', d1)" "subs d' = subs d1" "plans d' = plans d1"
  shows "single_package (getDBTimestampTx E) d'"
  using assms(2) purchase_running [OF assms(1-3) refl assms(4)] unfolding single_package_def running_cong [OF assms(5,6)]
  by metis

section \<open>Completing an order\<close>

lemma applyIntent_keeps:
  assumes "applyIntent E u plan source intent now e d = Inr (s', d')"
  shows "plans d' = plans d \<and> orders d' = orders d"
proof (cases "intent_Action intent = ValuePackagePurchaseActionExtend")
  case True
  then obtain i where "extendValuePackageSubscriptionTx E i plan now e d = Inr (s', d')"
    using assms by (auto simp: applyIntent_def split: option.splits)
  then show ?thesis using extend_shape by blast
next
  case False
  then show ?thesis
    using assms by (auto simp: applyIntent_def Let_def coverSub_def setCoveredBy_def createSub_def
        split: if_splits option.splits)
qed

lemma complete_package_cases:
  assumes "CompleteValuePackageOrder E tn pl prov m c d = Inr (s, d')"
  obtains (again) o1 where "orderByTradeNo tn d = Some o1" "order_Status o1 = TopUpStatusSuccess" "d' = d"
  | (new) o1 plan intent e d1 o3 where "orderByTradeNo tn d = Some o1" "TrimSpace tn \<noteq> ''''"
      "prov = '''' \<or> order_PaymentProvider o1 = prov"
      "checkValuePackagePurchaseIntentTx E (order_UserId o1) plan c d = Inr intent"
      "applyIntent E (order_UserId o1) plan ''ldxp'' intent (getDBTimestampTx E) e d = Inr (s, d1)"
      "subs d' = subs d1" "plans d' = plans d1" "0 < sub_Id s" "orders d' = save_row order_Id o3 (orders d)"
      "order_Id o3 = order_Id o1" "order_TradeNo o3 = order_TradeNo o1" "order_UserId o3 = order_UserId o1"
      "order_PaymentProvider o3 = order_PaymentProvider o1" "order_Status o3 = TopUpStatusSuccess"
      "order_UserSubscriptionId o3 = sub_Id s"
proof -
  obtain o1 where o1: "orderByTradeNo tn d = Some o1" "TrimSpace tn \<noteq> ''''"
    "prov = '''' \<or> order_PaymentProvider o1 = prov"
    using assms by (auto simp: CompleteValuePackageOrder_def res_simps split: if_splits)
  show thesis
  proof (cases "order_Status o1 = TopUpStatusSuccess")
    case True
    then have "d' = d" using assms o1 by (auto simp: CompleteValuePackageOrder_def res_simps split: if_splits)
    then show thesis by (rule again [OF o1(1) True])
  next
    case False
    then obtain plan intent e d1 d2 t d3 d4 b d5 where
      c: "checkValuePackagePurchaseIntentTx E (order_UserId o1) plan c d = Inr intent"
      "applyIntent E (order_UserId o1) plan ''ldxp'' intent (getDBTimestampTx E) e d = Inr (s, d1)" "0 < sub_Id s"
      and k: "ensureValuePackagePreferenceAfterPurchaseTx E (order_UserId o1) (sub_Id s) plan
          (order_GiftResetCount o1) (giftNoteOrder plan (order_TradeNo o1)) d1 = Inr d2"
      "upsertSubscriptionTopUpTx E (o1\<lparr>order_UserSubscriptionId := sub_Id s,
          order_PaymentMethod := if m \<noteq> '''' then m else order_PaymentMethod o1\<rparr>) d2 = Inr (t, d3)"
      "AddUserValidTopupCentsTx (order_UserId o1) (MoneyToValidTopupCents E (order_Money o1)) d3 = Inr d4"
      "MaybeUpgradeUserToVIPTx (order_UserId o1) (MaybeCreateAffiliateCommissionForTopUpTx E t d4) = Inr (b, d5)"
      and d': "d' = updateOrder (closeOrder E pl (o1\<lparr>order_UserSubscriptionId := sub_Id s,
          order_PaymentMethod := if m \<noteq> '''' then m else order_PaymentMethod o1\<rparr>)) d5"
      using assms o1 by (auto simp: CompleteValuePackageOrder_def res_simps Let_def split: if_splits)
    let ?o = "closeOrder E pl (o1\<lparr>order_UserSubscriptionId := sub_Id s,
          order_PaymentMethod := if m \<noteq> '''' then m else order_PaymentMethod o1\<rparr>)"
    have f: "subs d5 = subs d1" "plans d5 = plans d1" "orders d5 = orders d"
      using keeps(4) [OF k(1)] keeps(3) [OF k(2)] keeps(2) [OF k(3)] keeps(1) [OF k(4)] applyIntent_keeps [OF c(2)]
      by simp_all
    show thesis
      by (rule new [OF o1 c(1,2), where ?o3.0 = ?o]) (use f c(3) in \<open>simp_all add: d' closeOrder_def\<close>)
  qed
qed

lemma find_saved:
  assumes "find P xs = Some r" "distinct (map key xs)" "P r'" "key r' = key r"
  shows "find P (map (\<lambda>x. if key x = key r' then r' else x) xs) = Some r'"
  using assms by (induction xs) (auto split: if_splits simp: find_Some_iff)

lemma first_where_saved:
  assumes "first_where P t = Some r" "wf_table key t" "P r'" "key r' = key r"
  shows "first_where P (save_row key r' t) = Some r'"
  using find_saved [OF assms(1) [unfolded first_where_def] _ assms(3,4)] assms(2)
  by (simp add: first_where_def rows_save_row wf_table_def)

lemma find_unique:
  assumes "distinct (map key xs)" "s \<in> set xs" "P s" "\<And>x. P x \<Longrightarrow> key x = key s"
  shows "find P xs = Some s"
  using assms(1,2)
proof (induction xs)
  case (Cons x xs)
  show ?case
  proof (cases "x = s")
    case False
    then have "s \<in> set xs" using Cons(3) by simp
    then have "key x \<noteq> key s" using Cons(2) by auto
    then have "\<not> P x" using assms(4) by blast
    then show ?thesis using Cons \<open>s \<in> set xs\<close> by simp
  qed (simp add: assms(3))
qed simp

lemma purchased_found:
  assumes wf: "wf_table sub_Id (subs d)"
    and int: "checkValuePackagePurchaseIntentTx E u plan c d = Inr intent"
    and app: "applyIntent E u plan source intent (getDBTimestampTx E) e d = Inr (s', d')"
  shows "first_where (\<lambda>x. sub_Id x = sub_Id s' \<and> sub_UserId x = u) (subs d') = Some s' \<and> wf_table sub_Id (subs d')"
proof -
  have *: "s' \<in> set (rows (subs d')) \<and> sub_UserId s' = u \<and> wf_table sub_Id (subs d')"
  proof (cases "intent_Action intent = ValuePackagePurchaseActionExtend")
    case True
    obtain cur cp where cur: "intent_CurrentSubscription intent = Some cur" "runningPackage u (getDBTimestampTx E) d cur cp"
      by (rule intent_cases [OF int]) (use True in \<open>auto simp: action_defs\<close>)
    then have "extendValuePackageSubscriptionTx E (sub_Id cur) plan (getDBTimestampTx E) e d = Inr (s', d')"
      using app True by (simp add: applyIntent_def)
    from extend_shape [OF this] obtain s where e: "first_where (\<lambda>s. sub_Id s = sub_Id cur) (subs d) = Some s"
      "sub_UserId s' = sub_UserId s" "sub_Id s' = sub_Id cur" "subs d' = save_row sub_Id s' (subs d)" by auto
    have "s = cur" using e(1) running_sub(1) [OF cur(2)] sub_rows.by_key_iff [OF wf] by (metis (full_types) option.inject)
    then show ?thesis using e running_sub(1,2) [OF cur(2)] wf by (auto simp: rows_save_row sub_rows.wf_save)
  next
    case False
    have le: "sub_Id cc \<le> seq (subs d)" if "intent_CurrentSubscription intent = Some cc" for cc
      by (rule intent_cases [OF int]) (use that running_sub(1) wf in \<open>auto simp: wf_table_def\<close>)
    let ?f = "mark_covered E (getDBTimestampTx E) (seq (subs d) + 1)
      (if intent_Action intent = ValuePackagePurchaseActionUpgrade then intent_CurrentSubscription intent else None)"
    have f: "sub_Id (?f x) = sub_Id x" for x by (auto simp: mark_covered_def split: option.split)
    note n = new_shape [OF app False le]
    have "seq (subs d') = seq (subs d) + 1"
      using app False by (auto simp: applyIntent_def Let_def coverSub_def setCoveredBy_def createSub_def split: if_splits option.splits)
    moreover have "sub_Id \<circ> ?f = sub_Id" using f by auto
    ultimately have "wf_table sub_Id (subs d')" using n wf f by (force simp: wf_table_def)
    then show ?thesis using n by simp
  qed
  then show ?thesis unfolding first_where_def by (intro conjI find_unique [where key = sub_Id]) (auto simp: wf_table_def)
qed

section \<open>An example\<close>

definition ex_order :: SubscriptionOrder where
  "ex_order = zero_order\<lparr>order_Id := 1, order_UserId := 5, order_PlanId := 1, order_Money := 10,
     order_TradeNo := ''P1'', order_PaymentProvider := ''ldxp'', order_Status := ''pending''\<rparr>"

text \<open>A shop with one user, one package on sale and one order that waits for its payment.\<close>

definition ex_shop :: db where
  "ex_shop = ex_db\<lparr>subs := empty_table, prefs := empty_table, usages := empty_table, ledgers := empty_table,
     orders := \<lparr>rows = [ex_order], seq = 1\<rparr>\<rparr>"

lemma ex_shop_tables [simp]:
  "plans ex_shop = plans ex_db" "users ex_shop = users ex_db" "subs ex_shop = empty_table"
  "prefs ex_shop = empty_table" "orders ex_shop = \<lparr>rows = [ex_order], seq = 1\<rparr>" "topups ex_shop = empty_table"
  "commissions ex_shop = empty_table"
  by (simp_all add: ex_shop_def)

lemma ex_shop_wf: "wf_table sub_Id (subs ex_shop)" "wf_table order_Id (orders ex_shop)"
  by (simp_all add: wf_table_def empty_table_def ex_order_def)

lemma ex_shop_single: "single_package now ex_shop"
  by (simp add: single_package_def runningPackage_def empty_table_def)

lemma ex_intent:
  "checkValuePackagePurchaseIntentTx ex_env 5 ex_plan c ex_shop =
    Inr \<lparr>intent_Action = ''create'', intent_RequiresConfirmation = False, intent_CurrentSubscription = None,
      intent_CurrentPlan = None, intent_TargetPlan = ex_plan, intent_Message = ''''\<rparr>"
proof -
  have "getHighestActiveValuePackageTx 5 2000 ex_shop = Inr None"
    by (simp add: getHighestActiveValuePackageTx_def getActiveValuePackageSubscriptionsTx_def select_where_def empty_table_def)
  moreover have "validateValuePackagePlanLifecycleLimits ex_plan = Inr ()"
    by (simp add: validateValuePackagePlanLifecycleLimits_def ex_plan_def zero_plan_def const_defs)
  ultimately show ?thesis by (simp add: checkValuePackagePurchaseIntentTx_def action_defs)
qed

lemma ex_end: "calcPlanEndTime (env_TZ ex_env) 2000 ex_plan = Inr 2594000"
  by (simp add: calcPlanEndTime_def ex_plan_def zero_plan_def const_defs time_Add_def ex_env_def
      mul64_def i64_def add64_def nanos_per_hour_def nanos_per_second_def)

lemma ex_apply:
  "\<exists>s d1. applyIntent ex_env 5 ex_plan ''ldxp''
      \<lparr>intent_Action = ''create'', intent_RequiresConfirmation = False, intent_CurrentSubscription = None,
        intent_CurrentPlan = None, intent_TargetPlan = ex_plan, intent_Message = ''''\<rparr> 2000 2594000 ex_shop = Inr (s, d1) \<and>
     sub_Id s = 1 \<and> prefs d1 = empty_table \<and> users d1 = users ex_db \<and> topups d1 = empty_table \<and> commissions d1 = empty_table"
  by (simp add: applyIntent_def action_defs Let_def empty_table_def)

lemma ex_pref_after:
  assumes "prefs d1 = empty_table"
  shows "\<exists>d2. ensureValuePackagePreferenceAfterPurchaseTx ex_env 5 1 p 0 n d1 = Inr d2 \<and> users d2 = users d1 \<and>
    topups d2 = topups d1 \<and> commissions d2 = commissions d1"
  using assms by (simp add: ensureValuePackagePreferenceAfterPurchaseTx_def upsertValuePackagePreferenceTx_def
      ClampSubscriptionPlanGiftResetCount_def upsert_row_def empty_table_def first_where_insert Let_def)
     (simp add: first_where_def new_row_def)

lemma ex_topup_after:
  assumes "topups d2 = empty_table"
  shows "\<exists>t d3. upsertSubscriptionTopUpTx E o1 d2 = Inr (t, d3) \<and> users d3 = users d2 \<and> topup_UserId t = order_UserId o1 \<and>
    commissions d3 = commissions d2"
  using assms by (simp add: upsertSubscriptionTopUpTx_def GetTopUpByTradeNo_def empty_table_def first_where_def
      new_row_def zero_topup_def Let_def)

lemma ex_cents_after:
  assumes "users d3 = users ex_db"
  shows "\<exists>d4 u. AddUserValidTopupCentsTx 5 c d3 = Inr d4 \<and> userById 5 d4 = Some u \<and> user_Role u = 0"
  using assms by (simp add: AddUserValidTopupCentsTx_def affected_def updateUser_def userById_def first_where_def
      liveUser_def update_where_def ex_user_def zero_user_def)

lemma ex_vip_after:
  assumes "userById 5 d4 = Some u" "user_Role u = 0"
  shows "\<exists>b d5. MaybeUpgradeUserToVIPTx 5 (MaybeCreateAffiliateCommissionForTopUpTx E t d4) = Inr (b, d5)"
  using assms by (auto simp: MaybeUpgradeUserToVIPTx_def userById_def isVIPUpgradeableUser_def RoleCommonUser_def)

lemma ex_complete: "\<exists>s d'. CompleteValuePackageOrder ex_env ''P1'' '''' '''' '''' False ex_shop = Inr (s, d')"
proof -
  have o1: "orderByTradeNo ''P1'' ex_shop = Some ex_order" "order_Status ex_order = TopUpStatusPending"
    "TopUpStatusPending \<noteq> TopUpStatusSuccess" "order_UserId ex_order = 5" "order_PlanId ex_order = 1" "order_GiftResetCount ex_order = 0"
    by (simp_all add: orderByTradeNo_def first_where_def ex_order_def const_defs zero_order_def)
  have u: "userById 5 ex_shop = Some ex_user" by (simp add: userById_def first_where_def liveUser_def ex_user_def zero_user_def)
  have pl: "getSubscriptionPlanByIdFreshTx 1 ex_shop = Inr ex_plan" by simp
  have tn: "TrimSpace ''P1'' \<noteq> ''''" by (subst TrimSpace_graphic) (simp_all add: graphic_def)
  obtain s d1 where a: "applyIntent ex_env 5 ex_plan ''ldxp''
      \<lparr>intent_Action = ''create'', intent_RequiresConfirmation = False, intent_CurrentSubscription = None,
        intent_CurrentPlan = None, intent_TargetPlan = ex_plan, intent_Message = ''''\<rparr> 2000 2594000 ex_shop = Inr (s, d1)"
     "sub_Id s = 1" "prefs d1 = empty_table" "users d1 = users ex_db" "topups d1 = empty_table"
    using ex_apply by blast
  obtain d2 where d2: "ensureValuePackagePreferenceAfterPurchaseTx ex_env 5 1 ex_plan 0 (giftNoteOrder ex_plan (order_TradeNo ex_order)) d1 = Inr d2"
    "users d2 = users ex_db" "topups d2 = empty_table" using ex_pref_after [OF a(3)] a(4,5) by metis
  let ?o = "ex_order\<lparr>order_UserSubscriptionId := sub_Id s, order_PaymentMethod := order_PaymentMethod ex_order\<rparr>"
  obtain t d3 where d3: "upsertSubscriptionTopUpTx ex_env ?o d2 = Inr (t, d3)" "users d3 = users ex_db"
    using ex_topup_after [OF d2(3)] d2(2) by metis
  obtain d4 v where d4: "AddUserValidTopupCentsTx 5 (MoneyToValidTopupCents ex_env (order_Money ex_order)) d3 = Inr d4"
    "userById 5 d4 = Some v" "user_Role v = 0" using ex_cents_after [OF d3(2)] by blast
  obtain b d5 where "MaybeUpgradeUserToVIPTx 5 (MaybeCreateAffiliateCommissionForTopUpTx ex_env t d4) = Inr (b, d5)"
    using ex_vip_after [OF d4(2,3)] by blast
  then show ?thesis
    using o1 u pl tn a(1,2) d2(1) d3(1) d4(1) by (simp add: CompleteValuePackageOrder_def ex_intent ex_end)
qed

section \<open>Properties\<close>

text \<open>C21. A user never has two running packages: a purchase that succeeds, by an order or by the
  direct path, keeps the rule, whether it creates, extends or upgrades; and the rule only gets
  easier as time passes.\<close>

theorem one_running_package:
  assumes "wf_table sub_Id (subs d)" and "single_package (getDBTimestampTx E) d"
    and "CreateValuePackageSubscriptionFromPlanTx E userId plan source d = Inr (s, d') \<or>
      CompleteValuePackageOrder E tradeNo payload provider pmethod confirmed d = Inr (s, d')"
    and "getDBTimestampTx E \<le> later"
  shows "single_package later d'"
proof -
  have "single_package (getDBTimestampTx E) d'" using assms(3)
  proof
    assume c: "CreateValuePackageSubscriptionFromPlanTx E userId plan source d = Inr (s, d')"
    then obtain p intent e d1 where "checkValuePackagePurchaseIntentTx E userId p True d = Inr intent"
      "applyIntent E userId p source intent (getDBTimestampTx E) e d = Inr (s, d1)"
      and k: "ensureValuePackagePreferenceAfterPurchaseTx E userId (sub_Id s) p
        (ClampSubscriptionPlanGiftResetCount (plan_GiftResetCount p)) (giftNoteSource p source) d1 = Inr d'"
      by (auto simp: CreateValuePackageSubscriptionFromPlanTx_def res_simps Let_def split: if_splits)
    with preference_keeps [OF k] show ?thesis using purchase_single [OF assms(1,2)] by blast
  next
    assume "CompleteValuePackageOrder E tradeNo payload provider pmethod confirmed d = Inr (s, d')"
    then show ?thesis
      by (rule complete_package_cases) (use assms(2) purchase_single [OF assms(1,2)] in blast)+
  qed
  then show ?thesis using assms(4) by (rule single_package_later)
qed

theorem one_running_package_witness:
  "\<exists>s d'. CompleteValuePackageOrder ex_env ''P1'' '''' '''' '''' False ex_shop = Inr (s, d') \<and> single_package 3000 d'"
proof -
  obtain s d' where c: "CompleteValuePackageOrder ex_env ''P1'' '''' '''' '''' False ex_shop = Inr (s, d')"
    using ex_complete by blast
  have "single_package 3000 d'"
    by (rule one_running_package [OF ex_shop_wf(1) ex_shop_single disjI2 [OF c]]) simp
  with c show ?thesis by blast
qed

text \<open>C22. Completing a package order is idempotent: a provider that reports the payment again,
  with whatever payload, payment method and confirmation and at whatever time, gets the same
  subscription and changes nothing.\<close>

theorem package_order_completed_once:
  assumes "wf_table sub_Id (subs d)" and "wf_table order_Id (orders d)"
    and "CompleteValuePackageOrder E tradeNo payload provider pmethod confirmed d = Inr (s, d')"
  shows "CompleteValuePackageOrder E' tradeNo payload' provider pmethod' confirmed' d' = Inr (s, d')"
  using assms(3)
proof (cases rule: complete_package_cases)
  case (again o1)
  then show ?thesis using assms(3) by (auto simp: CompleteValuePackageOrder_def res_simps split: if_splits)
next
  case (new o1 plan intent e d1 o3)
  have "orderByTradeNo tradeNo d' = Some o3"
    unfolding orderByTradeNo_def new(9)
    using new(1) first_where_Some [OF new(1) [unfolded orderByTradeNo_def]]
    by (intro first_where_saved [OF _ assms(2), of _ o1]) (auto simp: orderByTradeNo_def new)
  moreover have "first_where (\<lambda>x. sub_Id x = sub_Id s \<and> sub_UserId x = order_UserId o1) (subs d') = Some s"
    unfolding new(6) using purchased_found [OF assms(1) new(4,5)] by blast
  ultimately show ?thesis using new by (auto simp: CompleteValuePackageOrder_def)
qed

theorem package_order_completed_once_witness:
  "\<exists>s d'. CompleteValuePackageOrder ex_env ''P1'' '''' '''' '''' False ex_shop = Inr (s, d') \<and>
     CompleteValuePackageOrder ex_env ''P1'' ''again'' '''' ''alipay'' True d' = Inr (s, d')"
proof -
  obtain s d' where c: "CompleteValuePackageOrder ex_env ''P1'' '''' '''' '''' False ex_shop = Inr (s, d')"
    using ex_complete by blast
  with package_order_completed_once [OF ex_shop_wf c] show ?thesis by blast
qed

lemma normalize_kept [simp]:
  "plan_Id (normalizeValuePackagePlan p) = plan_Id p" "plan_TotalAmount (normalizeValuePackagePlan p) = plan_TotalAmount p"
  "plan_PriceAmount (normalizeValuePackagePlan p) = plan_PriceAmount p"
  "plan_UpgradeGroup (normalizeValuePackagePlan p) = plan_UpgradeGroup p"
  by (simp_all add: normalizeValuePackagePlan_def normalizeValuePackageFixedDurationFields_def Let_def)

definition groupOf :: "int \<Rightarrow> db \<Rightarrow> string" where
  "groupOf u d = (case userById u d of None \<Rightarrow> '''' | Some v \<Rightarrow> user_Group v)"

lemma raiseGroup_shape:
  assumes "raiseGroup u g d = Inr (pg, d1)"
  shows "subs d1 = subs d \<and> plans d1 = plans d \<and> orders d1 = orders d \<and> topups d1 = topups d"
    and "pg = (if g = '''' \<or> groupOf u d = g then '''' else groupOf u d)"
    and "userById i d1 = map_option (\<lambda>v. if i = u \<and> g \<noteq> '''' then v\<lparr>user_Group := g\<rparr> else v) (userById i d)"
proof -
  have c: "(pg, d1) = (if g = '''' \<or> groupOf u d = g then ('''', d) else (groupOf u d, setUserGroup u g d))"
    using assms by (auto simp: raiseGroup_def getUserGroupByIdTx_def groupOf_def res_simps split: if_splits)
  then show "subs d1 = subs d \<and> plans d1 = plans d \<and> orders d1 = orders d \<and> topups d1 = topups d"
    and "pg = (if g = '''' \<or> groupOf u d = g then '''' else groupOf u d)"
    by (auto simp: setUserGroup_def split: if_splits)
  show "userById i d1 = map_option (\<lambda>v. if i = u \<and> g \<noteq> '''' then v\<lparr>user_Group := g\<rparr> else v) (userById i d)"
    using c by (cases "userById i d") (auto simp: setUserGroup_def userById_update groupOf_def split: if_splits)
qed

text \<open>A regular subscription is appended; of the users only the buyer's group may change.\<close>

lemma regularSubscription_fields [simp]:
  "sub_UserId (regularSubscription E u p src now e g) = u" "sub_PlanId (regularSubscription E u p src now e g) = plan_Id p"
  "sub_AmountTotal (regularSubscription E u p src now e g) = plan_TotalAmount p"
  "sub_AmountUsed (regularSubscription E u p src now e g) = 0" "sub_Status (regularSubscription E u p src now e g) = ''active''"
  "sub_UpgradeGroup (regularSubscription E u p src now e g) = TrimSpace (plan_UpgradeGroup p)"
  "sub_PrevUserGroup (regularSubscription E u p src now e g) = g"
  by (simp_all add: regularSubscription_def zero_sub_def Let_def)

lemma create_shape:
  assumes "CreateUserSubscriptionFromPlanTx E u plan src d = Inr (s, d')"
  obtains pg d1 where "raiseGroup u (sub_UpgradeGroup s) d = Inr (pg, d1)" "sub_PrevUserGroup s = pg"
    "rows (subs d') = rows (subs d) @ [s]" "seq (subs d') = seq (subs d) + 1" "sub_Id s = seq (subs d) + 1"
    "sub_UserId s = u" "sub_PlanId s = plan_Id plan" "sub_AmountTotal s = plan_TotalAmount plan" "sub_AmountUsed s = 0"
    "sub_Status s = ''active''" "sub_UpgradeGroup s = TrimSpace (plan_UpgradeGroup plan)"
    "users d' = users d1" "plans d' = plans d" "orders d' = orders d" "topups d' = topups d"
proof -
  let ?s = "regularSubscription E u (normalizeValuePackagePlan plan) src (getDBTimestampTx E)"
  obtain e pg d1 where r: "raiseGroup u (TrimSpace (plan_UpgradeGroup plan)) d = Inr (pg, d1)"
    and s: "s = newSub E (?s e pg) d1" and d': "d' = createSub E (?s e pg) d1"
    using assms by (auto simp: CreateUserSubscriptionFromPlanTx_def res_simps Let_def split: if_splits)
  have g: "sub_UpgradeGroup s = TrimSpace (plan_UpgradeGroup plan)" "sub_PrevUserGroup s = pg"
    unfolding s newSub_def new_row_def by simp_all
  show thesis
    by (rule that [of pg d1]) (use r raiseGroup_shape(1) [OF r] g in \<open>simp_all add: s d' createSub_def newSub_def new_row_def\<close>)
qed

lemma raiseGroup_quota:
  assumes "raiseGroup u g d = Inr (pg, d1)"
  shows "map_option user_Quota (userById i d1) = map_option user_Quota (userById i d)"
  unfolding raiseGroup_shape(3) [OF assms] by (cases "userById i d") simp_all

lemma fresh_id: "getSubscriptionPlanByIdFreshTx i d = Inr p \<Longrightarrow> plan_Id p = i"
  by (auto simp: getSubscriptionPlanByIdFreshTx_def NormalizeDefaults_def normalizeValuePackageFixedDurationFields_def Let_def
      split: if_splits option.splits dest!: first_where_Some)

text \<open>The price of a plan in quota.\<close>

definition planCost :: "env \<Rightarrow> SubscriptionPlan \<Rightarrow> int" where
  "planCost E plan = (if plan_PriceAmount plan \<le> 0 then 0
     else max 0 (env_DecimalCeilMul E (plan_PriceAmount plan) (env_QuotaPerUnit E)))"

lemma balance_steps:
  assumes "PurchaseSubscriptionWithBalance E u k d = Inr d'"
  obtains plan v s d2 where "getSubscriptionPlanByIdFreshTx k d = Inr plan" "userById u d = Some v"
    "planCost E plan = 0 \<or> planCost E plan \<le> user_Quota v"
    "CreateUserSubscriptionFromPlanTx E u plan PaymentMethodBalance
       (if planCost E plan = 0 then d else decreaseUserQuota u (planCost E plan) d) = Inr (s, d2)"
    "\<exists>o1. d' = d2\<lparr>orders := insert_row set_order_Id o1 (orders d2)\<rparr> \<and> order_UserId o1 = u \<and> order_PlanId o1 = k \<and>
       order_Money o1 = plan_PriceAmount plan \<and> order_Status o1 = TopUpStatusSuccess"
proof -
  obtain plan q v where p: "getSubscriptionPlanByIdFreshTx k d = Inr plan"
    and q: "calcSubscriptionBalanceQuota E (plan_PriceAmount plan) = Inr q" and v: "userById u d = Some v"
    and enough: "\<not> (q > 0 \<and> user_Quota v < q)"
    and r: "bind_e (CreateUserSubscriptionFromPlanTx E u plan PaymentMethodBalance
          (if q > 0 then decreaseUserQuota u q d else d))
        (\<lambda>(_, d2). createOrder (balanceOrder E u (normalizeValuePackagePlan plan) q) d2) = Inr d'"
    using assms by (auto simp: PurchaseSubscriptionWithBalance_def bind_e_Inr [of "of_option _ _"]
        bind_e_Inr [of "calcSubscriptionBalanceQuota _ _"] bind_e_Inr [of "getSubscriptionPlanByIdFreshTx _ _"]
        of_option_Inr Let_def simp del: bind_e.simps split: if_splits)
  have c: "planCost E plan = max 0 q" using q by (auto simp: calcSubscriptionBalanceQuota_def planCost_def split: if_splits)
  obtain s d2 where s: "CreateUserSubscriptionFromPlanTx E u plan PaymentMethodBalance
        (if q > 0 then decreaseUserQuota u q d else d) = Inr (s, d2)"
    and o1: "createOrder (balanceOrder E u (normalizeValuePackagePlan plan) q) d2 = Inr d'"
    using r by (auto simp: res_simps)
  have e: "(if q > 0 then decreaseUserQuota u q d else d) =
      (if planCost E plan = 0 then d else decreaseUserQuota u (planCost E plan) d)" using c by auto
  show thesis
    by (rule that [OF p v _ s [unfolded e]])
      (use enough c o1 fresh_id [OF p] in \<open>auto simp: createOrder_def balanceOrder_def Let_def split: if_splits\<close>)
qed

lemma decrease_quota:
  "userById i (decreaseUserQuota u q d) = map_option (\<lambda>v. if i = u then v\<lparr>user_Quota := user_Quota v - q\<rparr> else v) (userById i d)"
  by (simp add: decreaseUserQuota_def userById_update)

text \<open>C23. A purchase with the wallet takes the plan's price in quota, rounded up, from the buyer,
  who has it, and from nobody else; it adds one unused active subscription to the plan and one
  successful order, and nothing else to either table.\<close>

theorem balance_purchase_exact:
  assumes "PurchaseSubscriptionWithBalance E userId planId d = Inr d'"
  shows "\<exists>plan v s o1. getSubscriptionPlanByIdFreshTx planId d = Inr plan \<and> userById userId d = Some v \<and>
    (planCost E plan = 0 \<or> planCost E plan \<le> user_Quota v) \<and>
    (\<forall>i. map_option user_Quota (userById i d') =
       map_option (\<lambda>v. user_Quota v - (if i = userId then planCost E plan else 0)) (userById i d)) \<and>
    rows (subs d') = rows (subs d) @ [s] \<and> sub_UserId s = userId \<and> sub_PlanId s = planId \<and>
    sub_AmountTotal s = plan_TotalAmount plan \<and> sub_AmountUsed s = 0 \<and> sub_Status s = UserSubscriptionStatusActive \<and>
    rows (orders d') = rows (orders d) @ [o1] \<and> order_UserId o1 = userId \<and> order_PlanId o1 = planId \<and>
    order_Money o1 = plan_PriceAmount plan \<and> order_Status o1 = TopUpStatusSuccess"
  using assms
proof (rule balance_steps)
  fix plan v s d2
  let ?d = "if planCost E plan = 0 then d else decreaseUserQuota userId (planCost E plan) d"
  assume p: "getSubscriptionPlanByIdFreshTx planId d = Inr plan" and v: "userById userId d = Some v"
    and c: "planCost E plan = 0 \<or> planCost E plan \<le> user_Quota v"
    and cr: "CreateUserSubscriptionFromPlanTx E userId plan PaymentMethodBalance ?d = Inr (s, d2)"
    and "\<exists>o1. d' = d2\<lparr>orders := insert_row set_order_Id o1 (orders d2)\<rparr> \<and> order_UserId o1 = userId \<and>
       order_PlanId o1 = planId \<and> order_Money o1 = plan_PriceAmount plan \<and> order_Status o1 = TopUpStatusSuccess"
  then obtain o1 where o1: "d' = d2\<lparr>orders := insert_row set_order_Id o1 (orders d2)\<rparr>" "order_UserId o1 = userId"
    "order_PlanId o1 = planId" "order_Money o1 = plan_PriceAmount plan" "order_Status o1 = TopUpStatusSuccess" by blast
  obtain pg d1 where d1: "raiseGroup userId (sub_UpgradeGroup s) ?d = Inr (pg, d1)" "users d2 = users d1"
    and s: "rows (subs d2) = rows (subs ?d) @ [s]" "sub_UserId s = userId" "sub_PlanId s = plan_Id plan"
      "sub_AmountTotal s = plan_TotalAmount plan" "sub_AmountUsed s = 0" "sub_Status s = ''active''" "orders d2 = orders ?d"
    using cr by (rule create_shape)
  have same: "subs ?d = subs d" "orders ?d = orders d" by (simp_all add: decreaseUserQuota_def)
  have "map_option user_Quota (userById i d') =
       map_option (\<lambda>v. user_Quota v - (if i = userId then planCost E plan else 0)) (userById i d)" for i
  proof -
    have "map_option user_Quota (userById i d') = map_option user_Quota (userById i d1)"
      using o1(1) d1(2) by (simp add: userById_def)
    also have "\<dots> = map_option user_Quota (userById i ?d)" using raiseGroup_quota [OF d1(1)] .
    also have "\<dots> = map_option (\<lambda>v. user_Quota v - (if i = userId then planCost E plan else 0)) (userById i d)"
      by (cases "userById i d") (auto simp: decrease_quota)
    finally show ?thesis .
  qed
  then show ?thesis using p v c s o1 same fresh_id [OF p]
    by (intro exI [of _ plan] exI [of _ v] exI [of _ s] exI [of _ "new_row set_order_Id o1 (orders d2)"])
      (simp add: new_row_def const_defs)
qed

definition ex_regular :: SubscriptionPlan where
  "ex_regular = zero_plan\<lparr>plan_Id := 2, plan_Title := ''basic'', plan_Enabled := True, plan_Currency := ''USD'',
     plan_PriceAmount := 1 / 1000, plan_PlanKind := ''subscription'', plan_ConcurrencyLimit := 1, plan_TotalAmount := 300,
     plan_DurationUnit := ''day'', plan_DurationValue := 30, plan_AllowBalancePay := Some True, plan_UpgradeGroup := ''pro''\<rparr>"

definition ex_shop2 :: db where
  "ex_shop2 = ex_shop\<lparr>plans := \<lparr>rows = [ex_plan, ex_regular], seq = 2\<rparr>\<rparr>"

lemma ex_regular_normal [simp]:
  "\<not> IsValuePackage ex_regular" "NormalizeDefaults ex_regular = ex_regular" "normalizeValuePackagePlan ex_regular = ex_regular"
proof -
  show vp: "\<not> IsValuePackage ex_regular" by (simp add: IsValuePackage_def ex_regular_def const_defs)
  have f: "normalizeValuePackageFixedDurationFields ex_regular = ex_regular"
    by (simp add: normalizeValuePackageFixedDurationFields_def vp)
  show "NormalizeDefaults ex_regular = ex_regular"
    by (rule NormalizeDefaults_id) (simp add: defaults_normal_def vp f, simp add: ex_regular_def ex_bool_eq)
  show "normalizeValuePackagePlan ex_regular = ex_regular"
    by (rule normalizeValuePackagePlan_id)
       (simp add: package_normal_def f, simp add: ex_regular_def zero_plan_def packageTypeLevel_def const_defs)
qed

lemma ex_balance: "\<exists>d'. PurchaseSubscriptionWithBalance ex_env 5 2 ex_shop2 = Inr d'"
proof -
  have p: "getSubscriptionPlanByIdFreshTx 2 ex_shop2 = Inr ex_regular"
    by (simp add: getSubscriptionPlanByIdFreshTx_def ex_shop2_def first_where_def)
      (simp add: ex_regular_def ex_plan_def)
  have u: "userById 5 ex_shop2 = Some ex_user"
    by (simp add: ex_shop2_def userById_def first_where_def liveUser_def ex_user_def zero_user_def)
  have f: "plan_Enabled ex_regular" "\<not> plan_PriceAmount ex_regular < 0" "plan_AllowBalancePay ex_regular = Some True"
    "plan_Id ex_regular = 2" "plan_MaxPurchasePerUser ex_regular = 0" "plan_UpgradeGroup ex_regular = ''pro''"
    by (simp_all add: ex_regular_def zero_plan_def)
  have q: "calcSubscriptionBalanceQuota ex_env (plan_PriceAmount ex_regular) = Inr 500"
    by (simp add: calcSubscriptionBalanceQuota_def ex_env_def ex_regular_def)
  have e: "calcPlanEndTime (env_TZ ex_env) 2000 ex_regular = Inr 2594000"
    by (simp add: calcPlanEndTime_def ex_regular_def zero_plan_def const_defs time_Add_def ex_env_def
        mul64_def i64_def add64_def nanos_per_hour_def nanos_per_second_def)
  have g: "raiseGroup 5 ''pro'' d = Inr (groupOf 5 d, setUserGroup 5 ''pro'' d)" if "groupOf 5 d = ''''" for d
    using that by (simp add: raiseGroup_def getUserGroupByIdTx_def groupOf_def)
  have g5: "groupOf 5 (decreaseUserQuota 5 500 ex_shop2) = ''''"
    by (simp add: groupOf_def decrease_quota u) (simp add: ex_user_def zero_user_def)
  have t: "TrimSpace ''pro'' = ''pro''" by (rule TrimSpace_graphic) (simp_all add: graphic_def)
  have o1: "orders (createSub ex_env s (setUserGroup 5 g (decreaseUserQuota 5 500 ex_shop2))) = orders ex_shop" for s g
    by (simp add: createSub_def setUserGroup_def decreaseUserQuota_def ex_shop2_def)
  have tn: "order_TradeNo ex_order \<noteq> order_TradeNo (balanceOrder ex_env 5 ex_regular 500)"
    by (simp add: ex_order_def balanceOrder_def Let_def)
  show ?thesis
    using p u f q e g5 t o1 tn
    by (simp add: PurchaseSubscriptionWithBalance_def CreateUserSubscriptionFromPlanTx_def g createOrder_def ex_user_def Let_def)
qed

theorem balance_purchase_exact_witness:
  "\<exists>d'. PurchaseSubscriptionWithBalance ex_env 5 2 ex_shop2 = Inr d' \<and> (\<exists>s. rows (subs d') = rows (subs ex_shop2) @ [s])"
proof -
  obtain d' where c: "PurchaseSubscriptionWithBalance ex_env 5 2 ex_shop2 = Inr d'" using ex_balance by blast
  with balance_purchase_exact [OF c] show ?thesis by blast
qed

end
