(* ===== verification/Maintenance.thy ===== *)
theory Maintenance
  imports Purchase_Laws
begin

text \<open>
  Ending subscriptions (\<open>src/model/subscription.go\<close>): an administrator invalidates or deletes
  one, and the background task expires those that are due; each gives the user's previous
  group back when no other subscription holds the upgraded one. Go goes through the users of
  a batch in the unspecified order of a map: the order is the parameter \<open>perm\<close>.
\<close>

definition backMessage :: "string \<Rightarrow> string" where
  "backMessage g = (if g = '''' then '''' else
     utf8 [231,148,168,230,136,183,229,136,134,231,187,132,229,176,134,229,155,158,233,128,128,229,136,176,32] @ g)"

definition AdminInvalidateUserSubscription :: "env \<Rightarrow> int \<Rightarrow> db \<Rightarrow> merr + string \<times> db" where
  "AdminInvalidateUserSubscription E i d =
     (if i \<le> 0 then Inl (QuotaE ErrInvalidUserSubscriptionId)
      else let now = GetTimestamp E in
        bind_e (of_option ErrRecordNotFound (first_where (\<lambda>s. sub_Id s = i) (subs d))) (\<lambda>s.
          let d1 = d\<lparr>subs := update_where (\<lambda>x. sub_Id x = i)
                (\<lambda>x. x\<lparr>sub_Status := ''cancelled'', sub_EndTime := now, sub_UpdatedAt := now\<rparr>) (subs d)\<rparr>
          in bind_e (downgradeUserGroupForSubscriptionTx s now d1) (\<lambda>(target, d2).
            Inr (backMessage target, d2))))"

definition AdminDeleteUserSubscription :: "env \<Rightarrow> int \<Rightarrow> db \<Rightarrow> merr + string \<times> db" where
  "AdminDeleteUserSubscription E i d =
     (if i \<le> 0 then Inl (QuotaE ErrInvalidUserSubscriptionId)
      else let now = GetTimestamp E in
        bind_e (of_option ErrRecordNotFound (first_where (\<lambda>s. sub_Id s = i) (subs d))) (\<lambda>s.
          bind_e (downgradeUserGroupForSubscriptionTx s now d) (\<lambda>(target, d1).
            Inr (backMessage target, d1\<lparr>subs := delete_where (\<lambda>x. sub_Id x = i) (subs d1)\<rparr>))))"

definition dueSub :: "int \<Rightarrow> UserSubscription \<Rightarrow> bool" where
  "dueSub now s \<longleftrightarrow> sub_Status s = ''active'' \<and> sub_EndTime s > 0 \<and> sub_EndTime s \<le> now"

definition expiredSub :: "env \<Rightarrow> UserSubscription \<Rightarrow> UserSubscription" where
  "expiredSub E s = s\<lparr>sub_Status := ''expired'', sub_UpdatedAt := GetTimestamp E\<rparr>"

definition expireUser :: "env \<Rightarrow> int \<Rightarrow> int \<Rightarrow> db \<Rightarrow> merr + int \<times> db" where
  "expireUser E now userId d =
     (let due = (\<lambda>s. sub_UserId s = userId \<and> dueSub now s);
          n = affected due (subs d);
          d1 = d\<lparr>subs := update_where due (expiredSub E) (subs d)\<rparr>
      in if list_ex (\<lambda>s. sub_UserId s = userId \<and> sub_Status s = ''active'' \<and> sub_EndTime s > now \<and>
              sub_UpgradeGroup s \<noteq> '''') (rows (subs d1))
         then Inr (n, d1)
         else case sort_key (\<lambda>s. (- sub_EndTime s, - sub_Id s))
                (select_where (\<lambda>s. sub_UserId s = userId \<and> sub_Status s = ''expired'' \<and> sub_UpgradeGroup s \<noteq> '''')
                  (subs d1)) of
           [] \<Rightarrow> Inr (n, d1)
         | lastExpired # _ \<Rightarrow>
             let upgradeGroup = TrimSpace (sub_UpgradeGroup lastExpired);
                 prevGroup = TrimSpace (sub_PrevUserGroup lastExpired)
             in if upgradeGroup = '''' \<or> prevGroup = '''' then Inr (n, d1)
                else bind_e (getUserGroupByIdTx userId d1) (\<lambda>currentGroup.
                  if currentGroup \<noteq> upgradeGroup \<or> currentGroup = prevGroup then Inr (n, d1)
                  else Inr (n, setUserGroup userId prevGroup d1)))"

fun expireUsers :: "env \<Rightarrow> int \<Rightarrow> int list \<Rightarrow> int \<Rightarrow> db \<Rightarrow> (merr + int) \<times> db" where
  "expireUsers E now [] count d = (Inr count, d)"
| "expireUsers E now (u # us) count d =
     (case expireUser E now u d of
        Inl e \<Rightarrow> (Inl e, d)
      | Inr (n, d1) \<Rightarrow> expireUsers E now us (count + n) d1)"

definition ExpireDueSubscriptions ::
  "env \<Rightarrow> (int list \<Rightarrow> int list) \<Rightarrow> int \<Rightarrow> db \<Rightarrow> (merr + int) \<times> db" where
  "ExpireDueSubscriptions E perm limit d =
     (let limit' = (if limit \<le> 0 then 200 else limit);
          now = getDBTimestampTx E;
          ss = take (nat limit') (sort_key (\<lambda>s. (sub_EndTime s, sub_Id s)) (select_where (dueSub now) (subs d)))
      in if ss = [] then (Inr 0, d)
         else expireUsers E now (perm (remdups (map sub_UserId (filter (\<lambda>s. sub_UserId s > 0) ss)))) 0 d)"

section \<open>Expiring\<close>

lemma expireUser_shape:
  assumes "0 < u"
  obtains d1 where "expireUser E now u d = Inr (affected (\<lambda>s. sub_UserId s = u \<and> dueSub now s) (subs d), d1)"
    "subs d1 = update_where (\<lambda>s. sub_UserId s = u \<and> dueSub now s) (expiredSub E) (subs d)"
proof -
  let ?due = "\<lambda>s. sub_UserId s = u \<and> dueSub now s"
  have "\<exists>d1. expireUser E now u d = Inr (affected ?due (subs d), d1) \<and> subs d1 = update_where ?due (expiredSub E) (subs d)"
    using assms by (simp add: expireUser_def Let_def getUserGroupByIdTx_def setUserGroup_def split: list.split)
  then show thesis using that by blast
qed

lemma expired_not_due [simp]: "\<not> dueSub now (expiredSub E s)" "sub_UserId (expiredSub E s) = sub_UserId s"
  by (simp_all add: dueSub_def expiredSub_def)

lemma expireUsers_spec:
  assumes "distinct us" "\<forall>u \<in> set us. 0 < u"
  shows "\<exists>d'. expireUsers E now us n d =
      (Inr (n + affected (\<lambda>s. sub_UserId s \<in> set us \<and> dueSub now s) (subs d)), d') \<and>
    subs d' = update_where (\<lambda>s. sub_UserId s \<in> set us \<and> dueSub now s) (expiredSub E) (subs d)"
  using assms
proof (induction us arbitrary: n d)
  case Nil
  then show ?case by (simp add: affected_def update_where_def)
next
  case (Cons u us)
  let ?P = "\<lambda>v s. sub_UserId s = v \<and> dueSub now s" and ?Q = "\<lambda>s. sub_UserId s \<in> set us \<and> dueSub now s"
  obtain d1 where d1: "expireUser E now u d = Inr (affected (?P u) (subs d), d1)"
    "subs d1 = update_where (?P u) (expiredSub E) (subs d)" using Cons(3) by (auto intro: expireUser_shape)
  obtain d' where d': "expireUsers E now us (n + affected (?P u) (subs d)) d1 =
      (Inr (n + affected (?P u) (subs d) + affected ?Q (subs d1)), d')"
    "subs d' = update_where ?Q (expiredSub E) (subs d1)" using Cons by force
  have u: "u \<notin> set us" using Cons(2) by simp
  have rows: "map (\<lambda>s. if ?Q s then expiredSub E s else s) (map (\<lambda>s. if ?P u s then expiredSub E s else s) xs) =
      map (\<lambda>s. if (sub_UserId s = u \<or> sub_UserId s \<in> set us) \<and> dueSub now s then expiredSub E s else s) xs" for xs
    using u by (induction xs) auto
  have len: "length (filter (?P u) xs) + length (filter ?Q (map (\<lambda>s. if ?P u s then expiredSub E s else s) xs)) =
      length (filter (\<lambda>s. (sub_UserId s = u \<or> sub_UserId s \<in> set us) \<and> dueSub now s) xs)" for xs
    using u by (induction xs) auto
  have "affected (?P u) (subs d) + affected ?Q (subs d1) =
      affected (\<lambda>s. (sub_UserId s = u \<or> sub_UserId s \<in> set us) \<and> dueSub now s) (subs d)"
    using len [of "rows (subs d)"] by (simp add: affected_def d1(2))
  moreover have "subs d' = update_where (\<lambda>s. (sub_UserId s = u \<or> sub_UserId s \<in> set us) \<and> dueSub now s) (expiredSub E) (subs d)"
    using rows by (simp add: d1(2) d'(2) update_where_def)
  ultimately show ?case using d1(1) d'(1) by simp
qed



section \<open>Groups\<close>


lemma invalidate_succeeds:
  assumes "first_where (\<lambda>x. sub_Id x = i) (subs d) = Some s" "0 < i" "0 < sub_UserId s"
  shows "\<exists>msg d2. AdminInvalidateUserSubscription E i d = Inr (msg, d2)"
  using assms by (simp add: AdminInvalidateUserSubscription_def downgradeUserGroupForSubscriptionTx_def getUserGroupByIdTx_def Let_def)

definition ex_shop3 :: db where
  "ex_shop3 = ex_shop2\<lparr>users := \<lparr>rows = [ex_user\<lparr>user_Group := ''default''\<rparr>], seq = 5\<rparr>\<rparr>"

lemma ex_bind:
  "\<exists>s d1 msg d2. CreateUserSubscriptionFromPlanTx ex_env 5 ex_regular ''admin'' ex_shop3 = Inr (s, d1) \<and>
     AdminInvalidateUserSubscription ex_env (sub_Id s) d1 = Inr (msg, d2)"
proof -
  have f: "plan_Id ex_regular = 2" "plan_MaxPurchasePerUser ex_regular = 0" "plan_UpgradeGroup ex_regular = ''pro''"
    by (simp_all add: ex_regular_def zero_plan_def)
  have e: "calcPlanEndTime (env_TZ ex_env) 2000 ex_regular = Inr 2594000"
    by (simp add: calcPlanEndTime_def ex_regular_def zero_plan_def const_defs time_Add_def ex_env_def
        mul64_def i64_def add64_def nanos_per_hour_def nanos_per_second_def)
  have t: "TrimSpace ''pro'' = ''pro''" by (rule TrimSpace_graphic) (simp_all add: graphic_def)
  have g: "\<exists>x. raiseGroup 5 ''pro'' ex_shop3 = Inr x" by (simp add: raiseGroup_def getUserGroupByIdTx_def)
  then obtain s d1 where c: "CreateUserSubscriptionFromPlanTx ex_env 5 ex_regular ''admin'' ex_shop3 = Inr (s, d1)"
    using f e t by (auto simp: CreateUserSubscriptionFromPlanTx_def Let_def)
  have z: "subs ex_shop3 = empty_table" by (simp add: ex_shop3_def ex_shop2_def)
  from c have "rows (subs d1) = [s] \<and> sub_Id s = 1 \<and> sub_UserId s = 5"
    by (rule create_shape) (simp add: z empty_table_def)
  then have "first_where (\<lambda>x. sub_Id x = sub_Id s) (subs d1) = Some s" "0 < sub_Id s" "0 < sub_UserId s"
    by (simp_all add: first_where_def)
  from invalidate_succeeds [OF this, of ex_env] c show ?thesis by blast
qed


end
