(* ===== verification/Redemptions.thy ===== *)
theory Redemptions
  imports Purchase
begin

text \<open>
  Redemption codes (\<open>src/model/redemption.go\<close>): what a new code is checked for, redeeming a
  code for quota, a plan or reset cards, and the administration of codes. Soft-deleted codes
  stay in the table with their time of deletion. The generated batch id, which is random, is
  the parameter \<open>genBatch\<close>; the search with a LIKE pattern is not modelled.
\<close>

section \<open>Constants\<close>

definition RedemptionCodeStatusEnabled :: int where "RedemptionCodeStatusEnabled = 1"
definition RedemptionCodeStatusDisabled :: int where "RedemptionCodeStatusDisabled = 2"
definition RedemptionCodeStatusUsed :: int where "RedemptionCodeStatusUsed = 3"

definition RedemptionTypeQuota :: string where "RedemptionTypeQuota = ''quota''"
definition RedemptionTypeSubscription :: string where "RedemptionTypeSubscription = ''subscription''"
definition RedemptionTypeResetCard :: string where "RedemptionTypeResetCard = ''reset_card''"

definition MaxRedemptionResetCardCount :: int where "MaxRedemptionResetCardCount = 100"

definition RedemptionKindLegacy :: string where "RedemptionKindLegacy = ''legacy''"
definition RedemptionKindPaidTopUp :: string where "RedemptionKindPaidTopUp = ''paid_topup''"
definition RedemptionKindPromoCredit :: string where "RedemptionKindPromoCredit = ''promo_credit''"
definition RedemptionKindCoupon :: string where "RedemptionKindCoupon = ''coupon''"

definition RedemptionSourceManual :: string where "RedemptionSourceManual = ''manual''"
definition RedemptionSourceLDXP :: string where "RedemptionSourceLDXP = ''ldxp''"
definition RedemptionSourcePromo :: string where "RedemptionSourcePromo = ''promo''"

definition PaymentProviderRedemptionCode :: string where "PaymentProviderRedemptionCode = ''redemption_code''"

lemmas red_const_defs = RedemptionCodeStatusEnabled_def RedemptionCodeStatusDisabled_def
  RedemptionCodeStatusUsed_def RedemptionTypeQuota_def RedemptionTypeSubscription_def
  RedemptionTypeResetCard_def RedemptionKindLegacy_def RedemptionKindPaidTopUp_def
  RedemptionKindPromoCredit_def RedemptionKindCoupon_def RedemptionSourceManual_def
  RedemptionSourceLDXP_def RedemptionSourcePromo_def MaxRedemptionResetCardCount_def

section \<open>Reading codes\<close>

text \<open>\<open>strconv.Atoi\<close>: an optional sign and decimal digits, in the range of an \<open>int\<close>.\<close>

fun digitsValue :: "string \<Rightarrow> int \<Rightarrow> int option" where
  "digitsValue [] acc = Some acc"
| "digitsValue (c # cs) acc =
     (let n = (of_char c :: int) - 48 in
      if 0 \<le> n \<and> n \<le> 9 then digitsValue cs (acc * 10 + n) else None)"

definition Atoi :: "string \<Rightarrow> int option" where
  "Atoi s =
     (let neg = (s \<noteq> [] \<and> hd s = CHR ''-'');
          ds = (if s \<noteq> [] \<and> hd s \<in> {CHR ''-'', CHR ''+''} then tl s else s)
      in if ds = [] then None
         else case digitsValue ds 0 of None \<Rightarrow> None
         | Some n \<Rightarrow> let v = (if neg then - n else n) in if in_i64 v then Some v else None)"

text \<open>\<open>strings.Split(s, ",")\<close>\<close>

fun splitComma :: "string \<Rightarrow> string list" where
  "splitComma [] = [[]]"
| "splitComma (c # cs) =
     (if c = CHR '','' then [] # splitComma cs
      else case splitComma cs of [] \<Rightarrow> [[c]] | w # ws \<Rightarrow> (c # w) # ws)"

definition statusCondition :: "int \<Rightarrow> string \<Rightarrow> (Redemption \<Rightarrow> bool) option" where
  "statusCondition now v =
     (let v' = TrimSpace v in
      if v' = '''' then None
      else if v' = ''expired'' then Some (\<lambda>r. red_Status r = RedemptionCodeStatusEnabled \<and>
             red_ExpiredTime r \<noteq> 0 \<and> red_ExpiredTime r < now)
      else if v' = ''1'' then Some (\<lambda>r. red_Status r = RedemptionCodeStatusEnabled \<and>
             (red_ExpiredTime r = 0 \<or> red_ExpiredTime r \<ge> now))
      else map_option (\<lambda>st r. red_Status r = st) (Atoi v'))"

definition applyRedemptionStatusFilter :: "env \<Rightarrow> string \<Rightarrow> Redemption \<Rightarrow> bool" where
  "applyRedemptionStatusFilter E statusFilter r =
     (let conditions = List.map_filter (statusCondition (GetTimestamp E)) (splitComma (TrimSpace statusFilter))
      in conditions = [] \<or> list_ex (\<lambda>c. c r) conditions)"

definition GetAllRedemptions :: "env \<Rightarrow> int \<Rightarrow> int \<Rightarrow> string \<Rightarrow> db \<Rightarrow> Redemption list \<times> int" where
  "GetAllRedemptions E startIdx num statusFilter d =
     (let found = select_where (\<lambda>r. red_DeletedAt r = None \<and> applyRedemptionStatusFilter E statusFilter r) (redemptions d)
      in (page num startIdx (rev (sort_key red_Id found)), int (length found)))"

definition GetRedemptionById :: "int \<Rightarrow> db \<Rightarrow> merr + Redemption" where
  "GetRedemptionById i d =
     (if i = 0 then Inl (RedE ErrIdEmpty)
      else of_option ErrRecordNotFound (first_where (\<lambda>r. red_Id r = i \<and> red_DeletedAt r = None) (redemptions d)))"

definition GetRedemptionsByBatchId :: "string \<Rightarrow> db \<Rightarrow> merr + Redemption list" where
  "GetRedemptionsByBatchId batchId d =
     (let b = TrimSpace batchId in
      if b = '''' then Inl (RedE ErrRedemptionInvalid)
      else Inr (sort_key red_Id (select_where (\<lambda>r. red_BatchId r = b \<and> red_DeletedAt r = None) (redemptions d))))"

section \<open>Creating codes\<close>

definition normalizeRedemptionType :: "string \<Rightarrow> string" where
  "normalizeRedemptionType t =
     (let t' = TrimSpace t in
      if t' = '''' \<or> t' = RedemptionTypeQuota then RedemptionTypeQuota
      else if t' = RedemptionTypeSubscription then RedemptionTypeSubscription
      else if t' = RedemptionTypeResetCard then RedemptionTypeResetCard
      else '''')"

definition promoOnly :: "Redemption \<Rightarrow> Redemption" where
  "promoOnly r = r\<lparr>red_Quota := 0, red_Kind := RedemptionKindPromoCredit, red_Amount := 0, red_Money := 0,
     red_CountAsTopUp := False,
     red_Source := (if TrimSpace (red_Source r) = '''' then RedemptionSourcePromo else red_Source r)\<rparr>"

definition validateRedemptionPlanForCreate :: "Redemption \<Rightarrow> db \<Rightarrow> merr + Redemption" where
  "validateRedemptionPlanForCreate r0 d =
     (let r = r0\<lparr>red_Type := normalizeRedemptionType (red_Type r0)\<rparr> in
      if red_Type r = '''' then Inl (RedE ErrRedemptionInvalid)
      else if red_Type r = RedemptionTypeResetCard then
        let r1 = (if red_ResetCardCount r = 0 then r\<lparr>red_ResetCardCount := 1\<rparr> else r) in
        if red_ResetCardCount r1 < 1 \<or> red_ResetCardCount r1 > MaxRedemptionResetCardCount
        then Inl (RedE ErrRedemptionResetCardCountInvalid)
        else Inr (promoOnly (r1\<lparr>red_PlanId := 0\<rparr>))
      else if red_Type r \<noteq> RedemptionTypeSubscription then Inr (r\<lparr>red_ResetCardCount := 0\<rparr>)
      else if red_PlanId r \<le> 0 then Inl (RedE ErrRedemptionInvalid)
      else bind_e (getSubscriptionPlanByIdFreshTx (red_PlanId r) d) (\<lambda>_.
        Inr (promoOnly (r\<lparr>red_ResetCardCount := 0\<rparr>))))"

definition ValidateRedemptionKindForCreate :: "Redemption \<Rightarrow> merr + unit" where
  "ValidateRedemptionKindForCreate r =
     (if red_Kind r = RedemptionKindPaidTopUp then
        (if red_Quota r \<le> 0 \<or> red_Amount r \<le> 0 \<or> red_Money r \<le> 0 \<or> \<not> red_CountAsTopUp r
         then Inl (RedE ErrRedemptionInvalid) else Inr ())
      else if red_Kind r = RedemptionKindPromoCredit then
        (if red_Quota r \<le> 0 \<or> red_Amount r < 0 \<or> red_Money r < 0 \<or> red_CountAsTopUp r
         then Inl (RedE ErrRedemptionInvalid) else Inr ())
      else Inl (RedE ErrRedemptionUnsupportedKind))"

definition NormalizeRedemptionForCreate ::
  "env \<Rightarrow> (string \<Rightarrow> int \<Rightarrow> int \<Rightarrow> string) \<Rightarrow> Redemption \<Rightarrow> db \<Rightarrow> merr + Redemption" where
  "NormalizeRedemptionForCreate E genBatch r0 d =
     bind_e (validateRedemptionPlanForCreate r0 d) (\<lambda>r.
       let batch = (\<lambda>r. if red_BatchId r = ''''
                         then r\<lparr>red_BatchId := genBatch (red_Source r) (red_Amount r) (GetTimestamp E)\<rparr> else r)
       in if red_Type r = RedemptionTypeSubscription \<or> red_Type r = RedemptionTypeResetCard then Inr (batch r)
          else let r1 = r\<lparr>red_Kind := TrimSpace (red_Kind r), red_Source := TrimSpace (red_Source r),
                       red_BatchId := TrimSpace (red_BatchId r)\<rparr>;
                   r2 = (if red_Kind r1 = '''' then r1\<lparr>red_Kind := RedemptionKindPromoCredit\<rparr> else r1);
                   r3 = (if red_Source r2 = '''' then r2\<lparr>red_Source :=
                           if red_Kind r2 = RedemptionKindPaidTopUp then RedemptionSourceLDXP else RedemptionSourcePromo\<rparr>
                         else r2);
                   r4 = batch r3
               in bind_e (ValidateRedemptionKindForCreate r4) (\<lambda>_. Inr r4))"

definition ValidateRedemptionForCreate ::
  "env \<Rightarrow> (string \<Rightarrow> int \<Rightarrow> int \<Rightarrow> string) \<Rightarrow> Redemption \<Rightarrow> db \<Rightarrow> merr + Redemption" where
  "ValidateRedemptionForCreate E genBatch r d = NormalizeRedemptionForCreate E genBatch r d"

text \<open>\<open>Insert\<close>; the key has a unique index, which also covers deleted codes. A zero status,
  quota, type, kind or source takes the default of its column.\<close>

definition redemptionDefaults :: "Redemption \<Rightarrow> Redemption" where
  "redemptionDefaults r = r\<lparr>red_Status := (if red_Status r = 0 then 1 else red_Status r),
     red_Quota := (if red_Quota r = 0 then 100 else red_Quota r),
     red_Type := (if red_Type r = '''' then ''quota'' else red_Type r),
     red_Kind := (if red_Kind r = '''' then ''legacy'' else red_Kind r),
     red_Source := (if red_Source r = '''' then ''manual'' else red_Source r)\<rparr>"

definition insertRedemption :: "Redemption \<Rightarrow> db \<Rightarrow> merr + db" where
  "insertRedemption r d =
     (if list_ex (\<lambda>x. red_Key x = red_Key r) (rows (redemptions d)) then Inl ErrDuplicateKey
      else Inr (d\<lparr>redemptions := insert_row set_red_Id (redemptionDefaults r) (redemptions d)\<rparr>))"

section \<open>Administration\<close>

definition updateRedemption :: "Redemption \<Rightarrow> db \<Rightarrow> db" where
  "updateRedemption r d = d\<lparr>redemptions := update_where (\<lambda>x. red_Id x = red_Id r \<and> red_DeletedAt x = None)
     (\<lambda>x. x\<lparr>red_Name := red_Name r, red_Status := red_Status r, red_Quota := red_Quota r, red_Type := red_Type r,
        red_PlanId := red_PlanId r, red_Kind := red_Kind r, red_Amount := red_Amount r, red_Money := red_Money r,
        red_CountAsTopUp := red_CountAsTopUp r, red_BatchId := red_BatchId r, red_Source := red_Source r,
        red_RedeemedTime := red_RedeemedTime r, red_ExpiredTime := red_ExpiredTime r,
        red_ResetCardCount := red_ResetCardCount r\<rparr>) (redemptions d)\<rparr>"

definition selectUpdateRedemption :: "Redemption \<Rightarrow> db \<Rightarrow> db" where
  "selectUpdateRedemption r d = d\<lparr>redemptions := update_where (\<lambda>x. red_Id x = red_Id r \<and> red_DeletedAt x = None)
     (\<lambda>x. x\<lparr>red_RedeemedTime := red_RedeemedTime r, red_Status := red_Status r\<rparr>) (redemptions d)\<rparr>"

definition softDelete :: "env \<Rightarrow> (Redemption \<Rightarrow> bool) \<Rightarrow> db \<Rightarrow> db" where
  "softDelete E P d = d\<lparr>redemptions := update_where (\<lambda>x. P x \<and> red_DeletedAt x = None)
     (\<lambda>x. x\<lparr>red_DeletedAt := Some (GetTimestamp E)\<rparr>) (redemptions d)\<rparr>"

definition DeleteRedemptionById :: "env \<Rightarrow> int \<Rightarrow> db \<Rightarrow> merr + db" where
  "DeleteRedemptionById E i d =
     (if i = 0 then Inl (RedE ErrIdEmpty)
      else bind_e (of_option ErrRecordNotFound
          (first_where (\<lambda>r. red_Id r = i \<and> red_DeletedAt r = None) (redemptions d)))
        (\<lambda>r. Inr (softDelete E (\<lambda>x. red_Id x = red_Id r) d)))"

definition invalidCode :: "int \<Rightarrow> Redemption \<Rightarrow> bool" where
  "invalidCode now r \<longleftrightarrow> red_Status r \<in> {RedemptionCodeStatusUsed, RedemptionCodeStatusDisabled} \<or>
     red_Status r = RedemptionCodeStatusEnabled \<and> red_ExpiredTime r \<noteq> 0 \<and> red_ExpiredTime r < now"

definition DeleteInvalidRedemptions :: "env \<Rightarrow> db \<Rightarrow> int \<times> db" where
  "DeleteInvalidRedemptions E d =
     (affected (\<lambda>r. invalidCode (GetTimestamp E) r \<and> red_DeletedAt r = None) (redemptions d),
      softDelete E (invalidCode (GetTimestamp E)) d)"

definition MarkRedemptionsExported :: "string \<Rightarrow> int \<Rightarrow> db \<Rightarrow> merr + db" where
  "MarkRedemptionsExported batchId exportedTime d =
     (let b = TrimSpace batchId in
      if b = '''' then Inl (RedE ErrRedemptionInvalid)
      else Inr (d\<lparr>redemptions := update_where (\<lambda>r. red_BatchId r = b \<and> red_DeletedAt r = None)
        (\<lambda>r. r\<lparr>red_ExportedTime := exportedTime\<rparr>) (redemptions d)\<rparr>))"

section \<open>Redeeming\<close>

record RedeemRedemptionMeta =
  meta_Id :: int
  meta_Type :: string
  meta_PlanId :: int
  meta_PlanTitle :: string
  meta_Kind :: string
  meta_Quota :: int
  meta_Amount :: int
  meta_Money :: rat
  meta_CountAsTopUp :: bool
  meta_BatchId :: string
  meta_Source :: string
  meta_ResetCardCount :: int

record RedeemResult =
  rr_Type :: string
  rr_Quota :: int
  rr_PlanId :: int
  rr_PlanTitle :: string
  rr_ResetCardCount :: int
  rr_GiftResetCount :: int
  rr_Redemption :: RedeemRedemptionMeta

definition CreateRedemptionTopUpTradeNo :: "int \<Rightarrow> int \<Rightarrow> string" where
  "CreateRedemptionTopUpTradeNo redemptionID userID = ''RDM'' @ FormatInt redemptionID @ ''U'' @ FormatInt userID"

definition normalizeRedeemedRedemption :: "Redemption \<Rightarrow> Redemption" where
  "normalizeRedeemedRedemption r = r\<lparr>red_Type := normalizeRedemptionType (red_Type r),
     red_Kind := (if red_Kind r = '''' then RedemptionKindLegacy else red_Kind r),
     red_Source := (if red_Source r = '''' then RedemptionSourceManual else red_Source r)\<rparr>"

definition buildRedeemResult :: "Redemption \<Rightarrow> RedeemResult" where
  "buildRedeemResult r0 =
     (let r = normalizeRedeemedRedemption r0 in
      \<lparr>rr_Type = red_Type r, rr_Quota = red_Quota r, rr_PlanId = red_PlanId r, rr_PlanTitle = red_PlanTitle r,
       rr_ResetCardCount = red_ResetCardCount r, rr_GiftResetCount = red_GiftResetCount r,
       rr_Redemption = \<lparr>meta_Id = red_Id r, meta_Type = red_Type r, meta_PlanId = red_PlanId r,
         meta_PlanTitle = red_PlanTitle r, meta_Kind = red_Kind r, meta_Quota = red_Quota r,
         meta_Amount = red_Amount r, meta_Money = red_Money r, meta_CountAsTopUp = red_CountAsTopUp r,
         meta_BatchId = red_BatchId r, meta_Source = red_Source r, meta_ResetCardCount = red_ResetCardCount r\<rparr>\<rparr>)"

text \<open>The claim marks the row and the code in memory.\<close>

definition claimed :: "int \<Rightarrow> int \<Rightarrow> Redemption \<Rightarrow> Redemption" where
  "claimed userId now r =
     r\<lparr>red_Status := RedemptionCodeStatusUsed, red_RedeemedTime := now, red_UsedUserId := userId\<rparr>"

definition claimRedemptionCodeTx :: "Redemption \<Rightarrow> int \<Rightarrow> int \<Rightarrow> db \<Rightarrow> merr + Redemption \<times> db" where
  "claimRedemptionCodeTx r userId now d =
     (let hit = (\<lambda>x. red_Id x = red_Id r \<and> red_Status x = RedemptionCodeStatusEnabled \<and> red_DeletedAt x = None) in
      if affected hit (redemptions d) \<noteq> 1 then Inl (RedE ErrRedemptionUsed)
      else Inr (claimed userId now r, d\<lparr>redemptions := update_where hit (claimed userId now) (redemptions d)\<rparr>))"

definition redeemPlan :: "env \<Rightarrow> int \<Rightarrow> int \<Rightarrow> Redemption \<Rightarrow> db \<Rightarrow> merr + bool \<times> Redemption \<times> db" where
  "redeemPlan E userId now r d =
     bind_e (getSubscriptionPlanByIdFreshTx (red_PlanId r) d) (\<lambda>plan.
     bind_e (claimRedemptionCodeTx r userId now d) (\<lambda>(r1, d1).
     bind_e (if IsValuePackage plan then CreateValuePackageSubscriptionFromPlanTx E userId plan ''redemption'' d1
             else CreateUserSubscriptionFromPlanTx E userId plan ''redemption'' d1) (\<lambda>(_, d2).
       Inr (False, r1\<lparr>red_Quota := 0, red_PlanTitle := plan_Title plan,
              red_GiftResetCount := (if IsValuePackage plan
                then ClampSubscriptionPlanGiftResetCount (plan_GiftResetCount plan) else red_GiftResetCount r1)\<rparr>, d2))))"

definition cardNote :: "Redemption \<Rightarrow> string" where
  "cardNote r = utf8 [229,133,145,230,141,162,231,160,129,229,133,145,230,141,162,233,135,141,231,189,174,229,141,161,239,188,140,
     229,133,145,230,141,162,231,160,129,73,68,32] @ FormatInt (red_Id r)"

definition redeemCards :: "env \<Rightarrow> int \<Rightarrow> int \<Rightarrow> Redemption \<Rightarrow> db \<Rightarrow> merr + bool \<times> Redemption \<times> db" where
  "redeemCards E userId now r d =
     (if red_ResetCardCount r \<le> 0 \<or> red_ResetCardCount r > MaxRedemptionResetCardCount
      then Inl (RedE ErrRedemptionInvalid)
      else bind_e (ensureExistingUserForUpdateTx userId d) (\<lambda>_.
        bind_e (claimRedemptionCodeTx r userId now d) (\<lambda>(r1, d1).
        bind_e (grantValuePackageResetCountTx E userId (red_ResetCardCount r1)
                 ValuePackageResetCountLedgerSourceRedemption userId (cardNote r1) d1) (\<lambda>(_, d2).
          Inr (False, r1\<lparr>red_Quota := 0\<rparr>, d2)))))"

definition redeemQuota :: "env \<Rightarrow> int \<Rightarrow> int \<Rightarrow> Redemption \<Rightarrow> db \<Rightarrow> merr + bool \<times> Redemption \<times> db" where
  "redeemQuota E userId now r d =
     (if red_Kind r \<notin> {RedemptionKindLegacy, RedemptionKindPaidTopUp, RedemptionKindPromoCredit}
      then Inl (RedE ErrRedemptionUnsupportedKind)
      else if red_Kind r = RedemptionKindPaidTopUp \<and> (\<not> red_CountAsTopUp r \<or> red_Amount r \<le> 0 \<or> red_Money r \<le> 0)
      then Inl (RedE ErrRedemptionInvalid)
      else if red_Kind r = RedemptionKindPromoCredit \<and> red_CountAsTopUp r then Inl (RedE ErrRedemptionInvalid)
      else bind_e (claimRedemptionCodeTx r userId now d) (\<lambda>(r1, d1).
        if affected (liveUser userId) (users d1) \<noteq> 1 then Inl (RedE ErrRedemptionInvalid)
        else let d2 = updateUser userId (addQuota (red_Quota r1)) d1 in
          if red_Kind r1 = RedemptionKindPaidTopUp \<and> red_CountAsTopUp r1 then
            let t = zero_topup\<lparr>topup_UserId := userId, topup_Amount := red_Amount r1, topup_Money := red_Money r1,
                  topup_TradeNo := CreateRedemptionTopUpTradeNo (red_Id r1) userId,
                  topup_PaymentMethod := ''redemption_code'', topup_PaymentProvider := PaymentProviderRedemptionCode,
                  topup_CreateTime := now, topup_CompleteTime := now, topup_Status := TopUpStatusSuccess\<rparr>;
                t1 = new_row set_topup_Id t (topups d2)
            in bind_e (of_option ErrDuplicateKey (insertTopUp t d2)) (\<lambda>d3.
               bind_e (AddUserValidTopupCentsTx userId (validTopupCentsForTopUp E t1) d3) (\<lambda>d4.
               bind_e (MaybeUpgradeUserToVIPTx userId (MaybeCreateAffiliateCommissionForTopUpTx E t1 d4)) (\<lambda>(upgraded, d5).
                 Inr (upgraded, r1, d5))))
          else Inr (False, r1, d2)))"

definition redeemWithTx :: "env \<Rightarrow> string \<Rightarrow> int \<Rightarrow> db \<Rightarrow> merr + bool \<times> Redemption \<times> db" where
  "redeemWithTx E key userId d =
     bind_e (of_option (RedE ErrRedemptionInvalid)
       (first_where (\<lambda>r. red_Key r = key \<and> red_DeletedAt r = None) (redemptions d))) (\<lambda>r0.
       if red_Status r0 \<noteq> RedemptionCodeStatusEnabled then Inl (RedE ErrRedemptionUsed)
       else let now = GetTimestamp E in
         if red_ExpiredTime r0 \<noteq> 0 \<and> red_ExpiredTime r0 < now then Inl (RedE ErrRedemptionExpired)
         else let r = normalizeRedeemedRedemption r0 in
           if red_Type r = '''' then Inl (RedE ErrRedemptionInvalid)
           else if red_Type r = RedemptionTypeSubscription then redeemPlan E userId now r d
           else if red_Type r = RedemptionTypeResetCard then redeemCards E userId now r d
           else redeemQuota E userId now r d)"

fun redeemError :: "merr \<Rightarrow> merr" where
  "redeemError (RedE e) =
     (if e \<in> {ErrRedemptionNotProvided, ErrRedemptionInvalid, ErrRedemptionUsed, ErrRedemptionExpired,
              ErrRedemptionUnsupportedKind} then RedE e else RedE ErrRedeemFailed)"
| "redeemError _ = RedE ErrRedeemFailed"

definition redeemWithTxResult :: "env \<Rightarrow> string \<Rightarrow> int \<Rightarrow> db \<Rightarrow> merr + RedeemResult \<times> bool \<times> db" where
  "redeemWithTxResult E key userId d =
     (if key = '''' then Inl (RedE ErrRedemptionNotProvided)
      else if userId = 0 then Inl (RedE ErrRedemptionInvalid)
      else case redeemWithTx E key userId d of
        Inl e \<Rightarrow> Inl (redeemError e)
      | Inr (vipUpgraded, r, d1) \<Rightarrow> Inr (buildRedeemResult r, vipUpgraded, d1))"

definition RedeemWithTx :: "env \<Rightarrow> string \<Rightarrow> int \<Rightarrow> db \<Rightarrow> merr + RedeemResult \<times> db" where
  "RedeemWithTx E key userId d = bind_e (redeemWithTxResult E key userId d) (\<lambda>(result, _, d1). Inr (result, d1))"

definition Redeem :: "env \<Rightarrow> string \<Rightarrow> int \<Rightarrow> db \<Rightarrow> merr + RedeemResult \<times> db" where
  "Redeem E key userId d =
     (if key = '''' then Inl (RedE ErrRedemptionNotProvided)
      else if userId = 0 then Inl (RedE ErrRedemptionInvalid)
      else bind_e (redeemWithTxResult E key userId d) (\<lambda>(result, _, d1). Inr (result, d1)))"

end
