(* ===== verification/Redemption_Laws.thy ===== *)
theory Redemption_Laws
  imports Redemptions Purchase_Laws Receipts
begin

text \<open>
  What redeeming a code does: a redemption marks the code, gives a quota code's quota to the user
  and leaves every other wallet alone (\<open>redeemed\<close>). Runs of redemptions and of the
  administration of codes are an instance of \<open>receipt_run\<close>, so no code pays twice; a code that
  passes the checks for new codes can be redeemed; errors are those the function documents.
\<close>

section \<open>What a redemption leaves alone\<close>

definition walletOf :: "int \<Rightarrow> db \<Rightarrow> int option" where
  "walletOf i d = map_option user_Quota (userById i d)"

definition wallets_kept :: "db \<Rightarrow> db \<Rightarrow> bool" where
  "wallets_kept d d' \<longleftrightarrow> redemptions d' = redemptions d \<and> (\<forall>i. walletOf i d' = walletOf i d)"

lemma kept_refl [simp]: "wallets_kept d d"
  by (simp add: wallets_kept_def)

lemma kept_trans [trans]: "wallets_kept d d1 \<Longrightarrow> wallets_kept d1 d2 \<Longrightarrow> wallets_kept d d2"
  by (simp add: wallets_kept_def)

lemma kept_users: "users d' = users d \<Longrightarrow> redemptions d' = redemptions d \<Longrightarrow> wallets_kept d d'"
  by (simp add: wallets_kept_def walletOf_def userById_def)

lemma walletOf_update:
  assumes "\<And>u. user_Id (f u) = user_Id u" "\<And>u. user_DeletedAt (f u) = user_DeletedAt u"
    "\<And>u. user_Quota (f u) = user_Quota u + q"
  shows "walletOf i (updateUser uid f d) = map_option (\<lambda>w. w + (if i = uid then q else 0)) (walletOf i d)"
  by (cases "userById i d") (simp_all add: walletOf_def userById_update assms)

lemma kept_updateUser:
  assumes "\<And>u. user_Id (f u) = user_Id u" "\<And>u. user_DeletedAt (f u) = user_DeletedAt u"
    "\<And>u. user_Quota (f u) = user_Quota u"
  shows "wallets_kept d (updateUser uid f d)"
  using walletOf_update [of f 0 _ uid d] assms
  by (simp add: wallets_kept_def option.map_ident) (simp add: updateUser_def)

lemma kept_vip: "MaybeUpgradeUserToVIPTx i d = Inr (b, d') \<Longrightarrow> wallets_kept d d'"
proof -
  assume h: "MaybeUpgradeUserToVIPTx i d = Inr (b, d')"
  let ?f = "\<lambda>u. u\<lparr>user_Group := UserGroupVIP\<rparr>" and ?P = "\<lambda>u. liveUser i u \<and> isVIPUpgradeableUser u"
  have "userById j (d\<lparr>users := update_where ?P ?f (users d)\<rparr>) =
      map_option (\<lambda>u. if ?P u then ?f u else u) (userById j d)" for j
    unfolding userById_def by (simp add: first_where_update liveUser_def)
  moreover have "map_option user_Quota (map_option (\<lambda>u. if ?P u then ?f u else u) x) = map_option user_Quota x" for x
    by (cases x) simp_all
  ultimately have "wallets_kept d (d\<lparr>users := update_where ?P ?f (users d)\<rparr>)"
    by (simp add: wallets_kept_def walletOf_def)
  moreover have "d' = d \<or> d' = d\<lparr>users := update_where ?P ?f (users d)\<rparr>"
    using h by (auto simp: MaybeUpgradeUserToVIPTx_def res_simps Let_def split: if_splits)
  ultimately show ?thesis by auto
qed

lemma kept_cents: "AddUserValidTopupCentsTx i c d = Inr d' \<Longrightarrow> wallets_kept d d'"
  by (auto simp: AddUserValidTopupCentsTx_def intro!: kept_updateUser split: if_splits)

lemma kept_commission: "wallets_kept d (MaybeCreateAffiliateCommissionForTopUpTx E t d)"
  by (rule kept_users) (simp_all add: MaybeCreateAffiliateCommissionForTopUpTx_def Let_def split: option.split)

lemma kept_insertTopUp: "insertTopUp t d = Some d' \<Longrightarrow> wallets_kept d d'"
  by (rule kept_users) (auto simp: insertTopUp_def split: if_splits)

lemma kept_grant: "grantValuePackageResetCountTx E i c src a n d = Inr (p, d') \<Longrightarrow> wallets_kept d d'"
  by (rule kept_users) (auto simp: grantValuePackageResetCountTx_def ensureValuePackagePreferenceForUpdateTx_def
      createLedger_def setResetCount_def Let_def res_simps split: if_splits option.splits)

lemma kept_preference: "ensureValuePackagePreferenceAfterPurchaseTx E i k p g n d = Inr d' \<Longrightarrow> wallets_kept d d'"
  by (rule kept_users) (auto simp: ensureValuePackagePreferenceAfterPurchaseTx_def upsertValuePackagePreferenceTx_def
      grantValuePackageResetCountTx_def ensureValuePackagePreferenceForUpdateTx_def createLedger_def setResetCount_def Let_def res_simps
      split: if_splits option.splits)

lemma kept_extend:
  assumes "extendValuePackageSubscriptionTx E i plan now e d = Inr (s', d')"
  shows "wallets_kept d d'"
proof -
  obtain s s1 d1 where
    adv: "maybeAdvanceValuePackageCycleTx E s plan now d = Inr (s1, d1)"
    and fin: "(\<exists>r. renewExhausted E s1 plan now e r d1 = Inr (s', d')) \<or> extendEnd E s1 plan now (sub64 e now) d1 = Inr (s', d')"
    using assms by (auto simp: extendValuePackageSubscriptionTx_def Let_def res_simps split: if_splits)
  have "wallets_kept d d1" using adv
    by (intro kept_users) (auto simp: maybeAdvanceValuePackageCycleTx_def Let_def saveSub_def createReset_def split: if_splits)
  moreover have "wallets_kept d1 d'" using fin
    by (intro kept_users) (auto simp: renewExhausted_def extendEnd_def saveSub_def createReset_def Let_def split: if_splits)
  ultimately show ?thesis by (rule kept_trans)
qed

lemma kept_applyIntent:
  assumes "applyIntent E u plan source intent now e d = Inr (s', d')"
  shows "wallets_kept d d'"
proof (cases "intent_Action intent = ValuePackagePurchaseActionExtend")
  case True
  then show ?thesis using assms kept_extend by (auto simp: applyIntent_def split: option.splits)
next
  case False
  then show ?thesis using assms
    by (intro kept_users) (auto simp: applyIntent_def Let_def coverSub_def setCoveredBy_def createSub_def
        split: if_splits option.splits)
qed

lemma kept_package:
  assumes "CreateValuePackageSubscriptionFromPlanTx E u plan source d = Inr (s, d')"
  shows "wallets_kept d d'"
  using assms kept_trans [OF kept_applyIntent kept_preference]
  by (auto simp: CreateValuePackageSubscriptionFromPlanTx_def res_simps Let_def split: if_splits)

lemma kept_regular:
  assumes "CreateUserSubscriptionFromPlanTx E u plan src d = Inr (s, d')"
  shows "wallets_kept d d'"
proof -
  obtain x e pg d1 where r: "raiseGroup u (TrimSpace (plan_UpgradeGroup plan)) d = Inr (pg, d1)"
    and d': "d' = createSub E x d1"
    using assms by (auto simp: CreateUserSubscriptionFromPlanTx_def res_simps Let_def split: if_splits)
  have "redemptions d1 = redemptions d"
    using r by (auto simp: raiseGroup_def setUserGroup_def updateUser_def res_simps split: if_splits)
  then have "wallets_kept d d1" using raiseGroup_quota [OF r] by (simp add: wallets_kept_def walletOf_def)
  also have "wallets_kept d1 d'" by (rule kept_users) (simp_all add: d' createSub_def)
  finally show ?thesis .
qed

lemmas kept = kept_vip kept_cents kept_commission kept_insertTopUp kept_grant kept_package kept_regular

section \<open>What a redemption does\<close>

text \<open>The quota a code is worth.\<close>

definition codeQuota :: "Redemption \<Rightarrow> int" where
  "codeQuota r = (if normalizeRedemptionType (red_Type r) = RedemptionTypeQuota then red_Quota r else 0)"

definition usableCode :: "env \<Rightarrow> string \<Rightarrow> db \<Rightarrow> Redemption \<Rightarrow> bool" where
  "usableCode E key d r \<longleftrightarrow> first_where (\<lambda>r. red_Key r = key \<and> red_DeletedAt r = None) (redemptions d) = Some r \<and>
     red_Status r = RedemptionCodeStatusEnabled \<and> (red_ExpiredTime r = 0 \<or> GetTimestamp E \<le> red_ExpiredTime r)"

abbreviation claimAll :: "env \<Rightarrow> int \<Rightarrow> int \<Rightarrow> Redemption table \<Rightarrow> Redemption table" where
  "claimAll E i u t \<equiv> update_where (\<lambda>x. red_Id x = i \<and> red_Status x = RedemptionCodeStatusEnabled \<and> red_DeletedAt x = None)
     (claimed u (GetTimestamp E)) t"

lemma claim_steps:
  assumes "claimRedemptionCodeTx r u now d = Inr (r1, d1)"
  shows "r1 = claimed u now r" "d1 = d\<lparr>redemptions := update_where (\<lambda>x. red_Id x = red_Id r \<and>
     red_Status x = RedemptionCodeStatusEnabled \<and> red_DeletedAt x = None) (claimed u now) (redemptions d)\<rparr>"
  using assms by (auto simp: claimRedemptionCodeTx_def Let_def split: if_splits)

definition redeemed :: "env \<Rightarrow> int \<Rightarrow> int \<Rightarrow> int \<Rightarrow> db \<Rightarrow> db \<Rightarrow> bool" where
  "redeemed E i u q d d' \<longleftrightarrow> redemptions d' = claimAll E i u (redemptions d) \<and>
     (\<forall>j. walletOf j d' = map_option (\<lambda>w. w + (if j = u then q else 0)) (walletOf j d))"

lemma redeemed_kept:
  assumes "claimRedemptionCodeTx r u (GetTimestamp E) d = Inr (r1, d1)" "wallets_kept d1 d'"
  shows "redeemed E (red_Id r) u 0 d d'"
  using assms(2) unfolding claim_steps [OF assms(1)]
  by (simp add: redeemed_def wallets_kept_def walletOf_def userById_def option.map_ident)

lemma redeemPlan_steps:
  assumes "redeemPlan E u (GetTimestamp E) r d = Inr (b, r', d')"
  shows "redeemed E (red_Id r) u 0 d d'"
proof -
  obtain plan r1 d1 s where "claimRedemptionCodeTx r u (GetTimestamp E) d = Inr (r1, d1)"
    "CreateValuePackageSubscriptionFromPlanTx E u plan ''redemption'' d1 = Inr (s, d') \<or>
     CreateUserSubscriptionFromPlanTx E u plan ''redemption'' d1 = Inr (s, d')"
    using assms by (auto simp: redeemPlan_def res_simps Let_def split: if_splits)
  then show ?thesis using redeemed_kept [OF _ kept_package] redeemed_kept [OF _ kept_regular] by metis
qed

lemma redeemCards_steps:
  assumes "redeemCards E u (GetTimestamp E) r d = Inr (b, r', d')"
  shows "redeemed E (red_Id r) u 0 d d'"
proof -
  obtain r1 d1 p where "claimRedemptionCodeTx r u (GetTimestamp E) d = Inr (r1, d1)"
    "grantValuePackageResetCountTx E u (red_ResetCardCount r1) ValuePackageResetCountLedgerSourceRedemption u (cardNote r1) d1 = Inr (p, d')"
    using assms by (auto simp: redeemCards_def res_simps Let_def split: if_splits)
  then show ?thesis using redeemed_kept [OF _ kept_grant] by metis
qed

lemma claimed_fields [simp]:
  "red_Id (claimed u now r) = red_Id r" "red_Quota (claimed u now r) = red_Quota r"
  "red_Kind (claimed u now r) = red_Kind r" "red_CountAsTopUp (claimed u now r) = red_CountAsTopUp r"
  "red_Status (claimed u now r) = RedemptionCodeStatusUsed" "red_UsedUserId (claimed u now r) = u"
  "red_DeletedAt (claimed u now r) = red_DeletedAt r" "red_Type (claimed u now r) = red_Type r"
  by (simp_all add: claimed_def)

lemma redeemQuota_steps:
  assumes "redeemQuota E u (GetTimestamp E) r d = Inr (b, r', d')"
  shows "redeemed E (red_Id r) u (red_Quota r) d d'"
proof -
  obtain r1 d1 where c: "claimRedemptionCodeTx r u (GetTimestamp E) d = Inr (r1, d1)"
    using assms by (auto simp: redeemQuota_def res_simps split: if_splits)
  let ?d2 = "updateUser u (addQuota (red_Quota r)) d1"
  have q: "red_Quota r1 = red_Quota r" unfolding claim_steps(1) [OF c] by simp
  have "wallets_kept ?d2 d'"
  proof (cases "d' = ?d2")
    case True
    then show ?thesis by simp
  next
    case False
    then obtain t t1 d3 d4 where "insertTopUp t ?d2 = Some d3" "AddUserValidTopupCentsTx u (validTopupCentsForTopUp E t1) d3 = Inr d4"
      "\<exists>b. MaybeUpgradeUserToVIPTx u (MaybeCreateAffiliateCommissionForTopUpTx E t1 d4) = Inr (b, d')"
      using assms c by (auto simp: redeemQuota_def res_simps Let_def q split: if_splits)
    then show ?thesis
      using kept_trans [OF kept_insertTopUp kept_trans [OF kept_cents kept_trans [OF kept_commission kept_vip]]] by metis
  qed
  moreover have "redeemed E (red_Id r) u (red_Quota r) d ?d2"
    unfolding redeemed_def
    by (subst walletOf_update [where q = "red_Quota r"])
      (simp_all add: addQuota_def claim_steps(2) [OF c] updateUser_def walletOf_def userById_def)
  ultimately show ?thesis by (simp add: redeemed_def wallets_kept_def)
qed

lemma normalized_type:
  "normalizeRedemptionType t \<in> {'''', RedemptionTypeQuota, RedemptionTypeSubscription, RedemptionTypeResetCard}"
  by (simp add: normalizeRedemptionType_def Let_def)

lemma normalized_fields [simp]:
  "red_Id (normalizeRedeemedRedemption r) = red_Id r" "red_Quota (normalizeRedeemedRedemption r) = red_Quota r"
  "red_Type (normalizeRedeemedRedemption r) = normalizeRedemptionType (red_Type r)"
  by (simp_all add: normalizeRedeemedRedemption_def)

lemma redeemWithTx_steps:
  assumes "redeemWithTx E key u d = Inr (b, r', d')"
  obtains r where "usableCode E key d r" "redeemed E (red_Id r) u (codeQuota r) d d'"
proof -
  obtain r where r: "usableCode E key d r" and b: "(\<lambda>n.
      if red_Type n = RedemptionTypeSubscription then redeemPlan E u (GetTimestamp E) n d
      else if red_Type n = RedemptionTypeResetCard then redeemCards E u (GetTimestamp E) n d
      else redeemQuota E u (GetTimestamp E) n d) (normalizeRedeemedRedemption r) = Inr (b, r', d')"
    and t: "normalizeRedemptionType (red_Type r) \<noteq> ''''"
    using assms by (auto simp: redeemWithTx_def usableCode_def res_simps Let_def split: if_splits)
  have ne: "RedemptionTypeSubscription \<noteq> RedemptionTypeQuota" "RedemptionTypeResetCard \<noteq> RedemptionTypeQuota"
    by (simp_all add: red_const_defs)
  have "redeemed E (red_Id r) u (codeQuota r) d d'"
    using b normalized_type [of "red_Type r"] t ne redeemPlan_steps redeemCards_steps redeemQuota_steps
    by (fastforce simp: codeQuota_def split: if_splits)
  with r show thesis by (rule that)
qed

lemma Redeem_steps:
  assumes "Redeem E key u d = Inr (res, d')"
  obtains r where "usableCode E key d r" "redeemed E (red_Id r) u (codeQuota r) d d'"
proof -
  obtain b r' where "redeemWithTx E key u d = Inr (b, r', d')"
    using assms by (auto simp: Redeem_def redeemWithTxResult_def res_simps split: if_splits sum.splits)
  then show thesis using that by (rule redeemWithTx_steps)
qed

section \<open>Codes are vouchers\<close>

text \<open>Redemptions by users and the administration that removes and exports codes, in any order.\<close>

datatype code_event =
    RedeemCode string int
  | DeleteCode int
  | DeleteInvalidCodes
  | ExportBatch string int

fun runCode :: "env \<Rightarrow> code_event \<Rightarrow> db \<Rightarrow> merr + db" where
  "runCode E (RedeemCode key u) d = bind_e (Redeem E key u d) (\<lambda>(_, d1). Inr d1)"
| "runCode E (DeleteCode i) d = DeleteRedemptionById E i d"
| "runCode E DeleteInvalidCodes d = Inr (snd (DeleteInvalidRedemptions E d))"
| "runCode E (ExportBatch b t) d = MarkRedemptionsExported b t d"

fun codeReceipt :: "env \<Rightarrow> code_event \<Rightarrow> db \<Rightarrow> receipts" where
  "codeReceipt E (RedeemCode key u) d =
     (case first_where (\<lambda>r. red_Key r = key \<and> red_DeletedAt r = None) (redemptions d) of
        None \<Rightarrow> [] | Some r \<Rightarrow> [(red_Id r, u, codeQuota r)])"
| "codeReceipt E _ d = []"

definition runCodes :: "(env \<times> code_event) list \<Rightarrow> db \<Rightarrow> db \<times> receipts" where
  "runCodes = runEvents (\<lambda>(E, e). runCode E e) (\<lambda>(E, e). codeReceipt E e)"

definition wf_codes :: "db \<Rightarrow> bool" where
  "wf_codes d \<longleftrightarrow> wf_table red_Id (redemptions d)"

definition openCode :: "int \<Rightarrow> int \<Rightarrow> db \<Rightarrow> bool" where
  "openCode k u d \<longleftrightarrow> (\<exists>r \<in> set (rows (redemptions d)).
     red_Id r = k \<and> red_Status r = RedemptionCodeStatusEnabled \<and> red_DeletedAt r = None)"

definition usedCode :: "int \<Rightarrow> int \<Rightarrow> db \<Rightarrow> bool" where
  "usedCode k u d \<longleftrightarrow> (\<exists>r \<in> set (rows (redemptions d)).
     red_Id r = k \<and> red_Status r = RedemptionCodeStatusUsed \<and> red_UsedUserId r = u)"

text \<open>Every event changes codes one by one, and none of them opens a code or changes a used one's user.\<close>

definition tame :: "(Redemption \<Rightarrow> Redemption) \<Rightarrow> bool" where
  "tame g \<longleftrightarrow> (\<forall>r. red_Id (g r) = red_Id r \<and>
     (red_Status (g r) = RedemptionCodeStatusEnabled \<and> red_DeletedAt (g r) = None \<longrightarrow>
        red_Status r = RedemptionCodeStatusEnabled \<and> red_DeletedAt r = None) \<and>
     (red_Status r = RedemptionCodeStatusUsed \<longrightarrow>
        red_Status (g r) = RedemptionCodeStatusUsed \<and> red_UsedUserId (g r) = red_UsedUserId r))"

lemma used_enabled [simp]:
  "RedemptionCodeStatusUsed \<noteq> RedemptionCodeStatusEnabled" "RedemptionCodeStatusEnabled \<noteq> RedemptionCodeStatusUsed"
  by (simp_all add: red_const_defs)

lemma runCode_steps:
  assumes "runCode E e d = Inr d'"
  obtains (redeemed) key u r where "e = RedeemCode key u" "usableCode E key d r" "redeemed E (red_Id r) u (codeQuota r) d d'"
  | (other) P g where "codeReceipt E e d = []" "redemptions d' = update_where P g (redemptions d)" "users d' = users d"
      "tame (\<lambda>r. if P r then g r else r)"
proof (cases e)
  case (RedeemCode key u)
  then obtain res where "Redeem E key u d = Inr (res, d')" using assms by (auto simp: res_simps)
  then show thesis using redeemed [OF RedeemCode] by (rule Redeem_steps)
next
  case (DeleteCode i)
  then obtain j where "d' = softDelete E (\<lambda>x. red_Id x = j) d"
    using assms by (auto simp: DeleteRedemptionById_def res_simps split: if_splits)
  then show thesis by (intro other) (auto simp: DeleteCode softDelete_def tame_def)
next
  case DeleteInvalidCodes
  then have "d' = softDelete E (invalidCode (GetTimestamp E)) d"
    using assms by (auto simp: DeleteInvalidRedemptions_def)
  then show thesis by (intro other) (auto simp: DeleteInvalidCodes softDelete_def tame_def)
next
  case (ExportBatch b t)
  then show thesis using assms
    by (intro other) (auto simp: MarkRedemptionsExported_def tame_def Let_def split: if_splits)
qed

lemma tame_claim:
  "tame (\<lambda>x. if red_Id x = k \<and> red_Status x = RedemptionCodeStatusEnabled \<and> red_DeletedAt x = None then claimed u now x else x)"
  by (simp add: tame_def)

lemma runCode_tame:
  assumes "runCode E e d = Inr d'"
  obtains g where "tame g" "rows (redemptions d') = map g (rows (redemptions d))" "seq (redemptions d') = seq (redemptions d)"
  using assms
proof (cases rule: runCode_steps)
  case (redeemed key u r)
  then show thesis by (intro that [OF tame_claim [of "red_Id r" u "GetTimestamp E"]]) (simp_all add: redeemed_def)
next
  case (other P g)
  then show thesis by (intro that [OF other(4)]) simp_all
qed

lemma tameD:
  assumes "tame g"
  shows "red_Id (g r) = red_Id r"
    and "red_Status (g r) = RedemptionCodeStatusEnabled \<Longrightarrow> red_DeletedAt (g r) = None \<Longrightarrow>
      red_Status r = RedemptionCodeStatusEnabled \<and> red_DeletedAt r = None"
    and "red_Status r = RedemptionCodeStatusUsed \<Longrightarrow>
      red_Status (g r) = RedemptionCodeStatusUsed \<and> red_UsedUserId (g r) = red_UsedUserId r"
  using assms unfolding tame_def by blast+

lemma runCode_codes:
  assumes "runCode E e d = Inr d'" "wf_codes d"
  shows "wf_codes d'" "usedCode k u d \<Longrightarrow> usedCode k u d'" "openCode k u d' \<Longrightarrow> openCode k u d"
proof -
  obtain g where g: "tame g" and r: "rows (redemptions d') = map g (rows (redemptions d))" "seq (redemptions d') = seq (redemptions d)"
    using assms(1) by (rule runCode_tame)
  show "wf_codes d'" using red_rows.wf_map_rows [OF assms(2) [unfolded wf_codes_def] _ r] tameD(1) [OF g]
    by (simp add: wf_codes_def)
  show "usedCode k u d'" if h: "usedCode k u d"
  proof -
    obtain x where "x \<in> set (rows (redemptions d))" "red_Id x = k" "red_Status x = RedemptionCodeStatusUsed" "red_UsedUserId x = u"
      using h by (auto simp: usedCode_def)
    then show ?thesis using tameD(1,3) [OF g, of x] unfolding usedCode_def r(1) by (intro bexI [of _ "g x"]) auto
  qed
  show "openCode k u d" if h: "openCode k u d'"
  proof -
    obtain x where "x \<in> set (rows (redemptions d))" "red_Id (g x) = k" "red_Status (g x) = RedemptionCodeStatusEnabled"
      "red_DeletedAt (g x) = None" using h unfolding openCode_def r(1) by auto
    then show ?thesis using tameD(1,2) [OF g, of x] unfolding openCode_def by (intro bexI [of _ x]) auto
  qed
qed

lemma runCode_receipt:
  assumes "runCode E e d = Inr d'"
  shows "codeReceipt E e d = [] \<or> (\<exists>k u a. codeReceipt E e d = [(k, u, a)] \<and> openCode k u d \<and> usedCode k u d')"
  using assms
proof (cases rule: runCode_steps)
  case (redeemed key u r)
  then have "r \<in> set (rows (redemptions d))" "red_Key r = key" "red_DeletedAt r = None" "red_Status r = RedemptionCodeStatusEnabled"
    by (auto simp: usableCode_def dest: first_where_Some)
  then have "openCode (red_Id r) u d" and "claimed u (GetTimestamp E) r \<in> set (rows (redemptions d'))"
    using redeemed by (auto simp: openCode_def redeemed_def)
  then have "openCode (red_Id r) u d" "usedCode (red_Id r) u d'"
    by (auto simp: usedCode_def intro: bexI [where x = "claimed u (GetTimestamp E) r"])
  then show ?thesis using redeemed by (auto simp: usableCode_def)
qed simp

lemma runCode_wallet:
  assumes "runCode E e d = Inr d'"
  shows "walletOf i d' = map_option (\<lambda>q. q + receivedBy i (codeReceipt E e d)) (walletOf i d)"
  using assms
proof (cases rule: runCode_steps)
  case (redeemed key u r)
  then have c: "codeReceipt E e d = [(red_Id r, u, codeQuota r)]" by (simp add: usableCode_def)
  have "walletOf i d' = map_option (\<lambda>w. w + (if i = u then codeQuota r else 0)) (walletOf i d)"
    using redeemed(3) by (simp add: redeemed_def)
  then show ?thesis unfolding c by (cases "walletOf i d") auto
qed (simp add: walletOf_def userById_def option.map_ident)

lemma code_unique: "wf_codes d \<Longrightarrow> openCode k u d \<Longrightarrow> \<not> usedCode k v d"
  unfolding openCode_def usedCode_def wf_codes_def wf_table_def distinct_map using used_enabled by (metis inj_onD)

interpretation code_run: receipt_run "\<lambda>(E, e). runCode E e" "\<lambda>(E, e). codeReceipt E e" wf_codes openCode usedCode walletOf
proof (unfold_locales, goal_cases)
  case (1 s e s')
  then show ?case by (cases e) (simp, erule (1) runCode_codes(1))
next
  case (2 s e s')
  then show ?case using runCode_receipt [of "fst e" "snd e" s s'] by (simp add: case_prod_beta)
next
  case (3 s e s' k u)
  then show ?case by (cases e) (simp, erule (2) runCode_codes(2))
next
  case (4 s e s' k u)
  then show ?case by (cases e) (simp, erule (2) runCode_codes(3))
next
  case (5 s k u v)
  then show ?case using code_unique by blast
next
  case (6 s e s' i)
  then show ?case by (cases e) (simp, erule runCode_wallet)
qed

section \<open>New codes\<close>

lemma quota_type [simp]: "normalizeRedemptionType RedemptionTypeQuota = RedemptionTypeQuota"
  by code_simp

lemma validated_promo:
  assumes "ValidateRedemptionForCreate E genBatch r d = Inr c" "red_Type c = RedemptionTypeQuota"
    "red_Kind c = RedemptionKindPromoCredit"
  shows "0 < red_Quota c" "\<not> red_CountAsTopUp c" "red_ResetCardCount c = 0"
proof -
  obtain b where b: "validateRedemptionPlanForCreate r d = Inr b" and t: "red_Type b = RedemptionTypeQuota"
    using assms(1,2) by (auto simp: ValidateRedemptionForCreate_def NormalizeRedemptionForCreate_def Let_def res_simps
        ValidateRedemptionKindForCreate_def split: if_splits)
  have "red_ResetCardCount b = 0"
    using b t by (auto simp: validateRedemptionPlanForCreate_def promoOnly_def red_const_defs Let_def res_simps split: if_splits)
  moreover have "red_ResetCardCount c = red_ResetCardCount b" and v: "ValidateRedemptionKindForCreate c = Inr ()"
    using assms(1) b t unfolding ValidateRedemptionForCreate_def NormalizeRedemptionForCreate_def
    by (auto simp: Let_def res_simps red_const_defs split: if_splits)
  ultimately show "red_ResetCardCount c = 0" by simp
  show "0 < red_Quota c" "\<not> red_CountAsTopUp c"
    using v assms(3) by (auto simp: ValidateRedemptionKindForCreate_def red_const_defs split: if_splits)
qed

text \<open>A new code is the only one of its key and of its id.\<close>

lemma inserted_code:
  assumes "insertRedemption c d = Inr d1" "wf_table red_Id (redemptions d)" "red_DeletedAt c = None"
  defines "n \<equiv> set_red_Id (seq (redemptions d) + 1) (redemptionDefaults c)"
  shows "first_where (\<lambda>r. red_Key r = red_Key c \<and> red_DeletedAt r = None) (redemptions d1) = Some n"
    and "rows (redemptions d1) = rows (redemptions d) @ [n]" "users d1 = users d"
    and "filter (\<lambda>x. red_Id x = red_Id n \<and> P x) (rows (redemptions d1)) = filter P [n]"
proof -
  have d1: "d1 = d\<lparr>redemptions := insert_row set_red_Id (redemptionDefaults c) (redemptions d)\<rparr>"
    and k: "\<not> list_ex (\<lambda>x. red_Key x = red_Key c) (rows (redemptions d))"
    using assms(1) by (auto simp: insertRedemption_def split: if_splits)
  have n: "new_row set_red_Id (redemptionDefaults c) (redemptions d) = n" by (simp add: n_def new_row_def)
  have f: "red_Key n = red_Key c" "red_DeletedAt n = None" by (simp_all add: n_def redemptionDefaults_def assms(3))
  have "first_where (\<lambda>r. red_Key r = red_Key c \<and> red_DeletedAt r = None) (redemptions d) = None"
    using k by (auto simp: first_where_None list_ex_iff)
  then show "first_where (\<lambda>r. red_Key r = red_Key c \<and> red_DeletedAt r = None) (redemptions d1) = Some n"
    by (simp add: d1 first_where_insert n f)
  show rows: "rows (redemptions d1) = rows (redemptions d) @ [n]" "users d1 = users d" by (simp_all add: d1 n)
  have "filter (\<lambda>x. red_Id x = red_Id n \<and> P x) (rows (redemptions d)) = []"
    using assms(2) by (auto simp: filter_empty_conv wf_table_def n_def)
  then show "filter (\<lambda>x. red_Id x = red_Id n \<and> P x) (rows (redemptions d1)) = filter P [n]"
    by (simp add: rows)
qed

lemma redeem_promo:
  assumes "first_where (\<lambda>r. red_Key r = key \<and> red_DeletedAt r = None) (redemptions d) = Some n"
    and "red_Status n = RedemptionCodeStatusEnabled" "red_ExpiredTime n = 0 \<or> GetTimestamp E \<le> red_ExpiredTime n"
    and "red_Type n = RedemptionTypeQuota" "red_Kind n = RedemptionKindPromoCredit" "\<not> red_CountAsTopUp n"
    and "affected (\<lambda>x. red_Id x = red_Id n \<and> red_Status x = RedemptionCodeStatusEnabled \<and> red_DeletedAt x = None) (redemptions d) = 1"
    and "key \<noteq> ''''" "u \<noteq> 0" "affected (liveUser u) (users d) = 1"
  shows "\<exists>res d'. Redeem E key u d = Inr (res, d') \<and> rr_Quota res = red_Quota n"
proof -
  let ?n = "normalizeRedeemedRedemption n" and ?now = "GetTimestamp E"
  have t: "red_Type ?n = RedemptionTypeQuota" by (simp add: assms(4))
  have f: "red_Kind ?n = RedemptionKindPromoCredit" "red_CountAsTopUp ?n = red_CountAsTopUp n"
    by (simp_all add: normalizeRedeemedRedemption_def assms(5) red_const_defs)
  obtain d1 where c: "claimRedemptionCodeTx ?n u ?now d = Inr (claimed u ?now ?n, d1)" "users d1 = users d"
    using assms(7) by (simp add: claimRedemptionCodeTx_def Let_def)
  have k: "RedemptionKindPromoCredit \<noteq> RedemptionKindPaidTopUp"
    "RedemptionTypeQuota \<noteq> RedemptionTypeSubscription" "RedemptionTypeQuota \<noteq> RedemptionTypeResetCard" "RedemptionTypeQuota \<noteq> ''''"
    by (simp_all add: red_const_defs)
  have "redeemQuota E u ?now ?n d = Inr (False, claimed u ?now ?n, updateUser u (addQuota (red_Quota n)) d1)"
    unfolding redeemQuota_def using f k c assms(6,10) by (simp add: Let_def)
  then have "redeemWithTx E key u d = Inr (False, claimed u ?now ?n, updateUser u (addQuota (red_Quota n)) d1)"
    unfolding redeemWithTx_def using assms(1-3) t k by (auto simp: Let_def)
  then show ?thesis using assms(8,9)
    by (auto simp: Redeem_def redeemWithTxResult_def buildRedeemResult_def normalizeRedeemedRedemption_def Let_def)
qed

section \<open>Errors\<close>

lemma used_code_rejected:
  assumes "first_where (\<lambda>r. red_Key r = key \<and> red_DeletedAt r = None) (redemptions d) = Some r"
    and "red_Status r \<noteq> RedemptionCodeStatusEnabled" "key \<noteq> ''''" "u \<noteq> 0"
  shows "Redeem E key u d = Inl (RedE ErrRedemptionUsed)"
  using assms by (simp add: Redeem_def redeemWithTxResult_def redeemWithTx_def)

lemma redeemError_public:
  "redeemError e \<in> RedE ` {ErrRedemptionNotProvided, ErrRedemptionInvalid, ErrRedemptionUsed, ErrRedemptionExpired,
     ErrRedemptionUnsupportedKind, ErrRedeemFailed}"
  by (cases e rule: redeemError.cases) auto

section \<open>Properties\<close>

text \<open>C3. Whatever sequence of redemptions, deletions and exports runs, repeated and by competing users:
  every user ends with the quota they had plus the quota codes they redeemed, no code is
  redeemed twice, and a redeemed code was enabled before and names its user after.\<close>

theorem codes_redeem_once:
  assumes "wf_table red_Id (redemptions d)" and "runCodes es d = (d', rs)"
  shows "map_option user_Quota (userById i d') =
      map_option (\<lambda>u. user_Quota u + (\<Sum>(k, u, a) \<leftarrow> rs. if u = i then a else 0)) (userById i d) \<and>
    distinct (map fst rs) \<and>
    (\<forall>(k, u, a) \<in> set rs.
      (\<exists>r \<in> set (rows (redemptions d)). red_Id r = k \<and> red_Status r = RedemptionCodeStatusEnabled \<and> red_DeletedAt r = None) \<and>
      (\<exists>r \<in> set (rows (redemptions d')). red_Id r = k \<and> red_Status r = RedemptionCodeStatusUsed \<and> red_UsedUserId r = u))"
  using code_run.run_receipts [OF _ assms(2) [unfolded runCodes_def]]
    code_run.run_balance [OF _ assms(2) [unfolded runCodes_def], of i] assms(1)
  by (simp add: openCode_def usedCode_def receivedBy_def walletOf_def wf_codes_def option.map_comp comp_def)


definition ex_code :: Redemption where
  "ex_code = zero_red\<lparr>red_Key := ''K1'', red_Quota := 300\<rparr>"

definition ex_stored :: Redemption where
  "ex_stored = ex_code\<lparr>red_Id := 1, red_Status := 1, red_Type := ''quota'', red_Kind := ''promo_credit'',
     red_Source := ''promo'', red_BatchId := ''B1''\<rparr>"

definition ex_codedb :: db where
  "ex_codedb = ex_db\<lparr>redemptions := \<lparr>rows = [ex_stored], seq = 1\<rparr>\<rparr>"

lemma ex_no_codes [simp]: "redemptions ex_db = empty_table"
  by (simp add: ex_db_def empty_db_def)

lemma ex_validated:
  "ValidateRedemptionForCreate ex_env (\<lambda>_ _ _. ''B1'') ex_code ex_db = Inr (ex_stored\<lparr>red_Id := 0, red_Status := 0\<rparr>)"
  unfolding ex_stored_def ex_code_def zero_red_def
  by (simp add: ValidateRedemptionForCreate_def NormalizeRedemptionForCreate_def validateRedemptionPlanForCreate_def
      ValidateRedemptionKindForCreate_def normalizeRedemptionType_def TrimSpace_Nil red_const_defs Let_def)

lemma ex_inserted: "insertRedemption (ex_stored\<lparr>red_Id := 0, red_Status := 0\<rparr>) ex_db = Inr ex_codedb"
  by (simp add: insertRedemption_def ex_codedb_def redemptionDefaults_def ex_stored_def ex_code_def zero_red_def insert_row_def empty_table_def)


lemma ex_code_found:
  "first_where (\<lambda>r. red_Key r = ''K1'' \<and> red_DeletedAt r = None) (redemptions ex_codedb) = Some ex_stored"
  by (simp add: ex_codedb_def first_where_def ex_stored_def ex_code_def zero_red_def)

lemma ex_code_run:
  "\<exists>d'. runCodes [(ex_env, RedeemCode ''K1'' 5), (ex_env, RedeemCode ''K1'' 6)] ex_codedb = (d', [(1, 5, 300)])"
proof -
  let ?u = "5 :: int"
  have s: "red_Status ex_stored = RedemptionCodeStatusEnabled" "red_ExpiredTime ex_stored = 0" "red_Type ex_stored = RedemptionTypeQuota"
    "red_Kind ex_stored = RedemptionKindPromoCredit" "\<not> red_CountAsTopUp ex_stored" "red_Quota ex_stored = 300"
    "red_Id ex_stored = 1" "red_DeletedAt ex_stored = None" "red_Key ex_stored = ''K1''"
    by (simp_all add: ex_stored_def ex_code_def zero_red_def red_const_defs)
  have a: "affected (\<lambda>x. red_Id x = red_Id ex_stored \<and> red_Status x = RedemptionCodeStatusEnabled \<and> red_DeletedAt x = None)
      (redemptions ex_codedb) = 1" by (simp add: affected_def ex_codedb_def s)
  have u: "affected (liveUser 5) (users ex_codedb) = 1"
    by (simp add: affected_def ex_codedb_def liveUser_def ex_user_def zero_user_def)
  obtain res d1 where r: "Redeem ex_env ''K1'' 5 ex_codedb = Inr (res, d1)"
    using redeem_promo [OF ex_code_found s(1) _ s(3-5) a _ _ u, of ex_env] s(2) by auto
  obtain x where x: "usableCode ex_env ''K1'' ex_codedb x" "redeemed ex_env (red_Id x) 5 (codeQuota x) ex_codedb d1"
    using r by (rule Redeem_steps)
  have xn: "x = ex_stored" using x(1) ex_code_found by (simp add: usableCode_def)
  have "first_where (\<lambda>r. red_Key r = ''K1'' \<and> red_DeletedAt r = None) (redemptions d1) = Some (claimed 5 (GetTimestamp ex_env) ex_stored)"
    using x(2) ex_code_found s by (simp add: xn redeemed_def first_where_update claimed_def)
  from used_code_rejected [OF this] have "Redeem ex_env ''K1'' 6 d1 = Inl (RedE ErrRedemptionUsed)" by simp
  then show ?thesis by (simp add: runCodes_def r ex_code_found s codeQuota_def)
qed

theorem codes_redeem_once_witness:
  "\<exists>d' rs. runCodes [(ex_env, RedeemCode ''K1'' 5), (ex_env, RedeemCode ''K1'' 6)] ex_codedb = (d', rs) \<and> rs = [(1, 5, 300)] \<and>
     map_option user_Quota (userById 5 d') = Some 1000"
proof -
  obtain d' where run: "runCodes [(ex_env, RedeemCode ''K1'' 5), (ex_env, RedeemCode ''K1'' 6)] ex_codedb = (d', [(1, 5, 300)])"
    using ex_code_run by blast
  have "userById 5 ex_codedb = Some ex_user"
    by (simp add: ex_codedb_def userById_def first_where_def liveUser_def ex_user_def zero_user_def)
  moreover have "wf_table red_Id (redemptions ex_codedb)"
    by (simp add: wf_table_def ex_codedb_def ex_stored_def)
  ultimately show ?thesis using run codes_redeem_once [OF _ run, of 5] by (auto simp: ex_user_def)
qed


end
