(* ===== verification/Spec2Isabelle.thy ===== *)
theory Spec2Isabelle
  imports Quota_Requests Maintenance Redemption_Laws
begin

text \<open>
  A verification library for the billing core of the program: a gateway that sells access to
  language models. Users pay for a wallet of quota or for subscriptions; each request to a model
  is metered against one of them. The core is the Go package \<open>src/model\<close>: every operation is a
  database transaction over a handful of tables. The library models these transactions as
  functions on a record of tables and proves what they promise.

  \<^bold>\<open>How the code is rendered.\<close> A Go struct is a \<open>record\<close> with the columns of the struct, a table
  is a list of rows with the counter of its primary key, and a database is the record \<open>db\<close>. A
  function that runs in a transaction maps a database to an error or a result with the new
  database: an error rolls back, so it carries no database. A function of several transactions
  returns a database in both cases. What a function reads of its surroundings is the record
  \<open>env\<close>: the clock, the clock of the database, the time zone, the settings and the functions of
  third-party code (decimal arithmetic, the float sum of SQL, fresh identifiers). Go's \<open>int\<close> and
  \<open>int64\<close> wrap around at 64 bits; \<open>float64\<close> amounts of money are rationals rounded to 53 bits.
  Strings are their bytes. The order in which Go goes through a map is a parameter. A loop that
  may not end is a \<^theory_text>\<open>partial_function (option)\<close>; no definition uses fuel.

  \<^bold>\<open>Foundations.\<close>
  \<^item> \<open>Prelude\<close>: results with errors, wrapping arithmetic, strings. \<open>Tables\<close>: queries and updates of
    tables; the locale \<open>keyed_rows\<close> is the interface of a table with a primary key and is
    interpreted for every table in \<open>Data_Model\<close>, which has the rows (\<open>SubscriptionPlan\<close>,
    \<open>UserSubscription\<close>, \<open>SubscriptionOrder\<close>, \<open>ValuePackageUsageRecord\<close>, \<open>TopUp\<close>, \<open>Redemption\<close>,
    \<open>AffiliateCommission\<close> and others) and the errors.
  \<^item> \<open>Go_Time\<close>: dates and durations of Go's \<open>time\<close> package, with the wrap-around of durations.
  \<^item> \<open>Receipts\<close>: the locale \<open>receipt_run\<close>, runs of events that credit accounts against vouchers
    that may be used once; interpreted for payments and for redemption codes.

  \<^bold>\<open>Subscriptions\<close> (\<open>src/model/subscription.go\<close>, \<open>src/model/value_package_periods.go\<close>).
  \<^item> \<open>Plans\<close>: normalisation of a plan, its end, the schedule of quota resets and the loop that
    catches up with missed resets, the plan cache. Shown: the next reset is later than its base
    and aligned with its period; the loop returns for every schedule that advances (locale
    \<open>reset_schedule\<close>), and runs forever for a custom period that wraps to zero; a cached read
    equals a fresh read.
  \<^item> \<open>Windows\<close>: five-hour windows, seven-day stages, period limits and the usage summary. Shown: the
    one-pass window computation equals its specification; a stage contains the present.
  \<^item> \<open>Packages\<close>, \<open>Preferences\<close>: which package serves a user, package cycles, preferences and reset
    cards. Shown: the serving package is the best one; the number of cards equals its ledger
    after any sequence of operations; a card opens the next quota epoch.
  \<^item> \<open>Consume\<close>, with \<open>Quota_Ledger\<close>, \<open>Quota_Limits\<close>, \<open>Quota_Steps\<close> and \<open>Quota_Requests\<close>: metering. A
    request is pre-consumed, its reservation moved, refunded or settled. Shown: along every
    history (the step relation \<open>quota_step\<close>) the used amount of a package equals its usage records
    of the current epoch and stays within the total; a granted request respects the limits; a
    request is charged once and refunded once, and a refund undoes a charge.
  \<^item> \<open>Purchase\<close>, \<open>Purchase_Laws\<close>: new, extended and upgraded packages, orders, purchases with the
    wallet. Shown: never two running packages; an order is completed once; the price is exact.
  \<^item> \<open>Maintenance\<close>: invalidation, deletion and expiry. Shown: expiry is complete, and a user group
    raised by a subscription comes back.

  \<^bold>\<open>Money.\<close>
  \<^item> \<open>Accounts\<close> (\<open>src/model/user.go\<close>, \<open>token.go\<close>, \<open>utils.go\<close>, \<open>channel.go\<close>): quota of users and tokens
    and the batch updater. The locale \<open>ledger_account\<close> is what a client sees of an account; direct
    and batched changes are its two interpretations.
  \<^item> \<open>Payments\<close>, \<open>Payment_Runs\<close> (\<open>src/model/topup.go\<close>, \<open>svip.go\<close>, \<open>affiliate.go\<close>): top-ups and the
    callbacks of all payment providers, the VIP group, valid top-up cents, commissions and
    withdrawals. Shown: whatever callbacks arrive, users are credited exactly once per top-up,
    and a top-up gives at most one commission.
  \<^item> \<open>Redemptions\<close>, \<open>Redemption_Laws\<close> (\<open>src/model/redemption.go\<close>): codes for quota, plans and reset
    cards. Shown: no code pays twice; a valid new code can be redeemed; which errors come out.

  \<^bold>\<open>Bounds.\<close> Hypotheses on the clock (\<open>clock_ok\<close>, \<open>time_in_range\<close>) say that it is positive and before
  the year 10000, so that the arithmetic on times does not wrap; amounts are at most the largest
  64-bit integer where a lemma needs it. The stored quota of a user is an unbounded integer, a
  \<open>bigint\<close> column far from its limit. Transactions are atomic and run one after another: row locks
  and isolation levels are those of the database.

  \<^bold>\<open>Not modelled.\<close> The HTTP handlers, the relay to model providers with its price computation, the
  Redis caches and the option loader, logs, statistics and notifications, the mail verification of
  LDXP orders and one-off migration tools, the catalogue of channels and models, the front end,
  the workers, the desktop shell and the bundled sub2api service: network and file input and
  output, third-party protocols, or output no modelled operation reads. Searches with a LIKE
  pattern depend on the collation of the database and are left out.
\<close>

end
